(* ===== verification/Prelude.thy ===== *)
theory Prelude
  imports Main "HOL-Library.Char_ord" "HOL-Library.List_Lexorder" "HOL-Library.Sublist"
begin

text \<open>
  Go's strings and the few functions of package \<^verbatim>\<open>strings\<close> the gateway calls.
  A Go string is a list of bytes (\<^typ>\<open>string\<close>).  Case mapping and white space are modelled
  on the ASCII range, which is what every identifier the gateway compares is made of; bytes
  outside it are left as they are.

  The collection \<open>go_str\<close> holds the rewrite rules of these functions, so that a
  component proof is \<open>simp add: go_str\<close>.
\<close>

named_theorems go_str

subsection \<open>Prefixes, suffixes and substrings\<close>

fun has_prefix :: "string \<Rightarrow> string \<Rightarrow> bool" where
  "has_prefix s [] = True"
| "has_prefix [] (p # ps) = False"
| "has_prefix (c # s) (p # ps) = (c = p \<and> has_prefix s ps)"

definition has_suffix :: "string \<Rightarrow> string \<Rightarrow> bool" where
  "has_suffix s p = has_prefix (rev s) (rev p)"

fun contains :: "string \<Rightarrow> string \<Rightarrow> bool" where
  "contains [] p = (p = [])"
| "contains (c # s) p = (has_prefix (c # s) p \<or> contains s p)"

definition trim_prefix :: "string \<Rightarrow> string \<Rightarrow> string" where
  "trim_prefix s p = (if has_prefix s p then drop (length p) s else s)"

definition trim_suffix :: "string \<Rightarrow> string \<Rightarrow> string" where
  "trim_suffix s p = (if has_suffix s p then take (length s - length p) s else s)"

lemma has_prefix_iff: "has_prefix s p \<longleftrightarrow> (\<exists>t. s = p @ t)"
  by (induction s p rule: has_prefix.induct) auto

lemma has_prefix_append [simp, go_str]: "has_prefix (p @ t) p"
  by (auto simp: has_prefix_iff)

lemma has_suffix_iff: "has_suffix s p \<longleftrightarrow> (\<exists>t. s = t @ p)"
  by (auto simp: has_suffix_def has_prefix_iff) (metis rev_append rev_rev_ident)

lemma has_suffix_append [simp, go_str]: "has_suffix (t @ p) p"
  by (auto simp: has_suffix_iff)

lemma contains_iff: "contains s p \<longleftrightarrow> (\<exists>a b. s = a @ p @ b)"
proof (induction s)
  case Nil
  then show ?case by auto
next
  case (Cons c s)
  have "(\<exists>a b. c # s = a @ p @ b) \<longleftrightarrow> has_prefix (c # s) p \<or> (\<exists>a b. s = a @ p @ b)"
    by (auto simp: has_prefix_iff Cons_eq_append_conv)
  with Cons show ?case by simp
qed

lemma contains_appendI: "contains a p \<Longrightarrow> contains (a @ b) p" "contains b p \<Longrightarrow> contains (a @ b) p"
  unfolding contains_iff by (metis append_assoc)+

lemma contains_char: "contains s [c] \<longleftrightarrow> c \<in> set s"
  by (induction s) auto

lemma trim_prefix_append [simp, go_str]: "trim_prefix (p @ t) p = t"
  by (simp add: trim_prefix_def)

lemma trim_suffix_append [simp, go_str]: "trim_suffix (t @ p) p = t"
  by (simp add: trim_suffix_def)

subsection \<open>Cutting and splitting at a byte\<close>

text \<open>\<^verbatim>\<open>strings.Split\<close> with a one-byte separator: always at least one part.\<close>

fun split_at :: "char \<Rightarrow> string \<Rightarrow> string list" where
  "split_at c [] = [[]]"
| "split_at c (x # xs) =
     (if x = c then [] # split_at c xs
      else (case split_at c xs of p # ps \<Rightarrow> (x # p) # ps | [] \<Rightarrow> [[x]]))"

text \<open>\<^verbatim>\<open>strings.IndexByte\<close>: the position of the first occurrence.\<close>

fun index_byte :: "char \<Rightarrow> string \<Rightarrow> nat option" where
  "index_byte c [] = None"
| "index_byte c (x # xs) = (if x = c then Some 0 else map_option Suc (index_byte c xs))"

text \<open>\<^verbatim>\<open>strings.Cut\<close> at a byte: what precedes and follows its first occurrence.\<close>

definition cut_at :: "char \<Rightarrow> string \<Rightarrow> string \<times> string \<times> bool" where
  "cut_at c s = (case index_byte c s of None \<Rightarrow> (s, [], False)
                 | Some i \<Rightarrow> (take i s, drop (Suc i) s, True))"

text \<open>\<^verbatim>\<open>strings.LastIndexByte\<close>.\<close>

definition last_index_byte :: "char \<Rightarrow> string \<Rightarrow> nat option" where
  "last_index_byte c s = map_option (\<lambda>i. length s - Suc i) (index_byte c (rev s))"

fun join :: "string \<Rightarrow> string list \<Rightarrow> string" where
  "join sep [] = []"
| "join sep [s] = s"
| "join sep (s # t # ts) = s @ sep @ join sep (t # ts)"

lemma split_at_nonempty [simp]: "split_at c s \<noteq> []"
  by (induction s) (auto split: list.splits)

lemma split_at_no_sep [go_str]: "c \<notin> set s \<Longrightarrow> split_at c s = [s]"
  by (induction s) auto

lemma split_at_append [go_str]: "c \<notin> set s \<Longrightarrow> split_at c (s @ c # t) = s # split_at c t"
  by (induction s) auto

lemma join_split_at: "join [c] (split_at c s) = s"
proof (induction s)
  case (Cons x xs)
  then show ?case
    by (cases "split_at c xs"; cases "tl (split_at c xs)") auto
qed simp

lemma split_at_parts_no_sep: "p \<in> set (split_at c s) \<Longrightarrow> c \<notin> set p"
  by (induction s arbitrary: p) (auto split: list.splits if_splits)

lemma index_byte_None [go_str]: "index_byte c s = None \<longleftrightarrow> c \<notin> set s"
  by (induction s) auto

lemma index_byte_SomeD: "index_byte c s = Some i \<Longrightarrow> i < length s \<and> s ! i = c \<and> c \<notin> set (take i s)"
  by (induction s arbitrary: i) (auto split: if_splits)

lemma index_byte_append [go_str]: "c \<notin> set a \<Longrightarrow> index_byte c (a @ c # b) = Some (length a)"
  by (induction a) auto

lemma last_index_byte_append [go_str]:
  "c \<notin> set b \<Longrightarrow> last_index_byte c (a @ c # b) = Some (length a)"
  by (simp add: last_index_byte_def index_byte_append)

lemma last_index_byte_None [go_str]: "last_index_byte c s = None \<longleftrightarrow> c \<notin> set s"
  by (simp add: last_index_byte_def index_byte_None)

lemma cut_at_append [go_str]: "c \<notin> set a \<Longrightarrow> cut_at c (a @ c # b) = (a, b, True)"
  by (simp add: cut_at_def index_byte_append)

subsection \<open>Slash-separated paths\<close>

text \<open>\<^verbatim>\<open>path.Clean\<close>: empty and \<^verbatim>\<open>.\<close> elements go, \<^verbatim>\<open>..\<close> removes the element before it,
  and is dropped at the root.\<close>

definition clean_step :: "bool \<Rightarrow> string list \<Rightarrow> string \<Rightarrow> string list" where
  "clean_step rooted acc c =
     (if c = [] \<or> c = ''.'' then acc
      else if c = ''..'' then
        (if acc \<noteq> [] \<and> last acc \<noteq> ''..'' then butlast acc
         else if rooted then acc else acc @ [c])
      else acc @ [c])"

definition clean_parts :: "bool \<Rightarrow> string \<Rightarrow> string list" where
  "clean_parts rooted p = foldl (clean_step rooted) [] (split_at CHR ''/'' p)"

definition path_clean :: "string \<Rightarrow> string" where
  "path_clean p =
     (let rooted = has_prefix p ''/''; parts = clean_parts rooted p
      in if rooted then CHR ''/'' # join ''/'' parts
         else if parts = [] then ''.'' else join ''/'' parts)"

text \<open>\<^verbatim>\<open>filepath.Dir\<close>: the cleaned text up to the last slash.\<close>

definition path_dir :: "string \<Rightarrow> string" where
  "path_dir p = path_clean (case last_index_byte CHR ''/'' p of Some i \<Rightarrow> take (Suc i) p | None \<Rightarrow> [])"

subsection \<open>Case and white space\<close>

definition lower_char :: "char \<Rightarrow> char" where
  "lower_char c = (if CHR ''A'' \<le> c \<and> c \<le> CHR ''Z'' then char_of (of_char c + (32::nat)) else c)"

definition to_lower :: "string \<Rightarrow> string" where
  "to_lower = map lower_char"

lemma contains_to_lower: "contains s p \<Longrightarrow> contains (to_lower s) (to_lower p)"
  unfolding contains_iff to_lower_def by (metis map_append)

text \<open>ASCII white space as \<^verbatim>\<open>strings.TrimSpace\<close> sees it: tab, newline, vertical tab,
  form feed, carriage return and space.\<close>

definition is_space :: "char \<Rightarrow> bool" where
  "is_space c = ((9::nat) \<le> of_char c \<and> of_char c \<le> (13::nat) \<or> c = CHR '' '')"

definition trim_left_when :: "(char \<Rightarrow> bool) \<Rightarrow> string \<Rightarrow> string" where
  "trim_left_when = dropWhile"

definition trim_right_when :: "(char \<Rightarrow> bool) \<Rightarrow> string \<Rightarrow> string" where
  "trim_right_when P s = rev (dropWhile P (rev s))"

definition trim_space :: "string \<Rightarrow> string" where
  "trim_space s = trim_right_when is_space (trim_left_when is_space s)"

definition is_lower :: "char \<Rightarrow> bool" where
  "is_lower c = (CHR ''a'' \<le> c \<and> c \<le> CHR ''z'')"
definition is_upper :: "char \<Rightarrow> bool" where
  "is_upper c = (CHR ''A'' \<le> c \<and> c \<le> CHR ''Z'')"
definition is_digit :: "char \<Rightarrow> bool" where
  "is_digit c = (CHR ''0'' \<le> c \<and> c \<le> CHR ''9'')"
definition is_alnum :: "char \<Rightarrow> bool" where
  "is_alnum c = (is_lower c \<or> is_upper c \<or> is_digit c)"

lemma trim_left_when_hd: "trim_left_when P s = c # t \<Longrightarrow> \<not> P c"
  by (metis hd_dropWhile list.sel(1) list.simps(3) trim_left_when_def)

lemma trim_right_when_last: "trim_right_when P s = t @ [c] \<Longrightarrow> \<not> P c"
  by (metis hd_dropWhile list.sel(1) list.simps(3) rev_eq_append_conv rev_singleton_conv
      append_Cons append_Nil trim_right_when_def rev.simps(2) rev_rev_ident)

lemma trim_right_when_prefix: "\<exists>u. s = trim_right_when P s @ u \<and> (\<forall>c\<in>set u. P c)"
proof -
  have "rev s = takeWhile P (rev s) @ dropWhile P (rev s)" by simp
  then have "s = rev (dropWhile P (rev s)) @ rev (takeWhile P (rev s))"
    by (metis rev_append rev_rev_ident)
  then show ?thesis
    unfolding trim_right_when_def by (metis rev_rev_ident set_rev set_takeWhileD)
qed

lemma dropWhile_none: "list_all (\<lambda>c. \<not> P c) s \<Longrightarrow> dropWhile P s = s"
  by (cases s) auto

lemma trim_space_id: "list_all (\<lambda>c. \<not> is_space c) s \<Longrightarrow> trim_space s = s"
  by (simp add: trim_space_def trim_left_when_def trim_right_when_def dropWhile_none list_all_iff)

subsection \<open>Decimal numerals\<close>

definition digit_char :: "nat \<Rightarrow> char" where
  "digit_char d = char_of (48 + d)"

function int_digits :: "int \<Rightarrow> string" where
  "int_digits n = (if n < 10 then [digit_char (nat n)]
     else int_digits (n div 10) @ [digit_char (nat (n mod 10))])"
  by auto
termination by (relation "measure nat") auto

declare int_digits.simps [simp del]

definition nat_str :: "nat \<Rightarrow> string" where
  "nat_str n = int_digits (int n)"

definition int_str :: "int \<Rightarrow> string" where
  "int_str i = (if i < 0 then CHR ''-'' # int_digits (- i) else int_digits i)"

lemma nat_str_rec:
  "nat_str n = (if n < 10 then [digit_char n] else nat_str (n div 10) @ [digit_char (n mod 10)])"
  unfolding nat_str_def by (subst int_digits.simps) (simp add: zdiv_int nat_mod_distrib)

lemma nat_str_induct [case_names 1]:
  assumes "\<And>n. (\<not> n < 10 \<Longrightarrow> P (n div 10)) \<Longrightarrow> P n"
  shows "P (n :: nat)"
  by (induction n rule: less_induct) (rule assms, simp)

lemma int_str_nat: "int_str i = (if i < 0 then CHR ''-'' # nat_str (nat (- i)) else nat_str (nat i))"
  by (simp add: int_str_def nat_str_def)

definition digit_val :: "char \<Rightarrow> nat" where
  "digit_val c = of_char c - 48"

definition str_nat :: "string \<Rightarrow> nat" where
  "str_nat s = foldl (\<lambda>n c. 10 * n + digit_val c) 0 s"

lemma digit_char_digit: "d < 10 \<Longrightarrow> is_digit (digit_char d)"
  by (auto simp: digit_char_def is_digit_def less_eq_char_def)

lemma digit_char_0: "digit_char 0 = CHR ''0''"
  by (simp add: digit_char_def char_of_def bit_0)

lemma digit_val_char [simp]: "d < 10 \<Longrightarrow> digit_val (digit_char d) = d"
  by (simp add: digit_val_def digit_char_def)

lemma str_nat_str [simp]: "str_nat (nat_str n) = n"
proof (induction n rule: nat_str_induct)
  case (1 n)
  then show ?case
    by (subst nat_str_rec) (auto simp: str_nat_def)
qed

lemma nat_str_inject [simp]: "nat_str m = nat_str n \<longleftrightarrow> m = n"
  by (metis str_nat_str)

lemma nat_str_digits: "c \<in> set (nat_str n) \<Longrightarrow> is_digit c"
proof (induction n rule: nat_str_induct)
  case (1 n)
  then show ?case
    using nat_str_rec [of n] by (auto simp: digit_char_digit split: if_splits)
qed

lemma nat_str_nonempty [simp]: "nat_str n \<noteq> []"
  by (subst nat_str_rec) auto

lemma is_digit_not_minus: "is_digit c \<Longrightarrow> c \<noteq> CHR ''-''"
  by (auto simp: is_digit_def less_eq_char_def)

lemma int_str_inject [simp]: "int_str i = int_str j \<longleftrightarrow> i = j"
proof -
  have hd: "\<And>n. nat_str n \<noteq> [] \<and> hd (nat_str n) \<noteq> CHR ''-''"
    by (metis is_digit_not_minus list.set_sel(1) nat_str_digits nat_str_nonempty)
  have "\<And>n m. nat_str n \<noteq> CHR ''-'' # nat_str m"
    by (metis hd list.sel(1))
  then show ?thesis
    by (auto simp: int_str_nat nat_eq_iff2) metis+
qed

subsection \<open>Sorting and generic list facts\<close>

text \<open>\<^verbatim>\<open>sort.SliceStable\<close> with a key, and \<^verbatim>\<open>ORDER BY\<close>.\<close>

abbreviation sort_by :: "('a \<Rightarrow> 'k::linorder) \<Rightarrow> 'a list \<Rightarrow> 'a list" where
  "sort_by \<equiv> sort_key"

subsection \<open>Quoted text\<close>

text \<open>\<^verbatim>\<open>%q\<close> on printable text: quotes and backslashes are escaped, and the line and tab
  characters.  It is only used in error and notification texts.\<close>

definition quote_char :: "char \<Rightarrow> string" where
  "quote_char c = (if c = CHR 0x22 then [CHR 0x5C, CHR 0x22] else if c = CHR 0x5C then [CHR 0x5C, CHR 0x5C]
     else if c = CHR 0x0A then [CHR 0x5C, CHR ''n''] else if c = CHR 0x09 then [CHR 0x5C, CHR ''t''] else [c])"

definition go_quote :: "string \<Rightarrow> string" where
  "go_quote s = [CHR 0x22] @ concat (map quote_char s) @ [CHR 0x22]"

subsection \<open>Go maps\<close>

text \<open>A Go map with string keys, as the list of its entries in some iteration order; the order
  is arbitrary in Go, so nothing may depend on it.\<close>

type_synonym 'v gomap = "(string \<times> 'v) list"

definition mget :: "'v gomap \<Rightarrow> string \<Rightarrow> 'v option" where
  "mget m k = map_of m k"

fun mput :: "string \<Rightarrow> 'v \<Rightarrow> 'v gomap \<Rightarrow> 'v gomap" where
  "mput k v [] = [(k, v)]"
| "mput k v ((k', v') # m) = (if k' = k then (k, v) # m else (k', v') # mput k v m)"

text \<open>\<^verbatim>\<open>for k, v := range extra { out[k] = v }\<close>\<close>

definition mputs :: "'v gomap \<Rightarrow> 'v gomap \<Rightarrow> 'v gomap" where
  "mputs extra m = foldl (\<lambda>acc (k, v). mput k v acc) m extra"

text \<open>\<^verbatim>\<open>m[k]\<close> of a string-valued map: the empty string when the key is absent.\<close>

definition mstr :: "string gomap \<Rightarrow> string \<Rightarrow> string" where
  "mstr m k = (case mget m k of Some v \<Rightarrow> v | None \<Rightarrow> [])"

lemma mget_mput [simp]: "mget (mput k v m) k' = (if k' = k then Some v else mget m k')"
  by (induction m) (auto simp: mget_def)

lemma keys_mput: "fst ` set (mput k v m) = insert k (fst ` set m)"
proof (induction m)
  case (Cons a m)
  then show ?case by (cases a) (simp add: insert_commute)
qed simp

lemma distinct_mput: "distinct (map fst m) \<Longrightarrow> distinct (map fst (mput k v m))"
proof (induction m)
  case (Cons a m)
  then show ?case
    using keys_mput [of k v m] by (cases a) auto
qed simp

lemma mget_mputs:
  "distinct (map fst extra) \<Longrightarrow>
   mget (mputs extra m) k = (case mget extra k of Some v \<Rightarrow> Some v | None \<Rightarrow> mget m k)"
proof (induction extra arbitrary: m)
  case Nil
  then show ?case by (simp add: mputs_def mget_def)
next
  case (Cons a extra)
  obtain k' v' where a: "a = (k', v')" by (cases a)
  have "mget extra k' = None"
    using Cons.prems a by (auto simp: mget_def map_of_eq_None_iff)
  then show ?case
    using Cons a by (auto simp: mputs_def mget_def [of "(k', v') # extra"] mget_def [of extra]
        split: option.splits)
qed

lemma distinct_mputs: "distinct (map fst m) \<Longrightarrow> distinct (map fst (mputs extra m))"
  unfolding mputs_def by (induction extra arbitrary: m) (auto simp: distinct_mput)

subsection \<open>Tables\<close>

text \<open>A table of rows with a key: replace a row, delete a row, look one up.\<close>

lemma find_keyed_replace:
  "f m = k1 \<Longrightarrow> find (\<lambda>m. f m = k) (filter (\<lambda>m. f m \<noteq> k1) xs @ [m]) =
     (if k = k1 then Some m else find (\<lambda>m. f m = k) xs)"
  by (induction xs) auto

lemma find_keyed_delete:
  "find (\<lambda>m. f m = k) (filter (\<lambda>m. f m \<noteq> k1) xs) =
     (if k = k1 then None else find (\<lambda>m. f m = k) xs)"
  by (induction xs) auto

lemma last_n_append: "drop (length xs - n) xs = rev (take n (rev xs))"
  by (simp add: take_rev)

end
