(* ===== verification/Members.thy ===== *)
theory Members
  imports Prelude
begin

text \<open>
  Package \<^verbatim>\<open>internal/members\<close>: the ownership store.  The four SQLite tables are lists of
  rows, every statement of the package is one function on them with SQLite's semantics
  (\<^verbatim>\<open>INSERT OR IGNORE\<close>, \<^verbatim>\<open>INSERT OR REPLACE\<close>, \<^verbatim>\<open>ORDER BY\<close> with the binary collation).
  Whether a statement fails (a driver or disk error) is decided by the environment, in
  theory \<open>World\<close>, where the methods of \<^verbatim>\<open>Store\<close> are composed from these.
\<close>

record mr_row =
  mr_tenant :: string
  mr_org :: string
  mr_repo :: string
  mr_index :: int
  mr_base :: string
  mr_head_ref :: string
  mr_origin :: string
  mr_created_at :: int

record store =
  org_owners :: "(string \<times> string) list"
  repo_owners :: "(string \<times> string \<times> string) list"
  free_sessions :: "(string \<times> string \<times> string) list"
  mr_submissions :: "mr_row list"

definition empty_store :: store where
  "empty_store = \<lparr>org_owners = [], repo_owners = [], free_sessions = [], mr_submissions = []\<rparr>"

subsection \<open>Statements\<close>

definition insert_ignore :: "'a \<Rightarrow> 'a list \<Rightarrow> 'a list" where
  "insert_ignore r rs = (if r \<in> set rs then rs else rs @ [r])"

definition addRepo :: "string \<Rightarrow> string \<Rightarrow> string \<Rightarrow> store \<Rightarrow> store" where
  "addRepo tenant org repo st =
     st\<lparr>repo_owners := insert_ignore (tenant, org, repo) (repo_owners st)\<rparr>"

definition ownsRepo :: "string \<Rightarrow> string \<Rightarrow> string \<Rightarrow> store \<Rightarrow> bool" where
  "ownsRepo tenant org repo st =
     (0 < length (filter (\<lambda>r. r = (tenant, org, repo)) (repo_owners st)))"

definition removeRepo :: "string \<Rightarrow> string \<Rightarrow> string \<Rightarrow> store \<Rightarrow> store" where
  "removeRepo tenant org repo st =
     st\<lparr>repo_owners := filter (\<lambda>r. r \<noteq> (tenant, org, repo)) (repo_owners st)\<rparr>"

definition addOrg :: "string \<Rightarrow> string \<Rightarrow> store \<Rightarrow> store" where
  "addOrg tenant org st = st\<lparr>org_owners := insert_ignore (tenant, org) (org_owners st)\<rparr>"

definition ownsOrg :: "string \<Rightarrow> string \<Rightarrow> store \<Rightarrow> bool" where
  "ownsOrg tenant org st =
     (0 < length (filter (\<lambda>r. r = (tenant, org)) (org_owners st)))"

text \<open>\<^verbatim>\<open>SELECT tenant ... LIMIT 1\<close>: the first matching row, \<open>[]\<close> (the empty string) when none.\<close>

definition orgOwner :: "string \<Rightarrow> store \<Rightarrow> string" where
  "orgOwner org st =
     (case filter (\<lambda>(t, o'). o' = org) (org_owners st) of [] \<Rightarrow> [] | (t, _) # _ \<Rightarrow> t)"

definition listOrgs :: "string \<Rightarrow> store \<Rightarrow> string list" where
  "listOrgs tenant st = sort (map snd (filter (\<lambda>(t, o'). t = tenant) (org_owners st)))"

definition listRepos :: "string \<Rightarrow> store \<Rightarrow> (string \<times> string) list" where
  "listRepos tenant st =
     sort_by fst (sort_by snd (map snd (filter (\<lambda>(t, r). t = tenant) (repo_owners st))))"

definition mr_key :: "mr_row \<Rightarrow> string \<times> string \<times> string \<times> int" where
  "mr_key m = (mr_tenant m, mr_org m, mr_repo m, mr_index m)"

definition addMRSubmission ::
  "int \<Rightarrow> string \<Rightarrow> string \<Rightarrow> string \<Rightarrow> int \<Rightarrow> string \<Rightarrow> string \<Rightarrow> string \<Rightarrow> store \<Rightarrow> store" where
  "addMRSubmission now tenant org repo index base headRef origin st =
     st\<lparr>mr_submissions :=
         filter (\<lambda>m. mr_key m \<noteq> (tenant, org, repo, index)) (mr_submissions st) @
         [\<lparr>mr_tenant = tenant, mr_org = org, mr_repo = repo, mr_index = index, mr_base = base,
           mr_head_ref = headRef, mr_origin = origin, mr_created_at = now\<rparr>]\<rparr>"

definition mrSubmission ::
  "string \<Rightarrow> string \<Rightarrow> string \<Rightarrow> int \<Rightarrow> store \<Rightarrow> mr_row option" where
  "mrSubmission tenant org repo index st =
     find (\<lambda>m. mr_key m = (tenant, org, repo, index)) (mr_submissions st)"

definition deleteMRSubmission :: "string \<Rightarrow> string \<Rightarrow> string \<Rightarrow> int \<Rightarrow> store \<Rightarrow> store" where
  "deleteMRSubmission tenant org repo index st =
     st\<lparr>mr_submissions := filter (\<lambda>m. mr_key m \<noteq> (tenant, org, repo, index)) (mr_submissions st)\<rparr>"

definition fs_key :: "string \<times> string \<times> string \<Rightarrow> string \<times> string" where
  "fs_key r = (fst r, fst (snd r))"

definition addFreeSession :: "string \<Rightarrow> string \<Rightarrow> string \<Rightarrow> store \<Rightarrow> store" where
  "addFreeSession tenant session role st =
     st\<lparr>free_sessions :=
         filter (\<lambda>r. fs_key r \<noteq> (tenant, session)) (free_sessions st) @
         [(tenant, session, role)]\<rparr>"

definition freeRole :: "string \<Rightarrow> string \<Rightarrow> store \<Rightarrow> string option" where
  "freeRole tenant session st =
     map_option (\<lambda>r. snd (snd r)) (find (\<lambda>r. fs_key r = (tenant, session)) (free_sessions st))"

definition deleteFreeSession :: "string \<Rightarrow> string \<Rightarrow> store \<Rightarrow> store" where
  "deleteFreeSession tenant session st =
     st\<lparr>free_sessions := filter (\<lambda>r. fs_key r \<noteq> (tenant, session)) (free_sessions st)\<rparr>"

definition freeSessions :: "string \<Rightarrow> store \<Rightarrow> (string \<times> string) list" where
  "freeSessions tenant st =
     sort_by fst (map snd (filter (\<lambda>(t, _). t = tenant) (free_sessions st)))"

subsection \<open>What the statements promise\<close>

named_theorems store_laws

lemma set_insert_ignore [simp]: "set (insert_ignore r rs) = insert r (set rs)"
  by (auto simp: insert_ignore_def)

lemma distinct_insert_ignore [simp]: "distinct (insert_ignore r rs) = distinct rs"
  by (auto simp: insert_ignore_def)

lemma ownsRepo_iff: "ownsRepo t o' r st \<longleftrightarrow> (t, o', r) \<in> set (repo_owners st)"
  by (auto simp: ownsRepo_def filter_empty_conv)

lemma ownsOrg_iff: "ownsOrg t o' st \<longleftrightarrow> (t, o') \<in> set (org_owners st)"
  by (auto simp: ownsOrg_def filter_empty_conv)

lemma ownsRepo_addRepo [store_laws]:
  "ownsRepo t' o' r' (addRepo t o1 r st) \<longleftrightarrow> (t', o', r') = (t, o1, r) \<or> ownsRepo t' o' r' st"
  by (auto simp: ownsRepo_iff addRepo_def)

lemma ownsRepo_removeRepo [store_laws]:
  "ownsRepo t' o' r' (removeRepo t o1 r st) \<longleftrightarrow> (t', o', r') \<noteq> (t, o1, r) \<and> ownsRepo t' o' r' st"
  by (auto simp: ownsRepo_iff removeRepo_def)

lemma ownsRepo_frame [store_laws]:
  "ownsRepo t o' r (addOrg t1 o1 st) = ownsRepo t o' r st"
  "ownsRepo t o' r (addFreeSession t1 s1 ro st) = ownsRepo t o' r st"
  "ownsRepo t o' r (deleteFreeSession t1 s1 st) = ownsRepo t o' r st"
  "ownsRepo t o' r (addMRSubmission n t1 o1 r1 i b h og st) = ownsRepo t o' r st"
  "ownsRepo t o' r (deleteMRSubmission t1 o1 r1 i st) = ownsRepo t o' r st"
  by (auto simp: ownsRepo_iff addOrg_def addFreeSession_def deleteFreeSession_def
      addMRSubmission_def deleteMRSubmission_def)

lemma ownsOrg_addOrg [store_laws]:
  "ownsOrg t' o' (addOrg t o1 st) \<longleftrightarrow> (t', o') = (t, o1) \<or> ownsOrg t' o' st"
  by (auto simp: ownsOrg_iff addOrg_def)

lemma ownsOrg_frame [store_laws]:
  "ownsOrg t o' (addRepo t1 o1 r1 st) = ownsOrg t o' st"
  "ownsOrg t o' (removeRepo t1 o1 r1 st) = ownsOrg t o' st"
  "ownsOrg t o' (addFreeSession t1 s1 ro st) = ownsOrg t o' st"
  "ownsOrg t o' (deleteFreeSession t1 s1 st) = ownsOrg t o' st"
  "ownsOrg t o' (addMRSubmission n t1 o1 r1 i b h og st) = ownsOrg t o' st"
  "ownsOrg t o' (deleteMRSubmission t1 o1 r1 i st) = ownsOrg t o' st"
  by (auto simp: ownsOrg_iff addRepo_def removeRepo_def addFreeSession_def deleteFreeSession_def
      addMRSubmission_def deleteMRSubmission_def)

lemma orgOwner_iff:
  "orgOwner org st \<noteq> [] \<Longrightarrow> ownsOrg (orgOwner org st) org st"
  by (auto simp: orgOwner_def ownsOrg_iff split: list.splits prod.splits
      dest!: filter_eq_ConsD)

lemma orgOwner_empty:
  "orgOwner org st = [] \<Longrightarrow> ownsOrg t org st \<Longrightarrow> \<exists>t'. t' = [] \<and> ownsOrg t' org st"
  by (auto simp: orgOwner_def ownsOrg_iff filter_empty_conv split: list.splits prod.splits
      dest!: filter_eq_ConsD)

lemma freeRole_add [store_laws]:
  "freeRole t s (addFreeSession t1 s1 r st) = (if (t, s) = (t1, s1) then Some r else freeRole t s st)"
  unfolding freeRole_def addFreeSession_def
  by (simp del: prod.inject add: find_keyed_replace fs_key_def [of "(t1, s1, r)"])

lemma freeRole_delete [store_laws]:
  "freeRole t s (deleteFreeSession t1 s1 st) = (if (t, s) = (t1, s1) then None else freeRole t s st)"
  unfolding freeRole_def deleteFreeSession_def
  by (simp del: prod.inject add: find_keyed_delete)

lemma freeRole_frame [store_laws]:
  "freeRole t s (addOrg t1 o1 st) = freeRole t s st"
  "freeRole t s (addRepo t1 o1 r1 st) = freeRole t s st"
  "freeRole t s (removeRepo t1 o1 r1 st) = freeRole t s st"
  "freeRole t s (addMRSubmission n t1 o1 r1 i b h og st) = freeRole t s st"
  "freeRole t s (deleteMRSubmission t1 o1 r1 i st) = freeRole t s st"
  by (auto simp: freeRole_def addOrg_def addRepo_def removeRepo_def addMRSubmission_def
      deleteMRSubmission_def)

lemma mrSubmission_add [store_laws]:
  "mrSubmission t o' r i (addMRSubmission n t1 o1 r1 i1 b h og st) =
    (if (t, o', r, i) = (t1, o1, r1, i1)
     then Some \<lparr>mr_tenant = t1, mr_org = o1, mr_repo = r1, mr_index = i1, mr_base = b,
                mr_head_ref = h, mr_origin = og, mr_created_at = n\<rparr>
     else mrSubmission t o' r i st)"
  unfolding mrSubmission_def addMRSubmission_def
  by (simp del: prod.inject add: find_keyed_replace mr_key_def [of "\<lparr>mr_tenant = t1, mr_org = o1, mr_repo = r1, mr_index = i1, mr_base = b,
                mr_head_ref = h, mr_origin = og, mr_created_at = n\<rparr>"])

lemma mrSubmission_delete [store_laws]:
  "mrSubmission t o' r i (deleteMRSubmission t1 o1 r1 i1 st) =
    (if (t, o', r, i) = (t1, o1, r1, i1) then None else mrSubmission t o' r i st)"
  unfolding mrSubmission_def deleteMRSubmission_def
  by (simp del: prod.inject add: find_keyed_delete)

lemma set_listRepos: "(o', r) \<in> set (listRepos t st) \<longleftrightarrow> ownsRepo t o' r st"
  by (force simp: listRepos_def ownsRepo_iff)

lemma sorted_listOrgs: "sorted (listOrgs t st)"
  by (simp add: listOrgs_def)

lemma set_listOrgs: "o' \<in> set (listOrgs t st) \<longleftrightarrow> ownsOrg t o' st"
  by (force simp: listOrgs_def ownsOrg_iff)

subsection \<open>The ownership contract\<close>

text \<open>
  What the workspace service relies on when it uses the store as its visibility table: the
  answer of \<open>owns\<close> after a grant or a revocation.  Exclusive ownership (at most one tenant per
  repository) is then an invariant of revocation, and of a grant to somebody who is the owner
  already or of something nobody owns.
\<close>

locale ownership =
  fixes owns :: "'t \<Rightarrow> 'k \<Rightarrow> 's \<Rightarrow> bool"
    and grant :: "'t \<Rightarrow> 'k \<Rightarrow> 's \<Rightarrow> 's"
    and revoke :: "'t \<Rightarrow> 'k \<Rightarrow> 's \<Rightarrow> 's"
  assumes owns_grant: "owns t' k' (grant t k s) \<longleftrightarrow> (t', k') = (t, k) \<or> owns t' k' s"
    and owns_revoke: "owns t' k' (revoke t k s) \<longleftrightarrow> (t', k') \<noteq> (t, k) \<and> owns t' k' s"
begin

definition exclusive :: "'s \<Rightarrow> bool" where
  "exclusive s = (\<forall>t t' k. owns t k s \<longrightarrow> owns t' k s \<longrightarrow> t = t')"

lemma exclusive_revoke: "exclusive s \<Longrightarrow> exclusive (revoke t k s)"
  by (auto simp: exclusive_def owns_revoke)

lemma exclusive_grant:
  "exclusive s \<Longrightarrow> (\<And>t'. owns t' k s \<Longrightarrow> t' = t) \<Longrightarrow> exclusive (grant t k s)"
  by (auto simp: exclusive_def owns_grant)

lemma grant_breaks: "owns t' k s \<Longrightarrow> t' \<noteq> t \<Longrightarrow> \<not> exclusive (grant t k s)"
  by (auto simp: exclusive_def owns_grant)

lemma grant_revoke: "owns t' k' (revoke t k (grant t k s)) \<longleftrightarrow> (t', k') \<noteq> (t, k) \<and> owns t' k' s"
  by (auto simp: owns_grant owns_revoke)

end

interpretation repos: ownership
  "\<lambda>t (o', r). ownsRepo t o' r" "\<lambda>t (o', r). addRepo t o' r" "\<lambda>t (o', r). removeRepo t o' r"
  by unfold_locales (auto simp: store_laws)

text \<open>The same notion on the store: no repository has two owners.\<close>

definition one_owner :: "store \<Rightarrow> bool" where
  "one_owner st = (\<forall>t t' o' r. ownsRepo t o' r st \<longrightarrow> ownsRepo t' o' r st \<longrightarrow> t = t')"

lemma one_owner_exclusive: "one_owner st = repos.exclusive st"
  by (auto simp: one_owner_def repos.exclusive_def)

lemma one_owner_grant:
  "one_owner st \<Longrightarrow> (\<And>t'. ownsRepo t' o' r st \<Longrightarrow> t' = t) \<Longrightarrow> one_owner (addRepo t o' r st)"
  using repos.exclusive_grant [of st "(o', r)" t] by (auto simp: one_owner_exclusive)

lemma one_owner_revoke: "one_owner st \<Longrightarrow> one_owner (removeRepo t o' r st)"
  using repos.exclusive_revoke [of st t "(o', r)"] by (auto simp: one_owner_exclusive)

lemma one_owner_broken:
  "ownsRepo t' o' r st \<Longrightarrow> t' \<noteq> t \<Longrightarrow> \<not> one_owner (addRepo t o' r st)"
  using repos.grant_breaks [of t' "(o', r)" st t] by (auto simp: one_owner_exclusive)

lemma one_owner_frame [store_laws]:
  "one_owner (addOrg t o' st) = one_owner st"
  "one_owner (addFreeSession t s ro st) = one_owner st"
  "one_owner (deleteFreeSession t s st) = one_owner st"
  "one_owner (addMRSubmission n t o' r i b h og st) = one_owner st"
  "one_owner (deleteMRSubmission t o' r i st) = one_owner st"
  by (simp_all add: one_owner_def store_laws)

end
