(* ===== verification/Effects.thy ===== *)
theory Effects
  imports Prelude
begin

text \<open>
  Effects of the gateway's code as explicit state passing.  A Go function that reads and
  changes state and returns \<^verbatim>\<open>(T, error)\<close> is a value of type \<open>('s, 'e, 'a) act\<close>: from a
  state to an outcome and the state after.  The outcome is the result, the returned error, or
  a run-time panic; only the first two can be handled by the caller.

  Three ways of reasoning are provided.  \<open>keeps R m\<close> says that \<open>m\<close> relates the state before to
  the state after by \<open>R\<close> on every outcome; its rules (collection \<open>keeps\<close>) decompose a
  handler along its sequencing for any reflexive transitive \<open>R\<close>.  \<open>wp m Q s\<close> says that
  running \<open>m\<close> from \<open>s\<close> ends in an outcome and state satisfying \<open>Q\<close>; its rules
  (collection \<open>wp\<close>) follow a run call by call.  \<open>fails_with\<close> and the
  rewrite rules \<open>act\<close> evaluate a handler on a state where its guards are known.
\<close>

datatype ('e, 'a) res = Ok 'a | Fail 'e | Panic string

definition is_ok :: "('e, 'a) res \<Rightarrow> bool" where
  "is_ok r = (case r of Ok _ \<Rightarrow> True | _ \<Rightarrow> False)"

lemma is_ok_iff: "is_ok r \<longleftrightarrow> (\<exists>x. r = Ok x)"
  by (simp add: is_ok_def split: res.splits)

lemma is_ok_simps [simp]: "is_ok (Ok x)" "\<not> is_ok (Fail e)" "\<not> is_ok (Panic p)"
  by (simp_all add: is_ok_def)

type_synonym ('s, 'e, 'a) act = "'s \<Rightarrow> ('e, 'a) res \<times> 's"

named_theorems act
named_theorems keeps

subsection \<open>Sequencing and errors\<close>

definition ret :: "'a \<Rightarrow> ('s, 'e, 'a) act" where
  "ret x = (\<lambda>s. (Ok x, s))"

definition throw :: "'e \<Rightarrow> ('s, 'e, 'a) act" where
  "throw e = (\<lambda>s. (Fail e, s))"

definition panic :: "string \<Rightarrow> ('s, 'e, 'a) act" where
  "panic m = (\<lambda>s. (Panic m, s))"

definition bnd :: "('s, 'e, 'a) act \<Rightarrow> ('a \<Rightarrow> ('s, 'e, 'b) act) \<Rightarrow> ('s, 'e, 'b) act" where
  "bnd m k = (\<lambda>s. case m s of
      (Ok x, s') \<Rightarrow> k x s' | (Fail e, s') \<Rightarrow> (Fail e, s') | (Panic p, s') \<Rightarrow> (Panic p, s'))"

abbreviation seq :: "('s, 'e, 'a) act \<Rightarrow> ('s, 'e, 'b) act \<Rightarrow> ('s, 'e, 'b) act" where
  "seq m n \<equiv> bnd m (\<lambda>_. n)"

text \<open>The Go idiom \<^verbatim>\<open>v, err := m()\<close>: both the result and the error become a value.\<close>

definition attempt :: "('s, 'e, 'a) act \<Rightarrow> ('s, 'f, 'e + 'a) act" where
  "attempt m = (\<lambda>s. case m s of
      (Ok x, s') \<Rightarrow> (Ok (Inr x), s') | (Fail e, s') \<Rightarrow> (Ok (Inl e), s') | (Panic p, s') \<Rightarrow> (Panic p, s'))"

text \<open>\<^verbatim>\<open>if err != nil { return f(err) }\<close>\<close>

definition map_err :: "('e \<Rightarrow> 'f) \<Rightarrow> ('s, 'e, 'a) act \<Rightarrow> ('s, 'f, 'a) act" where
  "map_err f m = (\<lambda>s. case m s of
      (Ok x, s') \<Rightarrow> (Ok x, s') | (Fail e, s') \<Rightarrow> (Fail (f e), s') | (Panic p, s') \<Rightarrow> (Panic p, s'))"

text \<open>\<^verbatim>\<open>_ = m()\<close>: result and error are dropped.\<close>

definition ignore :: "('s, 'e, 'a) act \<Rightarrow> ('s, 'f, unit) act" where
  "ignore m = bnd (attempt m) (\<lambda>_. ret ())"

definition guard :: "bool \<Rightarrow> 'e \<Rightarrow> ('s, 'e, unit) act" where
  "guard b e = (if b then ret () else throw e)"

definition only_if :: "bool \<Rightarrow> ('s, 'e, unit) act \<Rightarrow> ('s, 'e, unit) act" where
  "only_if b m = (if b then m else ret ())"

fun each :: "('a \<Rightarrow> ('s, 'e, unit) act) \<Rightarrow> 'a list \<Rightarrow> ('s, 'e, unit) act" where
  "each f [] = ret ()"
| "each f (x # xs) = bnd (f x) (\<lambda>_. each f xs)"

fun collect :: "('a \<Rightarrow> ('s, 'e, 'b) act) \<Rightarrow> 'a list \<Rightarrow> ('s, 'e, 'b list) act" where
  "collect f [] = ret []"
| "collect f (x # xs) = bnd (f x) (\<lambda>y. bnd (collect f xs) (\<lambda>ys. ret (y # ys)))"

text \<open>A call to something outside the model: it answers with an error or a value.\<close>

definition of_sum :: "('s \<Rightarrow> ('e + 'a) \<times> 's) \<Rightarrow> ('s, 'e, 'a) act" where
  "of_sum f = (\<lambda>s. case f s of (Inl e, s') \<Rightarrow> (Fail e, s') | (Inr x, s') \<Rightarrow> (Ok x, s'))"

definition pure_of :: "('s \<Rightarrow> 'a) \<Rightarrow> ('s, 'e, 'a) act" where
  "pure_of f = (\<lambda>s. (Ok (f s), s))"

definition modify :: "('s \<Rightarrow> 's) \<Rightarrow> ('s, 'e, unit) act" where
  "modify f = (\<lambda>s. (Ok (), f s))"

lemma ret_apply [act]: "ret x s = (Ok x, s)" by (simp add: ret_def)
lemma throw_apply [act]: "throw e s = (Fail e, s)" by (simp add: throw_def)
lemma panic_apply [act]: "panic p s = (Panic p, s)" by (simp add: panic_def)
lemma modify_apply [act]: "modify f s = (Ok (), f s)" by (simp add: modify_def)
lemma pure_of_apply [act]: "pure_of f s = (Ok (f s), s)" by (simp add: pure_of_def)

lemma bnd_cases:
  "bnd m k s = (case m s of
      (Ok x, s') \<Rightarrow> k x s' | (Fail e, s') \<Rightarrow> (Fail e, s') | (Panic p, s') \<Rightarrow> (Panic p, s'))"
  by (simp add: bnd_def)

lemma bnd_Ok: "m s = (Ok x, s') \<Longrightarrow> bnd m k s = k x s'"
  by (simp add: bnd_def)
lemma bnd_Fail: "m s = (Fail e, s') \<Longrightarrow> bnd m k s = (Fail e, s')"
  by (simp add: bnd_def)
lemma bnd_Panic: "m s = (Panic p, s') \<Longrightarrow> bnd m k s = (Panic p, s')"
  by (simp add: bnd_def)

lemma bnd_ret [act, simp]: "bnd (ret x) k = k x" by (simp add: bnd_def ret_def)
lemma bnd_throw [act, simp]: "bnd (throw e) k = throw e" by (simp add: bnd_def throw_def)
lemma bnd_panic [act, simp]: "bnd (panic e) k = panic e" by (simp add: bnd_def panic_def)
lemma bnd_modify [act]: "bnd (modify f) k s = k () (f s)" by (simp add: bnd_def modify_def)
lemma bnd_pure_of [act]: "bnd (pure_of f) k s = k (f s) s" by (simp add: bnd_def pure_of_def)
lemma bnd_assoc: "bnd (bnd m k) h = bnd m (\<lambda>x. bnd (k x) h)"
  by (auto simp: bnd_def fun_eq_iff split: prod.splits res.splits)
lemma bnd_ret_right [simp]: "bnd m ret = m"
  by (auto simp: bnd_def ret_def fun_eq_iff split: prod.splits res.splits)

lemma guard_True [act, simp]: "guard True e = ret ()" by (simp add: guard_def)
lemma guard_False [act, simp]: "guard False e = throw e" by (simp add: guard_def)
lemma only_if_True [act, simp]: "only_if True m = m" by (simp add: only_if_def)
lemma only_if_False [act, simp]: "only_if False m = ret ()" by (simp add: only_if_def)

lemma bnd_guard [act]: "bnd (guard b e) k = (if b then k () else throw e)"
  by (simp add: guard_def)

lemma attempt_cases:
  "attempt m s = (case m s of
      (Ok x, s') \<Rightarrow> (Ok (Inr x), s') | (Fail e, s') \<Rightarrow> (Ok (Inl e), s') | (Panic p, s') \<Rightarrow> (Panic p, s'))"
  by (simp add: attempt_def)

lemma map_err_cases:
  "map_err f m s = (case m s of
      (Ok x, s') \<Rightarrow> (Ok x, s') | (Fail e, s') \<Rightarrow> (Fail (f e), s') | (Panic p, s') \<Rightarrow> (Panic p, s'))"
  by (simp add: map_err_def)

lemma map_err_ret [act, simp]: "map_err f (ret x) = ret x"
  by (simp add: map_err_def ret_def)
lemma map_err_throw [act, simp]: "map_err f (throw e) = throw (f e)"
  by (simp add: map_err_def throw_def)
lemma attempt_ret [act, simp]: "attempt (ret x) = ret (Inr x)"
  by (simp add: attempt_def ret_def)
lemma attempt_throw [act, simp]: "attempt (throw e) = ret (Inl e)"
  by (simp add: attempt_def ret_def throw_def)
lemma ignore_ret [act, simp]: "ignore (ret x) = ret ()"
  by (simp add: ignore_def)

lemma bnd_OkD:
  assumes "bnd m k s = (Ok y, s')"
  obtains x s1 where "m s = (Ok x, s1)" "k x s1 = (Ok y, s')"
  using assms by (auto simp: bnd_def split: prod.splits res.splits)

lemma map_err_OkD: "map_err f m s = (Ok y, s') \<Longrightarrow> m s = (Ok y, s')"
  by (auto simp: map_err_def split: prod.splits res.splits)

lemma guard_OkD: "guard b e s = (Ok y, s') \<Longrightarrow> b \<and> s' = s"
  by (auto simp: guard_def act split: if_splits)

text \<open>Failing with a known error, whatever the state afterwards.\<close>

definition fails_with :: "('s, 'e, 'a) act \<Rightarrow> 's \<Rightarrow> 'e \<Rightarrow> bool" where
  "fails_with m s e = (fst (m s) = Fail e)"

lemma fails_with_bnd: "fails_with m s e \<Longrightarrow> fails_with (bnd m k) s e"
  by (auto simp: fails_with_def bnd_def split: prod.splits res.splits)

subsection \<open>Frame reasoning\<close>

definition keeps :: "('s \<Rightarrow> 's \<Rightarrow> bool) \<Rightarrow> ('s, 'e, 'a) act \<Rightarrow> bool" where
  "keeps R m = (\<forall>s. R s (snd (m s)))"

definition preord :: "('s \<Rightarrow> 's \<Rightarrow> bool) \<Rightarrow> bool" where
  "preord R = (reflp R \<and> transp R)"

lemma preord_refl: "preord R \<Longrightarrow> R s s"
  by (simp add: preord_def reflpD)
lemma preord_trans: "preord R \<Longrightarrow> R s t \<Longrightarrow> R t u \<Longrightarrow> R s u"
  by (meson preord_def transpE)

lemma keepsD: "keeps R m \<Longrightarrow> m s = (r, s') \<Longrightarrow> R s s'"
  by (metis keeps_def snd_conv)
lemma keeps_snd: "keeps R m \<Longrightarrow> R s (snd (m s))"
  by (simp add: keeps_def)
lemma keepsI: "(\<And>s r s'. m s = (r, s') \<Longrightarrow> R s s') \<Longrightarrow> keeps R m"
  by (metis keeps_def prod.collapse)

lemma keeps_ret [keeps]: "preord R \<Longrightarrow> keeps R (ret x)"
  by (simp add: keeps_def ret_def preord_refl)
lemma keeps_throw [keeps]: "preord R \<Longrightarrow> keeps R (throw x)"
  by (simp add: keeps_def throw_def preord_refl)
lemma keeps_panic [keeps]: "preord R \<Longrightarrow> keeps R (panic x)"
  by (simp add: keeps_def panic_def preord_refl)
lemma keeps_pure_of [keeps]: "preord R \<Longrightarrow> keeps R (pure_of f)"
  by (simp add: keeps_def pure_of_def preord_refl)
lemma keeps_guard [keeps]: "preord R \<Longrightarrow> keeps R (guard b e)"
  by (simp add: guard_def keeps)

lemma keeps_bnd [keeps]:
  assumes "preord R" "keeps R m" "\<And>x. keeps R (k x)"
  shows "keeps R (bnd m k)"
proof (rule keepsI)
  fix s r s'
  assume *: "bnd m k s = (r, s')"
  obtain r1 s1 where m: "m s = (r1, s1)" by (cases "m s")
  then have "R s s1" using assms(2) by (rule keepsD [rotated])
  moreover have "R s1 s'"
    using * m keepsD [OF assms(3)] preord_refl [OF assms(1)]
    by (auto simp: bnd_def split: res.splits)
  ultimately show "R s s'" using assms(1) by (blast intro: preord_trans)
qed

text \<open>The continuation need only keep \<open>R\<close> on results the first action can have.\<close>

lemma keeps_bnd_results:
  assumes "preord R" "keeps R m" "\<And>x s s'. m s = (Ok x, s') \<Longrightarrow> keeps R (k x)"
  shows "keeps R (bnd m k)"
proof (rule keepsI)
  fix s r s'
  assume *: "bnd m k s = (r, s')"
  obtain r1 s1 where m: "m s = (r1, s1)" by (cases "m s")
  then have "R s s1" using assms(2) by (rule keepsD [rotated])
  moreover have "R s1 s'"
    using * m assms(3) [THEN keepsD] preord_refl [OF assms(1)]
    by (auto simp: bnd_def split: res.splits)
  ultimately show "R s s'" using assms(1) by (blast intro: preord_trans)
qed

lemma keeps_attempt [keeps]: "keeps R m \<Longrightarrow> keeps R (attempt m)"
  by (auto simp: keeps_def attempt_def split: prod.splits res.splits) (metis snd_conv)+

lemma keeps_map_err [keeps]: "keeps R m \<Longrightarrow> keeps R (map_err f m)"
  by (auto simp: keeps_def map_err_def split: prod.splits res.splits) (metis snd_conv)+

lemma keeps_ignore [keeps]: "preord R \<Longrightarrow> keeps R m \<Longrightarrow> keeps R (ignore m)"
  by (simp add: ignore_def keeps)

lemma keeps_only_if [keeps]: "preord R \<Longrightarrow> keeps R m \<Longrightarrow> keeps R (only_if b m)"
  by (simp add: only_if_def keeps)

lemma keeps_if [keeps]:
  "(b \<Longrightarrow> keeps R m) \<Longrightarrow> (\<not> b \<Longrightarrow> keeps R n) \<Longrightarrow> keeps R (if b then m else n)"
  by simp

lemma keeps_each [keeps]: "preord R \<Longrightarrow> (\<And>x. keeps R (f x)) \<Longrightarrow> keeps R (each f xs)"
  by (induction xs) (auto intro!: keeps)

lemma keeps_collect [keeps]: "preord R \<Longrightarrow> (\<And>x. keeps R (f x)) \<Longrightarrow> keeps R (collect f xs)"
  by (induction xs) (auto intro!: keeps)

lemma keeps_option [keeps]:
  "keeps R m \<Longrightarrow> (\<And>x. keeps R (k x)) \<Longrightarrow> keeps R (case z of None \<Rightarrow> m | Some x \<Rightarrow> k x)"
  by (cases z) auto

lemma keeps_sum [keeps]:
  "(\<And>x. keeps R (m x)) \<Longrightarrow> (\<And>x. keeps R (k x)) \<Longrightarrow> keeps R (case z of Inl x \<Rightarrow> m x | Inr x \<Rightarrow> k x)"
  by (cases z) auto

lemma keeps_prod [keeps]:
  "(\<And>x y. keeps R (k x y)) \<Longrightarrow> keeps R (case z of (x, y) \<Rightarrow> k x y)"
  by (cases z) auto

lemma keeps_Let [keeps]: "(\<And>x. keeps R (k x)) \<Longrightarrow> keeps R (let x = a in k x)"
  by simp

subsection \<open>Following a run\<close>

named_theorems wp

definition wp :: "('s, 'e, 'a) act \<Rightarrow> (('e, 'a) res \<Rightarrow> 's \<Rightarrow> bool) \<Rightarrow> 's \<Rightarrow> bool" where
  "wp m Q s = Q (fst (m s)) (snd (m s))"

lemma wpI: "(\<And>r s'. m s = (r, s') \<Longrightarrow> Q r s') \<Longrightarrow> wp m Q s"
  by (metis prod.collapse wp_def)
lemma wpD: "wp m Q s \<Longrightarrow> m s = (r, s') \<Longrightarrow> Q r s'"
  by (simp add: wp_def)

lemma wp_ret [wp]: "Q (Ok x) s \<Longrightarrow> wp (ret x) Q s"
  by (simp add: wp_def ret_def)
lemma wp_throw [wp]: "Q (Fail e) s \<Longrightarrow> wp (throw e) Q s"
  by (simp add: wp_def throw_def)
lemma wp_panic [wp]: "Q (Panic p) s \<Longrightarrow> wp (panic p) Q s"
  by (simp add: wp_def panic_def)
lemma wp_bnd [wp]:
  "wp m (\<lambda>r s'. case r of Ok x \<Rightarrow> wp (k x) Q s' | Fail e \<Rightarrow> Q (Fail e) s' | Panic p \<Rightarrow> Q (Panic p) s') s
   \<Longrightarrow> wp (bnd m k) Q s"
  by (auto simp: wp_def bnd_def split: prod.splits res.splits)
lemma wp_attempt [wp]:
  "wp m (\<lambda>r s'. case r of Ok x \<Rightarrow> Q (Ok (Inr x)) s' | Fail e \<Rightarrow> Q (Ok (Inl e)) s' | Panic p \<Rightarrow> Q (Panic p) s') s
   \<Longrightarrow> wp (attempt m) Q s"
  by (auto simp: wp_def attempt_def split: prod.splits res.splits)
lemma wp_map_err [wp]:
  "wp m (\<lambda>r s'. case r of Ok x \<Rightarrow> Q (Ok x) s' | Fail e \<Rightarrow> Q (Fail (f e)) s' | Panic p \<Rightarrow> Q (Panic p) s') s
   \<Longrightarrow> wp (map_err f m) Q s"
  by (auto simp: wp_def map_err_def split: prod.splits res.splits)
lemma wp_of_sum [wp]:
  "(\<And>e s'. f s = (Inl e, s') \<Longrightarrow> Q (Fail e) s') \<Longrightarrow> (\<And>x s'. f s = (Inr x, s') \<Longrightarrow> Q (Ok x) s')
   \<Longrightarrow> wp (of_sum f) Q s"
  by (auto simp: wp_def of_sum_def split: prod.splits sum.splits)
lemma wp_modify: "Q (Ok ()) (f s) \<Longrightarrow> wp (modify f) Q s"
  by (simp add: wp_def act)

lemma wp_pure: "Q (Ok (f s)) s \<Longrightarrow> wp (pure_of f) Q s"
  by (simp add: wp_def act)
lemma wp_ite: "(b \<Longrightarrow> wp m Q s) \<Longrightarrow> (\<not> b \<Longrightarrow> wp n Q s) \<Longrightarrow> wp (if b then m else n) Q s"
  by simp
lemma wp_conseq: "wp m P s \<Longrightarrow> (\<And>r s'. P r s' \<Longrightarrow> Q r s') \<Longrightarrow> wp m Q s"
  by (simp add: wp_def)

lemma wp_keeps: "keeps R m \<Longrightarrow> (\<And>r s'. R s s' \<Longrightarrow> Q r s') \<Longrightarrow> wp m Q s"
  by (simp add: wp_def keeps_def)

text \<open>Following a run that so far is related to \<open>u\<close>.\<close>

lemma wp_after:
  "keeps R m \<Longrightarrow> preord R \<Longrightarrow> R u s \<Longrightarrow> (\<And>r s'. R u s' \<Longrightarrow> Q r s') \<Longrightarrow> wp m Q s"
  by (simp add: wp_def keeps_snd preord_trans [of R u s])

lemma wp_collect:
  assumes "\<And>x s. x \<in> set xs \<Longrightarrow> I s \<Longrightarrow> wp (f x) (\<lambda>r s'. I s' \<and> (\<forall>y. r = Ok y \<longrightarrow> P x y)) s"
    and "I s"
  shows "wp (collect f xs) (\<lambda>r s'. I s' \<and> (\<forall>ys. r = Ok ys \<longrightarrow> list_all2 P xs ys)) s"
  using assms
proof (induction xs arbitrary: s)
  case Nil
  then show ?case by (simp add: wp_ret)
next
  case (Cons x xs)
  have IH: "wp (collect f xs) (\<lambda>r s'. I s' \<and> (\<forall>ys. r = Ok ys \<longrightarrow> list_all2 P xs ys)) s1" if "I s1" for s1
    by (rule Cons.IH) (use Cons.prems(1) that in auto)
  have step: "wp (bnd (collect f xs) (\<lambda>ys. ret (y # ys)))
      (\<lambda>r s'. I s' \<and> (\<forall>ys. r = Ok ys \<longrightarrow> list_all2 P (x # xs) ys)) s1" if "I s1" "P x y" for s1 y
    by (rule wp_bnd, rule wp_conseq [OF IH [OF that(1)]])
       (use that(2) in \<open>auto intro!: wp_ret split: res.splits\<close>)
  show ?case
    unfolding collect.simps
    by (rule wp_bnd, rule wp_conseq, rule Cons.prems(1) [of x s])
       (use Cons.prems(2) step in \<open>auto split: res.splits\<close>)
qed

text \<open>Preservation of an invariant is the frame \<open>\<lambda>s t. I s \<longrightarrow> I t\<close>.\<close>

abbreviation preserving :: "('s \<Rightarrow> bool) \<Rightarrow> 's \<Rightarrow> 's \<Rightarrow> bool" where
  "preserving I \<equiv> (\<lambda>s t. I s \<longrightarrow> I t)"

lemma preord_preserving [simp, intro]: "preord (preserving I)"
  by (auto simp: preord_def reflp_def transp_def)

lemma preord_eq [simp, intro]: "preord (\<lambda>s t. f t = f s)"
  by (auto simp: preord_def reflp_def transp_def)

lemma preord_conj [intro]: "preord R \<Longrightarrow> preord S \<Longrightarrow> preord (\<lambda>s t. R s t \<and> S s t)"
  by (auto simp: preord_def reflp_def transp_def)

text \<open>A collection whose steps neither fail nor change the state is a map.\<close>

lemma collect_pure:
  "(\<And>x. x \<in> set xs \<Longrightarrow> f x s = (Ok (g x), s)) \<Longrightarrow> collect f xs s = (Ok (map g xs), s)"
  by (induction xs) (auto simp: act bnd_def)

end
