(* ===== verification/Forgejo.thy ===== *)
theory Forgejo
  imports Effects
begin

text \<open>
  Package \<^verbatim>\<open>internal/forgejo\<close>: the client of the git host's REST API.  The host and the
  HTTP transport are a parameter: \<open>fc_http\<close> answers a request, given as its method, full URL,
  token header and JSON body, with a transport error or a response.  A response carries its raw
  body and what \<^verbatim>\<open>encoding/json\<close> makes of it (\<open>rs_json\<close>).  JSON numbers are integers here,
  as every number the client reads is (indices, sizes, counts), and are taken to fit the
  32-bit or 64-bit field they are stored in.
\<close>

subsection \<open>JSON values\<close>

datatype json =
    JNull | JBool bool | JNum int | JStr string | JArr "json list" | JObj "(string \<times> json) list"

definition jget :: "json \<Rightarrow> string \<Rightarrow> json" where
  "jget j k = (case j of JObj kvs \<Rightarrow> (case map_of (rev kvs) k of Some v \<Rightarrow> v | None \<Rightarrow> JNull) | _ \<Rightarrow> JNull)"

text \<open>\<^verbatim>\<open>str\<close>, \<^verbatim>\<open>num\<close>, \<^verbatim>\<open>boolv\<close>: type assertions that yield the zero value on a mismatch.\<close>

definition jstr :: "json \<Rightarrow> string" where
  "jstr v = (case v of JStr s \<Rightarrow> s | _ \<Rightarrow> [])"
definition jnum :: "json \<Rightarrow> int" where
  "jnum v = (case v of JNum n \<Rightarrow> n | _ \<Rightarrow> 0)"
definition jbool :: "json \<Rightarrow> bool" where
  "jbool v = (case v of JBool b \<Rightarrow> b | _ \<Rightarrow> False)"

text \<open>Decoding into \<^verbatim>\<open>map[string]any\<close> and \<^verbatim>\<open>[]map[string]any\<close>; \<^verbatim>\<open>null\<close> gives the nil value.\<close>

definition unmarshal_error :: string where "unmarshal_error = ''json: cannot unmarshal''"

definition as_map :: "json \<Rightarrow> string + json" where
  "as_map j = (case j of JObj kvs \<Rightarrow> Inr j | JNull \<Rightarrow> Inr (JObj []) | _ \<Rightarrow> Inl unmarshal_error)"

fun all_right :: "('e + 'a) list \<Rightarrow> 'e + 'a list" where
  "all_right [] = Inr []"
| "all_right (Inl e # _) = Inl e"
| "all_right (Inr x # xs) = (case all_right xs of Inl e \<Rightarrow> Inl e | Inr ys \<Rightarrow> Inr (x # ys))"

definition as_rows :: "json \<Rightarrow> string + json list" where
  "as_rows j = (case j of JArr xs \<Rightarrow> all_right (map as_map xs) | JNull \<Rightarrow> Inr []
                | _ \<Rightarrow> Inl unmarshal_error)"

subsection \<open>URLs\<close>

definition hex_digit :: "nat \<Rightarrow> char" where
  "hex_digit d = (if d < 10 then char_of (48 + d) else char_of (55 + d))"

definition pct :: "char \<Rightarrow> string" where
  "pct c = (let n = of_char c :: nat in [CHR ''%'', hex_digit (n div 16), hex_digit (n mod 16)])"

definition unreserved :: "char \<Rightarrow> bool" where
  "unreserved c = (is_alnum c \<or> c \<in> {CHR ''-'', CHR ''_'', CHR ''.'', CHR ''~''})"

text \<open>\<^verbatim>\<open>url.PathEscape\<close>: besides the unreserved bytes it leaves \<^verbatim>\<open>$ & + = : @\<close> alone.\<close>

definition seg :: "string \<Rightarrow> string" where
  "seg s = concat (map (\<lambda>c. if unreserved c \<or>
        c \<in> {CHR ''$'', CHR ''&'', CHR ''+'', CHR ''='', CHR '':'', CHR ''@''} then [c] else pct c) s)"

definition query_escape :: "string \<Rightarrow> string" where
  "query_escape s = concat (map (\<lambda>c. if unreserved c then [c] else if c = CHR '' '' then ''+'' else pct c) s)"

definition encPath :: "string \<Rightarrow> string" where
  "encPath p = join ''/'' (map seg (split_at CHR ''/'' p))"

text \<open>\<^verbatim>\<open>url.Values.Encode\<close>: the pairs sorted by key.\<close>

type_synonym query = "(string \<times> string) list"

definition encode_query :: "query \<Rightarrow> string" where
  "encode_query q = join ''&'' (map (\<lambda>(k, v). query_escape k @ ''='' @ query_escape v) (sort_by fst q))"

subsection \<open>Requests, responses, errors\<close>

record greq =
  rq_method :: string
  rq_url :: string
  rq_auth :: "string option"
  rq_body :: "json option"

record gresp =
  rs_status :: int
  rs_total :: string
  rs_ctype :: string
  rs_gitsha :: string
  rs_body :: string
  rs_json :: "string + json"

record 's fclient =
  fc_base :: string
  fc_token :: string
  fc_http :: "greq \<Rightarrow> 's \<Rightarrow> (string + gresp) \<times> 's"

text \<open>\<open>GNotFound\<close> and \<open>GConflict\<close> are the typed errors \<^verbatim>\<open>ErrNotFound\<close> and \<^verbatim>\<open>ErrConflict\<close>;
  \<open>GOther\<close> carries the text of any other error.\<close>

datatype gerr = GNotFound string | GConflict string string | GOther string

fun gerr_text :: "gerr \<Rightarrow> string" where
  "gerr_text (GNotFound u) = ''forgejo: not found: '' @ u"
| "gerr_text (GConflict p r) =
     (if r \<noteq> [] then ''forgejo: conflict: '' @ r else ''forgejo: conflict at '' @ p)"
| "gerr_text (GOther m) = m"

definition full_url :: "'s fclient \<Rightarrow> string \<Rightarrow> query \<Rightarrow> string" where
  "full_url c path q = fc_base c @ ''/api/v1'' @ path @ (if q \<noteq> [] then ''?'' @ encode_query q else [])"

definition auth_of :: "'s fclient \<Rightarrow> string option" where
  "auth_of c = (if fc_token c \<noteq> [] then Some (''token '' @ fc_token c) else None)"

definition status_error :: "string \<Rightarrow> string \<Rightarrow> gresp \<Rightarrow> gerr" where
  "status_error method path rs =
     GOther (''forgejo '' @ method @ '' '' @ path @ '': '' @ int_str (rs_status rs) @ '': '' @
             trim_space (take 512 (rs_body rs)))"

definition ok_status :: "gresp \<Rightarrow> bool" where
  "ok_status rs = (200 \<le> rs_status rs \<and> rs_status rs < 300)"

text \<open>\<^verbatim>\<open>doWith\<close>: 404 and 409 are typed, every other non-2xx status becomes a text naming the
  method, the path and the status.\<close>

definition fg_do ::
  "'s fclient \<Rightarrow> string \<Rightarrow> string \<Rightarrow> query \<Rightarrow> json option \<Rightarrow> ('s, gerr, gresp) act" where
  "fg_do c method path q body =
     bnd (map_err GOther (of_sum (fc_http c
            \<lparr>rq_method = method, rq_url = full_url c path q, rq_auth = auth_of c, rq_body = body\<rparr>)))
       (\<lambda>rs. if rs_status rs = 404 then throw (GNotFound (full_url c path q))
             else if rs_status rs = 409 then throw (GConflict path (trim_space (take 512 (rs_body rs))))
             else if \<not> ok_status rs then throw (status_error method path rs)
             else ret rs)"

definition decode_with :: "(json \<Rightarrow> string + 'a) \<Rightarrow> gresp \<Rightarrow> ('s, gerr, 'a) act" where
  "decode_with f rs = (case rs_json rs of Inl e \<Rightarrow> throw (GOther e)
      | Inr j \<Rightarrow> (case f j of Inl e \<Rightarrow> throw (GOther e) | Inr x \<Rightarrow> ret x))"

definition do_map where
  "do_map c method path q body = bnd (fg_do c method path q body) (decode_with as_map)"
definition do_rows where
  "do_rows c method path q body = bnd (fg_do c method path q body) (decode_with as_rows)"
definition do_any where
  "do_any c method path q body = bnd (fg_do c method path q body) (decode_with Inr)"
definition do_unit where
  "do_unit c method path q body = bnd (fg_do c method path q body) (\<lambda>_. ret ())"

text \<open>\<^verbatim>\<open>strconv.Atoi\<close> with its error dropped.\<close>

definition atoi :: "string \<Rightarrow> int" where
  "atoi s = (let (neg, d) = (case s of [] \<Rightarrow> (False, [])
                | c # t \<Rightarrow> if c = CHR ''-'' then (True, t) else if c = CHR ''+'' then (False, t) else (False, s))
     in if d = [] \<or> \<not> list_all is_digit d then 0
        else if neg then - int (str_nat d) else int (str_nat d))"

text \<open>\<^verbatim>\<open>doCount\<close>: like \<open>fg_do\<close> without the 409 case, and with the total of the list.\<close>

definition do_count :: "'s fclient \<Rightarrow> string \<Rightarrow> string \<Rightarrow> query \<Rightarrow> ('s, gerr, int \<times> json list) act" where
  "do_count c method path q =
     bnd (map_err GOther (of_sum (fc_http c
            \<lparr>rq_method = method, rq_url = full_url c path q, rq_auth = auth_of c, rq_body = None\<rparr>)))
       (\<lambda>rs. if rs_status rs = 404 then throw (GNotFound (full_url c path q))
             else if \<not> ok_status rs then throw (status_error method path rs)
             else bnd (decode_with as_rows rs)
               (\<lambda>rows. ret (if rs_total rs \<noteq> [] then atoi (trim_space (rs_total rs)) else 0, rows)))"

definition repo_path :: "string \<Rightarrow> string \<Rightarrow> string" where
  "repo_path org repo = ''/repos/'' @ seg org @ ''/'' @ seg repo"

definition GitURL :: "'s fclient \<Rightarrow> string \<Rightarrow> string \<Rightarrow> string" where
  "GitURL c org repo = fc_base c @ ''/'' @ seg org @ ''/'' @ seg repo @ ''.git''"

subsection \<open>Repositories and organisations\<close>

record repo_info =
  ri_org :: string
  ri_repo :: string
  ri_default :: string
  ri_private :: bool
  ri_empty :: bool

definition git_GetRepo :: "'s fclient \<Rightarrow> string \<Rightarrow> string \<Rightarrow> ('s, gerr, repo_info) act" where
  "git_GetRepo c org repo =
     bnd (do_map c ''GET'' (repo_path org repo) [] None)
       (\<lambda>raw. ret \<lparr>ri_org = org, ri_repo = repo, ri_default = jstr (jget raw ''default_branch''),
                   ri_private = jbool (jget raw ''private''), ri_empty = jbool (jget raw ''empty'')\<rparr>)"

text \<open>\<^verbatim>\<open>if _, ok := err.(*ErrNotFound); ok\<close>: an absent object is an answer, not a failure.\<close>

definition exists_of :: "('s, gerr, 'a) act \<Rightarrow> ('s, gerr, bool) act" where
  "exists_of m = bnd (attempt m) (\<lambda>r. case r of
      Inr _ \<Rightarrow> ret True | Inl (GNotFound _) \<Rightarrow> ret False | Inl e \<Rightarrow> throw e)"

definition git_RepoExists :: "'s fclient \<Rightarrow> string \<Rightarrow> string \<Rightarrow> ('s, gerr, bool) act" where
  "git_RepoExists c org repo = exists_of (git_GetRepo c org repo)"

definition git_EnsureOrg :: "'s fclient \<Rightarrow> string \<Rightarrow> ('s, gerr, unit) act" where
  "git_EnsureOrg c org =
     bnd (exists_of (do_map c ''GET'' (''/orgs/'' @ seg org) [] None))
       (\<lambda>present. if present then ret ()
          else do_unit c ''POST'' ''/orgs'' []
                 (Some (JObj [(''username'', JStr org), (''visibility'', JStr ''public'')])))"

definition git_ProtectMain :: "'s fclient \<Rightarrow> string \<Rightarrow> string \<Rightarrow> ('s, gerr, unit) act" where
  "git_ProtectMain c org repo =
     bnd (attempt (do_unit c ''POST'' (repo_path org repo @ ''/branch_protections'') []
            (Some (JObj [(''branch_name'', JStr ''main''), (''rule_name'', JStr ''main''),
                         (''enable_push'', JBool False), (''apply_to_admins'', JBool True),
                         (''enable_approvals_whitelist'', JBool False)]))))
       (\<lambda>r. case r of Inr _ \<Rightarrow> ret ()
          | Inl e \<Rightarrow> if contains (gerr_text e) ''already'' then ret () else throw e)"

text \<open>Creation under the organisation, falling back to the token's user; the first error is
  the one reported.\<close>

definition create_repo_at :: "'s fclient \<Rightarrow> string \<Rightarrow> json \<Rightarrow> ('s, gerr, unit) act" where
  "create_repo_at c org body =
     bnd (attempt (do_unit c ''POST'' (''/orgs/'' @ seg org @ ''/repos'') [] (Some body)))
       (\<lambda>r. case r of Inr _ \<Rightarrow> ret ()
          | Inl e \<Rightarrow> bnd (attempt (do_unit c ''POST'' ''/user/repos'' [] (Some body)))
              (\<lambda>r2. case r2 of Inr _ \<Rightarrow> ret () | Inl _ \<Rightarrow> throw e))"

definition git_EnsureRepo :: "'s fclient \<Rightarrow> string \<Rightarrow> string \<Rightarrow> ('s, gerr, bool) act" where
  "git_EnsureRepo c org repo =
     bnd (git_RepoExists c org repo) (\<lambda>present.
     bnd (if present then ret False
          else bnd (git_EnsureOrg c org) (\<lambda>_.
               bnd (create_repo_at c org
                      (JObj [(''name'', JStr repo), (''auto_init'', JBool True),
                             (''default_branch'', JStr ''main''), (''private'', JBool False)]))
                 (\<lambda>_. ret True)))
       (\<lambda>created. bnd (git_ProtectMain c org repo) (\<lambda>_. ret created)))"

definition git_CreateEmptyRepo ::
  "'s fclient \<Rightarrow> string \<Rightarrow> string \<Rightarrow> string \<Rightarrow> ('s, gerr, repo_info) act" where
  "git_CreateEmptyRepo c org repo description =
     bnd (git_EnsureOrg c org) (\<lambda>_.
     bnd (create_repo_at c org
            (JObj ([(''name'', JStr repo), (''auto_init'', JBool False), (''private'', JBool False)] @
                   (if description \<noteq> [] then [(''description'', JStr description)] else []))))
       (\<lambda>_. git_GetRepo c org repo))"

definition git_DeleteRepo :: "'s fclient \<Rightarrow> string \<Rightarrow> string \<Rightarrow> ('s, gerr, unit) act" where
  "git_DeleteRepo c org repo =
     bnd (attempt (do_unit c ''DELETE'' (repo_path org repo) [] None))
       (\<lambda>r. case r of Inr _ \<Rightarrow> ret () | Inl (GNotFound _) \<Rightarrow> ret () | Inl e \<Rightarrow> throw e)"

definition git_SetDefaultBranch :: "'s fclient \<Rightarrow> string \<Rightarrow> string \<Rightarrow> string \<Rightarrow> ('s, gerr, unit) act" where
  "git_SetDefaultBranch c org repo branch =
     do_unit c ''PATCH'' (repo_path org repo) [] (Some (JObj [(''default_branch'', JStr branch)]))"

subsection \<open>Branches\<close>

definition isAlreadyExists :: "gerr \<Rightarrow> bool" where
  "isAlreadyExists e = (let s = to_lower (gerr_text e) in contains s ''already exists'' \<or> contains s ''409'')"

definition branch_path :: "string \<Rightarrow> string \<Rightarrow> string \<Rightarrow> string" where
  "branch_path org repo branch = repo_path org repo @ ''/branches/'' @ seg branch"

definition git_BranchExists :: "'s fclient \<Rightarrow> string \<Rightarrow> string \<Rightarrow> string \<Rightarrow> ('s, gerr, bool) act" where
  "git_BranchExists c org repo branch = exists_of (do_map c ''GET'' (branch_path org repo branch) [] None)"

definition git_CreateBranch ::
  "'s fclient \<Rightarrow> string \<Rightarrow> string \<Rightarrow> string \<Rightarrow> string \<Rightarrow> ('s, gerr, unit) act" where
  "git_CreateBranch c org repo branch base =
     bnd (attempt (do_unit c ''POST'' (repo_path org repo @ ''/branches'') []
            (Some (JObj [(''new_branch_name'', JStr branch), (''old_ref_name'', JStr base)]))))
       (\<lambda>r. case r of Inr _ \<Rightarrow> ret () | Inl e \<Rightarrow> if isAlreadyExists e then ret () else throw e)"

definition git_DeleteBranch :: "'s fclient \<Rightarrow> string \<Rightarrow> string \<Rightarrow> string \<Rightarrow> ('s, gerr, unit) act" where
  "git_DeleteBranch c org repo branch =
     bnd (attempt (do_unit c ''DELETE'' (branch_path org repo branch) [] None))
       (\<lambda>r. case r of Inr _ \<Rightarrow> ret ()
          | Inl (GNotFound _) \<Rightarrow> ret ()
          | Inl e \<Rightarrow> if isAlreadyExists e then ret ()
                     else if contains (to_lower (gerr_text e)) ''does not exist'' then ret ()
                     else throw e)"

record branch_info = bi_name :: string  bi_sha :: string

definition git_Branches :: "'s fclient \<Rightarrow> string \<Rightarrow> string \<Rightarrow> ('s, gerr, branch_info list) act" where
  "git_Branches c org repo =
     bnd (do_rows c ''GET'' (repo_path org repo @ ''/branches'') [] None)
       (\<lambda>rows. ret (map (\<lambda>r. \<lparr>bi_name = jstr (jget r ''name''),
                              bi_sha = jstr (jget (jget r ''commit'') ''id'')\<rparr>) rows))"

definition git_BranchTip :: "'s fclient \<Rightarrow> string \<Rightarrow> string \<Rightarrow> string \<Rightarrow> ('s, gerr, string) act" where
  "git_BranchTip c org repo branch =
     bnd (do_map c ''GET'' (branch_path org repo branch) [] None)
       (\<lambda>raw. ret (jstr (jget (jget raw ''commit'') ''id'')))"

definition git_CreateTagAt ::
  "'s fclient \<Rightarrow> string \<Rightarrow> string \<Rightarrow> string \<Rightarrow> string \<Rightarrow> ('s, gerr, unit) act" where
  "git_CreateTagAt c org repo name target =
     do_unit c ''POST'' (repo_path org repo @ ''/tags'') []
       (Some (JObj [(''tag_name'', JStr name), (''target'', JStr target)]))"

end
