(* ===== verification/ForgejoBrowse.thy ===== *)
theory ForgejoBrowse
  imports Forgejo
begin

text \<open>
  The rest of package \<^verbatim>\<open>internal/forgejo\<close>: change requests, the read-only browse
  operations, the commit log with its paging over the host's 50-row pages, and push mirrors.
\<close>

subsection \<open>Change requests\<close>

record mr_info =
  mi_index :: int
  mi_title :: string
  mi_state :: string
  mi_head :: string
  mi_head_sha :: string
  mi_base :: string
  mi_body :: string
  mi_author :: string
  mi_created :: string
  mi_updated :: string
  mi_merged :: bool
  mi_mergeable :: bool
  mi_additions :: int
  mi_deletions :: int
  mi_changed :: int
  mi_url :: string

definition mrFromJSON :: "json \<Rightarrow> mr_info" where
  "mrFromJSON r =
    \<lparr>mi_index = jnum (jget r ''number''), mi_title = jstr (jget r ''title''),
     mi_state = jstr (jget r ''state''), mi_head = jstr (jget (jget r ''head'') ''ref''),
     mi_head_sha = jstr (jget (jget r ''head'') ''sha''), mi_base = jstr (jget (jget r ''base'') ''ref''),
     mi_body = jstr (jget r ''body''), mi_author = jstr (jget (jget r ''user'') ''login''),
     mi_created = jstr (jget r ''created_at''), mi_updated = jstr (jget r ''updated_at''),
     mi_merged = jbool (jget r ''merged''), mi_mergeable = jbool (jget r ''mergeable''),
     mi_additions = jnum (jget r ''additions''), mi_deletions = jnum (jget r ''deletions''),
     mi_changed = jnum (jget r ''changed_files''), mi_url = jstr (jget r ''html_url'')\<rparr>"

definition pull_path :: "string \<Rightarrow> string \<Rightarrow> int \<Rightarrow> string" where
  "pull_path org repo index = repo_path org repo @ ''/pulls/'' @ int_str index"

definition comments_path :: "string \<Rightarrow> string \<Rightarrow> int \<Rightarrow> string" where
  "comments_path org repo index = repo_path org repo @ ''/issues/'' @ int_str index @ ''/comments''"

definition git_CreateMR ::
  "'s fclient \<Rightarrow> string \<Rightarrow> string \<Rightarrow> string \<Rightarrow> string \<Rightarrow> string \<Rightarrow> string \<Rightarrow>
   ('s, gerr, int \<times> string) act" where
  "git_CreateMR c org repo title head base body =
     bnd (do_map c ''POST'' (repo_path org repo @ ''/pulls'') []
            (Some (JObj ([(''title'', JStr title), (''head'', JStr head), (''base'', JStr base)] @
                         (if body \<noteq> [] then [(''body'', JStr body)] else [])))))
       (\<lambda>out. ret (jnum (jget out ''number''), jstr (jget out ''html_url'')))"

definition git_ListMRs :: "'s fclient \<Rightarrow> string \<Rightarrow> string \<Rightarrow> string \<Rightarrow> ('s, gerr, mr_info list) act" where
  "git_ListMRs c org repo state =
     bnd (do_rows c ''GET'' (repo_path org repo @ ''/pulls'')
            ((if state \<noteq> [] then [(''state'', state)] else []) @ [(''limit'', ''50'')]) None)
       (\<lambda>rows. ret (map mrFromJSON rows))"

definition git_CommentMR :: "'s fclient \<Rightarrow> string \<Rightarrow> string \<Rightarrow> int \<Rightarrow> string \<Rightarrow> ('s, gerr, unit) act" where
  "git_CommentMR c org repo index body =
     do_unit c ''POST'' (comments_path org repo index) [] (Some (JObj [(''body'', JStr body)]))"

definition git_MergeMR :: "'s fclient \<Rightarrow> string \<Rightarrow> string \<Rightarrow> int \<Rightarrow> string \<Rightarrow> ('s, gerr, unit) act" where
  "git_MergeMR c org repo index headSHA =
     do_unit c ''POST'' (pull_path org repo index @ ''/merge'') []
       (Some (JObj ([(''Do'', JStr ''merge''), (''delete_branch_after_merge'', JBool True)] @
                    (if headSHA \<noteq> [] then [(''head_commit_id'', JStr headSHA)] else []))))"

definition git_CloseMR :: "'s fclient \<Rightarrow> string \<Rightarrow> string \<Rightarrow> int \<Rightarrow> ('s, gerr, unit) act" where
  "git_CloseMR c org repo index =
     do_unit c ''PATCH'' (pull_path org repo index) [] (Some (JObj [(''state'', JStr ''closed'')]))"

definition git_GetMR :: "'s fclient \<Rightarrow> string \<Rightarrow> string \<Rightarrow> int \<Rightarrow> ('s, gerr, mr_info) act" where
  "git_GetMR c org repo index =
     bnd (do_map c ''GET'' (pull_path org repo index) [] None) (\<lambda>r. ret (mrFromJSON r))"

text \<open>\<^verbatim>\<open>rawText\<close> has no 409 case and reports a 404 with the URL less its \<^verbatim>\<open>/api/v1\<close>.  It
  and the archive and raw-file reads build their request by hand, with the same token header.\<close>

definition fetch :: "'s fclient \<Rightarrow> string \<Rightarrow> string \<Rightarrow> (gresp \<Rightarrow> string) \<Rightarrow> ('s, gerr, gresp) act" where
  "fetch c url shown what =
     bnd (map_err GOther (of_sum (fc_http c
            \<lparr>rq_method = ''GET'', rq_url = url, rq_auth = auth_of c, rq_body = None\<rparr>)))
       (\<lambda>rs. if rs_status rs = 404 then throw (GNotFound shown)
             else if \<not> ok_status rs then throw (GOther (what rs))
             else ret rs)"

definition failed :: "string \<Rightarrow> gresp \<Rightarrow> string" where
  "failed what rs = ''forgejo '' @ what @ '': '' @ int_str (rs_status rs) @ '': '' @
                    trim_space (take 512 (rs_body rs))"

definition rawText :: "'s fclient \<Rightarrow> string \<Rightarrow> ('s, gerr, string) act" where
  "rawText c path =
     bnd (fetch c (fc_base c @ ''/api/v1'' @ path) (fc_base c @ path) (failed path))
       (\<lambda>rs. ret (rs_body rs))"

definition git_MRDiff :: "'s fclient \<Rightarrow> string \<Rightarrow> string \<Rightarrow> int \<Rightarrow> ('s, gerr, string) act" where
  "git_MRDiff c org repo index = rawText c (pull_path org repo index @ ''.diff'')"

record mr_comment =
  mc_id :: int
  mc_author :: string
  mc_body :: string
  mc_created :: string
  mc_updated :: string

definition git_MRComments :: "'s fclient \<Rightarrow> string \<Rightarrow> string \<Rightarrow> int \<Rightarrow> ('s, gerr, mr_comment list) act" where
  "git_MRComments c org repo index =
     bnd (do_rows c ''GET'' (comments_path org repo index) [(''limit'', ''100'')] None)
       (\<lambda>rows. ret (map (\<lambda>r. \<lparr>mc_id = jnum (jget r ''id''),
            mc_author = jstr (jget (jget r ''user'') ''login''), mc_body = jstr (jget r ''body''),
            mc_created = jstr (jget r ''created_at''), mc_updated = jstr (jget r ''updated_at'')\<rparr>) rows))"

subsection \<open>Files, trees, commits\<close>

definition git_ArchiveTarGz :: "'s fclient \<Rightarrow> string \<Rightarrow> string \<Rightarrow> string \<Rightarrow> ('s, gerr, string) act" where
  "git_ArchiveTarGz c org repo r =
     (let u = fc_base c @ ''/api/v1/repos/'' @ seg org @ ''/'' @ seg repo @ ''/archive/'' @ seg (r @ ''.tar.gz'')
      in bnd (fetch c u u (failed (''archive '' @ r))) (\<lambda>rs. ret (rs_body rs)))"

definition git_RawFile ::
  "'s fclient \<Rightarrow> string \<Rightarrow> string \<Rightarrow> string \<Rightarrow> string \<Rightarrow> ('s, gerr, string \<times> string) act" where
  "git_RawFile c org repo r path =
     (let u = fc_base c @ ''/api/v1/repos/'' @ seg org @ ''/'' @ seg repo @ ''/raw/'' @ encPath path @
              (if r \<noteq> [] then ''?ref='' @ query_escape r else [])
      in bnd (fetch c u u (failed (''raw '' @ path @ ''@'' @ r)))
           (\<lambda>rs. ret (rs_body rs, trim_space (rs_gitsha rs))))"

record tree_entry =
  te_path :: string
  te_type :: string
  te_size :: int

definition tree_entry_of :: "string \<Rightarrow> json \<Rightarrow> tree_entry" where
  "tree_entry_of dirtype m =
     \<lparr>te_path = jstr (jget m ''path''),
      te_type = (if jstr (jget m ''type'') = dirtype then ''dir'' else ''file''),
      te_size = jnum (jget m ''size'')\<rparr>"

definition as_tree :: "json \<Rightarrow> string + (json list \<times> bool)" where
  "as_tree j = (case as_map j of Inl e \<Rightarrow> Inl e
     | Inr m \<Rightarrow> (case as_rows (jget m ''tree'') of Inl e \<Rightarrow> Inl e
         | Inr rows \<Rightarrow> (case jget m ''truncated'' of JBool b \<Rightarrow> Inr (rows, b) | JNull \<Rightarrow> Inr (rows, False)
             | _ \<Rightarrow> Inl unmarshal_error)))"

definition git_Tree ::
  "'s fclient \<Rightarrow> string \<Rightarrow> string \<Rightarrow> string \<Rightarrow> string \<Rightarrow> ('s, gerr, tree_entry list \<times> bool) act" where
  "git_Tree c org repo ref0 path =
     (let r = (if ref0 = [] then ''main'' else ref0) in
      if path \<noteq> [] then
        bnd (do_any c ''GET'' (repo_path org repo @ ''/contents/'' @ encPath path)
               [(''ref'', r), (''path'', path)] None)
          (\<lambda>raw. case raw of JArr arr \<Rightarrow> ret (map (tree_entry_of ''dir'') arr, False)
              | _ \<Rightarrow> throw (GOther (''not a directory: '' @ path)))
      else
        bnd (bnd (fg_do c ''GET'' (repo_path org repo @ ''/git/trees/'' @ seg r) [(''recursive'', ''true'')] None)
               (decode_with as_tree))
          (\<lambda>(rows, truncated). ret (map (tree_entry_of ''tree'') rows, truncated)))"

record commit_info =
  ci_sha :: string
  ci_message :: string
  ci_author :: string
  ci_date :: string

definition commit_of :: "json \<Rightarrow> commit_info" where
  "commit_of r = (let commit = jget r ''commit''; author = jget commit ''author'' in
     \<lparr>ci_sha = jstr (jget r ''sha''), ci_message = trim_space (jstr (jget commit ''message'')),
      ci_author = jstr (jget author ''name''), ci_date = jstr (jget author ''date'')\<rparr>)"

definition forgejoMaxPerPage :: nat where "forgejoMaxPerPage = 50"

text \<open>
  The page loop of \<^verbatim>\<open>Log\<close>: \<open>pages\<close> iterations are left, \<open>page\<close> is the number (from 1) of the
  next page.  The total is the one of the first page; an empty or short page ends the loop.
\<close>

definition log_query :: "string \<Rightarrow> string \<Rightarrow> nat \<Rightarrow> query" where
  "log_query r path page =
     (if r \<noteq> [] then [(''sha'', r)] else []) @ (if path \<noteq> [] then [(''path'', path)] else []) @
     [(''limit'', nat_str forgejoMaxPerPage), (''page'', nat_str page)]"

fun log_pages ::
  "(nat \<Rightarrow> ('s, gerr, int \<times> json list) act) \<Rightarrow> nat \<Rightarrow> nat \<Rightarrow> ('s, gerr, int \<times> json list) act" where
  "log_pages get page 0 = ret (0, [])"
| "log_pages get page (Suc pages) =
     bnd (get page) (\<lambda>(t, rows).
       if rows = [] then ret (t, [])
       else if length rows < forgejoMaxPerPage then ret (t, rows)
       else bnd (log_pages get (Suc page) pages) (\<lambda>(_, rest). ret (t, rows @ rest)))"

definition log_window :: "nat \<Rightarrow> nat \<Rightarrow> int \<Rightarrow> 'a list \<Rightarrow> 'a list \<times> bool" where
  "log_window limit offset count rows0 =
     (let skipInPage = offset mod forgejoMaxPerPage;
          rows1 = (if skipInPage \<ge> length rows0 then [] else drop skipInPage rows0);
          hasMore = (length rows1 > limit);
          rows = (if hasMore then take limit rows1 else rows1)
      in (rows, if count > 0 then int (offset + length rows) < count else hasMore))"

definition git_Log ::
  "'s fclient \<Rightarrow> string \<Rightarrow> string \<Rightarrow> string \<Rightarrow> string \<Rightarrow> int \<Rightarrow> int \<Rightarrow>
   ('s, gerr, commit_info list \<times> bool) act" where
  "git_Log c org repo r path limit0 offset0 =
     (let limit = (if limit0 \<le> 0 then 50 else nat limit0);
          offset = (if offset0 < 0 then 0 else nat offset0);
          need = offset mod forgejoMaxPerPage + limit;
          pages = (need + forgejoMaxPerPage - 1) div forgejoMaxPerPage
      in bnd (log_pages (\<lambda>page. do_count c ''GET'' (repo_path org repo @ ''/commits'') (log_query r path page))
                (offset div forgejoMaxPerPage + 1) pages)
           (\<lambda>(count, rows). case log_window limit offset count rows of
              (win, has_more) \<Rightarrow> ret (map commit_of win, has_more)))"

record commit_detail =
  cd_sha :: string
  cd_message :: string
  cd_author :: string
  cd_email :: string
  cd_date :: string
  cd_parents :: "string list"
  cd_url :: string

definition jarr :: "json \<Rightarrow> json list" where
  "jarr v = (case v of JArr xs \<Rightarrow> xs | _ \<Rightarrow> [])"

definition git_GetCommit :: "'s fclient \<Rightarrow> string \<Rightarrow> string \<Rightarrow> string \<Rightarrow> ('s, gerr, commit_detail) act" where
  "git_GetCommit c org repo sha =
     bnd (do_map c ''GET'' (repo_path org repo @ ''/git/commits/'' @ seg sha) [] None)
       (\<lambda>r. let commit = jget r ''commit''; author = jget commit ''author'' in
         ret \<lparr>cd_sha = jstr (jget r ''sha''), cd_message = trim_space (jstr (jget commit ''message'')),
              cd_author = jstr (jget author ''name''), cd_email = jstr (jget author ''email''),
              cd_date = jstr (jget author ''date''),
              cd_parents = filter (\<lambda>s. s \<noteq> []) (map (\<lambda>p. jstr (jget p ''sha'')) (jarr (jget r ''parents''))),
              cd_url = jstr (jget r ''html_url'')\<rparr>)"

definition git_CommitDiff :: "'s fclient \<Rightarrow> string \<Rightarrow> string \<Rightarrow> string \<Rightarrow> ('s, gerr, string) act" where
  "git_CommitDiff c org repo sha = rawText c (repo_path org repo @ ''/git/commits/'' @ seg sha @ ''.diff'')"

record tag_info = ti_name :: string  ti_sha :: string

definition git_Tags :: "'s fclient \<Rightarrow> string \<Rightarrow> string \<Rightarrow> ('s, gerr, tag_info list) act" where
  "git_Tags c org repo =
     bnd (do_rows c ''GET'' (repo_path org repo @ ''/tags'') [(''limit'', ''100'')] None)
       (\<lambda>rows. ret (map (\<lambda>r. \<lparr>ti_name = jstr (jget r ''name''),
                              ti_sha = jstr (jget (jget r ''commit'') ''sha'')\<rparr>) rows))"

subsection \<open>Push mirrors\<close>

record push_mirror =
  pm_name :: string
  pm_address :: string
  pm_interval :: string
  pm_sync :: bool
  pm_filter :: string
  pm_last_error :: string
  pm_last_update :: string
  pm_created :: string
  pm_key :: string

definition toPushMirror :: "json \<Rightarrow> push_mirror" where
  "toPushMirror raw =
     \<lparr>pm_name = jstr (jget raw ''remote_name''), pm_address = jstr (jget raw ''remote_address''),
      pm_interval = jstr (jget raw ''interval''), pm_sync = jbool (jget raw ''sync_on_commit''),
      pm_filter = jstr (jget raw ''branch_filter''), pm_last_error = jstr (jget raw ''last_error''),
      pm_last_update = jstr (jget raw ''last_update''), pm_created = jstr (jget raw ''created''),
      pm_key = jstr (jget raw ''public_key'')\<rparr>"

record mirror_opts =
  mo_address :: string
  mo_username :: string
  mo_password :: string
  mo_sync :: bool
  mo_interval :: string
  mo_filter :: string

definition opt_field :: "string \<Rightarrow> string \<Rightarrow> (string \<times> json) list" where
  "opt_field k v = (if v \<noteq> [] then [(k, JStr v)] else [])"

definition mirrors_path :: "string \<Rightarrow> string \<Rightarrow> string" where
  "mirrors_path org repo = repo_path org repo @ ''/push_mirrors''"

definition git_SetPushMirror :: "'s fclient \<Rightarrow> string \<Rightarrow> string \<Rightarrow> mirror_opts \<Rightarrow> ('s, gerr, push_mirror) act" where
  "git_SetPushMirror c org repo opt =
     bnd (do_map c ''POST'' (mirrors_path org repo) []
            (Some (JObj ([(''remote_address'', JStr (mo_address opt)), (''sync_on_commit'', JBool (mo_sync opt)),
                          (''use_ssh'', JBool False)] @
                         opt_field ''remote_username'' (mo_username opt) @
                         opt_field ''remote_password'' (mo_password opt) @
                         opt_field ''interval'' (mo_interval opt) @
                         opt_field ''branch_filter'' (mo_filter opt)))))
       (\<lambda>raw. ret (toPushMirror raw))"

definition git_ListPushMirrors :: "'s fclient \<Rightarrow> string \<Rightarrow> string \<Rightarrow> ('s, gerr, push_mirror list) act" where
  "git_ListPushMirrors c org repo =
     bnd (do_rows c ''GET'' (mirrors_path org repo) [] None) (\<lambda>rows. ret (map toPushMirror rows))"

definition git_DeletePushMirror :: "'s fclient \<Rightarrow> string \<Rightarrow> string \<Rightarrow> string \<Rightarrow> ('s, gerr, unit) act" where
  "git_DeletePushMirror c org repo name =
     do_unit c ''DELETE'' (mirrors_path org repo @ ''/'' @ seg name) [] None"

subsection \<open>Paging\<close>

lemma atoi_nat_str: "atoi (trim_space (nat_str n)) = int n"
proof -
  have sp: "\<not> is_space c" if "is_digit c" for c
    using that by (auto simp: is_space_def is_digit_def less_eq_char_def)
  have "trim_space (nat_str n) = nat_str n"
    by (rule trim_space_id) (auto simp: list_all_iff sp dest: nat_str_digits)
  moreover obtain c t where ct: "nat_str n = c # t" by (cases "nat_str n") auto
  moreover have "list_all is_digit (nat_str n)"
    by (auto simp: list_all_iff dest: nat_str_digits)
  moreover from this ct have "c \<noteq> CHR ''-''" "c \<noteq> CHR ''+''"
    by (auto simp: is_digit_def less_eq_char_def)
  ultimately show ?thesis
    using str_nat_str [of n] by (simp add: atoi_def)
qed

lemma log_pages_host:
  assumes "\<And>p s. 1 \<le> p \<Longrightarrow> get p s = (Ok (t, take 50 (drop (50 * (p - 1)) xs)), s)" and "1 \<le> page"
  shows "log_pages get page (Suc n) s = (Ok (t, take (50 * Suc n) (drop (50 * (page - 1)) xs)), s)"
  using assms(2)
proof (induction n arbitrary: page)
  case 0
  then show ?case by (auto simp: bnd_cases assms(1) [OF 0] act forgejoMaxPerPage_def)
next
  case (Suc n)
  let ?d = "drop (50 * (page - 1)) xs"
  have IH: "log_pages get (Suc page) (Suc n) s = (Ok (t, take (50 * Suc n) (drop 50 ?d)), s)"
    using Suc.IH [of "Suc page"] Suc.prems by (cases page) (simp_all add: add.commute)
  have split: "take (50 * Suc (Suc n)) ?d = take 50 ?d @ take (50 * Suc n) (drop 50 ?d)"
    using take_add [of 50 "50 * Suc n" ?d] by simp
  show ?case
    by (subst log_pages.simps, subst split)
       (auto simp: bnd_cases [of "get page"] assms(1) [OF Suc.prems] bnd_cases [of "log_pages get (Suc page) (Suc n)"]
         IH act forgejoMaxPerPage_def simp del: log_pages.simps split: if_splits)
qed

lemma log_window_host:
  fixes limit offset :: nat
  defines "pages \<equiv> (offset mod 50 + limit + 50 - 1) div 50"
  assumes "0 < limit"
  shows "log_window limit offset count (take (50 * pages) (drop (50 * (offset div 50)) xs)) =
     (take limit (drop offset xs),
      if count > 0 then int (offset + length (take limit (drop offset xs))) < count
      else limit < min (50 * pages - offset mod 50) (length xs - offset))"
proof -
  have pages: "offset mod 50 + limit \<le> 50 * pages"
    unfolding pages_def using assms(2) by linarith
  let ?r0 = "take (50 * pages) (drop (50 * (offset div 50)) xs)"
  have r1: "drop (offset mod 50) ?r0 = take (50 * pages - offset mod 50) (drop offset xs)"
    using mult_div_mod_eq [of 50 offset] by (simp add: drop_take add.commute)
  then have r1': "(if offset mod 50 \<ge> length ?r0 then [] else drop (offset mod 50) ?r0) =
      take (50 * pages - offset mod 50) (drop offset xs)"
    by (metis drop_all)
  have tk: "take limit (take (50 * pages - offset mod 50) (drop offset xs)) = take limit (drop offset xs)"
    using pages by (simp add: min_def)
  have le: "take (50 * pages - offset mod 50) (drop offset xs) = take limit (drop offset xs)"
    if "\<not> limit < length (take (50 * pages - offset mod 50) (drop offset xs))"
    using that pages tk by (metis leI take_all)
  show ?thesis
    unfolding log_window_def Let_def forgejoMaxPerPage_def r1'
    using tk le by auto
qed

text \<open>
  A host that serves the commit list \<open>xs\<close> as Forgejo documents it: pages of at most 50 rows,
  numbered from 1, and (\<open>counted\<close>) the length of the list in \<^verbatim>\<open>X-Total-Count\<close>.
\<close>

definition is_obj :: "json \<Rightarrow> bool" where
  "is_obj j = (case j of JObj _ \<Rightarrow> True | _ \<Rightarrow> False)"

definition commits_host ::
  "'s fclient \<Rightarrow> string \<Rightarrow> string \<Rightarrow> string \<Rightarrow> string \<Rightarrow> bool \<Rightarrow> json list \<Rightarrow> bool" where
  "commits_host c org repo r path counted xs =
     (list_all is_obj xs \<and>
      (\<forall>page s. 1 \<le> page \<longrightarrow> (\<exists>rs.
         fc_http c \<lparr>rq_method = ''GET'',
                    rq_url = full_url c (repo_path org repo @ ''/commits'') (log_query r path page),
                    rq_auth = auth_of c, rq_body = None\<rparr> s = (Inr rs, s) \<and>
         rs_status rs = 200 \<and> rs_total rs = (if counted then nat_str (length xs) else []) \<and>
         rs_json rs = Inr (JArr (take 50 (drop (50 * (page - 1)) xs))))))"

lemma all_right_objs: "list_all is_obj xs \<Longrightarrow> all_right (map as_map xs) = Inr xs"
  by (induction xs) (auto simp: is_obj_def as_map_def split: json.splits)

lemma do_count_host:
  assumes "commits_host c org repo r path counted xs" "1 \<le> page"
  shows "do_count c ''GET'' (repo_path org repo @ ''/commits'') (log_query r path page) s =
     (Ok (if counted then int (length xs) else 0, take 50 (drop (50 * (page - 1)) xs)), s)"
proof -
  from assms obtain rs where rs:
    "fc_http c \<lparr>rq_method = ''GET'', rq_url = full_url c (repo_path org repo @ ''/commits'') (log_query r path page),
       rq_auth = auth_of c, rq_body = None\<rparr> s = (Inr rs, s)"
    "rs_status rs = 200" "rs_total rs = (if counted then nat_str (length xs) else [])"
    "rs_json rs = Inr (JArr (take 50 (drop (50 * (page - 1)) xs)))"
    unfolding commits_host_def by blast
  have "list_all is_obj (take 50 (drop (50 * (page - 1)) xs))"
    using assms(1) by (auto simp: commits_host_def list_all_iff dest!: in_set_takeD in_set_dropD)
  with rs show ?thesis
    by (simp add: do_count_def bnd_cases map_err_cases of_sum_def ok_status_def decode_with_def
        as_rows_def all_right_objs act atoi_nat_str)
qed

lemma git_Log_host:
  fixes limit offset :: nat
  assumes host: "commits_host c org repo r path counted xs" and "0 < limit"
  shows "git_Log c org repo r path (int limit) (int offset) s =
     (Ok (map commit_of (take limit (drop offset xs)),
          if counted then offset + limit < length xs
          else limit < min (50 * ((offset mod 50 + limit + 49) div 50) - offset mod 50)
                           (length xs - offset)), s)"
proof -
  let ?pages = "(offset mod 50 + limit + 50 - 1) div 50"
  let ?get = "\<lambda>page. do_count c ''GET'' (repo_path org repo @ ''/commits'') (log_query r path page)"
  let ?t = "if counted then int (length xs) else 0"
  obtain n where n: "?pages = Suc n"
    using assms(2) by (cases ?pages) (auto simp: div_eq_0_iff)
  have pages: "log_pages ?get (offset div 50 + 1) ?pages s =
      (Ok (?t, take (50 * ?pages) (drop (50 * (offset div 50)) xs)), s)"
    unfolding n by (subst log_pages_host [where t = ?t and xs = xs])
      (simp_all add: do_count_host [OF host])
  have more_iff: "int (offset + length (take limit (drop offset xs))) < int (length xs) \<longleftrightarrow>
      offset + limit < length xs"
    using assms(2) by auto
  have eq: "git_Log c org repo r path (int limit) (int offset) =
      bnd (log_pages ?get (offset div 50 + 1) ?pages)
        (\<lambda>(count, rows). case log_window limit offset count rows of
            (win, has_more) \<Rightarrow> ret (map commit_of win, has_more))"
    using assms(2) by (simp add: git_Log_def Let_def forgejoMaxPerPage_def)
  show ?thesis
    unfolding eq bnd_cases pages
    using assms(2) log_window_host [of limit offset ?t xs] more_iff
    by (auto simp: act ac_simps)
qed

end
