(* ===== verification/RuntimeProfiles.thy ===== *)
theory RuntimeProfiles
  imports Prelude
begin

text \<open>
  Package \<^verbatim>\<open>internal/runtimeprofiles\<close>: the caller picks KVM on or off and a GPU count, the
  deployment's settings decide the pod-level capabilities.  Also the environment that points
  package managers at the in-cluster registry, and the package's own integer printer.
\<close>

record security_context =
  sc_run_as :: "int option"
  sc_escalation :: "bool option"
  sc_privileged :: "bool option"
  sc_caps_add :: "string list"
  sc_apparmor :: string
  sc_seccomp :: string

record resource_reqs =
  rr_requests :: "string gomap"
  rr_limits :: "string gomap"

record settings =
  KVMDevice :: string
  GPUDevice :: string
  KVMNeedsTun :: bool
  KVMSecurityContext :: "security_context option"
  GPURuntimeClass :: string
  KVMRuntimeClass :: string
  PackageUpstream :: string

definition DefaultSettings :: settings where
  "DefaultSettings =
    \<lparr>KVMDevice = ''squat.ai/kvm'', GPUDevice = ''nvidia.com/gpu'', KVMNeedsTun = True,
     KVMSecurityContext = Some
       \<lparr>sc_run_as = Some 0, sc_escalation = Some True, sc_privileged = Some False,
        sc_caps_add = [''NET_ADMIN'', ''NET_RAW'', ''SYS_NICE'', ''MKNOD'', ''CHOWN'', ''SETUID'',
                       ''SETGID'', ''DAC_OVERRIDE'', ''FOWNER'', ''KILL''],
        sc_apparmor = ''Unconfined'', sc_seccomp = ''Unconfined''\<rparr>,
     GPURuntimeClass = ''nvidia'', KVMRuntimeClass = [], PackageUpstream = []\<rparr>"

text \<open>\<^verbatim>\<open>Load\<close>: the override file is a parameter: unset or absent, unreadable, not valid
  JSON, or the settings it holds.\<close>

datatype override = NoFile | ReadError string | BadJson string | Overrides settings

definition or_keep :: "string \<Rightarrow> string \<Rightarrow> string" where
  "or_keep new old = (if new \<noteq> [] then new else old)"

definition Load :: "override \<Rightarrow> settings \<times> string option" where
  "Load f = (let s = DefaultSettings in case f of
      NoFile \<Rightarrow> (s, None) | ReadError e \<Rightarrow> (s, Some e) | BadJson e \<Rightarrow> (s, Some e)
    | Overrides ov \<Rightarrow>
        (\<lparr>KVMDevice = or_keep (KVMDevice ov) (KVMDevice s),
          GPUDevice = or_keep (GPUDevice ov) (GPUDevice s),
          KVMNeedsTun = (KVMNeedsTun ov \<or> KVMNeedsTun s),
          KVMSecurityContext = (case KVMSecurityContext ov of None \<Rightarrow> KVMSecurityContext s | x \<Rightarrow> x),
          GPURuntimeClass = or_keep (GPURuntimeClass ov) (GPURuntimeClass s),
          KVMRuntimeClass = or_keep (KVMRuntimeClass ov) (KVMRuntimeClass s),
          PackageUpstream = (if PackageUpstream ov \<noteq> []
             then trim_right_when (\<lambda>c. c = CHR ''/'') (PackageUpstream ov) else PackageUpstream s)\<rparr>, None))"

subsection \<open>The integer printer\<close>

text \<open>\<^verbatim>\<open>itoa\<close> fills a 20-byte buffer from the end.  \<^verbatim>\<open>n = -n\<close> wraps at the least 64-bit
  integer, on which the digit loop then does nothing.\<close>

definition neg64 :: "int \<Rightarrow> int" where
  "neg64 n = (if n = - (2 ^ 63) then n else - n)"

function itoa_loop :: "int \<Rightarrow> string \<Rightarrow> string" where
  "itoa_loop n buf = (if 0 < n then itoa_loop (n div 10) (digit_char (nat (n mod 10)) # buf) else buf)"
  by auto
termination by (relation "measure (\<lambda>(n, _). nat n)") auto

declare itoa_loop.simps [simp del]

definition itoa :: "int \<Rightarrow> string" where
  "itoa n = (if n = 0 then ''0'' else
     let neg = n < 0; m = (if neg then neg64 n else n); b = itoa_loop m []
     in if neg then CHR ''-'' # b else b)"

lemma itoa_loop_nat_str: "0 < n \<Longrightarrow> itoa_loop (int n) buf = nat_str n @ buf"
proof (induction n arbitrary: buf rule: nat_str_induct)
  case (1 n)
  have loop: "itoa_loop (int n) buf =
      itoa_loop (int (n div 10)) (digit_char (n mod 10) # buf)"
    using 1(2) by (subst itoa_loop.simps) (simp add: zdiv_int nat_mod_distrib)
  show ?case
  proof (cases "n < 10")
    case True
    then show ?thesis
      unfolding loop by (subst nat_str_rec) (simp add: itoa_loop.simps)
  next
    case False
    then have "0 < n div 10" by (simp add: div_greater_zero_iff)
    then show ?thesis
      unfolding loop using False 1(1) [OF False] by (subst nat_str_rec) simp
  qed
qed

lemma itoa_int_str:
  assumes "- (2 ^ 63) < n"
  shows "itoa n = int_str n"
proof (cases n "0 :: int" rule: linorder_cases)
  case less
  then show ?thesis
    using assms itoa_loop_nat_str [of "nat (- n)" "[]"]
    by (simp add: itoa_def int_str_nat neg64_def Let_def)
next
  case equal
  then show ?thesis by (simp add: itoa_def int_str_nat nat_str_rec digit_char_0)
next
  case greater
  then show ?thesis
    using itoa_loop_nat_str [of "nat n" "[]"]
    by (simp add: itoa_def int_str_nat Let_def)
qed

subsection \<open>Rendering\<close>

record rendered =
  rd_tun :: bool
  rd_devices :: "string gomap"
  rd_nodes :: "string gomap"
  rd_pull_secrets :: "string list"
  rd_env :: "string gomap"
  rd_security :: "security_context option"
  rd_resources :: "resource_reqs option"
  rd_class :: string

definition no_runtime :: rendered where
  "no_runtime = \<lparr>rd_tun = False, rd_devices = [], rd_nodes = [], rd_pull_secrets = [], rd_env = [],
     rd_security = None, rd_resources = None, rd_class = []\<rparr>"

definition Render :: "settings \<Rightarrow> bool \<Rightarrow> int \<Rightarrow> rendered" where
  "Render s kvm gpuCount =
    (let r = no_runtime;
         r = (if gpuCount > 0
              then r\<lparr>rd_devices := [(GPUDevice s, itoa gpuCount)], rd_class := GPURuntimeClass s\<rparr> else r)
     in if kvm
        then r\<lparr>rd_tun := KVMNeedsTun s, rd_devices := mput (KVMDevice s) ''1'' (rd_devices r),
               rd_class := (if rd_class r = [] then KVMRuntimeClass s else rd_class r),
               rd_security := map_option (\<lambda>c. c\<lparr>sc_privileged := Some False\<rparr>) (KVMSecurityContext s)\<rparr>
        else r)"

subsection \<open>Package sources\<close>

definition after_scheme :: "string \<Rightarrow> string" where
  "after_scheme h = (case find (\<lambda>i. has_prefix (drop i h) ''://'') [0..<length h] of
      Some i \<Rightarrow> drop (i + 3) h | None \<Rightarrow> h)"

definition package_host :: "string \<Rightarrow> string" where
  "package_host base = takeWhile (\<lambda>c. c \<noteq> CHR ''/'' \<and> c \<noteq> CHR '':'') (after_scheme base)"

definition PackageEnv :: "string \<Rightarrow> string gomap" where
  "PackageEnv base0 =
    (let base = trim_right_when (\<lambda>c. c = CHR ''/'') (trim_space base0) in
     if base = [] then [] else
     [(''PIP_INDEX_URL'', base @ ''/artifacts/pypi/simple/''),
      (''PIP_TRUSTED_HOST'', package_host base),
      (''PIP_DISABLE_PIP_VERSION_CHECK'', ''1''),
      (''NPM_CONFIG_REGISTRY'', base @ ''/artifacts/npm/''),
      (''NPM_CONFIG_STRICT_SSL'', ''false''),
      (''GOPROXY'', base @ ''/artifacts/go''),
      (''GOSUMDB'', ''off''),
      (''GONOSUMDB'', ''*''),
      (''CARGO_REGISTRIES_ARTIFACT_INDEX'', base @ ''/artifacts/cargo/index/''),
      (''PUB_HOSTED_URL'', base @ ''/artifacts/pub''),
      (''HEX_MIRROR'', base @ ''/artifacts/hex/''),
      (''HF_ENDPOINT'', base @ ''/artifacts/huggingface''),
      (''R_LIBS_USER'', ''/root/R/libs'')])"

lemma distinct_PackageEnv: "distinct (map fst (PackageEnv b))"
  by (simp add: PackageEnv_def Let_def)

end
