(* ===== verification/Kube.thy ===== *)
theory Kube
  imports Effects RuntimeProfiles
begin

text \<open>
  The part of the Kubernetes API the sandbox manager uses.  The API server is a parameter: for
  each kind of object a record \<open>kapi\<close> of calls on the server's state.  \<open>kind_ok\<close> states
  the documented behaviour of these calls relative to a view of the live objects (those that
  exist and are not marked for deletion): a create never replaces a live object, a failed call
  changes nothing, a delete removes what it names.
\<close>

datatype kerr = KNotFound string | KAlreadyExists string | KConflict string | KOther string

fun kerr_text :: "kerr \<Rightarrow> string" where
  "kerr_text (KNotFound m) = m"
| "kerr_text (KAlreadyExists m) = m"
| "kerr_text (KConflict m) = m"
| "kerr_text (KOther m) = m"

definition IsNotFound :: "kerr \<Rightarrow> bool" where
  "IsNotFound e = (case e of KNotFound _ \<Rightarrow> True | _ \<Rightarrow> False)"
definition IsAlreadyExists :: "kerr \<Rightarrow> bool" where
  "IsAlreadyExists e = (case e of KAlreadyExists _ \<Rightarrow> True | _ \<Rightarrow> False)"

record ('o, 's) kapi =
  k_create :: "string \<Rightarrow> 'o \<Rightarrow> 's \<Rightarrow> (kerr + 'o) \<times> 's"
  k_get :: "string \<Rightarrow> string \<Rightarrow> 's \<Rightarrow> (kerr + 'o) \<times> 's"
  k_delete :: "string \<Rightarrow> string \<Rightarrow> 's \<Rightarrow> (kerr + unit) \<times> 's"
  k_list :: "string \<Rightarrow> (string \<times> string) list \<Rightarrow> 's \<Rightarrow> (kerr + 'o list) \<times> 's"

subsection \<open>Objects\<close>

record kmeta =
  om_name :: string
  om_labels :: "string gomap"
  om_annotations :: "string gomap"

record secret =
  sec_meta :: kmeta
  sec_data :: "string gomap"

record env_var = ev_name :: string  ev_value :: string

datatype vol_source = EmptyDir | PVCSource string bool | HostPath string string

record volume = vol_name :: string  vol_src :: vol_source

record vmount =
  vm_name :: string
  vm_path :: string
  vm_sub :: string
  vm_ro :: bool

record kcontainer =
  ct_name :: string
  ct_image :: string
  ct_command :: "string list"
  ct_env :: "env_var list"
  ct_ports :: "(string \<times> int) list"
  ct_resources :: resource_reqs
  ct_security :: "security_context option"
  ct_pull :: string
  ct_mounts :: "vmount list"

record pod_spec =
  ps_restart :: string
  ps_containers :: "kcontainer list"
  ps_init :: "kcontainer list"
  ps_volumes :: "volume list"
  ps_class :: "string option"
  ps_nodes :: "string gomap"
  ps_pull_secrets :: "string list"

record cstatus =
  cs_ready :: bool
  cs_restarts :: int
  cs_waiting :: "(string \<times> string) option"
  cs_terminated :: "(string \<times> string) option"

record pod =
  pod_meta :: kmeta
  pod_spec :: pod_spec
  pod_phase :: string
  pod_ip :: string
  pod_containers :: "cstatus list"
  pod_created :: int

record ksvc =
  sv_meta :: kmeta
  sv_selector :: "string gomap"
  sv_ports :: "(string \<times> int \<times> int) list"

subsection \<open>The documented behaviour\<close>

type_synonym ('v, 'o) getter = "'v \<Rightarrow> string \<Rightarrow> 'o option"
type_synonym ('v, 'o) setter = "string \<Rightarrow> 'o option \<Rightarrow> 'v \<Rightarrow> 'v"

definition kind_ok ::
  "('s \<Rightarrow> 'v) \<Rightarrow> ('v, 'o) getter \<Rightarrow> ('v, 'o) setter \<Rightarrow> ('o \<Rightarrow> string) \<Rightarrow> ('o \<Rightarrow> 'o \<Rightarrow> bool) \<Rightarrow>
   string \<Rightarrow> ('o, 's) kapi \<Rightarrow> bool" where
  "kind_ok view rd wr nm stored ns api =
    ((\<forall>ob s. case k_create api ns ob s of
        (Inr _, s') \<Rightarrow> rd (view s) (nm ob) = None \<and>
                       (\<exists>ob'. stored ob ob' \<and> view s' = wr (nm ob) (Some ob') (view s))
      | (Inl _, s') \<Rightarrow> view s' = view s) \<and>
     (\<forall>n s. case k_get api ns n s of
        (Inr ob, s') \<Rightarrow> view s' = view s \<and> (\<forall>ob'. rd (view s) n = Some ob' \<longrightarrow> ob = ob')
      | (Inl e, s') \<Rightarrow> view s' = view s \<and> (IsNotFound e \<longrightarrow> rd (view s) n = None)) \<and>
     (\<forall>n s. case k_delete api ns n s of
        (Inr _, s') \<Rightarrow> view s' = wr n None (view s)
      | (Inl e, s') \<Rightarrow> view s' = view s \<and> (IsNotFound e \<longrightarrow> rd (view s) n = None)) \<and>
     (\<forall>sel s. view (snd (k_list api ns sel s)) = view s))"

definition deletes_succeed ::
  "('s \<Rightarrow> 'v) \<Rightarrow> ('v, 'o) getter \<Rightarrow> string \<Rightarrow> ('o, 's) kapi \<Rightarrow> bool" where
  "deletes_succeed view rd ns api =
     (\<forall>n s. rd (view s) n \<noteq> None \<longrightarrow> (\<exists>s'. k_delete api ns n s = (Inr (), s')))"

lemma create_Inr:
  "kind_ok view rd wr nm stored ns api \<Longrightarrow> k_create api ns ob s = (Inr x, s') \<Longrightarrow>
   rd (view s) (nm ob) = None \<and> (\<exists>ob'. stored ob ob' \<and> view s' = wr (nm ob) (Some ob') (view s))"
  unfolding kind_ok_def by (drule conjunct1, drule spec [of _ ob], drule spec [of _ s]) simp

lemma create_Inl:
  "kind_ok view rd wr nm stored ns api \<Longrightarrow> k_create api ns ob s = (Inl e, s') \<Longrightarrow> view s' = view s"
  unfolding kind_ok_def by (drule conjunct1, drule spec [of _ ob], drule spec [of _ s]) simp

lemma get_view:
  "kind_ok view rd wr nm stored ns api \<Longrightarrow> k_get api ns n s = (r, s') \<Longrightarrow> view s' = view s"
  unfolding kind_ok_def
  by (drule conjunct2, drule conjunct1, drule spec [of _ n], drule spec [of _ s]) (simp split: sum.splits)

lemma get_live:
  "kind_ok view rd wr nm stored ns api \<Longrightarrow> k_get api ns n s = (Inr ob, s') \<Longrightarrow>
   rd (view s) n = Some ob' \<Longrightarrow> ob = ob'"
  unfolding kind_ok_def
  by (drule conjunct2, drule conjunct1, drule spec [of _ n], drule spec [of _ s]) simp

lemma delete_cases:
  "kind_ok view rd wr nm stored ns api \<Longrightarrow> k_delete api ns n s = (r, s') \<Longrightarrow>
   (case r of Inr _ \<Rightarrow> view s' = wr n None (view s)
    | Inl e \<Rightarrow> view s' = view s \<and> (IsNotFound e \<longrightarrow> rd (view s) n = None))"
  unfolding kind_ok_def
  by (drule conjunct2, drule conjunct2, drule conjunct1, drule spec [of _ n], drule spec [of _ s])
     (simp split: sum.splits)

lemma list_view:
  "kind_ok view rd wr nm stored ns api \<Longrightarrow> k_list api ns sel s = (r, s') \<Longrightarrow> view s' = view s"
  unfolding kind_ok_def by (metis snd_conv)

end
