(* ===== verification/Roles.thy ===== *)
theory Roles
  imports Prelude
begin

text \<open>
  Package \<^verbatim>\<open>internal/roles\<close>: session roles, their tool whitelists, and the naming of
  sessions \<^verbatim>\<open>org:repo:branch\<close>.  The regular expressions \<^verbatim>\<open>componentRe\<close> and
  \<^verbatim>\<open>dnsLabelRe\<close> are written as the byte conditions they denote.
\<close>

subsection \<open>Roles and presets\<close>

text \<open>\<^verbatim>\<open>Role\<close> is a Go string type; a request may carry any string in it.\<close>

type_synonym role = string

definition Admin :: role where "Admin = ''admin''"
definition Developer :: role where "Developer = ''developer''"
definition Explorer :: role where "Explorer = ''explorer''"

definition MainBranch :: string where "MainBranch = ''main''"

definition PresetFor :: "role \<Rightarrow> string" where "PresetFor r = r"

subsection \<open>Tool whitelists\<close>

definition generalTools :: "string list" where
  "generalTools =
    [''todo-write'', ''time-wait'', ''history-search'', ''history-range'', ''web-fetch'',
     ''brave-search'', ''file-info'', ''image-read'']"

definition sandboxBase :: "string list" where
  "sandboxBase =
    [''sandbox-create'', ''sandbox-list'', ''sandbox-status'', ''sandbox-delete'',
     ''list-oci-images'',
     ''sandbox-info'', ''sandbox-exec'',
     ''sandbox-job-start'', ''sandbox-job-output'', ''sandbox-job-wait'',
     ''sandbox-job-kill'', ''sandbox-job-stdin'', ''sandbox-job-list'',
     ''sandbox-file-read'', ''sandbox-file-patch'', ''sandbox-file-ls'',
     ''sandbox-file-download'', ''sandbox-file-upload'', ''sandbox-checkout'']"

definition browserTools :: "string list" where
  "browserTools =
    [''browser-create-context'', ''browser-close-context'',
     ''browser-navigate'', ''browser-navigate-back'',
     ''browser-snapshot'', ''browser-find'', ''browser-wait-for'', ''browser-resize'',
     ''browser-tabs'',
     ''browser-click'', ''browser-type'', ''browser-hover'',
     ''browser-select-option'', ''browser-press-key'', ''browser-drag'',
     ''browser-fill-form'', ''browser-handle-dialog'', ''browser-evaluate'',
     ''browser-run-code-unsafe'',
     ''browser-console-messages'', ''browser-network-requests'',
     ''browser-network-request'',
     ''browser-take-screenshot'', ''browser-pdf-save'',
     ''browser-file-upload'', ''browser-drop'',
     ''browser-storage-state'', ''browser-set-storage-state'']"

definition computerTools :: "string list" where
  "computerTools =
    [''sandbox-computer-apps'', ''sandbox-computer-snapshot'',
     ''sandbox-computer-find'', ''sandbox-computer-action'',
     ''sandbox-computer-click'', ''sandbox-computer-type'',
     ''sandbox-computer-key'', ''sandbox-computer-scroll'',
     ''sandbox-computer-drag'', ''sandbox-computer-screenshot'']"

definition repoReadTools :: "string list" where
  "repoReadTools =
    [''repo-explore'', ''repo-file-read'', ''repo-file-list'', ''repo-log'', ''repo-show'',
     ''repo-diff'', ''repo-branches'', ''repo-tags'']"

definition repoDevTools :: "string list" where
  "repoDevTools =
    [''sandbox-submit-mr'', ''repo-mr-list'', ''repo-mr-comment'', ''repo-mr-merge'', ''repo-mr-close'',
     ''repo-mail-send'',
     ''repo-tag-create'', ''repo-build-image'', ''repo-build-status'',
     ''service-create'', ''service-update'', ''service-deploy'', ''service-list'', ''service-delete'',
     ''service-logs'', ''service-rollback'',
     ''config-put'', ''config-list'', ''config-delete'', ''secret-put'', ''secret-list'', ''secret-delete'',
     ''helm-deploy'', ''helm-list'', ''helm-history'', ''helm-rollback'', ''helm-uninstall'',
     ''helm-objects'', ''helm-object-logs'']"

definition adminTools :: "string list" where
  "adminTools =
    [''repo-create-org'', ''repo-create-repo'', ''repo-import'', ''repo-remove'',
     ''repo-set-push-mirror'', ''repo-list-push-mirrors'', ''repo-delete-push-mirror'',
     ''oci-import'',
     ''service-create'', ''service-update'', ''service-deploy'', ''service-list'', ''service-delete'',
     ''service-logs'', ''service-rollback'',
     ''pvc-create'', ''pvc-list'', ''pvc-delete'',
     ''config-put'', ''config-list'', ''config-delete'', ''secret-put'', ''secret-list'', ''secret-delete'',
     ''helm-deploy'', ''helm-list'', ''helm-history'', ''helm-rollback'', ''helm-uninstall'',
     ''helm-objects'', ''helm-object-logs'']"

definition ToolsFor :: "role \<Rightarrow> string list" where
  "ToolsFor r =
    (if r = Admin then
       concat [generalTools, repoReadTools, adminTools, sandboxBase, browserTools, computerTools]
     else if r = Developer then
       concat [generalTools, repoReadTools, repoDevTools, sandboxBase, browserTools, computerTools,
               [''pvc-create'', ''pvc-list'', ''pvc-delete'']]
     else if r = Explorer then
       concat [generalTools, repoReadTools, sandboxBase, browserTools, computerTools,
               [''service-list'', ''service-logs'', ''pvc-create'', ''pvc-list'', ''pvc-delete'']]
     else concat [generalTools, repoReadTools])"

definition CanCreateRepo :: "role \<Rightarrow> bool" where "CanCreateRepo r = (r = Admin)"

definition ValidRole :: "string \<Rightarrow> bool" where
  "ValidRole s = (s = Admin \<or> s = Developer \<or> s = Explorer)"

definition RoleForBranch :: "string \<Rightarrow> role" where "RoleForBranch branch = Developer"

subsection \<open>Names\<close>

text \<open>\<^verbatim>\<open>^[a-z0-9]([-a-z0-9]{0,61}[a-z0-9])?$\<close>\<close>

definition dns_edge :: "char \<Rightarrow> bool" where
  "dns_edge c = (is_lower c \<or> is_digit c)"

definition ValidServiceName :: "string \<Rightarrow> bool" where
  "ValidServiceName s =
    (s \<noteq> [] \<and> length s \<le> 63 \<and> dns_edge (hd s) \<and> dns_edge (last s) \<and>
     list_all (\<lambda>c. dns_edge c \<or> c = CHR ''-'') s)"

text \<open>\<^verbatim>\<open>^[A-Za-z0-9][A-Za-z0-9._/-]{0,127}$\<close>\<close>

definition component_char :: "char \<Rightarrow> bool" where
  "component_char c = (is_alnum c \<or> c \<in> {CHR ''.'', CHR ''_'', CHR ''/'', CHR ''-''})"

definition matches_componentRe :: "string \<Rightarrow> bool" where
  "matches_componentRe s =
    (case s of [] \<Rightarrow> False
     | c # t \<Rightarrow> is_alnum c \<and> length t \<le> 127 \<and> list_all component_char t)"

definition ValidComponent :: "string \<Rightarrow> bool" where
  "ValidComponent s =
    (if \<not> matches_componentRe s then False
     else if contains s '':'' \<or> contains s ''..'' then False
     else if has_prefix s ''/'' \<or> has_suffix s ''/'' \<or> contains s ''//'' then False
     else if has_suffix s ''.'' \<or> has_suffix s ''.lock'' then False
     else True)"

definition ParseSession :: "string \<Rightarrow> (string \<times> string \<times> string) option" where
  "ParseSession name =
    (let parts = split_at CHR '':'' name in
     if length parts \<noteq> 3 then None
     else if \<not> list_all ValidComponent parts then None
     else Some (parts ! 0, parts ! 1, parts ! 2))"

definition SessionName :: "string \<Rightarrow> string \<Rightarrow> string \<Rightarrow> string" where
  "SessionName org repo branch = org @ '':'' @ repo @ '':'' @ branch"

subsection \<open>Lemmas\<close>

lemma ValidComponent_no_colon: "ValidComponent s \<Longrightarrow> CHR '':'' \<notin> set s"
  by (auto simp: ValidComponent_def contains_char split: if_splits)

lemma ValidComponent_nonempty: "ValidComponent s \<Longrightarrow> s \<noteq> []"
  by (auto simp: ValidComponent_def matches_componentRe_def split: if_splits)

lemma split_SessionName:
  assumes "ValidComponent org" "ValidComponent repo" "ValidComponent branch"
  shows "split_at CHR '':'' (SessionName org repo branch) = [org, repo, branch]"
  using assms [THEN ValidComponent_no_colon]
  by (simp add: SessionName_def split_at_append split_at_no_sep)

lemma ParseSession_SessionName:
  assumes "ValidComponent org" "ValidComponent repo" "ValidComponent branch"
  shows "ParseSession (SessionName org repo branch) = Some (org, repo, branch)"
  using assms by (simp add: ParseSession_def split_SessionName Let_def)

lemma ParseSession_SomeD:
  assumes "ParseSession name = Some (org, repo, branch)"
  shows "name = SessionName org repo branch \<and> ValidComponent org \<and> ValidComponent repo \<and>
         ValidComponent branch"
proof -
  let ?p = "split_at CHR '':'' name"
  from assms have len: "length ?p = 3" and v: "list_all ValidComponent ?p"
    and o: "?p ! 0 = org" "?p ! 1 = repo" "?p ! 2 = branch"
    by (auto simp: ParseSession_def Let_def split: if_splits)
  from len o have p: "?p = [org, repo, branch]"
    by (auto simp: numeral_3_eq_3 length_Suc_conv)
  then have "name = join [CHR '':''] [org, repo, branch]"
    by (metis join_split_at)
  with v p show ?thesis by (simp add: SessionName_def)
qed

lemma ParseSession_component_None: "ValidComponent s \<Longrightarrow> ParseSession s = None"
  by (simp add: ParseSession_def split_at_no_sep ValidComponent_no_colon Let_def)

lemma SessionName_inject:
  assumes "ValidComponent o1" "ValidComponent r1" "ValidComponent b1"
    and "ValidComponent o2" "ValidComponent r2" "ValidComponent b2"
    and "SessionName o1 r1 b1 = SessionName o2 r2 b2"
  shows "o1 = o2 \<and> r1 = r2 \<and> b1 = b2"
  using assms ParseSession_SessionName by (metis option.inject prod.inject)

text \<open>The repository prefix of a session name, as \<^verbatim>\<open>DeleteRepo\<close> builds it.\<close>

lemma has_prefix_SessionName_iff:
  assumes "ValidComponent o1" "ValidComponent r1" "ValidComponent o2" "ValidComponent r2"
  shows "has_prefix (SessionName o2 r2 b) (o1 @ '':'' @ r1 @ '':'') \<longleftrightarrow> o1 = o2 \<and> r1 = r2"
proof
  assume "has_prefix (SessionName o2 r2 b) (o1 @ '':'' @ r1 @ '':'')"
  then obtain t where "SessionName o2 r2 b = SessionName o1 r1 t"
    by (auto simp: has_prefix_iff SessionName_def)
  then have "split_at CHR '':'' (SessionName o2 r2 b) = split_at CHR '':'' (SessionName o1 r1 t)"
    by simp
  then show "o1 = o2 \<and> r1 = r2"
    using assms [THEN ValidComponent_no_colon]
    by (simp add: SessionName_def split_at_append)
next
  assume "o1 = o2 \<and> r1 = r2"
  then show "has_prefix (SessionName o2 r2 b) (o1 @ '':'' @ r1 @ '':'')"
    by (simp add: SessionName_def has_prefix_iff)
qed

end
