(* ===== verification/SandboxMgr.thy ===== *)
theory SandboxMgr
  imports Kube Roles
begin

text \<open>
  Package \<^verbatim>\<open>internal/sandboxmgr\<close>: a sandbox is a Secret, a Pod and a Service of one name in
  one namespace.  The Kubernetes API, the random source, the clock, the dialer and the quantity
  parser \<^verbatim>\<open>resource.MustParse\<close> are parameters of the client.
\<close>

definition LabelManaged :: string where "LabelManaged = ''worker-manager/sandbox''"
definition LabelName :: string where "LabelName = ''worker-manager/name''"
definition AnnoImage :: string where "AnnoImage = ''worker-manager/image''"
definition AnnoCreator :: string where "AnnoCreator = ''worker-manager/creator''"
definition AnnoSession :: string where "AnnoSession = ''worker-manager/session''"
definition WorkerPort :: int where "WorkerPort = 48080"
definition ServicePort :: int where "ServicePort = 80"
definition GoldenDiskCachePath :: string where "GoldenDiskCachePath = ''/storage/.cache''"

datatype sbx_err = ErrExists string | SbxErr string

fun sbx_text :: "sbx_err \<Rightarrow> string" where
  "sbx_text (ErrExists n) = ''sandbox already exists: '' @ n"
| "sbx_text (SbxErr m) = m"

record sandbox =
  sb_name :: string
  sb_image :: string
  sb_phase :: string
  sb_ready :: bool
  sb_url :: string
  sb_creator :: string
  sb_session :: string
  sb_created :: int
  sb_restarts :: int
  sb_message :: string

record vol_mount =
  v_pvc :: string
  v_path :: string
  v_ro :: bool
  v_sub :: string

record boot_mount =
  bm_name :: string
  bm_path :: string
  bm_writable :: bool
  bm_file :: bool

record bootstrap =
  bt_image :: string
  bt_script :: string
  bt_mounts :: "boot_mount list"

record spec =
  sp_name :: string
  sp_image :: string
  sp_cpu :: string
  sp_memory :: string
  sp_env :: "string gomap"
  sp_creator :: string
  sp_session :: string
  sp_runtime :: rendered
  sp_bootstrap :: "bootstrap option"
  sp_golden :: string
  sp_volumes :: "vol_mount list"

record 's sbx_client =
  sc_secrets :: "(secret, 's) kapi"
  sc_pods :: "(pod, 's) kapi"
  sc_services :: "(ksvc, 's) kapi"
  sc_ns :: string
  sc_cpu_req :: string
  sc_cpu_lim :: string
  sc_mem_req :: string
  sc_mem_lim :: string
  sc_restart :: string
  sc_sha256 :: "string \<Rightarrow> string"
  sc_quantity :: "string \<Rightarrow> bool"
  sc_rand :: "'s \<Rightarrow> (string + string) \<times> 's"
  sc_now :: "'s \<Rightarrow> int \<times> 's"
  sc_sleep :: "int \<Rightarrow> 's \<Rightarrow> string option \<times> 's"
  sc_dial :: "string \<Rightarrow> 's \<Rightarrow> bool \<times> 's"

definition orDefault :: "string \<Rightarrow> string \<Rightarrow> string" where
  "orDefault v d = (if v = [] then d else v)"

definition NewWithClientset ::
  "'s sbx_client \<Rightarrow> string \<Rightarrow> string \<Rightarrow> string \<times> string \<times> string \<times> string \<Rightarrow> 's sbx_client" where
  "NewWithClientset cs ns restart lims = (case lims of (creq, clim, mreq, mlim) \<Rightarrow>
     cs\<lparr>sc_ns := orDefault ns ''worker'', sc_restart := orDefault restart ''Never'',
        sc_cpu_req := creq, sc_cpu_lim := clim, sc_mem_req := mreq, sc_mem_lim := mlim\<rparr>)"

subsection \<open>Names and tokens\<close>

text \<open>\<^verbatim>\<open>^[a-z0-9]([-a-z0-9]*[a-z0-9])?$\<close>\<close>

definition dns_char :: "char \<Rightarrow> bool" where
  "dns_char c = (is_lower c \<or> is_digit c)"

definition matches_nameRe :: "string \<Rightarrow> bool" where
  "matches_nameRe s = (s \<noteq> [] \<and> dns_char (hd s) \<and> dns_char (last s) \<and>
     list_all (\<lambda>c. dns_char c \<or> c = CHR ''-'') s)"

definition hex_char :: "nat \<Rightarrow> char" where
  "hex_char d = (if d < 10 then char_of (48 + d) else char_of (87 + d))"

definition hex_encode :: "string \<Rightarrow> string" where
  "hex_encode bs = concat (map (\<lambda>c. [hex_char (of_char c div 16), hex_char (of_char c mod 16)]) bs)"

definition resourceName :: "'s sbx_client \<Rightarrow> string \<Rightarrow> string" where
  "resourceName c name =
    (let base = to_lower name in
     if length base \<le> 40 \<and> matches_nameRe base then ''wm-'' @ base
     else ''wm-'' @ take 16 (hex_encode (sc_sha256 c name)))"

definition newToken :: "'s sbx_client \<Rightarrow> ('s, sbx_err, string) act" where
  "newToken c = bnd (map_err SbxErr (of_sum (sc_rand c))) (\<lambda>b. ret (hex_encode b))"

definition ServiceDNS :: "'s sbx_client \<Rightarrow> string \<Rightarrow> string" where
  "ServiceDNS c res = ''http://'' @ res @ ''.'' @ sc_ns c @ ''.svc.cluster.local:'' @ int_str ServicePort"

subsection \<open>The pod of a sandbox\<close>

text \<open>\<open>None\<close> stands for the panic of \<^verbatim>\<open>resource.MustParse\<close> on text that is not a quantity.\<close>

definition defaultResources :: "'s sbx_client \<Rightarrow> string \<Rightarrow> string \<Rightarrow> resource_reqs option" where
  "defaultResources c cpu mem =
    (let creq = (if cpu \<noteq> [] then cpu else orDefault (sc_cpu_req c) ''500m'');
         clim = (if cpu \<noteq> [] then cpu else orDefault (sc_cpu_lim c) ''2'');
         mreq = (if mem \<noteq> [] then mem else orDefault (sc_mem_req c) ''1Gi'');
         mlim = (if mem \<noteq> [] then mem else orDefault (sc_mem_lim c) ''4Gi'')
     in if list_all (sc_quantity c) [creq, clim, mreq, mlim]
        then Some \<lparr>rr_requests = [(''cpu'', creq), (''memory'', mreq)],
                   rr_limits = [(''cpu'', clim), (''memory'', mlim)]\<rparr>
        else None)"

definition container_resources :: "'s sbx_client \<Rightarrow> spec \<Rightarrow> resource_reqs option" where
  "container_resources c s =
    (case defaultResources c (sp_cpu s) (sp_memory s) of None \<Rightarrow> None
     | Some dr \<Rightarrow>
        (let base = (case rd_resources (sp_runtime s) of Some r \<Rightarrow> r | None \<Rightarrow> dr)
         in if list_all (\<lambda>(_, v). sc_quantity c v) (rd_devices (sp_runtime s))
            then Some (base\<lparr>rr_limits := mputs (rd_devices (sp_runtime s)) (rr_limits base)\<rparr>)
            else None))"

definition env_of_map :: "string gomap \<Rightarrow> env_var list" where
  "env_of_map m = map (\<lambda>(k, v). \<lparr>ev_name = k, ev_value = v\<rparr>) m"

definition container_env :: "string \<Rightarrow> spec \<Rightarrow> env_var list" where
  "container_env token s =
     [\<lparr>ev_name = ''WORKER_TOKEN'', ev_value = token\<rparr>,
      \<lparr>ev_name = ''WORKER_PORT'', ev_value = int_str WorkerPort\<rparr>] @
     env_of_map (sp_env s) @ env_of_map (rd_env (sp_runtime s))"

definition boot_active :: "spec \<Rightarrow> bool" where
  "boot_active s = (case sp_bootstrap s of None \<Rightarrow> False
     | Some b \<Rightarrow> 0 < length (bt_mounts b) \<and> bt_image b \<noteq> [])"

definition boot_volumes :: "bootstrap \<Rightarrow> volume list" where
  "boot_volumes b = map (\<lambda>m. \<lparr>vol_name = bm_name m, vol_src = EmptyDir\<rparr>) (bt_mounts b)"

definition boot_init_mounts :: "bootstrap \<Rightarrow> vmount list" where
  "boot_init_mounts b = map (\<lambda>m.
     \<lparr>vm_name = bm_name m, vm_path = (if bm_file m then ''/mnt/'' @ bm_name m else bm_path m),
      vm_sub = [], vm_ro = False\<rparr>) (bt_mounts b)"

definition boot_worker_mounts :: "bootstrap \<Rightarrow> vmount list" where
  "boot_worker_mounts b = map (\<lambda>m.
     if bm_file m then \<lparr>vm_name = bm_name m, vm_path = bm_path m, vm_sub = ''cfg'', vm_ro = True\<rparr>
     else \<lparr>vm_name = bm_name m, vm_path = bm_path m, vm_sub = [], vm_ro = \<not> bm_writable m\<rparr>) (bt_mounts b)"

definition boot_container :: "bootstrap \<Rightarrow> env_var list \<Rightarrow> kcontainer" where
  "boot_container b env =
     \<lparr>ct_name = ''package-bootstrap'', ct_image = bt_image b,
      ct_command = [''/bin/sh'', ''-c'', bt_script b],
      ct_env = filter (\<lambda>e. ev_name e = ''SANDBOX_PACKAGE_UPSTREAM'') env, ct_ports = [],
      ct_resources = \<lparr>rr_requests = [(''cpu'', ''10m''), (''memory'', ''16Mi'')],
                      rr_limits = [(''cpu'', ''200m''), (''memory'', ''128Mi'')]\<rparr>,
      ct_security = None, ct_pull = [], ct_mounts = boot_init_mounts b\<rparr>"

definition golden_volumes :: "spec \<Rightarrow> (volume \<times> vmount) list" where
  "golden_volumes s = (if sp_golden s \<noteq> []
     then [(\<lparr>vol_name = ''golden-disk-cache'', vol_src = PVCSource (sp_golden s) False\<rparr>,
            \<lparr>vm_name = ''golden-disk-cache'', vm_path = GoldenDiskCachePath, vm_sub = [], vm_ro = False\<rparr>)]
     else [])"

definition user_volumes :: "spec \<Rightarrow> (volume \<times> vmount) list" where
  "user_volumes s = map (\<lambda>(i, v). let n = ''vol-'' @ nat_str i in
       (\<lparr>vol_name = n, vol_src = PVCSource (v_pvc v) (v_ro v)\<rparr>,
        \<lparr>vm_name = n, vm_path = v_path v, vm_sub = v_sub v, vm_ro = v_ro v\<rparr>))
     (enumerate 0 (sp_volumes s))"

definition tun_volumes :: "spec \<Rightarrow> (volume \<times> vmount) list" where
  "tun_volumes s = (if rd_tun (sp_runtime s)
     then [(\<lparr>vol_name = ''devtun'', vol_src = HostPath ''/dev/net/tun'' ''CharDevice''\<rparr>,
            \<lparr>vm_name = ''devtun'', vm_path = ''/dev/net/tun'', vm_sub = [], vm_ro = False\<rparr>)]
     else [])"

definition build_pod_spec :: "'s sbx_client \<Rightarrow> spec \<Rightarrow> string \<Rightarrow> resource_reqs \<Rightarrow> pod_spec" where
  "build_pod_spec c s token rs =
    (let env = container_env token s;
         boot = (if boot_active s then sp_bootstrap s else None);
         extra = golden_volumes s @ user_volumes s @ tun_volumes s
     in \<lparr>ps_restart = sc_restart c,
         ps_containers =
           [\<lparr>ct_name = ''worker'', ct_image = sp_image s, ct_command = [], ct_env = env,
             ct_ports = [(''worker'', WorkerPort)], ct_resources = rs,
             ct_security = rd_security (sp_runtime s), ct_pull = ''Always'',
             ct_mounts = (case boot of Some b \<Rightarrow> boot_worker_mounts b | None \<Rightarrow> []) @ map snd extra\<rparr>],
         ps_init = (case boot of Some b \<Rightarrow> [boot_container b env] | None \<Rightarrow> []),
         ps_volumes = (case boot of Some b \<Rightarrow> boot_volumes b | None \<Rightarrow> []) @ map fst extra,
         ps_class = (if rd_class (sp_runtime s) \<noteq> [] then Some (rd_class (sp_runtime s)) else None),
         ps_nodes = rd_nodes (sp_runtime s),
         ps_pull_secrets = rd_pull_secrets (sp_runtime s)\<rparr>)"

definition sbx_labels :: "spec \<Rightarrow> string gomap" where
  "sbx_labels s = [(LabelManaged, ''1''), (LabelName, sp_name s)]"

definition sbx_annotations :: "spec \<Rightarrow> string gomap" where
  "sbx_annotations s = [(AnnoImage, sp_image s), (AnnoCreator, sp_creator s), (AnnoSession, sp_session s)]"

definition build_secret :: "'s sbx_client \<Rightarrow> spec \<Rightarrow> string \<Rightarrow> secret" where
  "build_secret c s token =
     \<lparr>sec_meta = \<lparr>om_name = resourceName c (sp_name s), om_labels = sbx_labels s, om_annotations = []\<rparr>,
      sec_data = [(''token'', token)]\<rparr>"

definition build_pod :: "'s sbx_client \<Rightarrow> spec \<Rightarrow> string \<Rightarrow> resource_reqs \<Rightarrow> pod" where
  "build_pod c s token rs =
     \<lparr>pod_meta = \<lparr>om_name = resourceName c (sp_name s), om_labels = sbx_labels s,
                  om_annotations = sbx_annotations s\<rparr>,
      pod_spec = build_pod_spec c s token rs, pod_phase = [], pod_ip = [], pod_containers = [],
      pod_created = 0\<rparr>"

definition build_service :: "'s sbx_client \<Rightarrow> spec \<Rightarrow> ksvc" where
  "build_service c s =
     \<lparr>sv_meta = \<lparr>om_name = resourceName c (sp_name s), om_labels = sbx_labels s, om_annotations = []\<rparr>,
      sv_selector = sbx_labels s, sv_ports = [(''worker'', ServicePort, WorkerPort)]\<rparr>"

subsection \<open>Create\<close>

definition create_error :: "string \<Rightarrow> string \<Rightarrow> kerr \<Rightarrow> sbx_err" where
  "create_error what name e =
     (if IsAlreadyExists e then ErrExists name else SbxErr (''create '' @ what @ '': '' @ kerr_text e))"

definition del :: "'s sbx_client \<Rightarrow> ('o, 's) kapi \<Rightarrow> string \<Rightarrow> ('s, 'f, unit) act" where
  "del c api n = ignore (of_sum (k_delete api (sc_ns c) n))"

definition clock :: "'s sbx_client \<Rightarrow> ('s, 'f, int) act" where
  "clock c = (\<lambda>w. case sc_now c w of (t, w') \<Rightarrow> (Ok t, w'))"

definition sbx_Create :: "'s sbx_client \<Rightarrow> spec \<Rightarrow> ('s, sbx_err, sandbox \<times> string) act" where
  "sbx_Create c s =
    (let res = resourceName c (sp_name s); ns = sc_ns c in
     if sp_name s = [] \<or> sp_image s = [] then throw (SbxErr ''name and image required'') else
     bnd (newToken c) (\<lambda>token.
     bnd (map_err (create_error ''secret'' (sp_name s))
            (of_sum (k_create (sc_secrets c) ns (build_secret c s token)))) (\<lambda>_.
     case container_resources c s of None \<Rightarrow> panic ''resource.MustParse'' | Some rs \<Rightarrow>
     bnd (attempt (of_sum (k_create (sc_pods c) ns (build_pod c s token rs)))) (\<lambda>p. case p of
        Inl e \<Rightarrow> bnd (del c (sc_secrets c) res) (\<lambda>_. throw (create_error ''pod'' (sp_name s) e))
      | Inr _ \<Rightarrow>
     bnd (attempt (of_sum (k_create (sc_services c) ns (build_service c s)))) (\<lambda>v. case v of
        Inl e \<Rightarrow> bnd (del c (sc_pods c) res) (\<lambda>_.
                 bnd (del c (sc_secrets c) res) (\<lambda>_.
                 throw (create_error ''service'' (sp_name s) e)))
      | Inr _ \<Rightarrow>
     bnd (clock c) (\<lambda>now.
       ret (\<lparr>sb_name = sp_name s, sb_image = sp_image s, sb_phase = ''Pending'', sb_ready = False,
             sb_url = ServiceDNS c res, sb_creator = sp_creator s, sb_session = sp_session s,
             sb_created = now, sb_restarts = 0, sb_message = []\<rparr>, token)))))))"

subsection \<open>Reading sandboxes\<close>

text \<open>The diagnostics of \<^verbatim>\<open>toSandbox\<close>: the first waiting reason, or terminated reason other
  than \<^verbatim>\<open>Completed\<close>, over the containers in order.\<close>

definition with_msg :: "string \<Rightarrow> string \<Rightarrow> string" where
  "with_msg reason msg = (if msg \<noteq> [] then reason @ '': '' @ msg else reason)"

definition status_message :: "string \<Rightarrow> cstatus \<Rightarrow> string" where
  "status_message message cs =
    (let m1 = (case cs_waiting cs of
                 Some (r, t) \<Rightarrow> if message = [] \<and> r \<noteq> [] then with_msg r t else message
               | None \<Rightarrow> message)
     in case cs_terminated cs of
          Some (r, t) \<Rightarrow> if m1 = [] \<and> r \<noteq> [] \<and> r \<noteq> ''Completed'' then with_msg r t else m1
        | None \<Rightarrow> m1)"

definition toSandbox :: "'s sbx_client \<Rightarrow> pod \<Rightarrow> ('s, 'f, sandbox) act" where
  "toSandbox c p =
    bnd (if pod_created p = 0 then clock c else ret (pod_created p)) (\<lambda>created.
      ret \<lparr>sb_name = mstr (om_labels (pod_meta p)) LabelName,
           sb_image = mstr (om_annotations (pod_meta p)) AnnoImage,
           sb_phase = (if pod_phase p = [] then ''Unknown'' else pod_phase p),
           sb_ready = list_ex cs_ready (pod_containers p),
           sb_url = ServiceDNS c (om_name (pod_meta p)),
           sb_creator = mstr (om_annotations (pod_meta p)) AnnoCreator,
           sb_session = mstr (om_annotations (pod_meta p)) AnnoSession,
           sb_created = created,
           sb_restarts = sum_list (map cs_restarts (pod_containers p)),
           sb_message = foldl status_message [] (pod_containers p)\<rparr>)"

definition kget :: "('o, 's) kapi \<Rightarrow> string \<Rightarrow> string \<Rightarrow> ('s, kerr, 'o) act" where
  "kget api ns n = of_sum (k_get api ns n)"

text \<open>\<^verbatim>\<open>Get\<close>: \<open>None\<close> is \<^verbatim>\<open>ok = false\<close>.\<close>

definition sbx_Get :: "'s sbx_client \<Rightarrow> string \<Rightarrow> ('s, sbx_err, sandbox option) act" where
  "sbx_Get c name =
    bnd (attempt (kget (sc_pods c) (sc_ns c) (resourceName c name))) (\<lambda>r. case r of
      Inl e \<Rightarrow> if IsNotFound e then ret None else throw (SbxErr (kerr_text e))
    | Inr p \<Rightarrow> bnd (toSandbox c p) (\<lambda>sb. ret (Some sb)))"

definition sbx_List :: "'s sbx_client \<Rightarrow> ('s, sbx_err, sandbox list) act" where
  "sbx_List c =
    bnd (map_err (\<lambda>e. SbxErr (kerr_text e)) (of_sum (k_list (sc_pods c) (sc_ns c) [(LabelManaged, ''1'')])))
      (\<lambda>pods. collect (toSandbox c) pods)"

definition sbx_Resolve :: "'s sbx_client \<Rightarrow> string \<Rightarrow> ('s, sbx_err, string \<times> string) act" where
  "sbx_Resolve c name =
    bnd (map_err (\<lambda>e. SbxErr (''resolve '' @ name @ '': '' @ kerr_text e))
           (kget (sc_secrets c) (sc_ns c) (resourceName c name)))
      (\<lambda>sec. ret (ServiceDNS c (resourceName c name), mstr (sec_data sec) ''token''))"

subsection \<open>Delete\<close>

definition deleteObjects :: "'s sbx_client \<Rightarrow> string \<Rightarrow> ('s, sbx_err, unit) act" where
  "deleteObjects c res =
    bnd (del c (sc_services c) res) (\<lambda>_.
    bnd (del c (sc_secrets c) res) (\<lambda>_.
    bnd (attempt (of_sum (k_delete (sc_pods c) (sc_ns c) res))) (\<lambda>r. case r of
      Inl e \<Rightarrow> if IsNotFound e then ret () else throw (SbxErr (kerr_text e))
    | Inr _ \<Rightarrow> ret ())))"

text \<open>\<^verbatim>\<open>select { case <-ctx.Done(): ...; case <-time.After(d): }\<close>: a cancelled context is an error.\<close>

definition sleep :: "'s sbx_client \<Rightarrow> int \<Rightarrow> ('s, sbx_err, unit) act" where
  "sleep c ms = (\<lambda>w. case sc_sleep c ms w of (None, w') \<Rightarrow> (Ok (), w') | (Some e, w') \<Rightarrow> (Fail (SbxErr e), w'))"

text \<open>
  The poll loops.  The Go loops run while the clock is before a deadline and sleep between two
  polls, so a loop with deadline \<open>d\<close> and sleep \<open>p\<close> polls at most \<open>d div p + 1\<close> times; that
  bound is the fuel, and running out of it is the deadline having passed.
\<close>

fun wait_gone :: "'s sbx_client \<Rightarrow> string \<Rightarrow> int \<Rightarrow> nat \<Rightarrow> ('s, sbx_err, bool) act" where
  "wait_gone c res deadline 0 = ret True"
| "wait_gone c res deadline (Suc n) =
     bnd (clock c) (\<lambda>now. if \<not> now < deadline then ret True else
     bnd (attempt (kget (sc_pods c) (sc_ns c) res)) (\<lambda>r.
       if (case r of Inl e \<Rightarrow> IsNotFound e | Inr _ \<Rightarrow> False) then ret True
       else bnd (sleep c 200) (\<lambda>_. wait_gone c res deadline n)))"

definition sbx_Delete :: "'s sbx_client \<Rightarrow> string \<Rightarrow> ('s, sbx_err, bool) act" where
  "sbx_Delete c name =
    (let res = resourceName c name in
     bnd (attempt (kget (sc_pods c) (sc_ns c) res)) (\<lambda>r. case r of
       Inl e \<Rightarrow> if IsNotFound e then ret False else throw (SbxErr (kerr_text e))
     | Inr _ \<Rightarrow>
        bnd (deleteObjects c res) (\<lambda>_.
        bnd (clock c) (\<lambda>now. wait_gone c res (now + 30000) 151))))"

subsection \<open>Waiting for readiness\<close>

definition firstFailureReason :: "pod \<Rightarrow> string" where
  "firstFailureReason p =
    (case concat (map (\<lambda>cs.
        (case cs_terminated cs of Some (r, t) \<Rightarrow> if r \<noteq> [] then [with_msg r t] else [] | None \<Rightarrow> []) @
        (case cs_waiting cs of Some (r, _) \<Rightarrow> if r \<noteq> [] then [r] else [] | None \<Rightarrow> []))
       (pod_containers p)) of
       [] \<Rightarrow> ''pod failed'' | m # _ \<Rightarrow> m)"

definition dialAddr :: "'s sbx_client \<Rightarrow> string \<Rightarrow> ('s, sbx_err, bool) act" where
  "dialAddr c addr = (\<lambda>w. case sc_dial c addr w of (b, w') \<Rightarrow> (Ok b, w'))"

fun wait_ready :: "'s sbx_client \<Rightarrow> string \<Rightarrow> int \<Rightarrow> int \<Rightarrow> nat \<Rightarrow> ('s, sbx_err, unit) act" where
  "wait_ready c name timeout deadline 0 =
     throw (SbxErr (''sandbox '' @ name @ '' not healthy within '' @ int_str timeout @ ''ms''))"
| "wait_ready c name timeout deadline (Suc n) =
     bnd (clock c) (\<lambda>now. if \<not> now < deadline then wait_ready c name timeout deadline 0 else
     bnd (attempt (kget (sc_pods c) (sc_ns c) (resourceName c name))) (\<lambda>r.
     bnd (case r of Inl _ \<Rightarrow> ret False
          | Inr p \<Rightarrow>
             if pod_phase p = ''Failed'' then
               throw (SbxErr (''sandbox '' @ name @ '' exited: '' @ firstFailureReason p))
             else if pod_phase p = ''Running'' \<and> pod_ip p \<noteq> [] then
               bnd (dialAddr c (pod_ip p @ '':'' @ int_str WorkerPort)) (\<lambda>a.
                 if a then dialAddr c (resourceName c name @ ''.'' @ sc_ns c @
                        ''.svc.cluster.local:'' @ int_str ServicePort) else ret False)
             else ret False) (\<lambda>up.
     if up then ret () else bnd (sleep c 500) (\<lambda>_. wait_ready c name timeout deadline n))))"

definition sbx_WaitReady :: "'s sbx_client \<Rightarrow> string \<Rightarrow> int \<Rightarrow> ('s, sbx_err, unit) act" where
  "sbx_WaitReady c name timeout0 =
    (let timeout = (if timeout0 \<le> 0 then 60000 else timeout0) in
     bnd (clock c) (\<lambda>now. wait_ready c name timeout (now + timeout) (nat (timeout div 500) + 1)))"

subsection \<open>What a create leaves behind\<close>

text \<open>The live objects of the client's namespace, and the documented behaviour of the API on
  them.  A stored pod keeps its metadata and spec; the server fills in the rest.\<close>

record cluster =
  cl_secrets :: "string \<Rightarrow> secret option"
  cl_pods :: "string \<Rightarrow> pod option"
  cl_services :: "string \<Rightarrow> ksvc option"

definition wr_secret where "wr_secret n x v = v\<lparr>cl_secrets := (cl_secrets v)(n := x)\<rparr>"
definition wr_pod where "wr_pod n x v = v\<lparr>cl_pods := (cl_pods v)(n := x)\<rparr>"
definition wr_service where "wr_service n x v = v\<lparr>cl_services := (cl_services v)(n := x)\<rparr>"

definition same_pod :: "pod \<Rightarrow> pod \<Rightarrow> bool" where
  "same_pod p p' = (pod_meta p' = pod_meta p \<and> pod_spec p' = pod_spec p)"

definition sb_kube_ok :: "('s \<Rightarrow> cluster) \<Rightarrow> 's sbx_client \<Rightarrow> bool" where
  "sb_kube_ok view c =
    (kind_ok view cl_secrets wr_secret (\<lambda>x. om_name (sec_meta x)) (=) (sc_ns c) (sc_secrets c) \<and>
     kind_ok view cl_pods wr_pod (\<lambda>x. om_name (pod_meta x)) same_pod (sc_ns c) (sc_pods c) \<and>
     kind_ok view cl_services wr_service (\<lambda>x. om_name (sv_meta x)) (=) (sc_ns c) (sc_services c) \<and>
     (\<forall>s. view (snd (sc_rand c s)) = view s) \<and> (\<forall>s. view (snd (sc_now c s)) = view s) \<and>
     (\<forall>ms s. view (snd (sc_sleep c ms s)) = view s))"

definition sb_deletes_ok :: "('s \<Rightarrow> cluster) \<Rightarrow> 's sbx_client \<Rightarrow> bool" where
  "sb_deletes_ok view c =
    (deletes_succeed view cl_secrets (sc_ns c) (sc_secrets c) \<and>
     deletes_succeed view cl_pods (sc_ns c) (sc_pods c))"

lemma om_name_build [simp]:
  "om_name (sec_meta (build_secret c s token)) = resourceName c (sp_name s)"
  "om_name (pod_meta (build_pod c s token rs)) = resourceName c (sp_name s)"
  "om_name (sv_meta (build_service c s)) = resourceName c (sp_name s)"
  by (simp_all add: build_secret_def build_pod_def build_service_def)

lemma wp_newToken:
  assumes "sb_kube_ok view c"
    and "\<And>e s'. view s' = view s \<Longrightarrow> Q (Fail e) s'" "\<And>x s'. view s' = view s \<Longrightarrow> Q (Ok x) s'"
  shows "wp (newToken c) Q s"
proof -
  have v: "view s' = view s" if "sc_rand c s = (r, s')" for r s'
    using assms(1) that unfolding sb_kube_ok_def by (metis snd_conv)
  show ?thesis
    unfolding newToken_def by (intro wp) (auto intro!: wp simp: assms(2,3) v)
qed

lemma wp_clock:
  assumes "sb_kube_ok view c" "\<And>t s'. view s' = view s \<Longrightarrow> Q (Ok t) s'"
  shows "wp (clock c) Q s"
proof -
  have v: "view s' = view s" if "sc_now c s = (r, s')" for r s'
    using assms(1) that unfolding sb_kube_ok_def by (metis snd_conv)
  show ?thesis by (auto simp: wp_def clock_def assms(2) v split: prod.splits)
qed

lemma del_Ok: "\<exists>s'. del c api n s = (Ok (), s')"
  by (auto simp: del_def ignore_def attempt_def bnd_cases of_sum_def act
      split: prod.splits sum.splits res.splits)

lemma wp_del:
  assumes "kind_ok view rd wr nm st (sc_ns c) api" "deletes_succeed view rd (sc_ns c) api"
    and "rd (view s) n \<noteq> None" and "\<And>s'. view s' = wr n None (view s) \<Longrightarrow> Q (Ok ()) s'"
  shows "wp (del c api n) Q s"
proof -
  from assms(2,3) obtain s1 where "k_delete api (sc_ns c) n s = (Inr (), s1)"
    unfolding deletes_succeed_def by blast
  with assms(4) delete_cases [OF assms(1) this] show ?thesis
    by (simp add: del_def ignore_def attempt_def bnd_def of_sum_def act wp_def)
qed

lemma wp_create:
  assumes "kind_ok view rd wr nm st ns api"
    and "\<And>e s'. view s' = view s \<Longrightarrow> Q (Fail e) s'"
    and "\<And>x ob' s'. rd (view s) (nm ob) = None \<Longrightarrow> st ob ob' \<Longrightarrow>
           view s' = wr (nm ob) (Some ob') (view s) \<Longrightarrow> Q (Ok x) s'"
  shows "wp (of_sum (k_create api ns ob)) Q s"
  by (rule wp_of_sum) (blast dest: create_Inl [OF assms(1)] create_Inr [OF assms(1)] intro: assms(2,3))+

text \<open>The three outcomes of a create.  \<open>sbx_created\<close> is the cluster with the sandbox's three objects.\<close>

definition sbx_created :: "'s sbx_client \<Rightarrow> spec \<Rightarrow> string \<Rightarrow> pod \<Rightarrow> cluster \<Rightarrow> cluster" where
  "sbx_created c sp token p v =
    (let n = resourceName c (sp_name sp) in
     wr_service n (Some (build_service c sp)) (wr_pod n (Some p)
       (wr_secret n (Some (build_secret c sp token)) v)))"

definition absent :: "'s sbx_client \<Rightarrow> spec \<Rightarrow> cluster \<Rightarrow> bool" where
  "absent c sp v = (let n = resourceName c (sp_name sp) in
     cl_secrets v n = None \<and> cl_pods v n = None \<and> cl_services v n = None)"

definition create_post ::
  "('s \<Rightarrow> cluster) \<Rightarrow> 's sbx_client \<Rightarrow> spec \<Rightarrow> cluster \<Rightarrow> (sbx_err, sandbox \<times> string) res \<Rightarrow> cluster \<Rightarrow> bool" where
  "create_post view c sp v r v' =
    (case r of
       Ok (sb, token) \<Rightarrow> absent c sp v \<and> sb_name sb = sp_name sp \<and> sb_creator sb = sp_creator sp \<and>
          sb_session sb = sp_session sp \<and>
          (\<exists>p rs. container_resources c sp = Some rs \<and> same_pod (build_pod c sp token rs) p \<and>
                  v' = sbx_created c sp token p v)
     | Fail e \<Rightarrow> v' = v
     | Panic m \<Rightarrow> container_resources c sp = None \<and> cl_secrets v (resourceName c (sp_name sp)) = None \<and>
          (\<exists>token. v' = wr_secret (resourceName c (sp_name sp)) (Some (build_secret c sp token)) v))"

lemma wr_undo:
  "cl_secrets v n = None \<Longrightarrow> wr_secret n None (wr_secret n x v) = v"
  "cl_pods v n = None \<Longrightarrow> wr_pod n None (wr_pod n y v) = v"
  "wr_secret n a (wr_pod m b v) = wr_pod m b (wr_secret n a v)"
  by (auto simp: wr_secret_def wr_pod_def fun_upd_idem)

lemma rd_wr [simp]:
  "cl_secrets (wr_secret n x v) = (cl_secrets v)(n := x)"
  "cl_pods (wr_secret n x v) = cl_pods v" "cl_services (wr_secret n x v) = cl_services v"
  "cl_pods (wr_pod n y v) = (cl_pods v)(n := y)"
  "cl_secrets (wr_pod n y v) = cl_secrets v" "cl_services (wr_pod n y v) = cl_services v"
  "cl_services (wr_service n z v) = (cl_services v)(n := z)"
  "cl_secrets (wr_service n z v) = cl_secrets v" "cl_pods (wr_service n z v) = cl_pods v"
  by (simp_all add: wr_secret_def wr_pod_def wr_service_def)

lemma sbx_Create_post:
  assumes ok: "sb_kube_ok view c" and dl: "sb_deletes_ok view c"
  shows "wp (sbx_Create c sp) (\<lambda>r s'. create_post view c sp (view s) r (view s')) s"
proof -
  note kinds = ok [unfolded sb_kube_ok_def]
  note sec = kinds [THEN conjunct1]
    and pods = kinds [THEN conjunct2, THEN conjunct1]
    and svcs = kinds [THEN conjunct2, THEN conjunct2, THEN conjunct1]
  note dels = dl [unfolded sb_deletes_ok_def]
  note del_sec = wp_del [OF sec dels [THEN conjunct1]]
    and del_pod = wp_del [OF pods dels [THEN conjunct2]]
  note calls = wp_newToken [OF ok] wp_create [OF sec] wp_create [OF pods] wp_create [OF svcs]
    wp_clock [OF ok] del_sec del_pod
  show ?thesis
    unfolding sbx_Create_def Let_def
    by (auto intro!: wp_throw wp_ret wp_panic wp_bnd wp_attempt wp_map_err calls
        simp: create_post_def wr_undo fun_upd_idem absent_def sbx_created_def Let_def
        split: option.split) blast+
qed

lemma sbx_Create_cases:
  assumes "sb_kube_ok view c" "sb_deletes_ok view c" "sbx_Create c sp s = (r, s')"
  shows "create_post view c sp (view s) r (view s')"
  using wpD [OF sbx_Create_post [OF assms(1,2)] assms(3)] .

lemma wp_kget:
  assumes "kind_ok view rd wr nm st ns api"
    and "\<And>e s'. view s' = view s \<Longrightarrow> (IsNotFound e \<Longrightarrow> rd (view s) n = None) \<Longrightarrow> Q (Fail e) s'"
    and "\<And>x s'. view s' = view s \<Longrightarrow> (\<And>x'. rd (view s) n = Some x' \<Longrightarrow> x = x') \<Longrightarrow> Q (Ok x) s'"
  shows "wp (kget api ns n) Q s"
  unfolding kget_def
proof (rule wp_of_sum)
  fix e s' assume g: "k_get api ns n s = (Inl e, s')"
  moreover have "IsNotFound e \<Longrightarrow> rd (view s) n = None"
    using assms(1) g unfolding kind_ok_def by (metis (mono_tags, lifting) case_prod_conv sum.case(1))
  ultimately show "Q (Fail e) s'" using get_view [OF assms(1)] assms(2) by blast
next
  fix x s' assume g: "k_get api ns n s = (Inr x, s')"
  show "Q (Ok x) s'"
    by (rule assms(3)) (rule get_view [OF assms(1) g], rule get_live [OF assms(1) g])
qed

lemma wp_toSandbox:
  assumes "sb_kube_ok view c"
    and "\<And>sb s'. view s' = view s \<Longrightarrow> sb_name sb = mstr (om_labels (pod_meta p)) LabelName \<Longrightarrow>
           sb_creator sb = mstr (om_annotations (pod_meta p)) AnnoCreator \<Longrightarrow>
           sb_session sb = mstr (om_annotations (pod_meta p)) AnnoSession \<Longrightarrow> Q (Ok sb) s'"
  shows "wp (toSandbox c p) Q s"
  unfolding toSandbox_def
  by (auto intro!: wp_bnd wp_clock [OF assms(1)] wp_ret assms(2))

lemma anno_keys [simp]:
  "mstr (sbx_labels sp) LabelName = sp_name sp"
  "mstr (sbx_annotations sp) AnnoCreator = sp_creator sp"
  "mstr (sbx_annotations sp) AnnoSession = sp_session sp"
  by (simp_all add: mstr_def mget_def sbx_labels_def sbx_annotations_def LabelName_def LabelManaged_def
      AnnoImage_def AnnoCreator_def AnnoSession_def)

lemma sbx_created_lookup:
  "cl_secrets (sbx_created c sp token p v) (resourceName c (sp_name sp)) = Some (build_secret c sp token)"
  "cl_pods (sbx_created c sp token p v) (resourceName c (sp_name sp)) = Some p"
  by (simp_all add: sbx_created_def Let_def)

text \<open>A created sandbox is found under its name with its creator and session, and its token is
  the one handed out.\<close>

lemma sbx_Get_created:
  assumes ok: "sb_kube_ok view c" and "same_pod (build_pod c sp token rs) p"
    and "view s = sbx_created c sp token p v"
  shows "wp (sbx_Get c (sp_name sp)) (\<lambda>r s'. view s' = view s \<and>
           (\<forall>x. r = Ok x \<longrightarrow> (\<exists>sb. x = Some sb \<and> sb_name sb = sp_name sp \<and>
              sb_creator sb = sp_creator sp \<and> sb_session sb = sp_session sp))) s"
proof -
  have pods: "kind_ok view cl_pods wr_pod (\<lambda>x. om_name (pod_meta x)) same_pod (sc_ns c) (sc_pods c)"
    using ok by (simp add: sb_kube_ok_def)
  show ?thesis
    unfolding sbx_Get_def
    using assms(2)
    by (auto intro!: wp_bnd wp_attempt wp_kget [OF pods] wp_toSandbox [OF ok] wp_ret wp_throw
        simp: assms(3) sbx_created_lookup same_pod_def build_pod_def)
qed

lemma sbx_Resolve_created:
  assumes ok: "sb_kube_ok view c" and "view s = sbx_created c sp token p v"
  shows "wp (sbx_Resolve c (sp_name sp)) (\<lambda>r s'. view s' = view s \<and>
           (\<forall>x. r = Ok x \<longrightarrow> x = (ServiceDNS c (resourceName c (sp_name sp)), token))) s"
proof -
  have sec: "kind_ok view cl_secrets wr_secret (\<lambda>x. om_name (sec_meta x)) (=) (sc_ns c) (sc_secrets c)"
    using ok by (simp add: sb_kube_ok_def)
  show ?thesis
    unfolding sbx_Resolve_def
    by (auto intro!: wp_bnd wp_map_err wp_kget [OF sec] wp_ret
        simp: assms(2) sbx_created_lookup build_secret_def mstr_def mget_def)
qed

subsection \<open>Resource names\<close>

lemma to_lower_id: "list_all (\<lambda>c. \<not> is_upper c) s \<Longrightarrow> to_lower s = s"
  by (induction s) (auto simp: to_lower_def lower_char_def is_upper_def)

lemma matches_nameRe_lower: "matches_nameRe s \<Longrightarrow> list_all (\<lambda>c. \<not> is_upper c) s"
  by (auto simp: matches_nameRe_def list_all_iff dns_char_def is_lower_def is_upper_def is_digit_def
      less_eq_char_def)

lemma resourceName_valid: "length s \<le> 40 \<Longrightarrow> matches_nameRe s \<Longrightarrow> resourceName c s = ''wm-'' @ s"
  by (simp add: resourceName_def Let_def to_lower_id matches_nameRe_lower)

lemma hex_char_dns: "n < 16 \<Longrightarrow> dns_char (hex_char n)"
proof -
  assume "n < 16"
  then have "n \<in> set [0..<16]" by simp
  moreover have "list_all (\<lambda>n. dns_char (hex_char n)) [0..<16]" by code_simp
  ultimately show ?thesis by (auto simp: list_all_iff)
qed

lemma hex_encode_dns: "x \<in> set (hex_encode bs) \<Longrightarrow> dns_char x"
proof -
  have "dns_char (hex_char (of_char b div 16))" "dns_char (hex_char (of_char b mod 16))" for b :: char
    using nat_of_char_less_256 [of b] by (auto intro!: hex_char_dns simp: less_mult_imp_div_less)
  then show "x \<in> set (hex_encode bs) \<Longrightarrow> dns_char x"
    by (auto simp: hex_encode_def)
qed

lemma length_hex_encode: "length (hex_encode bs) = 2 * length bs"
  by (induction bs) (auto simp: hex_encode_def)

subsection \<open>An in-memory API server\<close>

text \<open>A server that keeps its objects in three tables; it behaves as documented, so the
  hypotheses of the properties below can be met.\<close>

type_synonym mem = "secret gomap \<times> pod gomap \<times> ksvc gomap"

definition mem_kind ::
  "('s \<Rightarrow> 'o gomap) \<Rightarrow> (('o gomap \<Rightarrow> 'o gomap) \<Rightarrow> 's \<Rightarrow> 's) \<Rightarrow> ('o \<Rightarrow> kmeta) \<Rightarrow> ('o, 's) kapi" where
  "mem_kind tab upd meta =
    \<lparr>k_create = (\<lambda>ns ob m. if mget (tab m) (om_name (meta ob)) = None
        then (Inr ob, upd (mput (om_name (meta ob)) ob) m) else (Inl (KAlreadyExists ''already exists''), m)),
     k_get = (\<lambda>ns n m. case mget (tab m) n of Some ob \<Rightarrow> (Inr ob, m) | None \<Rightarrow> (Inl (KNotFound ''not found''), m)),
     k_delete = (\<lambda>ns n m. if mget (tab m) n = None then (Inl (KNotFound ''not found''), m)
        else (Inr (), upd (filter (\<lambda>e. fst e \<noteq> n)) m)),
     k_list = (\<lambda>ns sel m. (Inr (filter (\<lambda>ob. list_all (\<lambda>(k, v). mget (om_labels (meta ob)) k = Some v) sel)
        (map snd (tab m))), m))\<rparr>"

definition mem_view :: "mem \<Rightarrow> cluster" where
  "mem_view m = (case m of (a, b, c) \<Rightarrow>
     \<lparr>cl_secrets = mget a, cl_pods = mget b, cl_services = mget c\<rparr>)"

definition mem_client :: "mem sbx_client" where
  "mem_client =
    \<lparr>sc_secrets = mem_kind fst (\<lambda>f (a, b, c). (f a, b, c)) sec_meta,
     sc_pods = mem_kind (\<lambda>m. fst (snd m)) (\<lambda>f (a, b, c). (a, f b, c)) pod_meta,
     sc_services = mem_kind (\<lambda>m. snd (snd m)) (\<lambda>f (a, b, c). (a, b, f c)) sv_meta,
     sc_ns = ''worker'', sc_cpu_req = [], sc_cpu_lim = [], sc_mem_req = [], sc_mem_lim = [],
     sc_restart = ''Never'', sc_sha256 = (\<lambda>x. replicate 32 CHR ''x''),
     sc_quantity = (\<lambda>q. list_all is_alnum q), sc_rand = (\<lambda>m. (Inr ''secret bytes'', m)),
     sc_now = (\<lambda>m. (1000, m)), sc_sleep = (\<lambda>ms m. (None, m)), sc_dial = (\<lambda>a m. (True, m))\<rparr>"

lemma mget_filter: "mget (filter (\<lambda>e. fst e \<noteq> n) xs) = (mget xs)(n := None)"
  by (induction xs) (auto simp: mget_def fun_eq_iff)

lemma mget_mput_fun: "mget (mput n x xs) = (mget xs)(n := Some x)"
  by (auto simp: fun_eq_iff)

lemma mem_client_ok: "sb_kube_ok mem_view mem_client"
  unfolding sb_kube_ok_def mem_client_def kind_ok_def mem_kind_def
  by (auto simp: mem_view_def wr_secret_def wr_pod_def wr_service_def mget_filter mget_mput_fun
      IsNotFound_def same_pod_def fun_upd_def split: option.splits)

lemma mem_deletes_ok: "sb_deletes_ok mem_view mem_client"
  by (auto simp: sb_deletes_ok_def mem_client_def deletes_succeed_def mem_kind_def mem_view_def)

definition demo_spec :: "string \<Rightarrow> string \<Rightarrow> spec" where
  "demo_spec name cpu =
    \<lparr>sp_name = name, sp_image = ''artifact/sandbox/base:1'', sp_cpu = cpu, sp_memory = [],
     sp_env = [(''A'', ''1'')], sp_creator = ''t1'', sp_session = ''acme:web:main'',
     sp_runtime = no_runtime, sp_bootstrap = None, sp_golden = [], sp_volumes = []\<rparr>"

lemma demo_spec_sel [simp]:
  "sp_name (demo_spec n q) = n" "sp_creator (demo_spec n q) = ''t1''"
  "sp_session (demo_spec n q) = ''acme:web:main''"
  by (simp_all add: demo_spec_def)

subsection \<open>Properties\<close>



text \<open>C27: After a successful create, looking the sandbox up by name finds it with the creator and
  session it was created for, and resolving it gives the service address and the very token the
  create handed out; neither lookup changes the cluster.\<close>

theorem sandbox_create_then_lookup:
  assumes "sb_kube_ok view c" "sb_deletes_ok view c" "sbx_Create c sp s = (Ok (sb, token), s')"
  shows "(\<forall>x s''. sbx_Get c (sp_name sp) s' = (Ok x, s'') \<longrightarrow>
            (\<exists>found. x = Some found \<and> sb_name found = sp_name sp \<and> sb_creator found = sp_creator sp \<and>
                     sb_session found = sp_session sp \<and> view s'' = view s')) \<and>
         (\<forall>url t s''. sbx_Resolve c (sp_name sp) s' = (Ok (url, t), s'') \<longrightarrow>
            url = ServiceDNS c (resourceName c (sp_name sp)) \<and> t = token \<and> view s'' = view s')"
proof -
  from sbx_Create_cases [OF assms] obtain p rs where
    p: "same_pod (build_pod c sp token rs) p" and v: "view s' = sbx_created c sp token p (view s)"
    by (auto simp: create_post_def)
  show ?thesis
    using wpD [OF sbx_Get_created [OF assms(1) p v]] wpD [OF sbx_Resolve_created [OF assms(1) v]]
    by fastforce
qed

lemma sandbox_create_then_lookup_witness:
  "\<exists>sb token m. sbx_Create mem_client (demo_spec ''dev'' []) ([], [], []) = (Ok (sb, token), m) \<and>
     (\<forall>url t m'. sbx_Resolve mem_client ''dev'' m = (Ok (url, t), m') \<longrightarrow> t = token)"
proof -
  let ?run = "sbx_Create mem_client (demo_spec ''dev'' []) ([], [], [])"
  have "is_ok (fst ?run)" by code_simp
  then obtain sb token where "fst ?run = Ok (sb, token)" by (auto simp: is_ok_iff)
  then obtain m where run: "?run = (Ok (sb, token), m)" by (metis prod.collapse)
  from sandbox_create_then_lookup [OF mem_client_ok mem_deletes_ok run]
  have "\<forall>url t m'. sbx_Resolve mem_client ''dev'' m = (Ok (url, t), m') \<longrightarrow> t = token"
    by (unfold demo_spec_sel) blast
  with run show ?thesis by blast
qed

text \<open>A create whose cpu or memory is not a quantity panics after the Secret is stored, and the
  name is then stuck: every further create of that name fails without changing the cluster, and a
  delete of it, finding no pod, reports that there was nothing to delete and leaves the Secret.\<close>

theorem sandbox_bad_quantity_strands_name:
  assumes "sb_kube_ok view c" "sb_deletes_ok view c" "sbx_Create c sp s = (Panic m, s')"
  shows "cl_secrets (view s') (resourceName c (sp_name sp)) \<noteq> None \<and>
         (\<forall>sp' r s''. resourceName c (sp_name sp') = resourceName c (sp_name sp) \<longrightarrow>
            sbx_Create c sp' s' = (r, s'') \<longrightarrow> (\<exists>e. r = Fail e) \<and> view s'' = view s') \<and>
         (\<forall>e s''. k_get (sc_pods c) (sc_ns c) (resourceName c (sp_name sp)) s' = (Inl (KNotFound e), s'') \<longrightarrow>
            sbx_Delete c (sp_name sp) s' = (Ok False, s'') \<and> view s'' = view s')"
proof -
  from sbx_Create_cases [OF assms] have
    sec: "cl_secrets (view s') (resourceName c (sp_name sp)) \<noteq> None"
    by (auto simp: create_post_def)
  have again: "(\<exists>e. r = Fail e) \<and> view s'' = view s'"
    if "resourceName c (sp_name sp') = resourceName c (sp_name sp)" "sbx_Create c sp' s' = (r, s'')"
    for sp' r s''
    using sbx_Create_cases [OF assms(1,2) that(2)] sec that(1)
    by (auto simp: create_post_def absent_def Let_def split: res.splits)
  have "sbx_Delete c (sp_name sp) s' = (Ok False, s'') \<and> view s'' = view s'"
    if g: "k_get (sc_pods c) (sc_ns c) (resourceName c (sp_name sp)) s' = (Inl (KNotFound e), s'')" for e s''
  proof -
    have "kind_ok view cl_pods wr_pod (\<lambda>x. om_name (pod_meta x)) same_pod (sc_ns c) (sc_pods c)"
      using assms(1) by (simp add: sb_kube_ok_def)
    from get_view [OF this g] g show ?thesis
      by (simp add: sbx_Delete_def Let_def bnd_def attempt_def kget_def of_sum_def IsNotFound_def act)
  qed
  with sec again show ?thesis by blast
qed

lemma sandbox_bad_quantity_strands_name_witness:
  "\<exists>m s'. sbx_Create mem_client (demo_spec ''dev'' ''1 core'') ([], [], []) = (Panic m, s') \<and>
     cl_secrets (mem_view s') ''wm-dev'' \<noteq> None"
proof -
  let ?run = "sbx_Create mem_client (demo_spec ''dev'' ''1 core'') ([], [], [])"
  have "fst ?run = Panic ''resource.MustParse''" by code_simp
  then have run: "?run = (Panic ''resource.MustParse'', snd ?run)" by (metis prod.collapse)
  have "resourceName mem_client ''dev'' = ''wm-dev''" by code_simp
  then show ?thesis
    using sandbox_bad_quantity_strands_name [OF mem_client_ok mem_deletes_ok run] run
    by (metis demo_spec_sel(1))
qed

text \<open>C30: The Kubernetes name of a sandbox is always a DNS-1123 label, whatever the sandbox is
  called, and different lower-case DNS names of at most 40 bytes get different Kubernetes names.\<close>

theorem resourceName_dns_label:
  assumes "\<And>x. 8 \<le> length (sc_sha256 c x)"
  shows "ValidServiceName (resourceName c name) \<and>
         (\<forall>a b. length a \<le> 40 \<and> matches_nameRe a \<and> length b \<le> 40 \<and> matches_nameRe b \<and>
                resourceName c a = resourceName c b \<longrightarrow> a = b)"
proof (intro conjI allI impI, goal_cases)
  case (2 a b)
  then show ?case by (metis resourceName_valid same_append_eq)
next
  case 1
  have edge: "dns_edge x" if "dns_char x" for x
    using that by (simp add: dns_edge_def dns_char_def)
  have wm: "dns_edge CHR ''w''" "dns_edge CHR ''m''" by code_simp+
  have label: "ValidServiceName (''wm-'' @ t)"
    if "t \<noteq> []" "length t \<le> 60" "dns_char (last t)" "list_all (\<lambda>c. dns_char c \<or> c = CHR ''-'') t" for t
    using that edge wm by (auto simp: ValidServiceName_def list_all_iff)
  show ?case
  proof (cases "length (to_lower name) \<le> 40 \<and> matches_nameRe (to_lower name)")
    case True
    then show ?thesis
      by (auto simp: resourceName_def Let_def matches_nameRe_def simp del: append.simps intro!: label)
  next
    case False
    let ?h = "take 16 (hex_encode (sc_sha256 c name))"
    have "length ?h \<noteq> 0" using assms [of name] by (simp add: length_hex_encode)
    then have ne: "?h \<noteq> []" by (metis list.size(3))
    have d: "\<forall>x\<in>set ?h. dns_char x"
      by (rule ballI) (rule hex_encode_dns, erule in_set_takeD)
    have "ValidServiceName (''wm-'' @ ?h)"
    proof (rule label [OF ne])
      show "dns_char (last ?h)" using ne d last_in_set by blast
      show "list_all (\<lambda>c. dns_char c \<or> c = CHR ''-'') ?h" using d by (simp add: list_all_iff)
    qed simp
    with False show ?thesis by (auto simp: resourceName_def Let_def)
  qed
qed

lemma resourceName_dns_label_witness:
  "ValidServiceName (resourceName mem_client ''My Sandbox'')"
  using resourceName_dns_label [of mem_client "''My Sandbox''"] by (simp add: mem_client_def)

text \<open>The mapping folds case before it looks at the name, so two sandbox names that differ
  only in case and are short DNS names in lower case share their Kubernetes objects.\<close>

theorem resourceName_case_collision:
  assumes "to_lower a = to_lower b" "length a \<le> 40" "matches_nameRe (to_lower a)"
  shows "resourceName c a = resourceName c b"
proof -
  have "length b = length a"
    using assms(1) by (metis length_map to_lower_def)
  with assms show ?thesis by (simp add: resourceName_def Let_def to_lower_def)
qed

lemma resourceName_case_collision_witness:
  "''Dev'' \<noteq> ''dev'' \<and> resourceName mem_client ''Dev'' = resourceName mem_client ''dev''"
proof -
  have "to_lower ''Dev'' = to_lower ''dev''" "matches_nameRe (to_lower ''Dev'')" by code_simp+
  then show ?thesis using resourceName_case_collision [of "''Dev''" "''dev''" mem_client] by simp
qed

end
