(* ===== verification/GitCommit.thy ===== *)
theory GitCommit
  imports Effects
begin

text \<open>
  Package \<^verbatim>\<open>internal/gitcommit\<close>, the write path of a change request: \<^verbatim>\<open>Manager.Submit\<close>
  and \<^verbatim>\<open>applyFile\<close>.  The go-git library and the file system below a clone are a parameter
  (\<open>gogit\<close>), call by call; a clone is named by its directory, and a push that finds
  the remote already up to date counts as a success, as in the code.
\<close>

datatype submit_kind = NoChanges | IgnoredPath | OtherFailure

text \<open>An error with the sentinel it wraps (for \<^verbatim>\<open>errors.Is\<close>) and its text.\<close>

datatype submit_err = SubmitErr submit_kind string

fun sub_kind :: "submit_err \<Rightarrow> submit_kind" where "sub_kind (SubmitErr k m) = k"
fun sub_text :: "submit_err \<Rightarrow> string" where "sub_text (SubmitErr k m) = m"

definition sub_other :: "string \<Rightarrow> submit_err" where "sub_other m = SubmitErr OtherFailure m"

definition sub_wrap :: "string \<Rightarrow> submit_err \<Rightarrow> submit_err" where
  "sub_wrap what e = SubmitErr (sub_kind e) (what @ '': '' @ sub_text e)"

definition ErrNoChanges :: submit_err where
  "ErrNoChanges = SubmitErr NoChanges
     ''no changes to commit (the content is unchanged, or the target path is ignored by the repository's .gitignore)''"

definition ignored_text :: string where
  "ignored_text = ''target path is ignored by the repository's .gitignore''"

record file_op =
  fo_path :: string
  fo_op :: string
  fo_content :: string

record git_opts =
  go_url :: string
  go_branch :: string
  go_user :: string
  go_token :: string

record 's gogit =
  gg_newdir :: "'s \<Rightarrow> (string + string) \<times> 's"
  gg_rmall :: "string \<Rightarrow> 's \<Rightarrow> 's"
  gg_clone :: "string \<Rightarrow> string \<Rightarrow> string \<Rightarrow> string \<Rightarrow> string \<Rightarrow> 's \<Rightarrow> (string + unit) \<times> 's"
  gg_ignore :: "string \<Rightarrow> 's \<Rightarrow> (string + (string list \<Rightarrow> bool) option) \<times> 's"
  gg_stat :: "string \<Rightarrow> string \<Rightarrow> 's \<Rightarrow> bool \<times> 's"
  gg_remove :: "string \<Rightarrow> string \<Rightarrow> 's \<Rightarrow> (string + unit) \<times> 's"
  gg_mkdirs :: "string \<Rightarrow> string \<Rightarrow> 's \<Rightarrow> (string + unit) \<times> 's"
  gg_write :: "string \<Rightarrow> string \<Rightarrow> string \<Rightarrow> 's \<Rightarrow> (string + unit) \<times> 's"
  gg_addall :: "string \<Rightarrow> 's \<Rightarrow> (string + unit) \<times> 's"
  gg_clean :: "string \<Rightarrow> 's \<Rightarrow> (string + bool) \<times> 's"
  gg_commit :: "string \<Rightarrow> string \<Rightarrow> 's \<Rightarrow> (string + string) \<times> 's"
  gg_setref :: "string \<Rightarrow> string \<Rightarrow> string \<Rightarrow> 's \<Rightarrow> (string + unit) \<times> 's"
  gg_push :: "string \<Rightarrow> string \<Rightarrow> bool \<Rightarrow> string \<Rightarrow> string \<Rightarrow> 's \<Rightarrow> (string + unit) \<times> 's"

definition gg :: "('s \<Rightarrow> (string + 'a) \<times> 's) \<Rightarrow> ('s, submit_err, 'a) act" where
  "gg f = map_err sub_other (of_sum f)"

definition gg_at :: "string \<Rightarrow> ('s \<Rightarrow> (string + 'a) \<times> 's) \<Rightarrow> ('s, submit_err, 'a) act" where
  "gg_at what f = map_err (\<lambda>m. sub_other (what @ '': '' @ m)) (of_sum f)"

definition illegal_path :: "string \<Rightarrow> bool" where
  "illegal_path path = (path = [] \<or> contains path ''..'' \<or> has_prefix path ''/'')"

definition applyFile ::
  "'s gogit \<Rightarrow> string \<Rightarrow> (string list \<Rightarrow> bool) option \<Rightarrow> file_op \<Rightarrow> ('s, submit_err, unit) act" where
  "applyFile g dir ignored op =
    (let path = trim_space (fo_path op) in
     if illegal_path path then throw (sub_other (''illegal path '' @ go_quote (fo_path op)))
     else if (case ignored of Some m \<Rightarrow> m (split_at CHR ''/'' path) | None \<Rightarrow> False)
     then throw (SubmitErr IgnoredPath (ignored_text @ '': '' @ path))
     else if fo_op op = ''delete'' then
       bnd (\<lambda>s. case gg_stat g dir path s of (b, s') \<Rightarrow> (Ok b, s')) (\<lambda>there.
         if \<not> there then ret () else gg (gg_remove g dir path))
     else
       bnd (let d = path_dir path in if d \<noteq> ''.'' \<and> d \<noteq> [] then gg (gg_mkdirs g dir d) else ret ()) (\<lambda>_.
         gg (gg_write g dir path (fo_content op))))"

text \<open>\<^verbatim>\<open>defer os.RemoveAll(dir)\<close>: the clone goes on every way out, a panic included.\<close>

definition deferring :: "('s \<Rightarrow> 's) \<Rightarrow> ('s, 'e, 'a) act \<Rightarrow> ('s, 'e, 'a) act" where
  "deferring f m = (\<lambda>s. case m s of (r, s') \<Rightarrow> (r, f s'))"

lemma keeps_deferring: "preord R \<Longrightarrow> keeps R m \<Longrightarrow> (\<And>s. R s (f s)) \<Longrightarrow> keeps R (deferring f m)"
  by (rule keepsI) (auto simp: deferring_def split: prod.splits dest: keepsD intro: preord_trans)

definition push_refspec :: "string \<Rightarrow> string" where
  "push_refspec branch = ''refs/heads/'' @ branch @ '':refs/heads/'' @ branch"

definition Submit ::
  "'s gogit \<Rightarrow> git_opts \<Rightarrow> string \<Rightarrow> string \<Rightarrow> string \<Rightarrow> file_op list \<Rightarrow> ('s, submit_err, string) act" where
  "Submit g opt base newBranch message ops =
    (if trim_space newBranch = [] then throw (sub_other ''newBranch is required'')
     else if trim_space message = [] then throw (sub_other ''message is required'')
     else if ops = [] then throw (sub_other ''no file operations given'') else
     bnd (gg (gg_newdir g)) (\<lambda>dir. deferring (gg_rmall g dir)
      (bnd (gg_at (''clone '' @ base) (gg_clone g dir (go_url opt) (go_user opt) (go_token opt) base)) (\<lambda>_.
       bnd (gg_at ''read .gitignore'' (gg_ignore g dir)) (\<lambda>ignored.
       bnd (each (\<lambda>op. map_err (sub_wrap (''apply '' @ fo_path op)) (applyFile g dir ignored op)) ops) (\<lambda>_.
       bnd (gg_at ''stage'' (gg_addall g dir)) (\<lambda>_.
       bnd (gg_at ''status'' (gg_clean g dir)) (\<lambda>clean.
       if clean then throw ErrNoChanges else
       bnd (gg_at ''commit'' (gg_commit g dir message)) (\<lambda>hash.
       bnd (gg (gg_setref g dir newBranch hash)) (\<lambda>_.
       bnd (gg_at (''push '' @ newBranch)
              (gg_push g dir (push_refspec newBranch) False (go_user opt) (go_token opt))) (\<lambda>_.
       ret hash)))))))))))"

subsection \<open>Properties\<close>

text \<open>A file operation whose trimmed path is empty, absolute or contains two dots in a row, or
  which the repository's ignore rules match, is refused before anything outside is called.\<close>

theorem applyFile_refuses:
  assumes "illegal_path (trim_space (fo_path op)) \<or>
           (\<exists>m. ignored = Some m \<and> m (split_at CHR ''/'' (trim_space (fo_path op))))"
  shows "\<exists>e. applyFile g dir ignored op s = (Fail e, s)"
  using assms by (auto simp: applyFile_def Let_def act)

lemma applyFile_refuses_witness:
  "\<exists>e. applyFile (undefined :: unit gogit) ''/tmp/c'' None \<lparr>fo_path = '' ../x'', fo_op = ''write'', fo_content = []\<rparr> () = (Fail e, ())"
proof -
  have "illegal_path (trim_space '' ../x'')" by code_simp
  then show ?thesis
    using applyFile_refuses [of "\<lparr>fo_path = '' ../x'', fo_op = ''write'', fo_content = []\<rparr>" None undefined "''/tmp/c''" "()"]
    by simp
qed

text \<open>The path check does not protect the clone's own metadata: a write to \<^verbatim>\<open>.git/config\<close> in a
  repository without ignore rules goes straight to the file system of the clone, whose remote the
  push that follows is sent to with the gateway's token.\<close>

theorem applyFile_writes_git_config:
  "applyFile g dir None \<lparr>fo_path = ''.git/config'', fo_op = ''write'', fo_content = text\<rparr> =
   bnd (gg (gg_mkdirs g dir ''.git'')) (\<lambda>_. gg (gg_write g dir ''.git/config'' text))"
proof -
  have "trim_space ''.git/config'' = ''.git/config''" "\<not> illegal_path ''.git/config''"
    "path_dir ''.git/config'' = ''.git''" by code_simp+
  then show ?thesis by (simp add: applyFile_def Let_def)
qed

text \<open>Whatever happens while a change is submitted (an error of git, a refused file, even a panic),
  the directory of the clone is removed last: the state a submission ends in is one that removing
  the directory produced.\<close>

theorem Submit_removes_clone:
  assumes "gg_newdir g s = (Inr dir, s1)" "trim_space newBranch \<noteq> []" "trim_space message \<noteq> []" "ops \<noteq> []"
  shows "\<exists>s2. snd (Submit g opt base newBranch message ops s) = gg_rmall g dir s2"
proof -
  have "gg (gg_newdir g) s = (Ok dir, s1)"
    using assms(1) by (simp add: gg_def map_err_cases of_sum_def)
  then have "bnd (gg (gg_newdir g)) k s = k dir s1" for k :: "string \<Rightarrow> ('a, submit_err, string) act"
    by (simp add: bnd_cases)
  with assms(2-) show ?thesis
    by (auto simp: Submit_def deferring_def split: prod.split)
qed

definition dir_counter :: "int gogit" where
  "dir_counter =
    \<lparr>gg_newdir = (\<lambda>n. (Inr ''/tmp/c'', n + 1)), gg_rmall = (\<lambda>d n. n - 1),
     gg_clone = (\<lambda>d u n t b x. (Inl ''connection refused'', x)), gg_ignore = (\<lambda>d x. (Inr None, x)),
     gg_stat = (\<lambda>d p x. (True, x)), gg_remove = (\<lambda>d p x. (Inr (), x)), gg_mkdirs = (\<lambda>d p x. (Inr (), x)),
     gg_write = (\<lambda>d p c x. (Inr (), x)), gg_addall = (\<lambda>d x. (Inr (), x)), gg_clean = (\<lambda>d x. (Inr False, x)),
     gg_commit = (\<lambda>d m x. (Inr ''abc123'', x)), gg_setref = (\<lambda>d b s x. (Inr (), x)),
     gg_push = (\<lambda>d rs f u t x. (Inr (), x))\<rparr>"

lemma Submit_removes_clone_witness:
  "snd (Submit dir_counter \<lparr>go_url = ''u'', go_branch = ''main'', go_user = [], go_token = []\<rparr> ''main'' ''mr/x'' ''msg''
     [\<lparr>fo_path = ''a'', fo_op = ''write'', fo_content = []\<rparr>] 0) = 0 \<and>
   (\<exists>s2. snd (Submit dir_counter \<lparr>go_url = ''u'', go_branch = ''main'', go_user = [], go_token = []\<rparr> ''main'' ''mr/x'' ''msg''
     [\<lparr>fo_path = ''a'', fo_op = ''write'', fo_content = []\<rparr>] 0) = gg_rmall dir_counter ''/tmp/c'' s2)"
proof
  show "snd (Submit dir_counter \<lparr>go_url = ''u'', go_branch = ''main'', go_user = [], go_token = []\<rparr> ''main'' ''mr/x'' ''msg''
     [\<lparr>fo_path = ''a'', fo_op = ''write'', fo_content = []\<rparr>] 0) = 0" by code_simp
  have "trim_space ''mr/x'' \<noteq> []" "trim_space ''msg'' \<noteq> []" by code_simp+
  then show "\<exists>s2. snd (Submit dir_counter \<lparr>go_url = ''u'', go_branch = ''main'', go_user = [], go_token = []\<rparr> ''main'' ''mr/x'' ''msg''
     [\<lparr>fo_path = ''a'', fo_op = ''write'', fo_content = []\<rparr>] 0) = gg_rmall dir_counter ''/tmp/c'' s2"
    using Submit_removes_clone [of dir_counter 0 "''/tmp/c''" 1 "''mr/x''" "''msg''"]
    by (simp add: dir_counter_def)
qed

end
