(* ===== verification/World.thy ===== *)
theory World
  imports Members ForgejoBrowse SandboxMgr GitCommit
begin

text \<open>
  The state the request handlers of \<^verbatim>\<open>internal/workspacesvc\<close> run on, and the \<^verbatim>\<open>Service\<close>
  they are methods of.  The state holds the ownership store, everything outside the gateway (of
  an arbitrary type \<open>'x\<close>), and the trace of the calls made to it.  The agent, the git host, the
  Kubernetes API, the message bus, the clock and the SQL driver's failures are the fields of
  \<open>service\<close>; a handler reaches them only through the logged versions defined here.
\<close>

subsection \<open>Errors and headers\<close>

datatype code =
    CodeInvalidArgument | CodeNotFound | CodeAlreadyExists | CodePermissionDenied
  | CodeFailedPrecondition | CodeInternal | CodeUnauthenticated | CodeUnavailable
  | CodeDeadlineExceeded | CodeOther nat

datatype cerr = CErr code string

fun err_code :: "cerr \<Rightarrow> code" where "err_code (CErr c m) = c"
fun err_msg :: "cerr \<Rightarrow> string" where "err_msg (CErr c m) = m"

text \<open>Request headers under their canonical names; \<open>None\<close> is a nil header.\<close>

type_synonym headers = "(string \<times> string list) list option"

definition hdr_values :: "headers \<Rightarrow> string \<Rightarrow> string list" where
  "hdr_values h name = (case h of None \<Rightarrow> [] | Some m \<Rightarrow> (case map_of m name of Some vs \<Rightarrow> vs | None \<Rightarrow> []))"

definition hdr_get :: "headers \<Rightarrow> string \<Rightarrow> string" where
  "hdr_get h name = (case hdr_values h name of v # _ \<Rightarrow> v | [] \<Rightarrow> [])"

definition headerValue :: "headers \<Rightarrow> string \<Rightarrow> string" where
  "headerValue h name = trim_space (hdr_get h name)"

definition forwardedHost :: "headers \<Rightarrow> string" where
  "forwardedHost h = (let v = headerValue h ''X-Forwarded-Host'' in
     if v \<noteq> [] then v else headerValue h ''Host'')"

definition bearerToken :: "headers \<Rightarrow> string" where
  "bearerToken h = (case find (\<lambda>v. has_prefix v ''Bearer '') (hdr_values h ''Authorization'') of
      Some v \<Rightarrow> trim_space (trim_prefix v ''Bearer '') | None \<Rightarrow> [])"

definition sessionFromHeaders :: "headers \<Rightarrow> string" where
  "sessionFromHeaders h = hdr_get h ''X-Session-Name''"

definition validTenantID :: "string \<Rightarrow> bool" where
  "validTenantID t = (t \<noteq> [] \<and> length t \<le> 64 \<and>
     list_all (\<lambda>c. is_alnum c \<or> c = CHR ''_'' \<or> c = CHR ''-'') t)"

subsection \<open>Calls to the outside\<close>

record create_req =
  cr_name :: string
  cr_preset :: string
  cr_model :: string
  cr_locale :: string

record fork_req =
  fk_id :: string
  fk_name :: string
  fk_message :: string
  fk_preset :: string

datatype verb = VCreate | VUpdate | VGet | VDelete | VList

datatype call =
    CHttp greq
  | CGetIdentity
  | CGetSession string
  | CCreateSession create_req
  | CFork fork_req
  | CDeleteSession string
  | CListSessions
  | CGetConfig string
  | CKube verb string string
  | CMailbox string string string string
  | CGitClone string string
  | CGitPush string bool
  | CWorker string string
  | CDynamic verb string string json
  | CGitFetch string
  | CImportPush string string
  | CRegistry string
  | CBuildctl "string list"

record 'x world =
  db :: store
  trace :: "call list"
  ext :: 'x

record 'x agent =
  ag_identity :: "headers \<Rightarrow> 'x \<Rightarrow> (cerr + string) \<times> 'x"
  ag_get_session :: "headers \<Rightarrow> string \<Rightarrow> 'x \<Rightarrow> (cerr + bool) \<times> 'x"
  ag_create :: "headers \<Rightarrow> create_req \<Rightarrow> 'x \<Rightarrow> (cerr + unit) \<times> 'x"
  ag_fork :: "headers \<Rightarrow> fork_req \<Rightarrow> 'x \<Rightarrow> (cerr + unit) \<times> 'x"
  ag_delete :: "headers \<Rightarrow> string \<Rightarrow> 'x \<Rightarrow> (cerr + unit) \<times> 'x"
  ag_list :: "headers \<Rightarrow> 'x \<Rightarrow> (cerr + string list) \<times> 'x"
  ag_config :: "headers \<Rightarrow> string \<Rightarrow> 'x \<Rightarrow> (cerr + string) \<times> 'x"

definition logged :: "call \<Rightarrow> ('x \<Rightarrow> 'r \<times> 'x) \<Rightarrow> 'x world \<Rightarrow> 'r \<times> 'x world" where
  "logged c f w = (case f (ext w) of (r, x) \<Rightarrow> (r, w\<lparr>trace := trace w @ [c], ext := x\<rparr>))"

definition quiet :: "('x \<Rightarrow> 'r \<times> 'x) \<Rightarrow> 'x world \<Rightarrow> 'r \<times> 'x world" where
  "quiet f w = (case f (ext w) of (r, x) \<Rightarrow> (r, w\<lparr>ext := x\<rparr>))"

definition lift_kapi :: "string \<Rightarrow> ('o \<Rightarrow> kmeta) \<Rightarrow> ('o, 'x) kapi \<Rightarrow> ('o, 'x world) kapi" where
  "lift_kapi kind meta api =
     \<lparr>k_create = (\<lambda>ns ob. logged (CKube VCreate kind (om_name (meta ob))) (k_create api ns ob)),
      k_get = (\<lambda>ns n. logged (CKube VGet kind n) (k_get api ns n)),
      k_delete = (\<lambda>ns n. logged (CKube VDelete kind n) (k_delete api ns n)),
      k_list = (\<lambda>ns sel. logged (CKube VList kind []) (k_list api ns sel))\<rparr>"

definition lift_sbx :: "'x sbx_client \<Rightarrow> 'x world sbx_client" where
  "lift_sbx c =
    \<lparr>sc_secrets = lift_kapi ''secrets'' sec_meta (sc_secrets c),
     sc_pods = lift_kapi ''pods'' pod_meta (sc_pods c),
     sc_services = lift_kapi ''services'' sv_meta (sc_services c),
     sc_ns = sc_ns c, sc_cpu_req = sc_cpu_req c, sc_cpu_lim = sc_cpu_lim c,
     sc_mem_req = sc_mem_req c, sc_mem_lim = sc_mem_lim c, sc_restart = sc_restart c,
     sc_sha256 = sc_sha256 c, sc_quantity = sc_quantity c,
     sc_rand = quiet (sc_rand c), sc_now = quiet (sc_now c),
     sc_sleep = (\<lambda>ms. quiet (sc_sleep c ms)), sc_dial = (\<lambda>a. quiet (sc_dial c a))\<rparr>"

definition lift_git :: "'x fclient \<Rightarrow> 'x world fclient" where
  "lift_git c = \<lparr>fc_base = fc_base c, fc_token = fc_token c,
                 fc_http = (\<lambda>rq. logged (CHttp rq) (fc_http c rq))\<rparr>"

definition lift_gogit :: "'x gogit \<Rightarrow> 'x world gogit" where
  "lift_gogit g =
    \<lparr>gg_newdir = quiet (gg_newdir g), gg_rmall = (\<lambda>d w. w\<lparr>ext := gg_rmall g d (ext w)\<rparr>),
     gg_clone = (\<lambda>d url u t b. logged (CGitClone url b) (gg_clone g d url u t b)),
     gg_ignore = (\<lambda>d. quiet (gg_ignore g d)), gg_stat = (\<lambda>d p. quiet (gg_stat g d p)),
     gg_remove = (\<lambda>d p. quiet (gg_remove g d p)), gg_mkdirs = (\<lambda>d p. quiet (gg_mkdirs g d p)),
     gg_write = (\<lambda>d p c. quiet (gg_write g d p c)), gg_addall = (\<lambda>d. quiet (gg_addall g d)),
     gg_clean = (\<lambda>d. quiet (gg_clean g d)), gg_commit = (\<lambda>d m. quiet (gg_commit g d m)),
     gg_setref = (\<lambda>d b h. quiet (gg_setref g d b h)),
     gg_push = (\<lambda>d rs force u t. logged (CGitPush rs force) (gg_push g d rs force u t))\<rparr>"

subsection \<open>The service\<close>

record 'x service =
  sv_agent :: "'x agent"
  sv_git :: "'x fclient"
  sv_gogit :: "'x gogit"
  sv_sbx :: "'x sbx_client option"
  sv_sql :: "'x \<Rightarrow> string option \<times> 'x"
  sv_unix :: "'x \<Rightarrow> int \<times> 'x"
  sv_nanos :: "'x \<Rightarrow> int \<times> 'x"
  sv_bus :: "(string \<Rightarrow> string \<Rightarrow> string \<Rightarrow> string \<Rightarrow> 'x \<Rightarrow> (string + unit) \<times> 'x) option"
  sv_token :: string
  sv_tenant :: string
  sv_sandboxOrg :: string
  sv_imageHost :: string
  sv_defaultImage :: string

type_synonym ('x, 'a) handler = "('x world, cerr, 'a) act"

abbreviation git where "git S \<equiv> lift_git (sv_git S)"

abbreviation gogit where "gogit S \<equiv> lift_gogit (sv_gogit S)"

text \<open>A method call on the sandbox client; a nil client is dereferenced and panics.\<close>

definition with_sbx :: "'x service \<Rightarrow> ('x world sbx_client \<Rightarrow> ('x world, 'e, 'a) act) \<Rightarrow> ('x world, 'e, 'a) act" where
  "with_sbx S f = (case sv_sbx S of Some c \<Rightarrow> f (lift_sbx c) | None \<Rightarrow> panic ''nil pointer dereference'')"

definition internal :: "string \<Rightarrow> cerr" where "internal m = CErr CodeInternal m"

subsection \<open>The store's methods\<close>

text \<open>A statement fails without effect, or runs.\<close>

definition exec :: "'x service \<Rightarrow> (store \<Rightarrow> store) \<Rightarrow> ('x world, string, unit) act" where
  "exec S f = (\<lambda>w. case sv_sql S (ext w) of
      (Some e, x) \<Rightarrow> (Fail e, w\<lparr>ext := x\<rparr>)
    | (None, x) \<Rightarrow> (Ok (), w\<lparr>db := f (db w), ext := x\<rparr>))"

definition query :: "'x service \<Rightarrow> (store \<Rightarrow> 'a) \<Rightarrow> ('x world, string, 'a) act" where
  "query S f = (\<lambda>w. case sv_sql S (ext w) of
      (Some e, x) \<Rightarrow> (Fail e, w\<lparr>ext := x\<rparr>)
    | (None, x) \<Rightarrow> (Ok (f (db w)), w\<lparr>ext := x\<rparr>))"

definition AddRepo where "AddRepo S t o' r = exec S (addRepo t o' r)"
definition OwnsRepo where "OwnsRepo S t o' r = query S (ownsRepo t o' r)"
definition RemoveRepo where "RemoveRepo S t o' r = exec S (removeRepo t o' r)"
definition AddOrg where "AddOrg S t o' = exec S (addOrg t o')"
definition OwnsOrg where "OwnsOrg S t o' = query S (ownsOrg t o')"
definition OrgOwner where "OrgOwner S o' = query S (orgOwner o')"
definition ListOrgsOf where "ListOrgsOf S t = query S (listOrgs t)"
definition ListReposOf where "ListReposOf S t = query S (listRepos t)"
definition AddMRSubmission where
  "AddMRSubmission S t o' r i b h og =
     bnd (\<lambda>w. case quiet (sv_unix S) w of (n, w') \<Rightarrow> (Ok n, w')) (\<lambda>now. exec S (addMRSubmission now t o' r i b h og))"
definition MRSubmission where "MRSubmission S t o' r i = query S (mrSubmission t o' r i)"
definition DeleteMRSubmission where "DeleteMRSubmission S t o' r i = exec S (deleteMRSubmission t o' r i)"
definition AddFreeSession where "AddFreeSession S t s ro = exec S (addFreeSession t s ro)"
definition FreeRole where "FreeRole S t s = query S (freeRole t s)"
definition DeleteFreeSession where "DeleteFreeSession S t s = exec S (deleteFreeSession t s)"
definition FreeSessions where "FreeSessions S t = query S (freeSessions t)"

text \<open>\<^verbatim>\<open>return connect.NewError(connect.CodeInternal, err.Error())\<close>\<close>

definition or_internal :: "('s, string, 'a) act \<Rightarrow> ('s, cerr, 'a) act" where
  "or_internal m = map_err internal m"

definition git_internal :: "('s, gerr, 'a) act \<Rightarrow> ('s, cerr, 'a) act" where
  "git_internal m = map_err (\<lambda>e. internal (gerr_text e)) m"

subsection \<open>The caller's tenant\<close>

definition serviceTenant :: "'x service \<Rightarrow> headers \<Rightarrow> string option" where
  "serviceTenant S h =
     (if sv_token S = [] \<or> bearerToken h \<noteq> sv_token S then None
      else let t = headerValue h ''X-Abc-Tenant'' in
           if validTenantID t then Some t else Some (sv_tenant S))"

definition agent_call :: "call \<Rightarrow> ('x \<Rightarrow> (cerr + 'a) \<times> 'x) \<Rightarrow> ('x, 'a) handler" where
  "agent_call c f = of_sum (logged c f)"

definition resolveTenant :: "'x service \<Rightarrow> headers \<Rightarrow> ('x, string) handler" where
  "resolveTenant S h = (case serviceTenant S h of
      Some t \<Rightarrow> ret t
    | None \<Rightarrow> bnd (agent_call CGetIdentity (ag_identity (sv_agent S) h))
        (\<lambda>t. if t = [] then throw (CErr CodeUnauthenticated ''no tenant for credential'') else ret t))"

definition sandboxAuth :: "'x service \<Rightarrow> headers \<Rightarrow> ('x, string) handler" where
  "sandboxAuth S h = (case serviceTenant S h of Some t \<Rightarrow> ret t | None \<Rightarrow> resolveTenant S h)"

definition tenantOf :: "'x service \<Rightarrow> headers \<Rightarrow> ('x, string) handler" where
  "tenantOf S h = bnd (attempt (resolveTenant S h)) (\<lambda>r. case r of Inr t \<Rightarrow> ret t | Inl _ \<Rightarrow> ret [])"

subsection \<open>Rules for the primitive calls\<close>

text \<open>What only a logged call changes: the outside and the trace, never the store.\<close>

abbreviation same_db :: "'x world \<Rightarrow> 'x world \<Rightarrow> bool" where
  "same_db \<equiv> (\<lambda>w w'. db w' = db w)"

definition traced_in :: "(call \<Rightarrow> bool) \<Rightarrow> 'x world \<Rightarrow> 'x world \<Rightarrow> bool" where
  "traced_in P w w' = (\<exists>cs. trace w' = trace w @ cs \<and> list_all P cs)"

lemma preord_traced_in [simp, intro]: "preord (traced_in P)"
proof (unfold preord_def, intro conjI)
  show "reflp (traced_in P)" by (simp add: reflp_def traced_in_def)
  show "transp (traced_in P)"
  proof (rule transpI)
    fix x y z
    assume "traced_in P x y" and "traced_in P y z"
    then obtain c d where "trace y = trace x @ c" "list_all P c" "trace z = trace y @ d" "list_all P d"
      by (auto simp: traced_in_def)
    then show "traced_in P x z" by (auto simp: traced_in_def intro: exI [of _ "c @ d"])
  qed
qed

lemma db_logged: "logged c f w = (r, w') \<Longrightarrow> db w' = db w"
  by (auto simp: logged_def split: prod.splits)
lemma trace_logged: "logged c f w = (r, w') \<Longrightarrow> trace w' = trace w @ [c]"
  by (auto simp: logged_def split: prod.splits)
lemma db_quiet: "quiet f w = (r, w') \<Longrightarrow> db w' = db w \<and> trace w' = trace w"
  by (auto simp: quiet_def split: prod.splits)

lemma keeps_of_sum: "(\<And>w r w'. f w = (r, w') \<Longrightarrow> R w w') \<Longrightarrow> keeps R (of_sum f)"
  by (rule keepsI) (auto simp: of_sum_def split: prod.splits sum.splits)

lemma keeps_db_logged [keeps]: "keeps same_db (of_sum (logged c f))"
  by (rule keeps_of_sum) (erule db_logged)
lemma keeps_db_quiet [keeps]: "keeps same_db (of_sum (quiet f))"
  by (rule keeps_of_sum) (simp add: db_quiet)
lemma keeps_trace_logged [keeps]: "P c \<Longrightarrow> keeps (traced_in P) (of_sum (logged c f))"
  by (rule keeps_of_sum) (auto simp: traced_in_def dest!: trace_logged)
lemma keeps_trace_quiet [keeps]: "keeps (traced_in P) (of_sum (quiet f))"
  by (rule keeps_of_sum) (auto simp: traced_in_def dest: db_quiet)
lemma keeps_db_query [keeps]: "keeps same_db (query S f)"
  by (rule keepsI) (auto simp: query_def split: prod.splits option.splits)
lemma keeps_trace_query [keeps]: "keeps (traced_in P) (query S f)"
  by (rule keepsI) (auto simp: query_def traced_in_def split: prod.splits option.splits)
lemma keeps_trace_exec [keeps]: "keeps (traced_in P) (exec S f)"
  by (rule keepsI) (auto simp: exec_def traced_in_def split: prod.splits option.splits)
lemma keeps_exec [keeps]:
  "preord R \<Longrightarrow> (\<And>w x. R w (w\<lparr>ext := x\<rparr>)) \<Longrightarrow> (\<And>w x. R w (w\<lparr>db := f (db w), ext := x\<rparr>)) \<Longrightarrow>
   keeps R (exec S f)"
  by (rule keepsI) (auto simp: exec_def split: prod.splits option.splits)

lemma keeps_agent_call [keeps]:
  "keeps same_db (agent_call c f)" "P c \<Longrightarrow> keeps (traced_in P) (agent_call c f)"
  by (simp_all add: agent_call_def keeps)

lemma wp_query:
  assumes "\<And>e w'. db w' = db w \<Longrightarrow> trace w' = trace w \<Longrightarrow> Q (Fail e) w'"
    and "\<And>w'. db w' = db w \<Longrightarrow> trace w' = trace w \<Longrightarrow> Q (Ok (f (db w))) w'"
  shows "wp (query S f) Q w"
  using assms by (auto simp: wp_def query_def split: prod.splits option.splits)

lemma wp_exec:
  assumes "\<And>e w'. db w' = db w \<Longrightarrow> trace w' = trace w \<Longrightarrow> Q (Fail e) w'"
    and "\<And>w'. db w' = f (db w) \<Longrightarrow> trace w' = trace w \<Longrightarrow> Q (Ok ()) w'"
  shows "wp (exec S f) Q w"
  using assms by (auto simp: wp_def exec_def split: prod.splits option.splits)

lemma wp_agent_call:
  assumes "\<And>r w'. db w' = db w \<Longrightarrow> trace w' = trace w @ [c] \<Longrightarrow> (\<forall>m. r \<noteq> Panic m) \<Longrightarrow> Q r w'"
  shows "wp (agent_call c f) Q w"
  unfolding agent_call_def
  by (rule wp_of_sum) (auto intro!: assms dest: db_logged trace_logged)

end
