(* ===== verification/Frames.thy ===== *)
theory Frames
  imports World
begin

text \<open>
  What the two external clients may change, proved once against the contract of their
  transport.  \<open>http_frame\<close>: the Forgejo client relies on an HTTP transport all of whose calls
  with an admitted method stay within a relation \<open>R\<close>; then so do its operations.
  \<open>kube_frame\<close>: the same for the sandbox manager and the Kubernetes API.  Both are interpreted
  on the logged transports of theory \<open>World\<close>: they leave the ownership store alone, and add only
  calls of their own kind to the trace.
\<close>

lemma keeps_gerr [keeps]:
  "(\<And>u. keeps R (f u)) \<Longrightarrow> (\<And>p r. keeps R (g p r)) \<Longrightarrow> (\<And>m. keeps R (h m)) \<Longrightarrow>
   keeps R (case e of GNotFound u \<Rightarrow> f u | GConflict p r \<Rightarrow> g p r | GOther m \<Rightarrow> h m)"
  by (cases e) auto

lemma keeps_json_sum [keeps]:
  "preord R \<Longrightarrow> keeps R (decode_with f rs)"
  by (auto simp: decode_with_def intro!: keeps split: sum.split)

locale http_frame =
  fixes R :: "'s \<Rightarrow> 's \<Rightarrow> bool" and c :: "'s fclient" and M :: "string \<Rightarrow> bool"
  assumes pre: "preord R"
    and http: "\<And>rq. M (rq_method rq) \<Longrightarrow> keeps R (of_sum (fc_http c rq))"
begin

lemma do_keeps:
  assumes "M m"
  shows "keeps R (fg_do c m path q body)" "keeps R (do_map c m path q body)"
    "keeps R (do_rows c m path q body)" "keeps R (do_any c m path q body)"
    "keeps R (do_unit c m path q body)" "keeps R (do_count c m path q)"
  using assms
  by (auto simp: fg_do_def do_map_def do_rows_def do_any_def do_unit_def do_count_def
      intro!: keeps pre http)

lemma fetch_keeps: "M ''GET'' \<Longrightarrow> keeps R (fetch c url shown what)"
  by (auto simp: fetch_def intro!: keeps pre http)

lemma exists_keeps: "keeps R m \<Longrightarrow> keeps R (exists_of m)"
  by (auto simp: exists_of_def intro!: keeps pre)

lemmas step = keeps pre do_keeps fetch_keeps exists_keeps

lemma reads:
  assumes "M ''GET''"
  shows "keeps R (git_GetRepo c org repo)" "keeps R (git_RepoExists c org repo)"
    "keeps R (git_BranchExists c org repo b)" "keeps R (git_Branches c org repo)"
    "keeps R (git_BranchTip c org repo b)" "keeps R (git_Tags c org repo)"
    "keeps R (git_ListMRs c org repo st)" "keeps R (git_GetMR c org repo i)"
    "keeps R (git_MRComments c org repo i)" "keeps R (git_GetCommit c org repo sha)"
    "keeps R (git_ListPushMirrors c org repo)" "keeps R (git_MRDiff c org repo i)"
    "keeps R (git_CommitDiff c org repo sha)" "keeps R (git_RawFile c org repo r p)"
    "keeps R (git_ArchiveTarGz c org repo r)"
  using assms
  by (auto simp: git_GetRepo_def git_RepoExists_def git_BranchExists_def git_Branches_def
      git_BranchTip_def git_Tags_def git_ListMRs_def git_GetMR_def git_MRComments_def
      git_GetCommit_def git_ListPushMirrors_def git_MRDiff_def git_CommitDiff_def git_RawFile_def
      git_ArchiveTarGz_def rawText_def Let_def intro!: step)

lemma tree_keeps: "M ''GET'' \<Longrightarrow> keeps R (git_Tree c org repo r p)"
  by (auto simp: git_Tree_def Let_def intro!: step split: json.split)

lemma log_pages_keeps: "(\<And>p. keeps R (get p)) \<Longrightarrow> keeps R (log_pages get page n)"
  by (induction n arbitrary: page) (auto intro!: keeps pre)

lemma log_keeps: "M ''GET'' \<Longrightarrow> keeps R (git_Log c org repo r p l off)"
  by (auto simp: git_Log_def Let_def intro!: step log_pages_keeps)

lemma posts:
  assumes "M ''POST''"
  shows "keeps R (git_ProtectMain c org repo)" "keeps R (create_repo_at c org body)"
    "keeps R (git_CreateBranch c org repo b base)" "keeps R (git_CreateTagAt c org repo n t)"
    "keeps R (git_CreateMR c org repo title head base body')" "keeps R (git_CommentMR c org repo i text)"
    "keeps R (git_MergeMR c org repo i sha)" "keeps R (git_SetPushMirror c org repo opt)"
  using assms
  by (auto simp: git_ProtectMain_def create_repo_at_def git_CreateBranch_def git_CreateTagAt_def
      git_CreateMR_def git_CommentMR_def git_MergeMR_def git_SetPushMirror_def intro!: step)

lemma patches:
  assumes "M ''PATCH''"
  shows "keeps R (git_SetDefaultBranch c org repo b)" "keeps R (git_CloseMR c org repo i)"
  using assms by (auto simp: git_SetDefaultBranch_def git_CloseMR_def intro!: step)

lemma deletes:
  assumes "M ''DELETE''"
  shows "keeps R (git_DeleteRepo c org repo)" "keeps R (git_DeleteBranch c org repo b)"
    "keeps R (git_DeletePushMirror c org repo n)"
  using assms
  by (auto simp: git_DeleteRepo_def git_DeleteBranch_def git_DeletePushMirror_def intro!: step)

lemma ensures:
  assumes "M ''GET''" "M ''POST''"
  shows "keeps R (git_EnsureOrg c org)" "keeps R (git_EnsureRepo c org repo)"
    "keeps R (git_CreateEmptyRepo c org repo d)"
proof -
  show org: "keeps R (git_EnsureOrg c org)" for org
    using assms by (auto simp: git_EnsureOrg_def intro!: step)
  show "keeps R (git_EnsureRepo c org repo)" "keeps R (git_CreateEmptyRepo c org repo d)"
    using assms
    by (auto simp: git_EnsureRepo_def git_CreateEmptyRepo_def intro!: step reads posts org)
qed

end

interpretation git_db: http_frame same_db "lift_git c" "\<lambda>_. True" for c
  by unfold_locales (auto simp: lift_git_def intro!: keeps)

text \<open>Calls to the git host with an admitted method, or anything that is not such a call.\<close>

definition http_only :: "(string \<Rightarrow> bool) \<Rightarrow> call \<Rightarrow> bool" where
  "http_only M cl = (case cl of CHttp rq \<Rightarrow> M (rq_method rq) | _ \<Rightarrow> True)"

interpretation git_trace: http_frame "traced_in (http_only M)" "lift_git c" M for M c
  by unfold_locales (auto simp: lift_git_def http_only_def intro!: keeps)

text \<open>Every call satisfies \<open>P\<close>, where \<open>P\<close> admits any request to the host.\<close>

definition no_http :: "call \<Rightarrow> bool" where "no_http = http_only (\<lambda>_. False)"

lemma traced_in_mono: "traced_in P w w' \<Longrightarrow> (\<And>c. P c \<Longrightarrow> Q c) \<Longrightarrow> traced_in Q w w'"
  by (auto simp: traced_in_def list_all_iff)

lemma keeps_traced_mono: "keeps (traced_in P) m \<Longrightarrow> (\<And>c. P c \<Longrightarrow> Q c) \<Longrightarrow> keeps (traced_in Q) m"
  by (auto simp: keeps_def intro: traced_in_mono)

lemma wp_traced:
  "keeps (traced_in P) m \<Longrightarrow> traced_in P u s \<Longrightarrow> (\<And>r s'. traced_in P u s' \<Longrightarrow> Q r s') \<Longrightarrow> wp m Q s"
  by (rule wp_after [OF _ preord_traced_in])

text \<open>What adds no request to the host satisfies any condition on the host's requests.\<close>

definition free_of_http :: "(call \<Rightarrow> bool) \<Rightarrow> bool" where
  "free_of_http P = (\<forall>c. (\<forall>rq. c \<noteq> CHttp rq) \<longrightarrow> P c)"

lemma keeps_free_of_http: "keeps (traced_in (http_only (\<lambda>_. False))) m \<Longrightarrow> free_of_http P \<Longrightarrow> keeps (traced_in P) m"
  by (erule keeps_traced_mono) (auto simp: http_only_def free_of_http_def split: call.splits)

lemma lift_git_sel [simp]:
  "full_url (lift_git c) p q = full_url c p q" "auth_of (lift_git c) = auth_of c"
  "fc_token (lift_git c) = fc_token c"
  by (simp_all add: full_url_def auth_of_def lift_git_def)

lemma git_DeleteBranch_trace:
  "P (CHttp \<lparr>rq_method = ''DELETE'', rq_url = full_url c (branch_path org repo b) [],
            rq_auth = auth_of c, rq_body = None\<rparr>) \<Longrightarrow>
   keeps (traced_in P) (git_DeleteBranch (lift_git c) org repo b)"
  unfolding git_DeleteBranch_def do_unit_def fg_do_def lift_git_sel
  by (auto simp: lift_git_def intro!: keeps split: res.splits)

locale kube_frame =
  fixes R :: "'s \<Rightarrow> 's \<Rightarrow> bool" and c :: "'s sbx_client" and N :: "string \<Rightarrow> bool"
  assumes pre: "preord R"
    and get: "\<And>ns n. keeps R (of_sum (k_get (sc_pods c) ns n))"
    and list: "\<And>ns sel. keeps R (of_sum (k_list (sc_pods c) ns sel))"
    and del_pod: "\<And>ns n. N n \<Longrightarrow> keeps R (of_sum (k_delete (sc_pods c) ns n))"
    and del_sec: "\<And>ns n. N n \<Longrightarrow> keeps R (of_sum (k_delete (sc_secrets c) ns n))"
    and del_svc: "\<And>ns n. N n \<Longrightarrow> keeps R (of_sum (k_delete (sc_services c) ns n))"
    and get_sec: "\<And>ns n. keeps R (of_sum (k_get (sc_secrets c) ns n))"
    and now: "\<And>w. R w (snd (sc_now c w))"
    and sleeps: "\<And>ms w. R w (snd (sc_sleep c ms w))"
begin

lemma clock_keeps: "keeps R (clock c)"
  using now by (auto simp: keeps_def clock_def split: prod.splits) (metis snd_conv)

lemma sleep_keeps: "keeps R (sleep c ms)"
  using sleeps by (auto simp: keeps_def sleep_def split: prod.splits option.splits) (metis snd_conv)+

lemma kget_keeps: "keeps R (kget (sc_pods c) ns n)" "keeps R (kget (sc_secrets c) ns n)"
  by (simp_all add: kget_def get get_sec)

lemma toSandbox_keeps: "keeps R (toSandbox c p)"
  by (auto simp: toSandbox_def intro!: keeps pre clock_keeps)

lemma del_keeps: "N n \<Longrightarrow> keeps R (del c (sc_services c) n)" "N n \<Longrightarrow> keeps R (del c (sc_secrets c) n)"
  by (simp_all add: del_def keeps pre del_sec del_svc)

lemma wait_gone_keeps: "keeps R (wait_gone c res deadline n)"
  by (induction n)
     (auto intro!: keeps pre clock_keeps kget_keeps sleep_keeps)

lemma sbx_keeps:
  "keeps R (sbx_List c)" "keeps R (sbx_Get c name)"
  "N (resourceName c name) \<Longrightarrow> keeps R (sbx_Delete c name)"
  "keeps R (sbx_Resolve c name)"
  by (auto simp: sbx_List_def sbx_Get_def sbx_Delete_def sbx_Resolve_def deleteObjects_def Let_def
      intro!: keeps pre list kget_keeps toSandbox_keeps clock_keeps wait_gone_keeps del_keeps del_pod)

end

lemma snd_quiet: "snd (quiet f w) = w\<lparr>ext := snd (f (ext w))\<rparr>"
  by (simp add: quiet_def split: prod.split)

interpretation sbx_db: kube_frame same_db "lift_sbx c" "\<lambda>_. True" for c
  by unfold_locales (auto simp: lift_sbx_def lift_kapi_def snd_quiet intro!: keeps)

interpretation sbx_trace: kube_frame "traced_in (http_only M)" "lift_sbx c" "\<lambda>_. True" for M c
  by unfold_locales
    (auto simp: lift_sbx_def lift_kapi_def snd_quiet http_only_def traced_in_def intro!: keeps)

text \<open>The sandbox manager only calls the Kubernetes API.\<close>

definition is_kube :: "call \<Rightarrow> bool" where
  "is_kube cl = (case cl of CKube v kind n \<Rightarrow> True | _ \<Rightarrow> False)"

interpretation sbx_kube: kube_frame "traced_in is_kube" "lift_sbx c" "\<lambda>_. True" for c
  by unfold_locales
    (auto simp: lift_sbx_def lift_kapi_def snd_quiet is_kube_def traced_in_def intro!: keeps)

text \<open>It deletes objects of admitted names only.\<close>

definition deletes_in :: "(string \<Rightarrow> bool) \<Rightarrow> call \<Rightarrow> bool" where
  "deletes_in N cl = (case cl of CKube VDelete kind n \<Rightarrow> N n | _ \<Rightarrow> True)"

interpretation sbx_deletes: kube_frame "traced_in (deletes_in N)" "lift_sbx c" N for N c
  by unfold_locales
    (auto simp: lift_sbx_def lift_kapi_def snd_quiet deletes_in_def traced_in_def intro!: keeps)

lemma keeps_kube: "keeps (traced_in is_kube) m \<Longrightarrow> (\<And>v kind n. P (CKube v kind n)) \<Longrightarrow> keeps (traced_in P) m"
  by (erule keeps_traced_mono) (auto simp: is_kube_def split: call.splits)

text \<open>The git host's client only sends requests.\<close>

definition is_http :: "(string \<Rightarrow> bool) \<Rightarrow> call \<Rightarrow> bool" where
  "is_http M cl = (case cl of CHttp rq \<Rightarrow> M (rq_method rq) | _ \<Rightarrow> False)"

interpretation git_http: http_frame "traced_in (is_http M)" "lift_git c" M for M c
  by unfold_locales (auto simp: lift_git_def is_http_def intro!: keeps)

lemma keeps_http:
  "keeps (traced_in (is_http M)) m \<Longrightarrow> (\<And>rq. M (rq_method rq) \<Longrightarrow> P (CHttp rq)) \<Longrightarrow> keeps (traced_in P) m"
  by (erule keeps_traced_mono) (auto simp: is_http_def split: call.splits)

text \<open>Calls to the agent and to Kubernetes: neither a request to the host or a registry, nor git, nor
  mail, nor a build.\<close>

definition plain :: "call \<Rightarrow> bool" where
  "plain cl = (case cl of CHttp rq \<Rightarrow> False | CGitClone u b \<Rightarrow> False | CGitPush rs f \<Rightarrow> False
     | CMailbox t s m o' \<Rightarrow> False | CGitFetch u \<Rightarrow> False | CImportPush u rs \<Rightarrow> False
     | CRegistry u \<Rightarrow> False | CBuildctl args \<Rightarrow> False | _ \<Rightarrow> True)"

end
