(* ===== verification/Sessions.thy ===== *)
theory Sessions
  imports Frames
begin

text \<open>
  Sessions and ownership in \<^verbatim>\<open>internal/workspacesvc/service.go\<close>: claiming organisations and
  repositories, creating, forking, listing, reading and deleting branch sessions and free
  sessions, deleting branches, and the ownership check every repository-scoped handler starts
  with.  \<open>S\<close> is the service and \<open>h\<close> the request's headers.
\<close>

subsection \<open>Which sandboxes a session shows\<close>

record sandbox_ref =
  sr_name :: string
  sr_phase :: string
  sr_ready :: bool

definition sandboxAccessible :: "sandbox \<Rightarrow> string \<Rightarrow> string \<Rightarrow> bool" where
  "sandboxAccessible sb tenant callerSession =
     (if sb_creator sb \<noteq> [] \<and> sb_creator sb \<noteq> tenant then False
      else if callerSession \<noteq> [] \<and> sb_session sb \<noteq> callerSession then False
      else True)"

definition is_up :: "sandbox \<Rightarrow> bool" where
  "is_up sb = (sb_phase sb = ''Running'' \<or> sb_ready sb)"

definition pickRepresentative :: "sandbox \<Rightarrow> sandbox \<Rightarrow> bool" where
  "pickRepresentative prev sb =
     (if sb_name prev = [] then True
      else if is_up sb \<noteq> is_up prev then is_up sb
      else sb_created sb > sb_created prev)"

definition representative :: "sandbox list \<Rightarrow> nat" where
  "representative mine =
     foldl (\<lambda>rep i. if pickRepresentative (mine ! rep) (mine ! i) then i else rep) 0 [1..<length mine]"

definition order_sandboxes :: "sandbox list \<Rightarrow> sandbox list" where
  "order_sandboxes mine0 =
     (if mine0 = [] then [] else
      let mine = sort_by (\<lambda>sb. - sb_created sb) mine0; rep = representative mine
      in mine ! rep # take rep mine @ drop (rep + 1) mine)"

definition sessionSandboxes :: "sandbox list \<Rightarrow> string \<Rightarrow> sandbox_ref list" where
  "sessionSandboxes sbxs session =
     map (\<lambda>sb. \<lparr>sr_name = sb_name sb, sr_phase = sb_phase sb, sr_ready = sb_ready sb\<rparr>)
       (order_sandboxes (filter (\<lambda>sb. sb_session sb = session) sbxs))"

definition refs_head :: "sandbox_ref list \<Rightarrow> string \<times> string" where
  "refs_head refs = (case refs of [] \<Rightarrow> ([], []) | r # _ \<Rightarrow> (sr_name r, sr_phase r))"

definition sandboxFields ::
  "'x service \<Rightarrow> string \<Rightarrow> ('x, (string \<times> string) \<times> sandbox_ref list) handler" where
  "sandboxFields S session =
     bnd (attempt (with_sbx S sbx_List)) (\<lambda>r. case r of
        Inl _ \<Rightarrow> ret (([], []), [])
      | Inr sbxs \<Rightarrow> let refs = sessionSandboxes sbxs session in ret (refs_head refs, refs))"

record branch_session =
  bs_session :: string
  bs_org :: string
  bs_repo :: string
  bs_branch :: string
  bs_role :: string
  bs_preset :: string
  bs_sandbox :: string
  bs_phase :: string
  bs_sandboxes :: "sandbox_ref list"

definition branch_row :: "string \<Rightarrow> string \<times> string \<times> string \<Rightarrow> role \<Rightarrow> (string \<times> string) \<times> sandbox_ref list \<Rightarrow> branch_session" where
  "branch_row session orb ro sb = (case orb of (org, repo, branch) \<Rightarrow> case sb of ((n, p), refs) \<Rightarrow>
     \<lparr>bs_session = session, bs_org = org, bs_repo = repo, bs_branch = branch, bs_role = ro,
      bs_preset = PresetFor ro, bs_sandbox = n, bs_phase = p, bs_sandboxes = refs\<rparr>)"

definition free_row :: "string \<Rightarrow> role \<Rightarrow> (string \<times> string) \<times> sandbox_ref list \<Rightarrow> branch_session" where
  "free_row session ro sb = (case sb of ((n, p), refs) \<Rightarrow>
     \<lparr>bs_session = session, bs_org = [], bs_repo = [], bs_branch = [], bs_role = ro,
      bs_preset = ro, bs_sandbox = n, bs_phase = p, bs_sandboxes = refs\<rparr>)"

subsection \<open>Sessions at the agent\<close>

definition sessionExists :: "'x service \<Rightarrow> headers \<Rightarrow> string \<Rightarrow> ('x, bool) handler" where
  "sessionExists S h session =
     bnd (attempt (agent_call (CGetSession session) (ag_get_session (sv_agent S) h session)))
       (\<lambda>r. case r of Inr b \<Rightarrow> ret b | Inl _ \<Rightarrow> ret False)"

definition normalizeLocale :: "string \<Rightarrow> string" where
  "normalizeLocale l = (let x = to_lower (trim_space l) in
     if x = ''zh'' then ''zh'' else if x = ''en'' then ''en'' else [])"

definition tenantLocale :: "'x service \<Rightarrow> headers \<Rightarrow> ('x, string) handler" where
  "tenantLocale S h =
     bnd (attempt (agent_call (CGetConfig ''locale'') (ag_config (sv_agent S) h ''locale'')))
       (\<lambda>r. case r of Inr v \<Rightarrow> ret (trim_space v) | Inl _ \<Rightarrow> ret [])"

definition createSession ::
  "'x service \<Rightarrow> headers \<Rightarrow> string \<Rightarrow> string \<Rightarrow> string \<Rightarrow> string \<Rightarrow> ('x, unit) handler" where
  "createSession S h name preset model locale =
     bnd (if trim_space locale = [] then tenantLocale S h else ret locale) (\<lambda>loc.
       let rq = \<lparr>cr_name = name, cr_preset = preset, cr_model = model, cr_locale = normalizeLocale loc\<rparr>
       in agent_call (CCreateSession rq) (ag_create (sv_agent S) h rq))"

subsection \<open>Claiming organisations and repositories\<close>

definition git_wrapped :: "string \<Rightarrow> ('s, gerr, 'a) act \<Rightarrow> ('s, cerr, 'a) act" where
  "git_wrapped what m = map_err (\<lambda>e. internal (what @ '': '' @ gerr_text e)) m"

definition claimOrg :: "'x service \<Rightarrow> string \<Rightarrow> string \<Rightarrow> ('x, unit) handler" where
  "claimOrg S tenant org =
     bnd (or_internal (OwnsOrg S tenant org)) (\<lambda>owned. if owned then ret () else
     bnd (or_internal (OrgOwner S org)) (\<lambda>other.
       if other \<noteq> [] \<and> other \<noteq> tenant
       then throw (CErr CodePermissionDenied ''organization is owned by another tenant'') else
     bnd (git_wrapped ''ensure org'' (git_EnsureOrg (git S) org)) (\<lambda>_.
       or_internal (AddOrg S tenant org))))"

definition claimRepo :: "'x service \<Rightarrow> string \<Rightarrow> string \<Rightarrow> string \<Rightarrow> ('x, unit) handler" where
  "claimRepo S tenant org repo =
     bnd (git_internal (git_RepoExists (git S) org repo)) (\<lambda>present.
       if present then
         bnd (or_internal (OwnsRepo S tenant org repo)) (\<lambda>owned.
           if \<not> owned then throw (CErr CodePermissionDenied ''repository is owned by another tenant'')
           else ret ())
       else
         bnd (git_wrapped ''ensure repo'' (git_EnsureRepo (git S) org repo)) (\<lambda>_.
         bnd (or_internal (AddRepo S tenant org repo)) (\<lambda>_.
           ignore (AddOrg S tenant org))))"

definition bad_request :: "string \<Rightarrow> cerr" where "bad_request m = CErr CodeInvalidArgument m"
definition not_found :: "string \<Rightarrow> cerr" where "not_found m = CErr CodeNotFound m"
definition denied :: "string \<Rightarrow> cerr" where "denied m = CErr CodePermissionDenied m"

definition EnsureBranchSession ::
  "'x service \<Rightarrow> headers \<Rightarrow> string \<Rightarrow> string \<Rightarrow> string \<Rightarrow> string \<Rightarrow> string \<Rightarrow> ('x, branch_session) handler" where
  "EnsureBranchSession S h org repo branch0 model locale =
     bnd (resolveTenant S h) (\<lambda>tenant.
     let branch = (if branch0 = [] then MainBranch else branch0) in
     if \<not> ValidComponent org \<or> \<not> ValidComponent repo \<or> \<not> ValidComponent branch
     then throw (bad_request ''org/repo/branch must be simple names'') else
     bnd (claimRepo S tenant org repo) (\<lambda>_.
     let session = SessionName org repo branch; ro = RoleForBranch branch in
     bnd (sessionExists S h session) (\<lambda>present.
     bnd (if present then ret () else createSession S h session (PresetFor ro) model locale) (\<lambda>_.
     bnd (sandboxFields S session) (\<lambda>sb.
       ret (branch_row session (org, repo, branch) ro sb))))))"

definition branchTargetAllowed :: "string \<Rightarrow> string \<Rightarrow> string \<Rightarrow> bool" where
  "branchTargetAllowed callerSession org repo =
     (if callerSession = [] then True
      else case ParseSession callerSession of None \<Rightarrow> True
         | Some (sOrg, sRepo, _) \<Rightarrow> sOrg = org \<and> sRepo = repo)"

definition ForkBranchSession ::
  "'x service \<Rightarrow> headers \<Rightarrow> string \<Rightarrow> string \<Rightarrow> string \<Rightarrow> ('x, branch_session) handler" where
  "ForkBranchSession S h parent branch messageId =
     bnd (resolveTenant S h) (\<lambda>tenant.
     case ParseSession parent of None \<Rightarrow> throw (bad_request ''session must be org:repo:branch'')
     | Some (org, repo, parentBranch) \<Rightarrow>
     if branch = [] \<or> \<not> ValidComponent branch \<or> branch = MainBranch
     then throw (bad_request ''branch must be a legal, non-main name'')
     else if parentBranch \<noteq> MainBranch
     then throw (denied ''only a main session can create branches; a feature branch cannot fork new branches'')
     else if \<not> branchTargetAllowed (sessionFromHeaders h) org repo
     then throw (denied ''a session may only create branches in its own repository'')
     else
     bnd (or_internal (OwnsRepo S tenant org repo)) (\<lambda>owned.
     if \<not> owned then throw (not_found ''branch session not found'') else
     bnd (sessionExists S h parent) (\<lambda>present.
     if \<not> present then throw (not_found ''parent session not found'') else
     let session = SessionName org repo branch; ro = Developer;
         rq = \<lparr>fk_id = parent, fk_name = session, fk_message = messageId, fk_preset = PresetFor ro\<rparr> in
     bnd (agent_call (CFork rq) (ag_fork (sv_agent S) h rq)) (\<lambda>_.
     bnd (sandboxFields S session) (\<lambda>sb.
       ret (branch_row session (org, repo, branch) ro sb))))))"

definition CreateFreeSession ::
  "'x service \<Rightarrow> headers \<Rightarrow> string \<Rightarrow> string \<Rightarrow> string \<Rightarrow> string \<Rightarrow> ('x, string \<times> string) handler" where
  "CreateFreeSession S h ro name model locale =
     bnd (resolveTenant S h) (\<lambda>tenant.
     if ro \<noteq> Admin \<and> ro \<noteq> Explorer then throw (bad_request ''role must be admin|explorer'')
     else if name = [] \<or> \<not> ValidComponent name then throw (bad_request ''name required (simple)'') else
     bnd (or_internal (AddFreeSession S tenant name ro)) (\<lambda>_.
     bnd (createSession S h name (PresetFor ro) model locale) (\<lambda>_.
       ret (name, PresetFor ro))))"

subsection \<open>Listing and reading sessions\<close>

definition free_role :: "'x service \<Rightarrow> string \<Rightarrow> string \<Rightarrow> ('x, role option) handler" where
  "free_role S tenant session =
     bnd (attempt (FreeRole S tenant session)) (\<lambda>r. case r of Inr x \<Rightarrow> ret x | Inl _ \<Rightarrow> ret None)"

definition list_row :: "'x service \<Rightarrow> string \<Rightarrow> sandbox list \<Rightarrow> string \<Rightarrow> ('x, branch_session option) handler" where
  "list_row S tenant all name =
     (let refs = sessionSandboxes all name; sb = (refs_head refs, refs) in
      case ParseSession name of
        Some (org, repo, branch) \<Rightarrow>
          bnd (or_internal (OwnsRepo S tenant org repo)) (\<lambda>owned.
            ret (if owned then Some (branch_row name (org, repo, branch) (RoleForBranch branch) sb) else None))
      | None \<Rightarrow>
          bnd (free_role S tenant name) (\<lambda>r. ret (map_option (\<lambda>ro. free_row name ro sb) r)))"

definition ListBranchSessions :: "'x service \<Rightarrow> headers \<Rightarrow> ('x, branch_session list) handler" where
  "ListBranchSessions S h =
     bnd (resolveTenant S h) (\<lambda>tenant.
     bnd (agent_call CListSessions (ag_list (sv_agent S) h)) (\<lambda>names.
     bnd (attempt (with_sbx S sbx_List)) (\<lambda>r.
     let all = (case r of Inr xs \<Rightarrow> xs | Inl _ \<Rightarrow> []) in
     bnd (collect (list_row S tenant all) names) (\<lambda>rows. ret (List.map_filter id rows)))))"

definition GetBranchSession :: "'x service \<Rightarrow> headers \<Rightarrow> string \<Rightarrow> ('x, branch_session) handler" where
  "GetBranchSession S h session =
     bnd (resolveTenant S h) (\<lambda>tenant.
     case ParseSession session of
       Some (org, repo, branch) \<Rightarrow>
         bnd (or_internal (OwnsRepo S tenant org repo)) (\<lambda>owned.
         if \<not> owned then throw (not_found ''branch session not found'') else
         bnd (sandboxFields S session) (\<lambda>sb.
           ret (branch_row session (org, repo, branch) (RoleForBranch branch) sb)))
     | None \<Rightarrow>
         bnd (free_role S tenant session) (\<lambda>r. case r of
           None \<Rightarrow> throw (not_found ''branch session not found'')
         | Some ro \<Rightarrow> bnd (sandboxFields S session) (\<lambda>sb. ret (free_row session ro sb))))"

subsection \<open>Deleting sessions and branches\<close>

text \<open>\<^verbatim>\<open>deleteSessionCascade\<close>: best effort throughout; only a panic escapes.\<close>

definition cascade_sandboxes :: "'x world sbx_client \<Rightarrow> string \<Rightarrow> string \<Rightarrow> ('x, unit) handler" where
  "cascade_sandboxes c tenant session =
     bnd (attempt (sbx_List c)) (\<lambda>r. case r of Inl _ \<Rightarrow> ret ()
       | Inr sbxs \<Rightarrow> each (\<lambda>sb.
           if \<not> (sb_creator sb = [] \<or> sb_creator sb = tenant) then ret ()
           else if sb_session sb = session \<or> (sb_session sb = [] \<and> sb_name sb = session)
           then ignore (sbx_Delete c (sb_name sb)) else ret ()) sbxs)"

definition deleteSessionCascade :: "'x service \<Rightarrow> headers \<Rightarrow> string \<Rightarrow> string \<Rightarrow> ('x, unit) handler" where
  "deleteSessionCascade S h tenant session =
     bnd (case sv_sbx S of None \<Rightarrow> ret () | Some c \<Rightarrow> cascade_sandboxes (lift_sbx c) tenant session) (\<lambda>_.
     bnd (ignore (agent_call (CDeleteSession session) (ag_delete (sv_agent S) h session))) (\<lambda>_.
       ignore (DeleteFreeSession S tenant session)))"

text \<open>\<^verbatim>\<open>owned, _ :=\<close> and \<^verbatim>\<open>_, ok, _ :=\<close>: a failed query reads as false.\<close>

definition owns_quietly :: "'x service \<Rightarrow> string \<Rightarrow> string \<Rightarrow> string \<Rightarrow> ('x, bool) handler" where
  "owns_quietly S tenant org repo =
     bnd (attempt (OwnsRepo S tenant org repo)) (\<lambda>r. case r of Inr b \<Rightarrow> ret b | Inl _ \<Rightarrow> ret False)"

definition DeleteBranchSession :: "'x service \<Rightarrow> headers \<Rightarrow> string \<Rightarrow> ('x, bool) handler" where
  "DeleteBranchSession S h session =
     bnd (resolveTenant S h) (\<lambda>tenant.
     let parsed = ParseSession session in
     bnd (case parsed of Some (org, repo, _) \<Rightarrow> owns_quietly S tenant org repo
          | None \<Rightarrow> bnd (free_role S tenant session) (\<lambda>r. ret (r \<noteq> None))) (\<lambda>mine.
     if \<not> mine then throw (not_found ''branch session not found'') else
     bnd (deleteSessionCascade S h tenant session) (\<lambda>_.
     bnd (case parsed of
            Some (org, repo, branch) \<Rightarrow>
              if branch \<noteq> MainBranch then git_internal (git_DeleteBranch (git S) org repo branch) else ret ()
          | None \<Rightarrow> ret ()) (\<lambda>_. ret True))))"

definition DeleteBranch :: "'x service \<Rightarrow> headers \<Rightarrow> string \<Rightarrow> string \<Rightarrow> string \<Rightarrow> ('x, bool) handler" where
  "DeleteBranch S h org repo branch =
     bnd (resolveTenant S h) (\<lambda>tenant.
     if \<not> ValidComponent org \<or> \<not> ValidComponent repo \<or> \<not> ValidComponent branch
     then throw (bad_request ''org/repo/branch must be simple names'')
     else if branch = MainBranch
     then throw (bad_request ''refusing to delete the default branch'') else
     bnd (or_internal (OwnsRepo S tenant org repo)) (\<lambda>owned.
     if \<not> owned then throw (not_found ''repository not found'') else
     bnd (deleteSessionCascade S h tenant (SessionName org repo branch)) (\<lambda>_.
     bnd (git_internal (git_DeleteBranch (git S) org repo branch)) (\<lambda>_. ret True))))"

subsection \<open>Ownership-checked repository operations\<close>

definition ensureVisible :: "'x service \<Rightarrow> headers \<Rightarrow> string \<Rightarrow> string \<Rightarrow> ('x, unit) handler" where
  "ensureVisible S h org repo =
     bnd (resolveTenant S h) (\<lambda>tenant.
     bnd (or_internal (OwnsRepo S tenant org repo)) (\<lambda>ok.
       if \<not> ok then throw (not_found ''repository not found'') else ret ()))"

record repo_row =
  rr_org :: string
  rr_repo :: string
  rr_default :: string
  rr_private :: bool

definition ListRepos :: "'x service \<Rightarrow> headers \<Rightarrow> ('x, repo_row list) handler" where
  "ListRepos S h =
     bnd (resolveTenant S h) (\<lambda>tenant.
     bnd (or_internal (ListReposOf S tenant)) (\<lambda>repos.
       collect (\<lambda>(org, repo).
         bnd (attempt (git_GetRepo (git S) org repo)) (\<lambda>r. ret
           \<lparr>rr_org = org, rr_repo = repo,
            rr_default = (case r of Inr info \<Rightarrow> if ri_default info \<noteq> [] then ri_default info else MainBranch
                          | Inl _ \<Rightarrow> MainBranch),
            rr_private = (case r of Inr info \<Rightarrow> ri_private info | Inl _ \<Rightarrow> True)\<rparr>)) repos))"

definition ListOrgs :: "'x service \<Rightarrow> headers \<Rightarrow> ('x, string list) handler" where
  "ListOrgs S h = bnd (resolveTenant S h) (\<lambda>tenant. or_internal (ListOrgsOf S tenant))"

text \<open>\<^verbatim>\<open>requireAdmin\<close> always allows.\<close>

definition requireAdmin :: "string \<Rightarrow> ('x, unit) handler" where
  "requireAdmin tenant = ret ()"

definition CreateOrg :: "'x service \<Rightarrow> headers \<Rightarrow> string \<Rightarrow> ('x, string) handler" where
  "CreateOrg S h org =
     bnd (resolveTenant S h) (\<lambda>tenant.
     bnd (requireAdmin tenant) (\<lambda>_.
     if \<not> ValidComponent org then throw (bad_request ''org must be a simple name'') else
     bnd (claimOrg S tenant org) (\<lambda>_. ret org)))"

definition ensureMainSession :: "'x service \<Rightarrow> headers \<Rightarrow> string \<Rightarrow> string \<Rightarrow> ('x, unit) handler" where
  "ensureMainSession S h org repo =
     (let session = SessionName org repo MainBranch in
      bnd (sessionExists S h session) (\<lambda>present.
        if present then ret () else ignore (createSession S h session (PresetFor Developer) [] [])))"

definition EnsureRepo :: "'x service \<Rightarrow> headers \<Rightarrow> string \<Rightarrow> string \<Rightarrow> ('x, bool) handler" where
  "EnsureRepo S h org repo =
     bnd (resolveTenant S h) (\<lambda>tenant.
     bnd (requireAdmin tenant) (\<lambda>_.
     if \<not> ValidComponent org \<or> \<not> ValidComponent repo
     then throw (bad_request ''org/repo must be simple names'') else
     bnd (git_internal (git_EnsureRepo (git S) org repo)) (\<lambda>created.
     bnd (or_internal (AddRepo S tenant org repo)) (\<lambda>_.
     bnd (ensureMainSession S h org repo) (\<lambda>_. ret created)))))"

end
