(* ===== verification/SessionFacts.thy ===== *)
theory SessionFacts
  imports Sessions "HOL-Library.Multiset"
begin

text \<open>
  What the session handlers guarantee: who may see and claim what, which host calls a deletion
  makes, and what a listing returns.
\<close>

subsection \<open>Frames of the handlers' parts\<close>

lemma with_sbx_keeps:
  "preord R \<Longrightarrow> (\<And>c. keeps R (f (lift_sbx c))) \<Longrightarrow> keeps R (with_sbx S f)"
  by (auto simp: with_sbx_def intro!: keeps split: option.split)

lemma store_reads_keep:
  "keeps same_db (OwnsRepo S t o' r)" "keeps same_db (OwnsOrg S t o')" "keeps same_db (OrgOwner S o')"
  "keeps same_db (FreeRole S t s)" "keeps same_db (ListReposOf S t)" "keeps same_db (MRSubmission S t o' r i)"
  by (simp_all add: OwnsRepo_def OwnsOrg_def OrgOwner_def FreeRole_def ListReposOf_def MRSubmission_def keeps)

lemma store_traces:
  "keeps (traced_in P) (OwnsRepo S t o' r)" "keeps (traced_in P) (OwnsOrg S t o')"
  "keeps (traced_in P) (OrgOwner S o')" "keeps (traced_in P) (FreeRole S t s)"
  "keeps (traced_in P) (AddRepo S t o' r)" "keeps (traced_in P) (AddOrg S t o')"
  "keeps (traced_in P) (DeleteFreeSession S t s)" "keeps (traced_in P) (AddFreeSession S t s ro)"
  "keeps (traced_in P) (ListReposOf S t)" "keeps (traced_in P) (MRSubmission S t o' r i)"
  "keeps (traced_in P) (DeleteMRSubmission S t o' r i)"
  by (simp_all add: OwnsRepo_def OwnsOrg_def OrgOwner_def FreeRole_def AddRepo_def AddOrg_def
      DeleteFreeSession_def AddFreeSession_def ListReposOf_def MRSubmission_def
      DeleteMRSubmission_def keeps)

lemma resolveTenant_keeps:
  "keeps same_db (resolveTenant S h)" "keeps (traced_in (http_only M)) (resolveTenant S h)"
  by (auto simp: resolveTenant_def http_only_def intro!: keeps)

lemma tenantOf_keeps:
  "keeps same_db (tenantOf S h)" "keeps (traced_in (http_only M)) (tenantOf S h)"
  by (auto simp: tenantOf_def intro!: keeps resolveTenant_keeps)

lemma agent_parts_keep:
  "keeps same_db (sessionExists S h s)" "keeps (traced_in (http_only M)) (sessionExists S h s)"
  "keeps same_db (createSession S h s p m l)" "keeps (traced_in (http_only M)) (createSession S h s p m l)"
  "keeps same_db (sandboxFields S s)" "keeps (traced_in (http_only M)) (sandboxFields S s)"
  by (auto simp: sessionExists_def createSession_def tenantLocale_def sandboxFields_def Let_def
      http_only_def intro!: keeps with_sbx_keeps sbx_db.sbx_keeps sbx_trace.sbx_keeps)

lemma plain_parts:
  "keeps (traced_in plain) (resolveTenant S h)" "keeps (traced_in plain) (tenantOf S h)"
  "keeps (traced_in plain) (sessionExists S h s)" "keeps (traced_in plain) (createSession S h s p m l)"
  "keeps (traced_in plain) (sandboxFields S s)" "keeps (traced_in plain) (ensureVisible S h org repo)"
proof -
  show r: "keeps (traced_in plain) (resolveTenant S h)"
    by (auto simp: resolveTenant_def plain_def intro!: keeps)
  show "keeps (traced_in plain) (tenantOf S h)" "keeps (traced_in plain) (ensureVisible S h org repo)"
    by (auto simp: tenantOf_def ensureVisible_def or_internal_def intro!: keeps r store_traces)
  show "keeps (traced_in plain) (sessionExists S h s)" "keeps (traced_in plain) (createSession S h s p m l)"
    by (auto simp: sessionExists_def createSession_def tenantLocale_def Let_def plain_def intro!: keeps)
  show "keeps (traced_in plain) (sandboxFields S s)"
    by (auto simp: sandboxFields_def Let_def plain_def
        intro!: keeps with_sbx_keeps keeps_kube [OF sbx_kube.sbx_keeps(1)])
qed

lemma keeps_plain: "keeps (traced_in plain) m \<Longrightarrow> (\<And>c. plain c \<Longrightarrow> P c) \<Longrightarrow> keeps (traced_in P) m"
  by (rule keeps_traced_mono)

text \<open>Ensuring a session only reads from and creates on the host.\<close>

lemma EnsureBranchSession_trace:
  assumes "\<And>c. plain c \<Longrightarrow> P c" "\<And>rq. rq_method rq \<in> {''GET'', ''POST''} \<Longrightarrow> P (CHttp rq)"
  shows "keeps (traced_in P) (EnsureBranchSession S h org repo b m l)"
proof -
  note plain = plain_parts [THEN keeps_plain, of P, OF assms(1)]
  have host: "keeps (traced_in P) (git_RepoExists (git S) org repo)" "keeps (traced_in P) (git_EnsureRepo (git S) org repo)"
    by (rule keeps_http [where M = "\<lambda>m. m \<in> {''GET'', ''POST''}"], simp add: git_http.reads git_http.ensures,
        simp add: assms(2))+
  show ?thesis
    by (auto simp: EnsureBranchSession_def claimRepo_def git_internal_def git_wrapped_def or_internal_def Let_def
        intro!: keeps plain host store_traces)
qed

lemma free_role_keeps:
  "keeps same_db (free_role S t s)" "keeps (traced_in (http_only M)) (free_role S t s)"
  by (auto simp: free_role_def intro!: keeps store_reads_keep store_traces)

lemma cascade_trace: "keeps (traced_in (http_only M)) (deleteSessionCascade S h t s)"
  by (auto simp: deleteSessionCascade_def cascade_sandboxes_def http_only_def
      intro!: keeps sbx_trace.sbx_keeps store_traces split: option.split)

text \<open>The repository table is left alone by a cascade: it may only drop a free-session row.\<close>

lemma cascade_owners:
  "keeps (\<lambda>w w'. repo_owners (db w') = repo_owners (db w)) (deleteSessionCascade S h t s)"
proof -
  let ?R = "\<lambda>w w'. repo_owners (db w') = repo_owners (db w)"
  have db: "keeps same_db m \<Longrightarrow> keeps ?R m" for m :: "('x world, 'e, 'c) act"
    by (simp add: keeps_def)
  have row: "keeps ?R (DeleteFreeSession S t s)"
    by (auto simp: DeleteFreeSession_def deleteFreeSession_def intro!: keeps)
  show ?thesis
    by (auto simp: deleteSessionCascade_def cascade_sandboxes_def
      intro!: keeps row db [OF sbx_db.sbx_keeps(1)] db [OF sbx_db.sbx_keeps(3)] db [OF keeps_agent_call(1)]
      split: option.split)
qed

subsection \<open>Claiming\<close>

text \<open>
  \<open>hosted\<close> is the set of repositories the git host has.  The host reports a repository absent
  only if it does not have it, and identifying the caller removes none.
\<close>

definition host_view :: "('x \<Rightarrow> (string \<times> string) set) \<Rightarrow> 'x service \<Rightarrow> bool" where
  "host_view hosted S =
     ((\<forall>w w' org repo. git_RepoExists (git S) org repo w = (Ok False, w') \<longrightarrow> (org, repo) \<notin> hosted (ext w)) \<and>
      (\<forall>h x. hosted x \<subseteq> hosted (snd (ag_identity (sv_agent S) h x))))"

definition owned_hosted :: "('x \<Rightarrow> (string \<times> string) set) \<Rightarrow> 'x world \<Rightarrow> bool" where
  "owned_hosted hosted w = (\<forall>t org repo. ownsRepo t org repo (db w) \<longrightarrow> (org, repo) \<in> hosted (ext w))"

lemma wp_git:
  assumes "keeps same_db m" "\<And>r w'. db w' = db w \<Longrightarrow> m w = (r, w') \<Longrightarrow> Q r w'"
  shows "wp m Q w"
  using assms(1) by (intro wpI assms(2)) (auto dest: keepsD)

lemma claimRepo_one_owner:
  assumes "host_view hosted S" "owned_hosted hosted w" "one_owner (db w)"
  shows "wp (claimRepo S t org repo)
          (\<lambda>r w'. one_owner (db w') \<and> (r = Ok () \<longrightarrow> ownsRepo t org repo (db w'))) w"
proof -
  have free: "\<not> ownsRepo t' org repo (db w)" if "git_RepoExists (git S) org repo w = (Ok False, w')" for t' w'
    using assms that unfolding host_view_def owned_hosted_def by blast
  have grant: "one_owner (addRepo t org repo (db w))" if "\<And>t'. \<not> ownsRepo t' org repo (db w)"
    using that assms(3) by (auto intro: one_owner_grant)
  show ?thesis
    unfolding claimRepo_def git_internal_def git_wrapped_def or_internal_def ignore_def
    apply (rule wp_bnd, rule wp_map_err, rule wp_git [OF git_db.reads(2) [OF TrueI]])
    using assms(3) free grant
    by (auto intro!: wp_bnd wp_map_err wp_attempt wp_throw wp_ret wp_git [OF git_db.ensures(2) [OF TrueI TrueI]]
        wp_query wp_exec simp: OwnsRepo_def AddRepo_def AddOrg_def store_laws split: res.split)
qed

lemma resolveTenant_hosted:
  assumes "host_view hosted S"
  shows "wp (resolveTenant S h) (\<lambda>r w'. db w' = db w \<and> hosted (ext w) \<subseteq> hosted (ext w')) w"
  using assms
  by (auto simp: resolveTenant_def agent_call_def host_view_def logged_def
      intro!: wp_ret wp_bnd wp_of_sum wp_throw split: option.split prod.splits)
     (metis snd_conv subsetD)+

subsection \<open>The representative sandbox\<close>

definition beats :: "sandbox \<Rightarrow> sandbox \<Rightarrow> bool" where
  "beats b a = (is_up b \<and> \<not> is_up a \<or> is_up b = is_up a \<and> sb_created b > sb_created a)"

lemma pick_beats: "sb_name a \<noteq> [] \<Longrightarrow> pickRepresentative a b = beats b a"
  by (auto simp: pickRepresentative_def beats_def)

lemma beats_trans: "\<not> beats c a \<Longrightarrow> beats b a \<Longrightarrow> \<not> beats c b"
  by (auto simp: beats_def)

lemma representative_upto:
  assumes "\<forall>sb\<in>set mine. sb_name sb \<noteq> []" "n < length mine"
  shows "let rep = foldl (\<lambda>rep i. if pickRepresentative (mine ! rep) (mine ! i) then i else rep) 0 [1..<Suc n]
         in rep \<le> n \<and> (\<forall>j\<le>n. \<not> beats (mine ! j) (mine ! rep))"
  using assms(2)
proof (induction n)
  case 0
  then show ?case by (simp add: beats_def)
next
  case (Suc n)
  let ?f = "\<lambda>rep i. if pickRepresentative (mine ! rep) (mine ! i) then i else rep"
  let ?r = "foldl ?f 0 [1..<Suc n]"
  from Suc have r: "?r \<le> n" "\<forall>j\<le>n. \<not> beats (mine ! j) (mine ! ?r)"
    by (auto simp: Let_def)
  have pick: "pickRepresentative (mine ! ?r) (mine ! Suc n) = beats (mine ! Suc n) (mine ! ?r)"
    using assms(1) r(1) Suc.prems by (intro pick_beats) simp
  have unfold: "foldl ?f 0 [1..<Suc (Suc n)] = ?f ?r (Suc n)" by simp
  show ?case
  proof (cases "beats (mine ! Suc n) (mine ! ?r)")
    case True
    have "\<forall>j\<le>n. \<not> beats (mine ! j) (mine ! Suc n)"
      using r(2) beats_trans [OF _ True] by blast
    moreover have "\<not> beats (mine ! Suc n) (mine ! Suc n)" by (simp add: beats_def)
    ultimately show ?thesis
      using True unfolding unfold Let_def pick by (auto simp: le_Suc_eq)
  next
    case False
    with r show ?thesis unfolding unfold Let_def pick by (auto simp: le_Suc_eq)
  qed
qed

lemma representative_best:
  assumes "mine \<noteq> []" "\<forall>sb\<in>set mine. sb_name sb \<noteq> []"
  shows "representative mine < length mine \<and> (\<forall>sb\<in>set mine. \<not> beats sb (mine ! representative mine))"
proof -
  obtain n where n: "length mine = Suc n" using assms(1) by (cases mine) auto
  have "representative mine \<le> n \<and> (\<forall>j\<le>n. \<not> beats (mine ! j) (mine ! representative mine))"
    using representative_upto [OF assms(2), of n] n by (simp add: representative_def Let_def)
  with n show ?thesis by (auto simp: in_set_conv_nth)
qed

lemma sort_desc: "sorted_wrt (\<lambda>a b. sb_created a \<ge> sb_created b) (sort_by (\<lambda>sb. - sb_created sb) xs)"
  using sorted_sort_key [of "\<lambda>sb. - sb_created sb" xs]
  by (simp add: sorted_map sorted_wrt_map)

lemma order_sandboxes_head:
  assumes "mine \<noteq> []" "\<forall>sb\<in>set mine. sb_name sb \<noteq> []"
  obtains rep rest where "order_sandboxes mine = rep # rest" "mset (rep # rest) = mset mine"
    "\<forall>sb\<in>set mine. \<not> beats sb rep"
    "sorted_wrt (\<lambda>a b. sb_created a \<ge> sb_created b) rest"
proof -
  let ?m = "sort_by (\<lambda>sb. - sb_created sb) mine"
  let ?i = "representative ?m"
  have ne: "?m \<noteq> []" "\<forall>sb\<in>set ?m. sb_name sb \<noteq> []"
    using assms by (auto simp flip: set_empty)
  from representative_best [OF this] have i: "?i < length ?m" "\<forall>sb\<in>set mine. \<not> beats sb (?m ! ?i)"
    by auto
  have split: "?m = take ?i ?m @ ?m ! ?i # drop (Suc ?i) ?m"
    using i(1) by (rule id_take_nth_drop)
  have "mset (?m ! ?i # take ?i ?m @ drop (Suc ?i) ?m) = mset ?m"
    using arg_cong [OF split, of mset] by simp
  moreover have "sorted_wrt (\<lambda>a b. sb_created a \<ge> sb_created b) (take ?i ?m @ drop (Suc ?i) ?m)"
  proof -
    have "sorted_wrt (\<lambda>a b. sb_created a \<ge> sb_created b) (take ?i ?m @ ?m ! ?i # drop (Suc ?i) ?m)"
      using sort_desc [of mine] split by metis
    then show ?thesis by (auto simp: sorted_wrt_append)
  qed
  ultimately show ?thesis
    using that [of "?m ! ?i" "take ?i ?m @ drop (Suc ?i) ?m"] i(2) assms(1)
    by (simp add: order_sandboxes_def Let_def)
qed

end
