(* ===== verification/Demo.thy ===== *)
theory Demo
  imports World
begin

text \<open>
  A small concrete outside, on which the witnesses of the handler properties run: a git host
  that serves a table of documents, an agent that holds a list of sessions and reads the tenant
  from a header, an in-memory cluster, a file system that accepts everything, and a SQL driver
  that does not fail.  Nothing in the properties depends on it.
\<close>

record demo =
  dm_docs :: "(string \<times> json) list"
  dm_sessions :: "string list"
  dm_secrets :: "secret gomap"
  dm_pods :: "pod gomap"
  dm_services :: "ksvc gomap"

definition demo_resp :: "int \<Rightarrow> json \<Rightarrow> gresp" where
  "demo_resp st j = \<lparr>rs_status = st, rs_total = [], rs_ctype = [], rs_gitsha = [], rs_body = [], rs_json = Inr j\<rparr>"

definition demo_http :: "greq \<Rightarrow> demo \<Rightarrow> (string + gresp) \<times> demo" where
  "demo_http rq x =
     (if rq_method rq = ''GET'' then
        (case map_of (dm_docs x) (rq_url rq) of Some j \<Rightarrow> (Inr (demo_resp 200 j), x)
         | None \<Rightarrow> (Inr (demo_resp 404 JNull), x))
      else (Inr (demo_resp 201 (JObj [(''number'', JNum 7), (''html_url'', JStr ''http://git/mr/7'')])), x))"

definition demo_agent :: "demo agent" where
  "demo_agent =
    \<lparr>ag_identity = (\<lambda>h x. (let t = hdr_get h ''X-Demo-Tenant'' in
        if t = [] then (Inl (CErr CodeUnauthenticated []), x) else (Inr t, x))),
     ag_get_session = (\<lambda>h i x. (Inr (i \<in> set (dm_sessions x)), x)),
     ag_create = (\<lambda>h rq x. if cr_name rq \<in> set (dm_sessions x)
        then (Inl (CErr CodeAlreadyExists []), x)
        else (Inr (), x\<lparr>dm_sessions := dm_sessions x @ [cr_name rq]\<rparr>)),
     ag_fork = (\<lambda>h rq x. (Inr (), x\<lparr>dm_sessions := dm_sessions x @ [fk_name rq]\<rparr>)),
     ag_delete = (\<lambda>h i x. (Inr (), x\<lparr>dm_sessions := filter (\<lambda>s. s \<noteq> i) (dm_sessions x)\<rparr>)),
     ag_list = (\<lambda>h x. (Inr (dm_sessions x), x)),
     ag_config = (\<lambda>h k x. (Inr [], x))\<rparr>"

definition demo_sbx :: "demo sbx_client" where
  "demo_sbx =
    \<lparr>sc_secrets = mem_kind dm_secrets dm_secrets_update sec_meta,
     sc_pods = mem_kind dm_pods dm_pods_update pod_meta,
     sc_services = mem_kind dm_services dm_services_update sv_meta,
     sc_ns = ''worker'', sc_cpu_req = [], sc_cpu_lim = [], sc_mem_req = [], sc_mem_lim = [],
     sc_restart = ''Never'', sc_sha256 = (\<lambda>x. replicate 32 CHR ''x''),
     sc_quantity = (\<lambda>q. list_all is_alnum q), sc_rand = (\<lambda>m. (Inr ''secret bytes'', m)),
     sc_now = (\<lambda>m. (1000, m)), sc_sleep = (\<lambda>ms m. (None, m)), sc_dial = (\<lambda>a m. (True, m))\<rparr>"

definition demo_gogit :: "demo gogit" where
  "demo_gogit =
    \<lparr>gg_newdir = (\<lambda>x. (Inr ''/tmp/c1'', x)), gg_rmall = (\<lambda>d x. x),
     gg_clone = (\<lambda>d u n t b x. (Inr (), x)), gg_ignore = (\<lambda>d x. (Inr None, x)),
     gg_stat = (\<lambda>d p x. (True, x)), gg_remove = (\<lambda>d p x. (Inr (), x)), gg_mkdirs = (\<lambda>d p x. (Inr (), x)),
     gg_write = (\<lambda>d p c x. (Inr (), x)), gg_addall = (\<lambda>d x. (Inr (), x)), gg_clean = (\<lambda>d x. (Inr False, x)),
     gg_commit = (\<lambda>d m x. (Inr ''abc123'', x)), gg_setref = (\<lambda>d b s x. (Inr (), x)),
     gg_push = (\<lambda>d rs f u t x. (Inr (), x))\<rparr>"

definition demo_service :: "demo service" where
  "demo_service =
    \<lparr>sv_agent = demo_agent, sv_git = \<lparr>fc_base = ''http://git'', fc_token = ''tok'', fc_http = demo_http\<rparr>,
     sv_gogit = demo_gogit, sv_sbx = Some demo_sbx, sv_sql = (\<lambda>x. (None, x)),
     sv_unix = (\<lambda>x. (1700000000, x)), sv_nanos = (\<lambda>x. (1700000000000000000, x)), sv_bus = None,
     sv_token = [], sv_tenant = [], sv_sandboxOrg = ''sandbox'', sv_imageHost = ''artifact'',
     sv_defaultImage = ''artifact/sandbox/base:1''\<rparr>"

definition demo_hdr :: "string \<Rightarrow> string \<Rightarrow> headers" where
  "demo_hdr tenant session =
     Some ((''X-Demo-Tenant'', [tenant]) # (if session = [] then [] else [(''X-Session-Name'', [session])]))"

text \<open>Tenant \<open>t1\<close> owns \<open>acme/web\<close>, which is on the host with an open change request 3 into
  \<open>main\<close>, and has the sessions of its branches \<open>main\<close> and \<open>dev\<close>.\<close>

definition demo_store :: store where
  "demo_store = addFreeSession ''t1'' ''helper'' ''explorer'' (addOrg ''t1'' ''acme''
     (addRepo ''t1'' ''acme'' ''web'' empty_store))"

definition demo_mr :: json where
  "demo_mr = JObj [(''number'', JNum 3), (''mergeable'', JBool True),
     (''head'', JObj [(''ref'', JStr ''mr/acme-web-dev-1'')]), (''base'', JObj [(''ref'', JStr ''main'')])]"

definition demo_ext :: demo where
  "demo_ext =
    \<lparr>dm_docs = [(''http://git/api/v1/repos/acme/web'', JObj []),
                (''http://git/api/v1/repos/acme/web/branches/main'', JObj []),
                (''http://git/api/v1/repos/acme/web/pulls/3'', demo_mr)],
     dm_sessions = [''acme:web:main'', ''acme:web:dev'', ''helper'', ''other:repo:main''],
     dm_secrets = [], dm_pods = [], dm_services = []\<rparr>"

definition demo_world :: "demo world" where
  "demo_world = \<lparr>db = demo_store, trace = [], ext = demo_ext\<rparr>"

end
