(* ===== verification/SessionProps.thy ===== *)
theory SessionProps
  imports SessionFacts Demo
begin

text \<open>The properties of ownership and sessions, each with a run of the demo service.\<close>

text \<open>C1: Ensuring a branch session never makes a repository owned by two tenants: when no
  repository had two owners, every owned repository is on the host, and the host reports a
  repository absent only if it does not have it, then afterwards still no repository has two
  owners; and if the call returns a session then the caller's tenant owns its repository.\<close>

theorem EnsureBranchSession_one_owner:
  assumes "host_view hosted S" "owned_hosted hosted w" "one_owner (db w)"
    and "EnsureBranchSession S h org repo branch model locale w = (r, w')"
  shows "one_owner (db w') \<and>
         (\<forall>b. r = Ok b \<longrightarrow> (\<exists>t w1. resolveTenant S h w = (Ok t, w1) \<and> ownsRepo t org repo (db w')))"
proof -
  have claim: "wp (claimRepo S t org repo)
      (\<lambda>r w'. one_owner (db w') \<and> (r = Ok () \<longrightarrow> ownsRepo t org repo (db w'))) w1"
    if "resolveTenant S h w = (Ok t, w1)" for t w1
  proof (rule claimRepo_one_owner)
    have w1: "db w1 = db w" "hosted (ext w) \<subseteq> hosted (ext w1)"
      using wpD [OF resolveTenant_hosted [OF assms(1)] that] by auto
    show "host_view hosted S" "one_owner (db w1)" using assms w1 by auto
    show "owned_hosted hosted w1" using assms(2) w1 by (auto simp: owned_hosted_def)
  qed
  have "wp (EnsureBranchSession S h org repo branch model locale) (\<lambda>r w'. one_owner (db w') \<and>
         (\<forall>b. r = Ok b \<longrightarrow> (\<exists>t w1. resolveTenant S h w = (Ok t, w1) \<and> ownsRepo t org repo (db w')))) w"
    unfolding EnsureBranchSession_def Let_def
    apply (rule wp_bnd)
    apply (rule wp_git [OF resolveTenant_keeps(1)])
    using assms(3)
    by (auto intro!: wp_throw wp_bnd wp_ret wp_conseq [OF claim]
        wp_keeps [OF agent_parts_keep(1)] wp_keeps [OF agent_parts_keep(3)] wp_keeps [OF agent_parts_keep(5)]
        split: res.split)
  from wpD [OF this assms(4)] show ?thesis .
qed

definition demo_hosted :: "demo \<Rightarrow> (string \<times> string) set" where
  "demo_hosted x = (if map_of (dm_docs x) ''http://git/api/v1/repos/acme/web'' \<noteq> None
     then {(''acme'', ''web'')} else {})"


lemma demo_repo_url: "full_url (git demo_service) (repo_path ''acme'' ''web'') [] = ''http://git/api/v1/repos/acme/web''"
  by code_simp

lemma demo_host_view: "host_view demo_hosted demo_service"
proof -
  have "(org, repo) \<notin> demo_hosted (ext w)"
    if "git_RepoExists (git demo_service) org repo w = (Ok False, w')" for org repo w w'
  proof
    assume "(org, repo) \<in> demo_hosted (ext w)"
    then obtain j where "org = ''acme''" "repo = ''web''"
      "map_of (dm_docs (ext w)) ''http://git/api/v1/repos/acme/web'' = Some j"
      by (auto simp: demo_hosted_def split: if_splits)
    with that show False
      using demo_repo_url
      by (auto simp: git_RepoExists_def exists_of_def git_GetRepo_def do_map_def fg_do_def bnd_def
          attempt_def map_err_def of_sum_def lift_git_def logged_def demo_service_def demo_http_def
          demo_resp_def ok_status_def decode_with_def act split: prod.splits res.splits sum.splits gerr.splits)
  qed
  then show ?thesis
    by (auto simp: host_view_def demo_service_def demo_agent_def demo_hosted_def Let_def)
qed

lemma EnsureBranchSession_one_owner_witness:
  "one_owner (db demo_world) \<and>
   one_owner (db (snd (EnsureBranchSession demo_service (demo_hdr ''t2'' []) ''acme'' ''web'' ''main'' [] [] demo_world)))"
proof -
  let ?run = "EnsureBranchSession demo_service (demo_hdr ''t2'' []) ''acme'' ''web'' ''main'' [] [] demo_world"
  have own: "repo_owners (db demo_world) = [(''t1'', ''acme'', ''web'')]" by code_simp
  have "map_of (dm_docs (ext demo_world)) ''http://git/api/v1/repos/acme/web'' \<noteq> None" by code_simp
  then have "owned_hosted demo_hosted demo_world"
    using own by (auto simp: owned_hosted_def ownsRepo_iff demo_hosted_def)
  moreover have one: "one_owner (db demo_world)"
    using own by (auto simp: one_owner_def ownsRepo_iff)
  ultimately show ?thesis
    using EnsureBranchSession_one_owner [OF demo_host_view _ one, of _ _ _ _ _ _ "fst ?run" "snd ?run"]
    by simp
qed

text \<open>C10: \<open>EnsureRepo\<close> asks no such question.  Whoever owns the repository, the call records the
  caller's tenant as an owner when it succeeds; called by another tenant on an owned repository it
  leaves two owners, both of whom see it.\<close>

theorem EnsureRepo_claims_foreign_repo:
  assumes "ownsRepo t' org repo (db w)" "resolveTenant S h w = (Ok t, w1)" "t \<noteq> t'"
    and "EnsureRepo S h org repo w = (Ok created, w')"
  shows "ownsRepo t org repo (db w') \<and> ownsRepo t' org repo (db w') \<and> \<not> one_owner (db w')"
proof -
  have w1: "db w1 = db w" using keepsD [OF resolveTenant_keeps(1) assms(2)] .
  have main: "keeps same_db (ensureMainSession S h org repo)"
    by (auto simp: ensureMainSession_def Let_def intro!: keeps agent_parts_keep)
  have "wp (EnsureRepo S h org repo) (\<lambda>r w'. r = Ok created \<longrightarrow> db w' = addRepo t org repo (db w)) w"
    unfolding EnsureRepo_def requireAdmin_def git_internal_def or_internal_def AddRepo_def
    apply (rule wp_bnd)
    apply (rule wpI)
    using w1 assms(2)
    by (auto intro!: wp_bnd wp_ret wp_throw wp_map_err wp_git [OF git_db.ensures(2) [OF TrueI TrueI]]
        wp_exec wp_keeps [OF main] split: res.split)
  from wpD [OF this assms(4)] have "db w' = addRepo t org repo (db w)" by simp
  then show ?thesis
    using assms(1,3) one_owner_broken [OF assms(1)] by (auto simp: store_laws)
qed

lemma EnsureRepo_claims_foreign_repo_witness:
  "let r = EnsureRepo demo_service (demo_hdr ''t2'' []) ''acme'' ''web'' demo_world in
   ownsRepo ''t1'' ''acme'' ''web'' (db demo_world) \<and> is_ok (fst r) \<and> \<not> one_owner (db (snd r))"
proof -
  let ?run = "EnsureRepo demo_service (demo_hdr ''t2'' []) ''acme'' ''web'' demo_world"
  have own: "ownsRepo ''t1'' ''acme'' ''web'' (db demo_world)" by code_simp
  have ok: "is_ok (fst ?run)" by code_simp
  then obtain created where run: "?run = (Ok created, snd ?run)"
    by (metis is_ok_iff prod.collapse)
  have "fst (resolveTenant demo_service (demo_hdr ''t2'' []) demo_world) = Ok ''t2''" by code_simp
  then have t: "resolveTenant demo_service (demo_hdr ''t2'' []) demo_world =
      (Ok ''t2'', snd (resolveTenant demo_service (demo_hdr ''t2'' []) demo_world))"
    by (metis prod.collapse)
  have "\<not> one_owner (db (snd ?run))"
    using EnsureRepo_claims_foreign_repo [OF own t _ run] by simp
  with own ok show ?thesis by (simp add: Let_def)
qed

end
