(* ===== verification/Browse.thy ===== *)
theory Browse
  imports Sessions
begin

text \<open>
  The repository-scoped read handlers of \<^verbatim>\<open>internal/workspacesvc/service.go\<close>: every one of them
  checks with \<open>ensureVisible\<close> that the caller's tenant owns the repository, and only then asks
  the git host.  Also the two classifiers a raw file is returned with.
\<close>

definition Tree ::
  "'x service \<Rightarrow> headers \<Rightarrow> string \<Rightarrow> string \<Rightarrow> string \<Rightarrow> string \<Rightarrow> ('x, tree_entry list \<times> bool) handler" where
  "Tree S h org repo r path =
     bnd (ensureVisible S h org repo) (\<lambda>_. git_internal (git_Tree (git S) org repo r path))"

definition Log ::
  "'x service \<Rightarrow> headers \<Rightarrow> string \<Rightarrow> string \<Rightarrow> string \<Rightarrow> string \<Rightarrow> int \<Rightarrow> int \<Rightarrow>
   ('x, commit_info list \<times> bool) handler" where
  "Log S h org repo r path limit offset =
     bnd (ensureVisible S h org repo) (\<lambda>_. git_internal (git_Log (git S) org repo r path limit offset))"

definition Branches :: "'x service \<Rightarrow> headers \<Rightarrow> string \<Rightarrow> string \<Rightarrow> ('x, branch_info list) handler" where
  "Branches S h org repo =
     bnd (ensureVisible S h org repo) (\<lambda>_. git_internal (git_Branches (git S) org repo))"

definition Tags :: "'x service \<Rightarrow> headers \<Rightarrow> string \<Rightarrow> string \<Rightarrow> ('x, tag_info list) handler" where
  "Tags S h org repo =
     bnd (ensureVisible S h org repo) (\<lambda>_. git_internal (git_Tags (git S) org repo))"

text \<open>Handlers that report every host error as not found.\<close>

definition git_not_found :: "('s, gerr, 'a) act \<Rightarrow> ('s, cerr, 'a) act" where
  "git_not_found m = map_err (\<lambda>e. CErr CodeNotFound (gerr_text e)) m"

definition GetCommit :: "'x service \<Rightarrow> headers \<Rightarrow> string \<Rightarrow> string \<Rightarrow> string \<Rightarrow> ('x, commit_detail) handler" where
  "GetCommit S h org repo sha =
     bnd (ensureVisible S h org repo) (\<lambda>_. git_not_found (git_GetCommit (git S) org repo sha))"

definition CommitDiff :: "'x service \<Rightarrow> headers \<Rightarrow> string \<Rightarrow> string \<Rightarrow> string \<Rightarrow> ('x, string) handler" where
  "CommitDiff S h org repo sha =
     bnd (ensureVisible S h org repo) (\<lambda>_. git_not_found (git_CommitDiff (git S) org repo sha))"

definition MRDiff :: "'x service \<Rightarrow> headers \<Rightarrow> string \<Rightarrow> string \<Rightarrow> int \<Rightarrow> ('x, string) handler" where
  "MRDiff S h org repo index =
     bnd (ensureVisible S h org repo) (\<lambda>_. git_not_found (git_MRDiff (git S) org repo index))"

definition ListMRComments :: "'x service \<Rightarrow> headers \<Rightarrow> string \<Rightarrow> string \<Rightarrow> int \<Rightarrow> ('x, mr_comment list) handler" where
  "ListMRComments S h org repo index =
     bnd (ensureVisible S h org repo) (\<lambda>_. git_internal (git_MRComments (git S) org repo index))"

text \<open>The message of a mirror has no public key.\<close>

definition toPushMirrorInfo :: "push_mirror \<Rightarrow> push_mirror" where
  "toPushMirrorInfo pm = pm\<lparr>pm_key := []\<rparr>"

definition ListPushMirrors :: "'x service \<Rightarrow> headers \<Rightarrow> string \<Rightarrow> string \<Rightarrow> ('x, push_mirror list) handler" where
  "ListPushMirrors S h org repo =
     bnd (ensureVisible S h org repo) (\<lambda>_.
     bnd (git_internal (git_ListPushMirrors (git S) org repo)) (\<lambda>pms. ret (map toPushMirrorInfo pms)))"

definition DeletePushMirror :: "'x service \<Rightarrow> headers \<Rightarrow> string \<Rightarrow> string \<Rightarrow> string \<Rightarrow> ('x, bool) handler" where
  "DeletePushMirror S h org repo remote =
     bnd (ensureVisible S h org repo) (\<lambda>_.
     let name = trim_space remote in
     if name = [] then throw (bad_request ''remote_name is required'') else
     bnd (git_internal (git_DeletePushMirror (git S) org repo name)) (\<lambda>_. ret True))"

subsection \<open>Raw files\<close>

definition maxTextBytes :: nat where "maxTextBytes = 1048576"

definition in_range :: "nat \<Rightarrow> nat \<Rightarrow> char \<Rightarrow> bool" where
  "in_range lo hi c = (lo \<le> of_char c \<and> of_char c \<le> hi)"

abbreviation cont :: "char \<Rightarrow> bool" where "cont \<equiv> in_range 128 191"

text \<open>\<^verbatim>\<open>utf8.Valid\<close>: no overlong forms, no surrogates, nothing above U+10FFFF.\<close>

function utf8_valid :: "string \<Rightarrow> bool" where
  "utf8_valid s = (case s of [] \<Rightarrow> True
    | a # t1 \<Rightarrow>
      if in_range 0 127 a then utf8_valid t1
      else case t1 of [] \<Rightarrow> False
    | b # t2 \<Rightarrow>
      if in_range 194 223 a \<and> cont b then utf8_valid t2
      else case t2 of [] \<Rightarrow> False
    | c # t3 \<Rightarrow>
      if (in_range 224 224 a \<and> in_range 160 191 b \<or> in_range 225 236 a \<and> cont b \<or>
          in_range 237 237 a \<and> in_range 128 159 b \<or> in_range 238 239 a \<and> cont b) \<and> cont c
      then utf8_valid t3
      else case t3 of [] \<Rightarrow> False
    | d # t4 \<Rightarrow>
      (in_range 240 240 a \<and> in_range 144 191 b \<or> in_range 241 243 a \<and> cont b \<or>
       in_range 244 244 a \<and> in_range 128 143 b) \<and> cont c \<and> cont d \<and> utf8_valid t4)"
  by auto
termination by (relation "measure length") auto

declare utf8_valid.simps [simp del]

definition isTextContent :: "string \<Rightarrow> bool" where
  "isTextContent data =
     (if data = [] then True
      else if length data > maxTextBytes then False
      else if CHR 0x00 \<in> set (take 8192 data) then False
      else utf8_valid data)"

definition mime_table :: "(string \<times> string) list" where
  "mime_table =
    [(''png'', ''image/png''), (''jpg'', ''image/jpeg''), (''jpeg'', ''image/jpeg''),
     (''gif'', ''image/gif''), (''webp'', ''image/webp''), (''svg'', ''image/svg+xml''),
     (''bmp'', ''image/bmp''), (''ico'', ''image/x-icon''), (''pdf'', ''application/pdf''),
     (''mp4'', ''video/mp4''), (''webm'', ''video/webm''), (''mov'', ''video/quicktime''),
     (''mp3'', ''audio/mpeg''), (''wav'', ''audio/wav''), (''ogg'', ''audio/ogg''),
     (''json'', ''application/json''), (''yaml'', ''application/x-yaml''), (''yml'', ''application/x-yaml''),
     (''xml'', ''application/xml''), (''md'', ''text/markdown''), (''markdown'', ''text/markdown''),
     (''csv'', ''text/csv''), (''tsv'', ''text/tab-separated-values''), (''html'', ''text/html''),
     (''htm'', ''text/html''), (''css'', ''text/css''), (''js'', ''text/javascript''),
     (''mjs'', ''text/javascript''), (''cjs'', ''text/javascript''), (''ts'', ''text/x-typescript''),
     (''sh'', ''text/x-shellscript''), (''bash'', ''text/x-shellscript''), (''txt'', ''text/plain''),
     (''log'', ''text/plain'')]"

definition mimeOfPath :: "string \<Rightarrow> string" where
  "mimeOfPath path =
     (let e = to_lower path in
      case last_index_byte CHR ''.'' e of None \<Rightarrow> []
      | Some i \<Rightarrow> (case map_of mime_table (drop (Suc i) e) of Some m \<Rightarrow> m | None \<Rightarrow> []))"

record raw_file =
  rf_data :: string
  rf_sha :: string
  rf_mime :: string
  rf_text :: bool

definition ReadRaw ::
  "'x service \<Rightarrow> headers \<Rightarrow> string \<Rightarrow> string \<Rightarrow> string \<Rightarrow> string \<Rightarrow> ('x, raw_file) handler" where
  "ReadRaw S h org repo r path =
     bnd (ensureVisible S h org repo) (\<lambda>_.
     bnd (git_not_found (git_RawFile (git S) org repo r path)) (\<lambda>(data, sha).
       ret \<lparr>rf_data = data, rf_sha = sha, rf_mime = mimeOfPath path, rf_text = isTextContent data\<rparr>))"

end
