(* ===== verification/ChangeRequests.thy ===== *)
theory ChangeRequests
  imports Browse
begin

text \<open>
  Change requests in \<^verbatim>\<open>internal/workspacesvc/service.go\<close> and \<^verbatim>\<open>mr_notify.go\<close>: submitting one
  from a sandbox's files, reading, commenting, merging and closing it, and the notification of
  the target branch's session.  Also the two other repository mutations, tags and branches.
\<close>

definition mrError :: "gerr \<Rightarrow> cerr" where
  "mrError e = (case e of
      GConflict p reason \<Rightarrow> CErr CodeFailedPrecondition (''merge conflict: '' @ reason)
    | GNotFound u \<Rightarrow> CErr CodeNotFound (gerr_text e)
    | GOther m \<Rightarrow> CErr CodeInternal (gerr_text e))"

definition or_mrError :: "('s, gerr, 'a) act \<Rightarrow> ('s, cerr, 'a) act" where
  "or_mrError m = map_err mrError m"

definition RepoMeta :: "'x service \<Rightarrow> headers \<Rightarrow> string \<Rightarrow> string \<Rightarrow> ('x, repo_info) handler" where
  "RepoMeta S h org repo =
     bnd (ensureVisible S h org repo) (\<lambda>_. or_mrError (git_GetRepo (git S) org repo))"

definition CreateTag ::
  "'x service \<Rightarrow> headers \<Rightarrow> string \<Rightarrow> string \<Rightarrow> string \<Rightarrow> string \<Rightarrow> ('x, bool) handler" where
  "CreateTag S h org repo name target =
     bnd (ensureVisible S h org repo) (\<lambda>_.
     bnd (or_mrError (git_CreateTagAt (git S) org repo name target)) (\<lambda>_. ret True))"

definition CreateBranch ::
  "'x service \<Rightarrow> headers \<Rightarrow> string \<Rightarrow> string \<Rightarrow> string \<Rightarrow> string \<Rightarrow> ('x, bool) handler" where
  "CreateBranch S h org repo name base =
     bnd (ensureVisible S h org repo) (\<lambda>_.
     if \<not> branchTargetAllowed (sessionFromHeaders h) org repo
     then throw (denied ''a session may only create branches in its own repository'') else
     bnd (or_mrError (git_CreateBranch (git S) org repo name base)) (\<lambda>_. ret True))"

subsection \<open>Reading\<close>

definition toMRInfo :: "mr_info \<Rightarrow> mr_info" where
  "toMRInfo mr = mr\<lparr>mi_head_sha := []\<rparr>"

definition ListMRs :: "'x service \<Rightarrow> headers \<Rightarrow> string \<Rightarrow> string \<Rightarrow> string \<Rightarrow> ('x, mr_info list) handler" where
  "ListMRs S h org repo state =
     bnd (ensureVisible S h org repo) (\<lambda>_.
     bnd (git_internal (git_ListMRs (git S) org repo state)) (\<lambda>mrs. ret (map toMRInfo mrs)))"

text \<open>The second component is \<^verbatim>\<open>origin_session\<close>, empty when no submission is recorded.\<close>

definition GetMR :: "'x service \<Rightarrow> headers \<Rightarrow> string \<Rightarrow> string \<Rightarrow> int \<Rightarrow> ('x, mr_info \<times> string) handler" where
  "GetMR S h org repo index =
     bnd (ensureVisible S h org repo) (\<lambda>_.
     bnd (git_not_found (git_GetMR (git S) org repo index)) (\<lambda>mr.
     bnd (tenantOf S h) (\<lambda>tenant.
     bnd (attempt (MRSubmission S tenant org repo index)) (\<lambda>r.
       ret (toMRInfo mr, case r of Inr (Some sub) \<Rightarrow> mr_origin sub | _ \<Rightarrow> [])))))"

definition CommentMR ::
  "'x service \<Rightarrow> headers \<Rightarrow> string \<Rightarrow> string \<Rightarrow> int \<Rightarrow> string \<Rightarrow> ('x, bool) handler" where
  "CommentMR S h org repo index body =
     bnd (ensureVisible S h org repo) (\<lambda>_.
     bnd (git_internal (git_CommentMR (git S) org repo index body)) (\<lambda>_. ret True))"

subsection \<open>Merging and closing\<close>

definition authorizeMRTarget :: "headers \<Rightarrow> string \<Rightarrow> string \<Rightarrow> string \<Rightarrow> ('x, unit) handler" where
  "authorizeMRTarget h org repo base =
     (let caller = sessionFromHeaders h; want = SessionName org repo base in
      if caller = [] then ret ()
      else if caller \<noteq> want
      then throw (denied (''only the '' @ want @ '' session may merge or close this change request''))
      else ret ())"

definition isMRBranch :: "string \<Rightarrow> bool" where
  "isMRBranch r = has_prefix r ''mr/''"

definition MergeMR :: "'x service \<Rightarrow> headers \<Rightarrow> string \<Rightarrow> string \<Rightarrow> int \<Rightarrow> ('x, bool) handler" where
  "MergeMR S h org repo index =
     bnd (ensureVisible S h org repo) (\<lambda>_.
     bnd (or_mrError (git_GetMR (git S) org repo index)) (\<lambda>mr.
     bnd (authorizeMRTarget h org repo (mi_base mr)) (\<lambda>_.
     if \<not> mi_mergeable mr
     then throw (CErr CodeFailedPrecondition
            (''change request #'' @ int_str index @ '' is not mergeable (the base has diverged)'')) else
     bnd (or_mrError (git_MergeMR (git S) org repo index [])) (\<lambda>_.
     bnd (tenantOf S h) (\<lambda>tenant.
     bnd (ignore (DeleteMRSubmission S tenant org repo index)) (\<lambda>_. ret True))))))"

definition CloseMR :: "'x service \<Rightarrow> headers \<Rightarrow> string \<Rightarrow> string \<Rightarrow> int \<Rightarrow> ('x, bool) handler" where
  "CloseMR S h org repo index =
     bnd (ensureVisible S h org repo) (\<lambda>_.
     bnd (or_mrError (git_GetMR (git S) org repo index)) (\<lambda>mr.
     bnd (authorizeMRTarget h org repo (mi_base mr)) (\<lambda>_.
     bnd (or_mrError (git_CloseMR (git S) org repo index)) (\<lambda>_.
     bnd (if isMRBranch (mi_head mr) then ignore (git_DeleteBranch (git S) org repo (mi_head mr)) else ret ()) (\<lambda>_.
     bnd (tenantOf S h) (\<lambda>tenant.
     bnd (ignore (DeleteMRSubmission S tenant org repo index)) (\<lambda>_. ret True)))))))"

subsection \<open>Submitting\<close>

text \<open>\<^verbatim>\<open>strings.NewReplacer(":", "-", "/", "-")\<close>\<close>

definition mr_slug :: "string \<Rightarrow> string" where
  "mr_slug origin = map (\<lambda>c. if c = CHR '':'' \<or> c = CHR ''/'' then CHR ''-'' else c) origin"

definition mrBranchName :: "'x service \<Rightarrow> string \<Rightarrow> ('x, string) handler" where
  "mrBranchName S origin = (\<lambda>w. case quiet (sv_nanos S) w of
      (t, w') \<Rightarrow> (Ok (''mr/'' @ mr_slug origin @ ''-'' @ int_str t), w'))"

text \<open>A submitted file: path, operation, text content, byte content.\<close>

record mr_file =
  mf_path :: string
  mf_op :: string
  mf_content :: string
  mf_bytes :: string

definition to_file_op :: "mr_file \<Rightarrow> file_op" where
  "to_file_op f = \<lparr>fo_path = mf_path f, fo_op = mf_op f,
     fo_content = (if mf_bytes f = [] then mf_content f else mf_bytes f)\<rparr>"

definition submit_error :: "submit_err \<Rightarrow> cerr" where
  "submit_error e = (case sub_kind e of
      OtherFailure \<Rightarrow> internal (sub_text e) | _ \<Rightarrow> bad_request (sub_text e))"

definition notify_text :: "int \<Rightarrow> string \<Rightarrow> string \<Rightarrow> string \<Rightarrow> string \<Rightarrow> string \<Rightarrow> string" where
  "notify_text index org repo title base url =
     ''New change request #'' @ int_str index @ '' in '' @ org @ ''/'' @ repo @ '': '' @ go_quote title @
     '' ('' @ [CHR 0xE2, CHR 0x86, CHR 0x92] @ '' '' @ base @ '').'' @ [CHR 0x0A] @ url"

definition notifyMRSubmitted ::
  "'x service \<Rightarrow> headers \<Rightarrow> string \<Rightarrow> string \<Rightarrow> string \<Rightarrow> string \<Rightarrow> int \<Rightarrow> string \<Rightarrow> string \<Rightarrow> ('x, unit) handler" where
  "notifyMRSubmitted S h tenant org repo base0 index title url =
     (case sv_bus S of None \<Rightarrow> ret ()
      | Some publish \<Rightarrow>
        let base = (if base0 = [] then MainBranch else base0);
            baseSession = SessionName org repo base in
        if baseSession = sessionFromHeaders h then ret () else
        bnd (ignore (EnsureBranchSession S h org repo base [] [])) (\<lambda>_.
        let text = notify_text index org repo title base url in
        ignore (of_sum (logged (CMailbox tenant baseSession text ''system:repo-mr'')
                          (publish tenant baseSession text ''system:repo-mr''))
                :: ('x world, string, unit) act)))"

record submit_res =
  sm_index :: int
  sm_url :: string
  sm_head :: string

definition SubmitMR ::
  "'x service \<Rightarrow> headers \<Rightarrow> string \<Rightarrow> string \<Rightarrow> string \<Rightarrow> string \<Rightarrow> string \<Rightarrow> mr_file list \<Rightarrow>
   ('x, submit_res) handler" where
  "SubmitMR S h org repo base title0 body files =
     bnd (ensureVisible S h org repo) (\<lambda>_.
     if base = [] then throw (bad_request ''base is required'')
     else if \<not> ValidComponent base then throw (bad_request ''base must be a simple branch name'')
     else if isMRBranch base then throw (bad_request ''base cannot be an mr/... branch'') else
     bnd (git_internal (git_BranchExists (git S) org repo base)) (\<lambda>ok.
     if \<not> ok then throw (not_found (''base branch '' @ go_quote base @ '' does not exist''))
     else if files = [] then throw (bad_request ''files is required'') else
     let ops = map to_file_op files; caller = sessionFromHeaders h;
         origin = (if caller = [] then SessionName org repo base else caller) in
     bnd (mrBranchName S origin) (\<lambda>head.
     let title = (if trim_space title0 = [] then ''MR from '' @ origin @ '' into '' @ base else title0);
         opts = \<lparr>go_url = GitURL (git S) org repo, go_branch = base, go_user = ''root'',
                 go_token = fc_token (git S)\<rparr> in
     bnd (map_err submit_error (Submit (gogit S) opts base head title ops)) (\<lambda>_.
     bnd (attempt (git_CreateMR (git S) org repo title head base body)) (\<lambda>r. case r of
        Inl e \<Rightarrow> bnd (ignore (git_DeleteBranch (git S) org repo head)) (\<lambda>_. throw (mrError e))
      | Inr (index, url) \<Rightarrow>
        bnd (tenantOf S h) (\<lambda>tenant.
        bnd (ignore (AddMRSubmission S tenant org repo index base head origin)) (\<lambda>_.
        bnd (tenantOf S h) (\<lambda>tenant2.
        bnd (notifyMRSubmitted S h tenant2 org repo base index title url) (\<lambda>_.
          ret \<lparr>sm_index = index, sm_url = url, sm_head = head\<rparr>)))))))))"

end
