(* ===== verification/AccessProps.thy ===== *)
theory AccessProps
  imports SessionFacts ChangeRequests Demo
begin

text \<open>
  Who may reach what: how a repository-scoped handler refuses a tenant that does not own the
  repository, deletions spare the default branch, forks and
  listings stay inside the caller's repositories, merging is left to the target's own session, and
  submitting pushes only to a fresh change-request branch.
\<close>

subsection \<open>Refusal\<close>

text \<open>A handler refuses when it returns an error, the store is as before, and only the agent
  and the cluster were called: no request to the git host, no clone, no push.\<close>

definition refuses :: "('x, 'a) handler \<Rightarrow> 'x world \<Rightarrow> bool" where
  "refuses m w = (case m w of
      (Fail e, w') \<Rightarrow> err_code e \<in> {CodeNotFound, CodeInternal} \<and> db w' = db w \<and> traced_in plain w w'
    | _ \<Rightarrow> False)"

lemma refuses_wp:
  "refuses m w = wp m (\<lambda>r w'. (\<exists>e. r = Fail e \<and> err_code e \<in> {CodeNotFound, CodeInternal}) \<and>
      db w' = db w \<and> traced_in plain w w') w"
  by (auto simp: refuses_def wp_def split: prod.splits res.splits)

lemma refuses_bnd: "refuses m w \<Longrightarrow> refuses (bnd m k) w"
  by (auto simp: refuses_def bnd_def split: prod.splits res.splits)

lemma traced_in_eq: "trace w' = trace w \<Longrightarrow> traced_in P w w'"
  by (auto simp: traced_in_def)

lemma ensureVisible_refuses:
  assumes "resolveTenant S h w = (Ok t, w1)" "\<not> ownsRepo t org repo (db w)"
  shows "refuses (ensureVisible S h org repo) w"
proof -
  have w1: "db w1 = db w" "traced_in plain w w1"
    using keepsD [OF resolveTenant_keeps(1) assms(1)] keepsD [OF plain_parts(1) assms(1)] by simp_all
  have tr: "traced_in plain w w2" if "trace w2 = trace w1" for w2
    using preord_trans [OF preord_traced_in w1(2) traced_in_eq [OF that]] .
  show ?thesis
    unfolding refuses_wp ensureVisible_def or_internal_def OwnsRepo_def
    apply (rule wp_bnd, rule wpI)
    using assms w1 tr
    by (auto intro!: wp_bnd wp_map_err wp_query wp_throw simp: internal_def not_found_def split: res.split)
qed

subsection \<open>Deleting\<close>

text \<open>The one request to the host that deleting the session or branch of \<open>(org, repo, branch)\<close>
  may make.\<close>

definition deletes_only :: "'x service \<Rightarrow> string \<Rightarrow> call \<Rightarrow> bool" where
  "deletes_only S session cl = (case cl of
      CHttp rq \<Rightarrow> \<exists>org repo branch. ParseSession session = Some (org, repo, branch) \<and> branch \<noteq> MainBranch \<and>
         rq_method rq = ''DELETE'' \<and>
         rq_url rq = full_url (sv_git S) (branch_path org repo branch) []
    | _ \<Rightarrow> True)"

lemma deletes_only_free: "free_of_http (deletes_only S session)"
  by (auto simp: free_of_http_def deletes_only_def split: call.split)

lemma deletes_only_own:
  "ParseSession session = Some (org, repo, branch) \<Longrightarrow> branch \<noteq> MainBranch \<Longrightarrow>
   deletes_only S session (CHttp \<lparr>rq_method = ''DELETE'',
     rq_url = full_url (sv_git S) (branch_path org repo branch) [], rq_auth = a, rq_body = b\<rparr>)"
  by (simp add: deletes_only_def)

text \<open>Deleting a session, and deleting a branch, never touch the default branch on the host: the
  only request they make is the deletion of the very branch named, and none at all when that
  branch is \<open>main\<close>, when the name is not a branch session's, or when the session is a free one.
  \<open>DeleteBranch\<close> moreover fails on \<open>main\<close>.\<close>

theorem deletion_spares_main:
  "traced_in (deletes_only S session) w (snd (DeleteBranchSession S h session w)) \<and>
   traced_in (deletes_only S (SessionName org repo branch)) w (snd (DeleteBranch S h org repo branch w)) \<and>
   \<not> is_ok (fst (DeleteBranch S h org repo MainBranch w))"
proof (intro conjI)
  note free = deletes_only_free [THEN keeps_free_of_http [rotated]]
  note parts = free [OF cascade_trace] free [OF free_role_keeps(2)] free [OF resolveTenant_keeps(2)]
    store_traces git_DeleteBranch_trace
  show "traced_in (deletes_only S session) w (snd (DeleteBranchSession S h session w))"
    by (rule keeps_snd [where R = "traced_in _"])
       (auto simp: DeleteBranchSession_def owns_quietly_def git_internal_def Let_def
          intro!: keeps parts deletes_only_own split: option.split)
  show "traced_in (deletes_only S (SessionName org repo branch)) w (snd (DeleteBranch S h org repo branch w))"
    by (rule keeps_snd [where R = "traced_in _"])
       (auto simp: DeleteBranch_def git_internal_def or_internal_def
          intro!: keeps parts deletes_only_own ParseSession_SessionName split: option.split)
  have "wp (DeleteBranch S h org repo MainBranch) (\<lambda>r w'. \<not> is_ok r) w"
    unfolding DeleteBranch_def
    by (rule wp_bnd, rule wpI) (auto intro!: wp_throw simp: is_ok_def split: res.split)
  then show "\<not> is_ok (fst (DeleteBranch S h org repo MainBranch w))" by (simp add: wp_def)
qed

subsection \<open>Listing and forking\<close>

lemma list_row_sound:
  "wp (list_row S t all name) (\<lambda>r w'. db w' = db w \<and> (\<forall>row. r = Ok (Some row) \<longrightarrow>
      bs_session row = name \<and>
      (case ParseSession name of
         Some (org, repo, branch) \<Rightarrow> bs_org row = org \<and> bs_repo row = repo \<and> bs_branch row = branch \<and>
            ownsRepo t org repo (db w)
       | None \<Rightarrow> freeRole t name (db w) = Some (bs_role row)))) w"
proof (cases "ParseSession name")
  case None
  then show ?thesis
    by (auto simp: list_row_def free_role_def FreeRole_def free_row_def Let_def
        intro!: wp_bnd wp_ret wp_attempt wp_query split: prod.split)
next
  case (Some p)
  then show ?thesis
    by (cases p) (auto simp: list_row_def OwnsRepo_def branch_row_def or_internal_def Let_def
        intro!: wp_bnd wp_ret wp_map_err wp_query split: prod.split)
qed

lemma list_all2_map_filter:
  "list_all2 (\<lambda>_ y. \<forall>x. y = Some x \<longrightarrow> Q x) xs ys \<Longrightarrow> x \<in> set (List.map_filter id ys) \<Longrightarrow> Q x"
  by (induction rule: list_all2_induct) (auto simp: map_filter_def split: if_splits)

text \<open>A session listing shows a tenant only its own: every row is a branch session of a
  repository the tenant owns, or a free session recorded for the tenant, with the role recorded.\<close>

theorem ListBranchSessions_own_only:
  assumes "resolveTenant S h w = (Ok t, w1)" "ListBranchSessions S h w = (Ok rows, w')" "row \<in> set rows"
  shows "case ParseSession (bs_session row) of
           Some (org, repo, branch) \<Rightarrow> bs_org row = org \<and> bs_repo row = repo \<and> bs_branch row = branch \<and>
              ownsRepo t org repo (db w)
         | None \<Rightarrow> freeRole t (bs_session row) (db w) = Some (bs_role row)"
proof -
  let ?good = "\<lambda>row. case ParseSession (bs_session row) of
           Some (org, repo, branch) \<Rightarrow> bs_org row = org \<and> bs_repo row = repo \<and> bs_branch row = branch \<and>
              ownsRepo t org repo (db w)
         | None \<Rightarrow> freeRole t (bs_session row) (db w) = Some (bs_role row)"
  let ?P = "\<lambda>(name :: string) y. \<forall>row. y = Some row \<longrightarrow> ?good row"
  have w1: "db w1 = db w" using keepsD [OF resolveTenant_keeps(1) assms(1)] .
  have one: "wp (list_row S t all name) (\<lambda>r s'. db s' = db w \<and> (\<forall>y. r = Ok y \<longrightarrow> ?P name y)) s"
    if "db s = db w" for all name s
    by (rule wp_conseq [OF list_row_sound]) (use that in \<open>auto split: option.splits\<close>)
  have rows: "wp (collect (list_row S t all) names)
      (\<lambda>r s'. \<forall>ys. r = Ok ys \<longrightarrow> (\<forall>row\<in>set (List.map_filter id ys). ?good row)) s"
    if "db s = db w" for all names s
  proof (rule wp_conseq [OF wp_collect [where I = "\<lambda>s. db s = db w" and P = ?P]])
    fix r s' assume "db s' = db w \<and> (\<forall>ys. r = Ok ys \<longrightarrow> list_all2 ?P names ys)"
    then show "\<forall>ys. r = Ok ys \<longrightarrow> (\<forall>row\<in>set (List.map_filter id ys). ?good row)"
      using list_all2_map_filter [of ?good] by blast
  qed (use that one in auto)
  have "keeps same_db (with_sbx S sbx_List :: ('a world, sbx_err, sandbox list) act)"
    by (intro with_sbx_keeps sbx_db.sbx_keeps preord_eq)
  then have "wp (ListBranchSessions S h) (\<lambda>r s'. \<forall>ys. r = Ok ys \<longrightarrow> (\<forall>row\<in>set ys. ?good row)) w"
    unfolding ListBranchSessions_def Let_def
    apply (intro wp_bnd)
    apply (rule wpI)
    using assms(1) w1
    by (auto intro!: wp_bnd wp_attempt wp_agent_call wp_ret wp_keeps [of same_db "with_sbx S sbx_List"]
        wp_conseq [OF rows] split: res.split)
  from wpD [OF this assms(2)] assms(3) show ?thesis by blast
qed

definition rows_of :: "('e, 'a list) res \<times> 's \<Rightarrow> 'a list" where
  "rows_of rw = (case fst rw of Ok rows \<Rightarrow> rows | _ \<Rightarrow> [])"

lemma ListBranchSessions_own_only_witness:
  "map bs_session (rows_of (ListBranchSessions demo_service (demo_hdr ''t1'' []) demo_world))
     = [''acme:web:main'', ''acme:web:dev'', ''helper''] \<and>
   freeRole ''t1'' ''helper'' (db demo_world) =
     Some (bs_role (rows_of (ListBranchSessions demo_service (demo_hdr ''t1'' []) demo_world) ! 2))"
proof -
  let ?run = "ListBranchSessions demo_service (demo_hdr ''t1'' []) demo_world"
  have names: "map bs_session (rows_of ?run) = [''acme:web:main'', ''acme:web:dev'', ''helper'']" by code_simp
  then obtain rows where rows: "fst ?run = Ok rows" by (cases "fst ?run") (auto simp: rows_of_def)
  then have run: "?run = (Ok rows, snd ?run)" by (metis prod.collapse)
  have "fst (resolveTenant demo_service (demo_hdr ''t1'' []) demo_world) = Ok ''t1''" by code_simp
  then have t: "resolveTenant demo_service (demo_hdr ''t1'' []) demo_world =
      (Ok ''t1'', snd (resolveTenant demo_service (demo_hdr ''t1'' []) demo_world))" by (metis prod.collapse)
  have r: "rows_of ?run = rows" using rows by (simp add: rows_of_def)
  with names have "rows ! 2 \<in> set rows" "bs_session (rows ! 2) = ''helper''" by auto
  moreover have "ParseSession ''helper'' = None" by code_simp
  ultimately show ?thesis
    using names r ListBranchSessions_own_only [OF t run, of "rows ! 2"] by simp
qed

text \<open>The forks that \<open>ForkBranchSession\<close> may ask the agent for.\<close>

definition fork_allowed :: "string \<Rightarrow> headers \<Rightarrow> string \<Rightarrow> string \<Rightarrow> store \<Rightarrow> call \<Rightarrow> bool" where
  "fork_allowed t h parent branch st cl = (case cl of
      CFork rq \<Rightarrow> (\<exists>org repo. ParseSession parent = Some (org, repo, MainBranch) \<and> ownsRepo t org repo st \<and>
         ValidComponent branch \<and> branch \<noteq> MainBranch \<and>
         fk_id rq = parent \<and> fk_name rq = SessionName org repo branch \<and> fk_preset rq = Developer \<and>
         branchTargetAllowed (sessionFromHeaders h) org repo)
    | _ \<Rightarrow> True)"

lemma fork_parts:
  "keeps (traced_in (fork_allowed t h parent branch st)) (sessionExists S h' s)"
  "keeps (traced_in (fork_allowed t h parent branch st)) (sandboxFields S s)"
  "keeps (traced_in (fork_allowed t h parent branch st)) (resolveTenant S h')"
  by (auto simp: sessionExists_def sandboxFields_def resolveTenant_def fork_allowed_def Let_def
      intro!: keeps with_sbx_keeps keeps_kube [OF sbx_kube.sbx_keeps(1)])

text \<open>A fork is asked of the agent only for a new, validly named, non-default branch of a
  repository the caller's tenant owns, from that repository's main session, with the developer
  preset; and a caller that is itself a branch session can fork only in its own repository.\<close>

theorem ForkBranchSession_confined:
  fixes w :: "'x world"
  assumes "resolveTenant S h w = (Ok t, w1)" "ForkBranchSession S h parent branch msg w = (r, w')"
  shows "traced_in (fork_allowed t h parent branch (db w)) w w'"
proof -
  let ?P = "fork_allowed t h parent branch (db w)"
  let ?T = "traced_in ?P :: 'x world \<Rightarrow> 'x world \<Rightarrow> bool"
  have w1: "db w1 = db w" "?T w w1"
    using keepsD [OF resolveTenant_keeps(1) assms(1)] keepsD [OF fork_parts(3) assms(1)] by auto
  have tr: "?T w w2" if "trace w2 = trace w1" for w2
    using preord_trans [OF preord_traced_in w1(2) traced_in_eq [OF that]] .
  have "wp (ForkBranchSession S h parent branch msg) (\<lambda>r w'. ?T w w') w"
    unfolding ForkBranchSession_def OwnsRepo_def or_internal_def Let_def
    apply (rule wp_bnd, rule wpI)
    using assms(1) w1
    by (auto intro!: wp_bnd wp_map_err wp_query wp_throw wp_traced [where P = ?P and u = w] keeps fork_parts tr
        simp: fork_allowed_def PresetFor_def split: res.split option.split)
  from wpD [OF this assms(2)] show ?thesis .
qed

lemma ForkBranchSession_confined_witness:
  "traced_in (fork_allowed ''t1'' (demo_hdr ''t1'' []) ''acme:web:main'' ''topic'' demo_store) demo_world
     (snd (ForkBranchSession demo_service (demo_hdr ''t1'' []) ''acme:web:main'' ''topic'' [] demo_world)) \<and>
   is_ok (fst (ForkBranchSession demo_service (demo_hdr ''t1'' []) ''acme:web:main'' ''topic'' [] demo_world))"
proof -
  have "fst (resolveTenant demo_service (demo_hdr ''t1'' []) demo_world) = Ok ''t1''" by code_simp
  then have t: "resolveTenant demo_service (demo_hdr ''t1'' []) demo_world =
      (Ok ''t1'', snd (resolveTenant demo_service (demo_hdr ''t1'' []) demo_world))" by (metis prod.collapse)
  have ok: "is_ok (fst (ForkBranchSession demo_service (demo_hdr ''t1'' []) ''acme:web:main'' ''topic'' [] demo_world))"
    by code_simp
  have "db demo_world = demo_store" by (simp add: demo_world_def)
  with ForkBranchSession_confined [OF t prod.collapse [symmetric], of "''acme:web:main''" "''topic''" "[]"] ok
  show ?thesis by simp
qed

subsection \<open>Change requests\<close>

lemma ensureVisible_reads:
  "keeps same_db (ensureVisible S h org repo)" "keeps (traced_in (http_only M)) (ensureVisible S h org repo)"
  by (auto simp: ensureVisible_def or_internal_def intro!: keeps resolveTenant_keeps store_reads_keep store_traces)

text \<open>Runs that leave the store alone and send the host nothing but reads.\<close>

definition reads_only :: "'x world \<Rightarrow> 'x world \<Rightarrow> bool" where
  "reads_only u v = (db v = db u \<and> traced_in (http_only (\<lambda>method. method = ''GET'')) u v)"

lemma preord_reads_only [simp, intro]: "preord reads_only"
  unfolding reads_only_def by (intro preord_conj preord_eq preord_traced_in)

lemma keeps_reads_only:
  "keeps same_db m \<Longrightarrow> keeps (traced_in (http_only (\<lambda>method. method = ''GET''))) m \<Longrightarrow> keeps reads_only m"
  by (simp add: keeps_def reads_only_def)

text \<open>The common start of merging and closing: ownership, the change request, the caller's right.\<close>

definition authorized :: "'x service \<Rightarrow> headers \<Rightarrow> string \<Rightarrow> string \<Rightarrow> int \<Rightarrow> (mr_info \<Rightarrow> ('x, 'a) handler) \<Rightarrow> ('x, 'a) handler" where
  "authorized S h org repo index k =
     bnd (ensureVisible S h org repo) (\<lambda>_. bnd (or_mrError (git_GetMR (git S) org repo index))
       (\<lambda>mr. bnd (authorizeMRTarget h org repo (mi_base mr)) (\<lambda>_. k mr)))"

lemma merge_close_authorized:
  "\<exists>k. MergeMR S h org repo index = authorized S h org repo index k"
  "\<exists>k. CloseMR S h org repo index = authorized S h org repo index k"
  unfolding MergeMR_def CloseMR_def authorized_def by (rule exI, rule refl)+

lemma authorize_stops:
  assumes "reads_only w u" "sessionFromHeaders h \<noteq> []" "sessionFromHeaders h \<noteq> SessionName org repo base"
  shows "wp (bnd (authorizeMRTarget h org repo base) k) (\<lambda>r v. \<not> is_ok r \<and> reads_only w v) u"
proof -
  have "wp (authorizeMRTarget h org repo base) (\<lambda>r v. \<not> is_ok r \<and> reads_only w v) u"
    using assms by (simp add: authorizeMRTarget_def Let_def wp_throw)
  then show ?thesis
    by (rule wp_bnd [OF wp_conseq]) (auto split: res.splits)
qed

lemma authorized_stops:
  fixes w :: "'x world"
  assumes "sessionFromHeaders h \<noteq> []"
    and base: "\<And>w1 w2 mr. git_GetMR (git S) org repo index w1 = (Ok mr, w2) \<Longrightarrow>
           sessionFromHeaders h \<noteq> SessionName org repo (mi_base mr)"
  shows "wp (authorized S h org repo index k) (\<lambda>r v. \<not> is_ok r \<and> reads_only w v) w"
proof -
  have start: "keeps reads_only (ensureVisible S h org repo)" by (intro keeps_reads_only ensureVisible_reads)
  have get: "keeps reads_only (git_GetMR (git S) org repo index)"
    by (intro keeps_reads_only git_db.reads git_trace.reads) simp_all
  have refl: "reads_only w w" by (rule preord_refl) simp
  have no: "wp (git_GetMR (git S) org repo index) (\<lambda>r v. reads_only w v \<and>
      (\<forall>mr. r = Ok mr \<longrightarrow> sessionFromHeaders h \<noteq> SessionName org repo (mi_base mr))) u"
    if "reads_only w u" for u
    using preord_trans [OF preord_reads_only that keepsD [OF get]] base by (blast intro: wpI)
  have got: "wp (bnd (or_mrError (git_GetMR (git S) org repo index))
      (\<lambda>mr. bnd (authorizeMRTarget h org repo (mi_base mr)) (\<lambda>_. k mr))) (\<lambda>r v. \<not> is_ok r \<and> reads_only w v) u"
    if "reads_only w u" for u
    unfolding or_mrError_def
    by (rule wp_bnd, rule wp_map_err, rule wp_conseq [OF no [OF that]])
       (auto intro!: authorize_stops assms(1) split: res.splits)
  show ?thesis
    unfolding authorized_def
    by (rule wp_bnd, rule wp_after [OF start preord_reads_only refl]) (auto intro!: got split: res.split)
qed


definition fixed_service :: "demo service" where
  "fixed_service = demo_service\<lparr>sv_git := \<lparr>fc_base = ''http://git'', fc_token = ''tok'',
     fc_http = (\<lambda>rq x. (Inr (demo_resp 200 demo_mr), x))\<rparr>\<rparr>"

lemma fixed_MR: "git_GetMR (git fixed_service) ''acme'' ''web'' 3 w1 = (Ok mr, w2) \<Longrightarrow> mi_base mr = ''main''"
  by (auto simp: git_GetMR_def do_map_def fg_do_def bnd_cases map_err_cases of_sum_def lift_git_def logged_def
      fixed_service_def demo_resp_def ok_status_def decode_with_def as_map_def demo_mr_def act
      mrFromJSON_def jget_def jstr_def Let_def)


text \<open>The calls that submitting a change request may make: pushes go, without force, to a
  change-request branch only, and only such a branch is ever deleted.\<close>

definition submit_allowed :: "'x service \<Rightarrow> string \<Rightarrow> string \<Rightarrow> call \<Rightarrow> bool" where
  "submit_allowed S org repo cl = (case cl of
      CGitPush refspec force \<Rightarrow> \<not> force \<and> (\<exists>head. isMRBranch head \<and> refspec = push_refspec head)
    | CHttp rq \<Rightarrow> rq_method rq \<in> {''GET'', ''POST''} \<or>
        (\<exists>head. isMRBranch head \<and> rq_method rq = ''DELETE'' \<and>
                rq_url rq = full_url (sv_git S) (branch_path org repo head) [])
    | _ \<Rightarrow> True)"

lemma keeps_gg: "keeps R (of_sum f) \<Longrightarrow> keeps R (gg f)" "keeps R (of_sum f) \<Longrightarrow> keeps R (gg_at what f)"
  by (simp_all add: gg_def gg_at_def keeps)

lemma quiet_read_keeps: "keeps (traced_in P) (\<lambda>w. case quiet f w of (x, w') \<Rightarrow> (Ok x, w'))"
  by (rule keepsI) (auto simp: traced_in_def split: prod.splits dest: db_quiet)

lemma applyFile_trace: "keeps (traced_in P) (applyFile (lift_gogit g) dir ig op)"
  unfolding applyFile_def Let_def
  by (auto simp: lift_gogit_def intro!: keeps keeps_gg quiet_read_keeps)

lemma Submit_trace:
  assumes "\<And>u b. P (CGitClone u b)" "P (CGitPush (push_refspec head) False)"
  shows "keeps (traced_in P) (Submit (lift_gogit g) opt base head msg ops)"
  using assms unfolding Submit_def
  by (auto intro!: keeps keeps_gg keeps_deferring applyFile_trace) (auto simp: lift_gogit_def traced_in_def intro!: keeps)

lemma notify_trace:
  assumes "\<And>c. plain c \<Longrightarrow> P c" "\<And>rq. rq_method rq \<in> {''GET'', ''POST''} \<Longrightarrow> P (CHttp rq)"
    and "\<And>t s m o'. P (CMailbox t s m o')"
  shows "keeps (traced_in P) (notifyMRSubmitted S h t org repo base i title url)"
  by (auto simp: notifyMRSubmitted_def Let_def
      intro!: keeps EnsureBranchSession_trace assms split: option.split)

lemma mrBranchName_MR: "mrBranchName S origin w = (Ok head, w') \<Longrightarrow> isMRBranch head"
  by (auto simp: mrBranchName_def isMRBranch_def has_prefix_iff split: prod.splits)


subsection \<open>Free sessions and organisations\<close>

definition asked_create :: "'x world \<Rightarrow> 'x world \<Rightarrow> bool" where
  "asked_create w w' = (\<exists>rq. CCreateSession rq \<in> set (drop (length (trace w)) (trace w')))"

lemma traced_not_asked: "traced_in P w w' \<Longrightarrow> (\<And>rq. \<not> P (CCreateSession rq)) \<Longrightarrow> \<not> asked_create w w'"
  unfolding traced_in_def asked_create_def list_all_iff by (metis append_eq_conv_conj)

lemma same_db_parts: "keeps same_db (createSession S h name p m l)" by (rule agent_parts_keep)

text \<open>A free session's role is recorded before the agent is asked to create the session, and stays
  recorded whatever the agent answers: once it was asked, the tenant has the row, also when the call
  as a whole fails (for instance because another tenant has a session of that name).\<close>

theorem CreateFreeSession_records_first:
  assumes "resolveTenant S h w = (Ok t, w1)" "CreateFreeSession S h ro name model locale w = (r, w')"
    and "asked_create w w'"
  shows "freeRole t name (db w') = Some ro \<and> ro \<in> {Admin, Explorer} \<and> ParseSession name = None"
proof -
  let ?no = "\<lambda>c. \<forall>rq. c \<noteq> CCreateSession rq"
  let ?Q = "\<lambda>r v. asked_create w v \<longrightarrow> freeRole t name (db v) = Some ro \<and> ro \<in> {Admin, Explorer} \<and> ParseSession name = None"
  have rt: "keeps (traced_in ?no) (resolveTenant S h)"
    by (auto simp: resolveTenant_def intro!: keeps)
  have w1: "db w1 = db w" "traced_in ?no w w1"
    using keepsD [OF resolveTenant_keeps(1) assms(1)] keepsD [OF rt assms(1)] by auto
  have quiet: "\<not> asked_create w v" if "trace v = trace w1" for v
    using traced_not_asked [OF w1(2)] that by (auto simp: asked_create_def)
  have "wp (CreateFreeSession S h ro name model locale) ?Q w"
    unfolding CreateFreeSession_def or_internal_def AddFreeSession_def
    apply (rule wp_bnd, rule wpI)
    using assms(1) w1 quiet
    by (auto intro!: wp_bnd wp_map_err wp_exec wp_throw wp_ret wp_keeps [OF same_db_parts]
        simp: store_laws ParseSession_component_None split: res.split)
  from wpD [OF this assms(2)] assms(3) show ?thesis by blast
qed

lemma CreateFreeSession_records_first_witness:
  "let r = CreateFreeSession demo_service (demo_hdr ''t2'' []) ''explorer'' ''helper'' [] [] demo_world in
   fst r = Fail (CErr CodeAlreadyExists []) \<and> freeRole ''t2'' ''helper'' (db (snd r)) = Some ''explorer''"
proof -
  let ?run = "CreateFreeSession demo_service (demo_hdr ''t2'' []) ''explorer'' ''helper'' [] [] demo_world"
  have r: "fst ?run = Fail (CErr CodeAlreadyExists [])" by code_simp
  have "trace (snd ?run) = [CGetIdentity, CGetConfig ''locale'',
      CCreateSession \<lparr>cr_name = ''helper'', cr_preset = ''explorer'', cr_model = [], cr_locale = []\<rparr>]"
    by code_simp
  then have a: "asked_create demo_world (snd ?run)" by (simp add: asked_create_def demo_world_def)
  have "fst (resolveTenant demo_service (demo_hdr ''t2'' []) demo_world) = Ok ''t2''" by code_simp
  then have t: "resolveTenant demo_service (demo_hdr ''t2'' []) demo_world =
      (Ok ''t2'', snd (resolveTenant demo_service (demo_hdr ''t2'' []) demo_world))" by (metis prod.collapse)
  show ?thesis
    using CreateFreeSession_records_first [OF t prod.collapse [symmetric] a] r by (simp add: Let_def)
qed

text \<open>A session's sandboxes are exactly those labelled with its name, whoever created them, each
  once; the one shown first is a best one (a running or ready one before any other, and among
  equals a latest created), and the rest follow from newest to oldest.\<close>

theorem sessionSandboxes_order:
  assumes "filter (\<lambda>sb. sb_session sb = session) sbxs \<noteq> []" "\<forall>sb\<in>set sbxs. sb_name sb \<noteq> []"
  shows "\<exists>rep rest. sessionSandboxes sbxs session =
      map (\<lambda>sb. \<lparr>sr_name = sb_name sb, sr_phase = sb_phase sb, sr_ready = sb_ready sb\<rparr>) (rep # rest) \<and>
    mset (rep # rest) = filter_mset (\<lambda>sb. sb_session sb = session) (mset sbxs) \<and>
    (\<forall>sb\<in>set rest. (is_up sb \<longrightarrow> is_up rep) \<and> (is_up sb = is_up rep \<longrightarrow> sb_created sb \<le> sb_created rep)) \<and>
    sorted_wrt (\<lambda>a b. sb_created a \<ge> sb_created b) rest"
proof -
  let ?m = "filter (\<lambda>sb. sb_session sb = session) sbxs"
  obtain rep rest where o: "order_sandboxes ?m = rep # rest" "mset (rep # rest) = mset ?m"
    "\<forall>sb\<in>set ?m. \<not> beats sb rep" "sorted_wrt (\<lambda>a b. sb_created a \<ge> sb_created b) rest"
    by (rule order_sandboxes_head [OF assms(1)]) (use assms(2) in auto)
  have "set rest \<subseteq> set ?m" using o(2) by (metis set_mset_mset set_subset_Cons)
  then have "\<forall>sb\<in>set rest. \<not> beats sb rep" using o(3) by blast
  with o show ?thesis
    by (intro exI [of _ rep] exI [of _ rest]) (auto simp: sessionSandboxes_def beats_def mset_filter)
qed

definition demo_sandbox :: "string \<Rightarrow> string \<Rightarrow> string \<Rightarrow> int \<Rightarrow> sandbox" where
  "demo_sandbox name creator phase created = \<lparr>sb_name = name, sb_image = [], sb_phase = phase, sb_ready = False,
     sb_url = [], sb_creator = creator, sb_session = ''helper'', sb_created = created, sb_restarts = 0, sb_message = []\<rparr>"

definition demo_sandboxes :: "sandbox list" where
  "demo_sandboxes = [demo_sandbox ''a'' ''t1'' ''Pending'' 3, demo_sandbox ''b'' ''t2'' ''Running'' 1,
     demo_sandbox ''c'' ''t1'' ''Failed'' 7]"

lemma sessionSandboxes_order_witness:
  "map sr_name (sessionSandboxes demo_sandboxes ''helper'') = [''b'', ''c'', ''a''] \<and>
   (\<exists>rep rest. mset (rep # rest) = filter_mset (\<lambda>sb. sb_session sb = ''helper'') (mset demo_sandboxes))"
proof
  show "map sr_name (sessionSandboxes demo_sandboxes ''helper'') = [''b'', ''c'', ''a'']" by code_simp
  have "filter (\<lambda>sb. sb_session sb = ''helper'') demo_sandboxes \<noteq> []" "\<forall>sb\<in>set demo_sandboxes. sb_name sb \<noteq> []"
    by (simp_all add: demo_sandboxes_def demo_sandbox_def)
  from sessionSandboxes_order [OF this]
  show "\<exists>rep rest. mset (rep # rest) = filter_mset (\<lambda>sb. sb_session sb = ''helper'') (mset demo_sandboxes)"
    by blast
qed

end
