(* ===== verification/HostProps.thy ===== *)
theory HostProps
  imports Roles ForgejoBrowse RuntimeProfiles
begin

text \<open>
  The properties of the pure parts and of the git host's client: session names, tool
  whitelists, the commit log's windows, the error classification of branch deletion, and what a
  rendered runtime profile grants.
\<close>

text \<open>C29: Session names and their parts are two views of one thing: a name parses as
  organisation, repository and branch exactly when it is the session name of three valid
  components.  In particular printing then parsing returns the parts, and no other spelling of a
  session is accepted.\<close>

theorem ParseSession_iff_SessionName:
  "ParseSession name = Some (org, repo, branch) \<longleftrightarrow>
   name = SessionName org repo branch \<and> ValidComponent org \<and> ValidComponent repo \<and> ValidComponent branch"
  using ParseSession_SomeD ParseSession_SessionName by blast

text \<open>The whitelists keep the roles apart: no role's list is empty (the agent reads an empty
  list as every tool), only the roles that may create repositories get the tools that do, only a
  developer can submit, merge or close change requests, and no role has a tool that writes a
  branch's content directly or creates a branch.\<close>

theorem ToolsFor_separation:
  "ToolsFor r \<noteq> [] \<and>
   (''repo-create-repo'' \<in> set (ToolsFor r)) = CanCreateRepo r \<and>
   (''repo-create-org'' \<in> set (ToolsFor r)) = CanCreateRepo r \<and>
   (''sandbox-submit-mr'' \<in> set (ToolsFor r)) = (r = Developer) \<and>
   (''repo-mr-merge'' \<in> set (ToolsFor r)) = (r = Developer) \<and>
   (''repo-mr-close'' \<in> set (ToolsFor r)) = (r = Developer) \<and>
   set (ToolsFor r) \<inter> {''repo-file-write'', ''repo-file-edit'', ''repo-commit'', ''sandbox-port'',
                        ''repo-branch-create''} = {}"
proof -
  have roles: "Admin \<noteq> Developer" "Admin \<noteq> Explorer" "Developer \<noteq> Explorer"
    by (simp_all add: Admin_def Developer_def Explorer_def)
  consider "r = Admin" | "r = Developer" | "r = Explorer" | "r \<noteq> Admin" "r \<noteq> Developer" "r \<noteq> Explorer"
    by blast
  then show ?thesis
    using roles
    by cases (simp_all add: ToolsFor_def CanCreateRepo_def generalTools_def repoReadTools_def
        adminTools_def repoDevTools_def sandboxBase_def browserTools_def computerTools_def)
qed

subsection \<open>The commit log\<close>

text \<open>C28: Against a host that serves the history page by page and counts it, the log returns
  exactly the requested window of the history, and says that more follows exactly when there is a
  later commit; the pages fetched cover every offset and limit, aligned to a page or not.\<close>

theorem git_Log_window:
  fixes limit offset :: nat
  assumes "commits_host c org repo r path True xs" "0 < limit"
  shows "git_Log c org repo r path (int limit) (int offset) s =
     (Ok (map commit_of (take limit (drop offset xs)), offset + limit < length xs), s)"
  using git_Log_host [OF assms] by simp

text \<open>A host that reads the page number off the end of the address.\<close>

definition paged_host :: "bool \<Rightarrow> json list \<Rightarrow> unit fclient" where
  "paged_host counted xs =
     \<lparr>fc_base = ''http://git'', fc_token = [],
      fc_http = (\<lambda>rq u. (Inr \<lparr>rs_status = 200, rs_total = (if counted then nat_str (length xs) else []),
        rs_ctype = [], rs_gitsha = [], rs_body = [],
        rs_json = Inr (JArr (take 50 (drop (50 * (str_nat (rev (takeWhile is_digit (rev (rq_url rq)))) - 1)) xs)))\<rparr>, u))\<rparr>"

lemma query_escape_nat_str: "query_escape (nat_str n) = nat_str n"
proof -
  have "query_escape s = s" if "list_all unreserved s" for s
    using that by (induction s) (simp_all add: query_escape_def)
  moreover have "list_all unreserved (nat_str n)"
    by (auto simp: list_all_iff unreserved_def is_alnum_def dest: nat_str_digits)
  ultimately show ?thesis by blast
qed

lemma paged_url:
  "rev (takeWhile is_digit (rev (full_url c p (log_query [] [] page)))) = nat_str page"
proof -
  have "nat_str 50 = ''50''" "query_escape ''50'' = ''50''" "query_escape ''limit'' = ''limit''" "query_escape ''page'' = ''page''"
    by code_simp+
  then have "encode_query (log_query [] [] page) = ''limit=50&page='' @ nat_str page"
    by (simp add: encode_query_def log_query_def query_escape_nat_str forgejoMaxPerPage_def)
  then have "full_url c p (log_query [] [] page) =
      (fc_base c @ ''/api/v1'' @ p @ ''?limit=50&page'') @ [CHR ''=''] @ nat_str page"
    by (simp add: full_url_def log_query_def)
  moreover have "list_all is_digit (rev (nat_str page))"
    by (auto simp: list_all_iff dest: nat_str_digits)
  moreover have "\<not> is_digit CHR ''=''" by (simp add: is_digit_def)
  ultimately show ?thesis
    by (simp add: takeWhile_append list_all_iff)
qed

lemma commits_paged_host:
  "list_all is_obj xs \<Longrightarrow> commits_host (paged_host counted xs) org repo [] [] counted xs"
  by (simp add: commits_host_def paged_host_def paged_url)

definition demo_commits :: "nat \<Rightarrow> json list" where
  "demo_commits n = map (\<lambda>i. JObj [(''sha'', JStr (nat_str i))]) [0..<n]"

lemma demo_commits_obj: "list_all is_obj (demo_commits n)"
  by (simp add: demo_commits_def is_obj_def list_all_iff)

lemma git_Log_window_witness:
  "commits_host (paged_host True (demo_commits 120)) ''o'' ''r'' [] [] True (demo_commits 120) \<and>
   git_Log (paged_host True (demo_commits 120)) ''o'' ''r'' [] [] 30 45 () =
     (Ok (map commit_of (take 30 (drop 45 (demo_commits 120))), True), ())"
  using git_Log_window [OF commits_paged_host [OF demo_commits_obj [of 120]], of 30 "''o''" "''r''" 45 "()"]
    commits_paged_host [OF demo_commits_obj [of 120], of True "''o''" "''r''"]
  by (simp add: demo_commits_def)

text \<open>Without the total the answer degrades: when the requested window ends on a page boundary
  the log reports that nothing follows, however many commits there are after it, although the
  commits it returns are still the right ones.\<close>

theorem git_Log_uncounted_boundary:
  fixes limit offset :: nat
  assumes "commits_host c org repo r path False xs" "0 < limit" "50 dvd offset + limit"
  shows "git_Log c org repo r path (int limit) (int offset) s =
     (Ok (map commit_of (take limit (drop offset xs)), False), s)"
proof -
  obtain k where k: "offset mod 50 + limit = 50 * k"
    using assms(3) by (metis dvdE mod_add_left_eq mod_0_imp_dvd dvd_imp_mod_0)
  have "50 * ((offset mod 50 + limit + 49) div 50) - offset mod 50 = limit"
    using k assms(2) by simp
  then show ?thesis using git_Log_host [OF assms(1,2)] by simp
qed

lemma git_Log_uncounted_boundary_witness:
  "length (demo_commits 120) = 120 \<and>
   git_Log (paged_host False (demo_commits 120)) ''o'' ''r'' [] [] 50 0 () =
     (Ok (map commit_of (take 50 (demo_commits 120)), False), ())"
  using git_Log_uncounted_boundary [OF commits_paged_host [OF demo_commits_obj [of 120]], of 50 0 "''o''" "''r''" "()"]
  by (simp add: demo_commits_def)

subsection \<open>Branch deletion's error classification\<close>

text \<open>\<open>git_DeleteBranch\<close> takes any error whose text mentions 409 for a conflict it may ignore,
  and the text of a failure contains the request's path: for a branch with 409 in its name, a
  deletion the host refuses with an internal error is reported as done.\<close>

theorem git_DeleteBranch_swallows_failure:
  assumes "fc_http c \<lparr>rq_method = ''DELETE'', rq_url = full_url c (branch_path org repo branch) [],
             rq_auth = auth_of c, rq_body = None\<rparr> s = (Inr rs, s')"
    and "rs_status rs = 500" "contains branch ''409''"
  shows "git_DeleteBranch c org repo branch s = (Ok (), s')"
proof -
  let ?e = "status_error ''DELETE'' (branch_path org repo branch) rs"
  obtain a b where "branch = a @ ''409'' @ b" using assms(3) by (auto simp: contains_iff)
  then have "seg branch = seg a @ ''409'' @ seg b"
    by (simp add: seg_def unreserved_def is_alnum_def is_digit_def)
  then have "contains (seg branch) ''409''" by (auto simp: contains_iff)
  then have "contains (gerr_text ?e) ''409''"
    unfolding status_error_def branch_path_def gerr_text.simps by (intro contains_appendI)
  then have "isAlreadyExists ?e"
    using contains_to_lower [of "gerr_text ?e" "''409''"]
    by (simp add: isAlreadyExists_def Let_def to_lower_def lower_char_def)
  moreover have "fg_do c ''DELETE'' (branch_path org repo branch) [] None s = (Fail ?e, s')"
    using assms(1,2) by (simp add: fg_do_def bnd_cases map_err_cases of_sum_def ok_status_def act)
  ultimately show ?thesis
    by (simp add: git_DeleteBranch_def do_unit_def bnd_cases attempt_cases act status_error_def)
qed

definition refusing_host :: "unit fclient" where
  "refusing_host = \<lparr>fc_base = ''http://git'', fc_token = [], fc_http = (\<lambda>rq u.
     (Inr \<lparr>rs_status = 500, rs_total = [], rs_ctype = [], rs_gitsha = [], rs_body = ''disk full'',
           rs_json = Inr JNull\<rparr>, u))\<rparr>"

lemma git_DeleteBranch_swallows_failure_witness:
  "git_DeleteBranch refusing_host ''acme'' ''web'' ''fix-4090'' () = (Ok (), ()) \<and>
   fst (git_DeleteBranch refusing_host ''acme'' ''web'' ''fix-1'' ()) \<noteq> Ok ()"
proof
  show "git_DeleteBranch refusing_host ''acme'' ''web'' ''fix-4090'' () = (Ok (), ())"
    by (rule git_DeleteBranch_swallows_failure) (auto simp: refusing_host_def)
  show "fst (git_DeleteBranch refusing_host ''acme'' ''web'' ''fix-1'' ()) \<noteq> Ok ()"
    by code_simp
qed

subsection \<open>Runtime profiles\<close>

text \<open>A rendered profile never grants a privileged container, whatever the operator's settings
  ask for; and a request for GPUs limits the GPU device to exactly the number asked, in decimal,
  also next to a KVM request for another device.\<close>

theorem Render_unprivileged_and_counted:
  assumes "0 < gpus" "kvm \<Longrightarrow> GPUDevice s \<noteq> KVMDevice s"
  shows "(\<forall>c. rd_security (Render s kvm gpus) = Some c \<longrightarrow> sc_privileged c = Some False) \<and>
         mget (rd_devices (Render s kvm gpus)) (GPUDevice s) = Some (int_str gpus)"
  using assms itoa_int_str [of gpus]
  by (auto simp: Render_def Let_def no_runtime_def mget_def)

lemma Render_unprivileged_and_counted_witness:
  "mget (rd_devices (Render DefaultSettings True 12)) (GPUDevice DefaultSettings) = Some ''12''"
proof -
  have "int_str 12 = ''12''" "GPUDevice DefaultSettings \<noteq> KVMDevice DefaultSettings" by code_simp+
  then show ?thesis
    using Render_unprivileged_and_counted [of 12 True DefaultSettings] by simp
qed

end
