(* ===== verification/GitMerge.thy ===== *)
theory GitMerge
  imports GitCommit
begin

text \<open>
  Package \<^verbatim>\<open>internal/gitmerge\<close>: integrating a base branch into a feature branch.  The path
  policies, the three-way text merge and the conflict markers are functions; the diff3 library
  is the parameter \<open>d3\<close> (a list of agreed and conflicting regions for ours, base and theirs), and
  the git library below a clone is the parameter \<open>gitm\<close>, call by call.
\<close>

subsection \<open>Markers (\<^verbatim>\<open>marker.go\<close>)\<close>

definition Sentinel :: string where "Sentinel = ''ABCP-CONFLICT''"
definition oursOpen :: string where "oursOpen = ''<<<<<<< '' @ Sentinel @ '' (ours)''"
definition baseOpen :: string where "baseOpen = ''||||||| '' @ Sentinel @ '' (base)''"
definition splitLine :: string where "splitLine = ''=======''"
definition theirsOpen :: string where "theirsOpen = ''>>>>>>> '' @ Sentinel @ '' (theirs)''"
definition deletedSide :: string where "deletedSide = Sentinel @ '' (deleted)''"

abbreviation nl :: string where "nl \<equiv> [CHR 0x0A]"

definition HasMarkers :: "string \<Rightarrow> bool" where "HasMarkers b = contains b Sentinel"

definition writeSection :: "string \<Rightarrow> string" where
  "writeSection s = (if s = [] then deletedSide @ nl else if has_suffix s nl then s else s @ nl)"

definition conflictBlock :: "string \<Rightarrow> string \<Rightarrow> string \<Rightarrow> string" where
  "conflictBlock ours base theirs =
     oursOpen @ nl @ writeSection ours @ baseOpen @ nl @ writeSection base @
     splitLine @ nl @ writeSection theirs @ theirsOpen @ nl"

definition deletedConflict :: "string \<Rightarrow> string \<Rightarrow> string \<Rightarrow> bool \<Rightarrow> string" where
  "deletedConflict ours base theirs oursDeleted =
     (if oursDeleted then conflictBlock [] base theirs else conflictBlock ours base [])"

subsection \<open>Text merge (\<^verbatim>\<open>merge3.go\<close>)\<close>

text \<open>\<^verbatim>\<open>strings.SplitAfter(s, "\n")\<close>; a text that ends with a newline has an empty last part.\<close>

fun split_after :: "char \<Rightarrow> string \<Rightarrow> string list" where
  "split_after c [] = [[]]"
| "split_after c (x # xs) =
     (if x = c then [x] # split_after c xs
      else (case split_after c xs of p # ps \<Rightarrow> (x # p) # ps | [] \<Rightarrow> [[x]]))"

definition splitLines :: "string \<Rightarrow> string list" where
  "splitLines s = (if s = [] then [] else split_after CHR 0x0A s)"

datatype region = Agreed "string list" | Conflicting "string list" "string list" "string list"

type_synonym diff3 = "string list \<Rightarrow> string list \<Rightarrow> string list \<Rightarrow> region list"

fun region_text :: "region \<Rightarrow> string" where
  "region_text (Agreed ls) = concat ls"
| "region_text (Conflicting a o' b) = conflictBlock (concat a) (concat o') (concat b)"

fun is_conflict :: "region \<Rightarrow> bool" where
  "is_conflict (Agreed ls) = False"
| "is_conflict (Conflicting a o' b) = True"

definition textMerge :: "diff3 \<Rightarrow> string \<Rightarrow> string \<Rightarrow> string \<Rightarrow> string \<times> bool" where
  "textMerge d3 base ours theirs =
     (let res = d3 (splitLines ours) (splitLines base) (splitLines theirs)
      in (concat (map region_text res), list_ex is_conflict res))"

subsection \<open>Path policies (\<^verbatim>\<open>policies.go\<close>)\<close>

definition isBinary :: "string \<Rightarrow> bool" where
  "isBinary b = (CHR 0x00 \<in> set (take 8000 b))"

record path_content =
  pc_present :: bool
  pc_data :: string
  pc_isDir :: bool

record merge_result =
  mg_content :: string
  mg_conflict :: bool
  mg_omit :: bool

definition same :: "path_content \<Rightarrow> path_content \<Rightarrow> bool" where
  "same a b = (if pc_present a \<noteq> pc_present b then False
     else if \<not> pc_present a then True else pc_data a = pc_data b)"

definition keep :: "string \<Rightarrow> merge_result" where
  "keep c = \<lparr>mg_content = c, mg_conflict = False, mg_omit = False\<rparr>"

definition omitted :: merge_result where
  "omitted = \<lparr>mg_content = [], mg_conflict = False, mg_omit = True\<rparr>"

definition single :: "path_content \<Rightarrow> merge_result" where
  "single s = (if \<not> pc_present s then omitted else keep (pc_data s))"

definition resolvePath :: "diff3 \<Rightarrow> path_content \<Rightarrow> path_content \<Rightarrow> path_content \<Rightarrow> merge_result" where
  "resolvePath d3 base ours theirs =
    (if same base ours then single theirs
     else if same base theirs then single ours
     else if \<not> pc_present ours \<and> \<not> pc_present theirs then omitted
     else if \<not> pc_present ours \<or> \<not> pc_present theirs then
       (let oursDeleted = \<not> pc_present ours;
            survivor = (if oursDeleted then pc_data theirs else pc_data ours)
        in if isBinary survivor \<or> isBinary (pc_data base) then keep survivor
           else \<lparr>mg_content = deletedConflict (pc_data ours) (pc_data base) (pc_data theirs) oursDeleted,
                 mg_conflict = True, mg_omit = False\<rparr>)
     else if isBinary (pc_data base) \<or> isBinary (pc_data ours) \<or> isBinary (pc_data theirs)
     then keep (pc_data theirs)
     else (case textMerge d3 (pc_data base) (pc_data ours) (pc_data theirs) of
        (merged, conflicted) \<Rightarrow> \<lparr>mg_content = merged, mg_conflict = conflicted, mg_omit = False\<rparr>))"

subsection \<open>Synchronising a branch (\<^verbatim>\<open>merge.go\<close>)\<close>

text \<open>
  The git library: clones are named by their directory, commits and trees by their hash.  A
  reading of a path that finds no entry is \<open>absent\<close> and of a directory has \<open>pc_isDir\<close>, as
  \<^verbatim>\<open>readPath\<close> returns it; a commit that would be empty gives the zero hash and no error, as
  the code treats it.
\<close>

record 's gitm =
  gm_newdir :: "'s \<Rightarrow> (string + string) \<times> 's"
  gm_rmall :: "string \<Rightarrow> 's \<Rightarrow> 's"
  gm_clone :: "string \<Rightarrow> string \<Rightarrow> string \<Rightarrow> string \<Rightarrow> string \<Rightarrow> 's \<Rightarrow> (string + unit) \<times> 's"
  gm_fetch :: "string \<Rightarrow> string \<Rightarrow> string \<Rightarrow> string \<Rightarrow> 's \<Rightarrow> (string + unit) \<times> 's"
  gm_ref :: "string \<Rightarrow> string \<Rightarrow> 's \<Rightarrow> (string + string) \<times> 's"
  gm_bases :: "string \<Rightarrow> string \<Rightarrow> string \<Rightarrow> 's \<Rightarrow> (string + string list) \<times> 's"
  gm_tree :: "string \<Rightarrow> string \<Rightarrow> 's \<Rightarrow> (string + string) \<times> 's"
  gm_diff :: "string \<Rightarrow> string \<Rightarrow> string \<Rightarrow> 's \<Rightarrow> (string + (string \<times> string) list) \<times> 's"
  gm_read :: "string \<Rightarrow> string \<Rightarrow> string \<Rightarrow> 's \<Rightarrow> (string + path_content) \<times> 's"
  gm_remove :: "string \<Rightarrow> string \<Rightarrow> 's \<Rightarrow> (string + unit) \<times> 's"
  gm_mkdirs :: "string \<Rightarrow> string \<Rightarrow> 's \<Rightarrow> (string + unit) \<times> 's"
  gm_write :: "string \<Rightarrow> string \<Rightarrow> string \<Rightarrow> 's \<Rightarrow> (string + unit) \<times> 's"
  gm_addall :: "string \<Rightarrow> 's \<Rightarrow> (string + unit) \<times> 's"
  gm_commit :: "string \<Rightarrow> string \<Rightarrow> string list \<Rightarrow> 's \<Rightarrow> (string + string) \<times> 's"
  gm_push :: "string \<Rightarrow> string \<Rightarrow> bool \<Rightarrow> string \<Rightarrow> string \<Rightarrow> 's \<Rightarrow> (string + unit) \<times> 's"

record sync_opts =
  sy_url :: string
  sy_branch :: string
  sy_base :: string
  sy_user :: string
  sy_token :: string

record sync_result =
  sr_clean :: bool
  sr_conflicts :: "string list"
  sr_commit :: string

definition gm_at :: "string \<Rightarrow> ('s \<Rightarrow> (string + 'a) \<times> 's) \<Rightarrow> ('s, string, 'a) act" where
  "gm_at what f = map_err (\<lambda>m. what @ '': '' @ m) (of_sum f)"

definition applyResult :: "'s gitm \<Rightarrow> string \<Rightarrow> string \<Rightarrow> merge_result \<Rightarrow> ('s, string, unit) act" where
  "applyResult g dir path res =
     (if mg_omit res then of_sum (gm_remove g dir path) else
      bnd (let d = path_dir path in if d \<noteq> ''.'' \<and> d \<noteq> [] then of_sum (gm_mkdirs g dir d) else ret ())
        (\<lambda>_. of_sum (gm_write g dir path (mg_content res))))"

definition merge_path ::
  "'s gitm \<Rightarrow> diff3 \<Rightarrow> string \<Rightarrow> string \<Rightarrow> string \<Rightarrow> string \<Rightarrow> string \<Rightarrow> ('s, string, string list) act" where
  "merge_path g d3 dir baseTree branchTree mainTree p =
     bnd (of_sum (gm_read g dir baseTree p)) (\<lambda>baseRaw.
     bnd (of_sum (gm_read g dir branchTree p)) (\<lambda>oursRaw.
     bnd (of_sum (gm_read g dir mainTree p)) (\<lambda>theirsRaw.
     let res = resolvePath d3 baseRaw oursRaw theirsRaw in
     bnd (map_err (\<lambda>m. ''apply '' @ p @ '': '' @ m) (applyResult g dir p res)) (\<lambda>_.
       ret (if mg_conflict res then [p] else [])))))"

text \<open>The paths changed on either side since the merge base, sorted, each once.\<close>

definition changed_paths :: "(string \<times> string) list \<Rightarrow> string list" where
  "changed_paths chs = sort (remdups (filter (\<lambda>n. n \<noteq> []) (concat (map (\<lambda>(f, t). [t, f]) chs))))"

definition merge_message :: "sync_opts \<Rightarrow> string" where
  "merge_message o' = ''Merge branch '' @ [CHR 0x27] @ sy_base o' @ [CHR 0x27] @ '' into '' @ sy_branch o' @
     '' (workspace sync)''"

definition sync_refspec :: "string \<Rightarrow> string" where
  "sync_refspec branch = ''+refs/heads/'' @ branch @ '':refs/heads/'' @ branch"

definition merge_trees ::
  "'s gitm \<Rightarrow> diff3 \<Rightarrow> sync_opts \<Rightarrow> string \<Rightarrow> string \<Rightarrow> string \<Rightarrow> string \<Rightarrow> ('s, string, sync_result) act" where
  "merge_trees g d3 o' dir branchTip baseTip mergeBase =
     bnd (of_sum (gm_tree g dir mergeBase)) (\<lambda>baseTree.
     bnd (of_sum (gm_tree g dir baseTip)) (\<lambda>mainTree.
     bnd (of_sum (gm_tree g dir branchTip)) (\<lambda>branchTree.
     bnd (gm_at ''diff tree'' (gm_diff g dir baseTree mainTree)) (\<lambda>ch1.
     bnd (gm_at ''diff tree'' (gm_diff g dir baseTree branchTree)) (\<lambda>ch2.
     bnd (collect (merge_path g d3 dir baseTree branchTree mainTree) (changed_paths (ch1 @ ch2))) (\<lambda>cs.
     let conflicts = concat cs in
     bnd (gm_at ''stage'' (gm_addall g dir)) (\<lambda>_.
     bnd (gm_at ''commit'' (gm_commit g dir (merge_message o') [branchTip, baseTip])) (\<lambda>hash.
     bnd (gm_at ''push'' (gm_push g dir (sync_refspec (sy_branch o')) True (sy_user o') (sy_token o'))) (\<lambda>_.
       ret \<lparr>sr_clean = (conflicts = []), sr_conflicts = conflicts, sr_commit = hash\<rparr>)))))))))"

definition Sync :: "'s gitm \<Rightarrow> diff3 \<Rightarrow> sync_opts \<Rightarrow> ('s, string, sync_result) act" where
  "Sync g d3 o' =
    (if sy_url o' = [] \<or> sy_branch o' = [] \<or> sy_base o' = []
     then throw ''repo url, branch and base are required''
     else if sy_branch o' = sy_base o' then throw ''cannot sync a branch into itself'' else
     bnd (of_sum (gm_newdir g)) (\<lambda>dir. deferring (gm_rmall g dir)
      (bnd (gm_at (''clone '' @ sy_branch o') (gm_clone g dir (sy_url o') (sy_user o') (sy_token o') (sy_branch o'))) (\<lambda>_.
       bnd (gm_at (''fetch '' @ sy_base o') (gm_fetch g dir (sy_base o') (sy_user o') (sy_token o'))) (\<lambda>_.
       bnd (gm_at ''resolve branch tip'' (gm_ref g dir (''refs/heads/'' @ sy_branch o'))) (\<lambda>branchTip.
       bnd (gm_at ''resolve base tip'' (gm_ref g dir (''refs/remotes/origin/'' @ sy_base o'))) (\<lambda>baseTip.
       if branchTip = baseTip then ret \<lparr>sr_clean = True, sr_conflicts = [], sr_commit = branchTip\<rparr> else
       bnd (gm_at ''merge base'' (gm_bases g dir branchTip baseTip)) (\<lambda>bases. case bases of
          [] \<Rightarrow> throw ''no merge base between branch and base''
        | mergeBase # _ \<Rightarrow>
          if mergeBase = baseTip then ret \<lparr>sr_clean = True, sr_conflicts = [], sr_commit = branchTip\<rparr>
          else merge_trees g d3 o' dir branchTip baseTip mergeBase))))))))"

subsection \<open>Lemmas\<close>

lemma concat_split_after: "concat (split_after c s) = s"
  by (induction s) (auto split: list.splits)

lemma split_after_nonempty [simp]: "split_after c s \<noteq> []"
  by (induction s) (auto split: list.splits)

lemma split_after_lines:
  "l \<in> set (butlast (split_after c s)) \<Longrightarrow> \<exists>t. l = t @ [c] \<and> c \<notin> set t"
proof (induction s arbitrary: l)
  case (Cons x xs)
  show ?case
  proof (cases "x = c")
    case True
    with Cons show ?thesis by (auto split: if_splits)
  next
    case False
    obtain p ps where s: "split_after c xs = p # ps" by (cases "split_after c xs") auto
    from Cons.prems False s have "l = x # p \<and> ps \<noteq> [] \<or> l \<in> set (butlast ps)"
      by (auto split: if_splits)
    then show ?thesis
    proof
      assume "l = x # p \<and> ps \<noteq> []"
      with Cons.IH [of p] s False show ?thesis by (auto intro: exI [of _ "x # _"])
    next
      assume "l \<in> set (butlast ps)"
      with Cons.IH [of l] s show ?thesis by (cases ps) auto
    qed
  qed
qed simp

lemma concat_splitLines: "concat (splitLines s) = s"
  using concat_split_after [of "CHR 0x0A" s] by (simp add: splitLines_def)

lemma HasMarkers_conflictBlock: "HasMarkers (conflictBlock ours base theirs)"
proof -
  have "conflictBlock ours base theirs = ''<<<<<<< '' @ Sentinel @ ('' (ours)'' @ nl @ writeSection ours @ baseOpen @ nl @
     writeSection base @ splitLine @ nl @ writeSection theirs @ theirsOpen @ nl)"
    by (simp add: conflictBlock_def oursOpen_def)
  then show ?thesis unfolding HasMarkers_def contains_iff by blast
qed

lemma contains_concat: "x \<in> set xs \<Longrightarrow> contains x p \<Longrightarrow> contains (concat xs) p"
  by (induction xs) (auto intro: contains_appendI)

subsection \<open>Properties\<close>

text \<open>Splitting a text into lines loses nothing, and every line but the last ends with its newline
  and has no other.\<close>

theorem splitLines_lossless:
  "concat (splitLines s) = s \<and> list_all (\<lambda>l. \<exists>t. l = t @ nl \<and> CHR 0x0A \<notin> set t) (butlast (splitLines s))"
proof
  show "concat (splitLines s) = s" by (rule concat_splitLines)
  show "list_all (\<lambda>l. \<exists>t. l = t @ nl \<and> CHR 0x0A \<notin> set t) (butlast (splitLines s))"
    by (auto simp: splitLines_def list_all_iff dest: split_after_lines)
qed

text \<open>A path is reported as conflicting only if its merged content carries the conflict sentinel
  that the submit and merge gates look for, and then the file is kept; whatever diff3 returns, no
  conflict can slip through the gates unmarked.\<close>

theorem resolvePath_conflict_marked:
  assumes "mg_conflict (resolvePath d3 base ours theirs)"
  shows "HasMarkers (mg_content (resolvePath d3 base ours theirs)) \<and>
    \<not> mg_omit (resolvePath d3 base ours theirs)"
proof -
  have merged: "HasMarkers m" if conflict: "textMerge d3 b o' t = (m, True)" for b o' t m
  proof -
    let ?rs = "d3 (splitLines o') (splitLines b) (splitLines t)"
    from conflict obtain r where r: "r \<in> set ?rs" "is_conflict r" and m: "m = concat (map region_text ?rs)"
      by (auto simp: textMerge_def Let_def list_ex_iff)
    have "contains (region_text r) Sentinel"
      using r(2) HasMarkers_conflictBlock by (cases r) (auto simp: HasMarkers_def)
    then show ?thesis
      unfolding HasMarkers_def m using r(1) by (intro contains_concat [of "region_text r"]) auto
  qed
  show ?thesis
    using assms by (auto simp: resolvePath_def single_def omitted_def keep_def deletedConflict_def Let_def
        HasMarkers_conflictBlock split: prod.splits if_splits intro: merged)
qed

theorem resolvePath_conflict_marked_witness:
  "HasMarkers (mg_content (resolvePath (\<lambda>_ _ _. [])
      \<lparr>pc_present = True, pc_data = ''a'', pc_isDir = False\<rparr> \<lparr>pc_present = False, pc_data = [], pc_isDir = False\<rparr>
      \<lparr>pc_present = True, pc_data = ''b'', pc_isDir = False\<rparr>))"
  by (rule resolvePath_conflict_marked [THEN conjunct1]) code_simp

text \<open>When both branches agree on a path (both deleted it, or both have the same bytes), the merge
  is what they agree on, without a conflict, whatever the common ancestor had: the text merge adds
  nothing, given that diff3 returns equal sides as agreed.\<close>

theorem resolvePath_agreement:
  assumes "\<And>a o'. concat (map region_text (d3 a o' a)) = concat a \<and> \<not> list_ex is_conflict (d3 a o' a)"
    and "same ours theirs"
  shows "resolvePath d3 base ours theirs = single ours"
proof -
  have merged: "textMerge d3 b x x = (x, False)" for b x
    using assms(1) [of "splitLines x" "splitLines b"] by (simp add: textMerge_def concat_splitLines Let_def)
  consider "\<not> pc_present ours" "\<not> pc_present theirs"
    | "pc_present ours" "pc_present theirs" "pc_data theirs = pc_data ours"
    using assms(2) by (auto simp: same_def split: if_splits)
  then show ?thesis
    by cases (auto simp: resolvePath_def single_def keep_def merged)
qed

definition whole_diff3 :: diff3 where
  "whole_diff3 a o' b = (if a = b then [Agreed a] else [Conflicting a o' b])"

lemma resolvePath_agreement_witness:
  "resolvePath whole_diff3 \<lparr>pc_present = False, pc_data = [], pc_isDir = False\<rparr>
     \<lparr>pc_present = True, pc_data = ''x'', pc_isDir = False\<rparr> \<lparr>pc_present = True, pc_data = ''x'', pc_isDir = False\<rparr> =
   single \<lparr>pc_present = True, pc_data = ''x'', pc_isDir = False\<rparr>"
  by (rule resolvePath_agreement) (simp_all add: whole_diff3_def same_def)

text \<open>The library with its pushes recorded: refspec and force flag of each.\<close>

definition beside :: "('s \<Rightarrow> 'r \<times> 's) \<Rightarrow> 's \<times> 'l \<Rightarrow> 'r \<times> ('s \<times> 'l)" where
  "beside f sl = (case f (fst sl) of (r, s') \<Rightarrow> (r, (s', snd sl)))"

definition record_pushes :: "'s gitm \<Rightarrow> ('s \<times> (string \<times> bool) list) gitm" where
  "record_pushes g =
    \<lparr>gm_newdir = beside (gm_newdir g), gm_rmall = (\<lambda>d sl. (gm_rmall g d (fst sl), snd sl)),
     gm_clone = (\<lambda>d u n t b. beside (gm_clone g d u n t b)), gm_fetch = (\<lambda>d b u t. beside (gm_fetch g d b u t)),
     gm_ref = (\<lambda>d r. beside (gm_ref g d r)), gm_bases = (\<lambda>d a b. beside (gm_bases g d a b)),
     gm_tree = (\<lambda>d c. beside (gm_tree g d c)), gm_diff = (\<lambda>d a b. beside (gm_diff g d a b)),
     gm_read = (\<lambda>d t p. beside (gm_read g d t p)), gm_remove = (\<lambda>d p. beside (gm_remove g d p)),
     gm_mkdirs = (\<lambda>d p. beside (gm_mkdirs g d p)), gm_write = (\<lambda>d p c. beside (gm_write g d p c)),
     gm_addall = (\<lambda>d. beside (gm_addall g d)), gm_commit = (\<lambda>d m ps. beside (gm_commit g d m ps)),
     gm_push = (\<lambda>d rs force u t sl. case gm_push g d rs force u t (fst sl) of
        (r, s') \<Rightarrow> (r, (s', snd sl @ [(rs, force)])))\<rparr>"

definition pushed_only :: "string \<Rightarrow> 's \<times> (string \<times> bool) list \<Rightarrow> 's \<times> (string \<times> bool) list \<Rightarrow> bool" where
  "pushed_only branch a b = (\<exists>ps. snd b = snd a @ ps \<and> set ps \<subseteq> {(sync_refspec branch, True)})"

lemma preord_pushed_only [simp, intro]: "preord (pushed_only branch)"
  by (fastforce simp: preord_def reflp_def transp_def pushed_only_def)

lemma keeps_beside: "keeps (pushed_only branch) (of_sum (beside f))"
  by (rule keepsI) (auto simp: of_sum_def beside_def pushed_only_def split: prod.splits sum.splits)

lemma keeps_gm_at: "keeps R (of_sum f) \<Longrightarrow> keeps R (gm_at what f)"
  by (simp add: gm_at_def keeps)

lemma keeps_recorded_push:
  "keeps (pushed_only branch) (of_sum (gm_push (record_pushes g) d (sync_refspec branch) True u t))"
  by (rule keepsI) (auto simp: of_sum_def record_pushes_def pushed_only_def split: prod.splits sum.splits)

lemma record_pushes_sel:
  "gm_newdir (record_pushes g) = beside (gm_newdir g)" "gm_clone (record_pushes g) d u n t b = beside (gm_clone g d u n t b)"
  "gm_fetch (record_pushes g) d b u t = beside (gm_fetch g d b u t)" "gm_ref (record_pushes g) d r = beside (gm_ref g d r)"
  "gm_bases (record_pushes g) d x y = beside (gm_bases g d x y)" "gm_tree (record_pushes g) d c = beside (gm_tree g d c)"
  "gm_diff (record_pushes g) d x y = beside (gm_diff g d x y)" "gm_read (record_pushes g) d t p = beside (gm_read g d t p)"
  "gm_remove (record_pushes g) d p = beside (gm_remove g d p)" "gm_mkdirs (record_pushes g) d p = beside (gm_mkdirs g d p)"
  "gm_write (record_pushes g) d p t = beside (gm_write g d p t)" "gm_addall (record_pushes g) d = beside (gm_addall g d)"
  "gm_commit (record_pushes g) d m ps = beside (gm_commit g d m ps)"
  "pushed_only branch sl (gm_rmall (record_pushes g) d sl)"
  by (simp_all add: record_pushes_def pushed_only_def)

text \<open>Synchronising a branch never touches the base branch on the host: on every outcome the only
  push made is the one of the feature branch onto itself, and a call whose branch is the base
  itself changes nothing and fails.\<close>

theorem Sync_pushes_only_branch:
  "pushed_only (sy_branch o') sl (snd (Sync (record_pushes g) d3 o' sl)) \<and>
   snd (Sync (record_pushes g) d3 (o'\<lparr>sy_branch := sy_base o'\<rparr>) sl) = sl \<and>
   is_ok (fst (Sync (record_pushes g) d3 (o'\<lparr>sy_branch := sy_base o'\<rparr>) sl)) = False"
proof (intro conjI)
  have path: "keeps (pushed_only b) (merge_path (record_pushes g) d3 dir t1 t2 t3 p)" for b dir t1 t2 t3 p
    by (auto simp: merge_path_def applyResult_def record_pushes_sel Let_def intro!: keeps keeps_beside)
  have "keeps (pushed_only (sy_branch o')) (Sync (record_pushes g) d3 o')"
    unfolding Sync_def merge_trees_def Let_def
    by (auto simp: record_pushes_sel intro!: keeps keeps_beside keeps_gm_at keeps_deferring path keeps_recorded_push
        split: list.split)
  then show "pushed_only (sy_branch o') sl (snd (Sync (record_pushes g) d3 o' sl))" by (rule keeps_snd [where R = "pushed_only _"])
  show "snd (Sync (record_pushes g) d3 (o'\<lparr>sy_branch := sy_base o'\<rparr>) sl) = sl"
    and "is_ok (fst (Sync (record_pushes g) d3 (o'\<lparr>sy_branch := sy_base o'\<rparr>) sl)) = False"
    by (simp_all add: Sync_def act)
qed

end
