(* ===== verification/Reaper.thy ===== *)
theory Reaper
  imports Frames Demo
begin

text \<open>
  Package \<^verbatim>\<open>internal/sandboxreaper\<close>: reclaiming idle sandboxes.  The worker inside a sandbox is
  a parameter, a call from the sandbox's address and token to its job history.  Times are unix
  milliseconds, the idle time is a Go duration in nanoseconds.  Logging is left out, and \<open>Run\<close>,
  which calls \<open>SweepOnce\<close> at every tick of a timer, is represented by its guard and interval.
\<close>

record worker_job =
  wj_id :: string
  wj_state :: string
  wj_exit :: int
  wj_started :: int
  wj_finished :: int

type_synonym 's lister = "string \<Rightarrow> string \<Rightarrow> 's \<Rightarrow> (string + worker_job list) \<times> 's"

text \<open>\<^verbatim>\<open>Duration.Milliseconds\<close>: division truncates towards zero.\<close>

definition milliseconds :: "int \<Rightarrow> int" where
  "milliseconds d = (if d < 0 then - ((- d) div 1000000) else d div 1000000)"

text \<open>The two guards of \<open>Run\<close>: the interval between sweeps, \<open>None\<close> when reaping is disabled.\<close>

definition reap_interval :: "int \<Rightarrow> int \<Rightarrow> int option" where
  "reap_interval ttl interval =
     (if ttl \<le> 0 then None else Some (if interval \<le> 0 then 10 * 60 * 1000000000 else interval))"

definition job_blocks :: "int \<Rightarrow> int \<Rightarrow> worker_job \<Rightarrow> bool" where
  "job_blocks now ttl j = (wj_state j = ''running'' \<or>
     (wj_finished j > 0 \<and> now - wj_finished j < milliseconds ttl))"

definition isIdle :: "int \<Rightarrow> int \<Rightarrow> int \<Rightarrow> worker_job list \<Rightarrow> bool" where
  "isIdle created now ttl jobs =
     (if created = 0 \<or> now - created < milliseconds ttl then False
      else \<not> list_ex (job_blocks now ttl) jobs)"

definition reap_idle ::
  "'s sbx_client \<Rightarrow> 's lister \<Rightarrow> int \<Rightarrow> sandbox \<Rightarrow> int \<Rightarrow> ('s, sbx_err, bool) act" where
  "reap_idle c lister ttl sb now =
     (if sb_created sb = 0 \<or> now - sb_created sb < milliseconds ttl then ret False else
      bnd (attempt (sbx_Resolve c (sb_name sb))) (\<lambda>r. case r of Inl _ \<Rightarrow> ret False
        | Inr (url, token) \<Rightarrow>
      bnd (attempt (of_sum (lister url token))) (\<lambda>j. case j of Inl _ \<Rightarrow> ret False
        | Inr jobs \<Rightarrow> ret (isIdle (sb_created sb) now ttl jobs))))"

definition reap_one :: "'s sbx_client \<Rightarrow> 's lister \<Rightarrow> int \<Rightarrow> int \<Rightarrow> sandbox \<Rightarrow> ('s, sbx_err, unit) act" where
  "reap_one c lister ttl now sb =
     bnd (reap_idle c lister ttl sb now) (\<lambda>idle.
       if \<not> idle then ret () else ignore (sbx_Delete c (sb_name sb)))"

definition SweepOnce :: "'s sbx_client \<Rightarrow> 's lister \<Rightarrow> int \<Rightarrow> ('s, sbx_err, unit) act" where
  "SweepOnce c lister ttl =
     bnd (attempt (sbx_List c)) (\<lambda>r. case r of Inl _ \<Rightarrow> ret ()
       | Inr sbxs \<Rightarrow> bnd (clock c) (\<lambda>now. each (reap_one c lister ttl now) sbxs))"

subsection \<open>What a sweep may delete\<close>

text \<open>The names a sweep over the listed sandboxes may delete objects of, when the workers answer
  as \<open>ans\<close> says.\<close>

definition reapable ::
  "'s sbx_client \<Rightarrow> (string \<Rightarrow> string \<Rightarrow> string + worker_job list) \<Rightarrow> int \<Rightarrow> int \<Rightarrow> sandbox list \<Rightarrow> string \<Rightarrow> bool" where
  "reapable c ans ttl now sbxs n = (\<exists>sb token jobs. sb \<in> set sbxs \<and> n = resourceName c (sb_name sb) \<and>
     ans (ServiceDNS c n) token = Inr jobs \<and> isIdle (sb_created sb) now ttl jobs)"

lemma lift_sbx_names [simp]:
  "resourceName (lift_sbx c) n = resourceName c n" "ServiceDNS (lift_sbx c) n = ServiceDNS c n"
  by (simp_all add: resourceName_def ServiceDNS_def lift_sbx_def Let_def)

lemma Resolve_url: "sbx_Resolve c name s = (Ok (url, token), s') \<Longrightarrow> url = ServiceDNS c (resourceName c name)"
  by (auto simp: sbx_Resolve_def act elim!: bnd_OkD)

lemma lister_answer:
  "(\<And>url token x. fst (lister url token x) = ans url token) \<Longrightarrow>
   of_sum (quiet (lister url token)) w = (Ok jobs, w') \<Longrightarrow> ans url token = Inr jobs"
  by (auto simp: of_sum_def quiet_def split: prod.splits sum.splits) (metis fst_conv)+

lemma reap_idle_True:
  assumes "\<And>url token x. fst (lister url token x) = ans url token"
    and "reap_idle (lift_sbx c) (\<lambda>u t. quiet (lister u t)) ttl sb now w = (Ok True, w')" "sb \<in> set sbxs"
  shows "reapable c ans ttl now sbxs (resourceName c (sb_name sb))"
proof -
  from assms(2) obtain url token jobs w1 w2 where
    "sbx_Resolve (lift_sbx c) (sb_name sb) w = (Ok (url, token), w1)"
    "of_sum (quiet (lister url token)) w1 = (Ok jobs, w2)" "isIdle (sb_created sb) now ttl jobs"
    by (auto simp: reap_idle_def act attempt_def bnd_def split: if_splits prod.splits res.splits sum.splits)
  with assms(3) show ?thesis
    unfolding reapable_def using Resolve_url lister_answer [OF assms(1)] by fastforce
qed

lemma reap_idle_keeps: "keeps (traced_in (deletes_in N)) (reap_idle (lift_sbx c) (\<lambda>u t. quiet (lister u t)) ttl sb now)"
  by (auto simp: reap_idle_def intro!: keeps sbx_deletes.sbx_keeps)

lemma each_keeps_members:
  "preord R \<Longrightarrow> (\<And>x. x \<in> set xs \<Longrightarrow> keeps R (f x)) \<Longrightarrow> keeps R (each f xs)"
  by (induction xs) (auto intro!: keeps)

lemma reap_each_keeps:
  assumes "\<And>url token x. fst (lister url token x) = ans url token"
  shows "keeps (traced_in (deletes_in (reapable c ans ttl now sbxs)))
    (each (reap_one (lift_sbx c) (\<lambda>u t. quiet (lister u t)) ttl now) sbxs)"
proof (rule each_keeps_members, simp)
  fix sb assume sb: "sb \<in> set sbxs"
  show "keeps (traced_in (deletes_in (reapable c ans ttl now sbxs)))
      (reap_one (lift_sbx c) (\<lambda>u t. quiet (lister u t)) ttl now sb)"
    unfolding reap_one_def
  proof (rule keeps_bnd_results, simp, rule reap_idle_keeps)
    fix idle w w'
    assume "reap_idle (lift_sbx c) (\<lambda>u t. quiet (lister u t)) ttl sb now w = (Ok idle, w')"
    then have "idle \<Longrightarrow> reapable c ans ttl now sbxs (resourceName (lift_sbx c) (sb_name sb))"
      using reap_idle_True [OF assms _ sb] by simp
    then show "keeps (traced_in (deletes_in (reapable c ans ttl now sbxs)))
        (if \<not> idle then ret () else ignore (sbx_Delete (lift_sbx c) (sb_name sb)))"
      by (auto intro!: keeps sbx_deletes.sbx_keeps)
  qed
qed

lemma clock_lift: "\<exists>w'. clock (lift_sbx c) w = (Ok (fst (sc_now c (ext w))), w')"
  by (auto simp: clock_def lift_sbx_def quiet_def split: prod.split)


text \<open>A cluster with one sandbox, created at time 1 and looked at a day later.\<close>

definition old_sbx :: "demo sbx_client" where
  "old_sbx = demo_sbx\<lparr>sc_now := (\<lambda>x. (86400000, x))\<rparr>"

definition old_world :: "demo world" where
  "old_world = demo_world\<lparr>ext := snd (sbx_Create (demo_sbx\<lparr>sc_now := (\<lambda>x. (1, x))\<rparr>) (demo_spec ''old'' [])
     (demo_ext\<lparr>dm_pods := []\<rparr>))\<rparr>"

definition aged :: "demo \<Rightarrow> demo" where
  "aged x = x\<lparr>dm_pods := map (\<lambda>(n, p). (n, p\<lparr>pod_created := 1\<rparr>)) (dm_pods x)\<rparr>"

definition old_sweep :: "worker_job list \<Rightarrow> demo world" where
  "old_sweep jobs = snd (SweepOnce (lift_sbx old_sbx) (\<lambda>u t. quiet ((\<lambda>_ _ x. (Inr jobs, x)) u t)) 3600000000000
     (old_world\<lparr>ext := aged (ext old_world)\<rparr>))"


text \<open>The history a worker serves: running jobs, and those finished within its retention.\<close>

definition retained :: "int \<Rightarrow> int \<Rightarrow> worker_job \<Rightarrow> bool" where
  "retained now retention j = (wj_state j = ''running'' \<or> now - wj_finished j < retention)"

text \<open>The worker forgets jobs that finished longer ago than its retention.  As long as the
  idle time is at most the retention, the verdict on the history it serves is the verdict on the
  full history.\<close>

theorem isIdle_window:
  assumes "milliseconds ttl \<le> retention"
  shows "isIdle created now ttl (filter (retained now retention) jobs) = isIdle created now ttl jobs"
  using assms by (auto simp: isIdle_def list_ex_iff job_blocks_def retained_def)

lemma isIdle_window_witness:
  "isIdle 1 90000000 86400000000000 (filter (retained 90000000 86400000)
     [\<lparr>wj_id = ''1'', wj_state = ''exited'', wj_exit = 0, wj_started = 1, wj_finished = 2\<rparr>]) =
   isIdle 1 90000000 86400000000000 [\<lparr>wj_id = ''1'', wj_state = ''exited'', wj_exit = 0, wj_started = 1, wj_finished = 2\<rparr>]"
  by (rule isIdle_window) (simp add: milliseconds_def)

text \<open>With a longer idle time it is not: a sandbox whose last job has just been forgotten is judged
  idle although the job finished within the idle time.\<close>

lemma isIdle_window_too_short:
  assumes "retention < milliseconds ttl" "created \<noteq> 0" "milliseconds ttl \<le> now - created"
    "0 < retention" "retention < now"
  shows "\<exists>j. isIdle created now ttl (filter (retained now retention) [j]) \<and> \<not> isIdle created now ttl [j]"
  using assms
  by (intro exI [of _ "\<lparr>wj_id = [], wj_state = ''exited'', wj_exit = 0, wj_started = 0, wj_finished = now - retention\<rparr>"])
     (simp add: isIdle_def job_blocks_def retained_def)

end
