(* ===== verification/ImageBuild.thy ===== *)
theory ImageBuild
  imports Effects Forgejo
begin

text \<open>
  Package \<^verbatim>\<open>internal/imagebuild\<close>: unpacking a repository archive into a build context and
  driving \<^verbatim>\<open>buildctl\<close>.  An archive is modelled by what the gzip and tar readers deliver of it:
  the error of the gzip header, or the entries up to the end or to a read error.  The file
  system, the \<^verbatim>\<open>buildctl\<close> process, base64 and the encoding of JSON are parameters.
\<close>

subsection \<open>Archives\<close>

datatype tar_type = TypeReg | TypeDir | TypeXGlobalHeader | TypeXHeader | TypeOther nat

record tar_entry =
  th_type :: tar_type
  th_name :: string
  th_link :: string
  th_mode :: nat
  th_size :: int
  th_data :: string
  th_fail :: "string option"

record tar_stream =
  ts_entries :: "tar_entry list"
  ts_error :: "string option"

type_synonym tarball = "string + tar_stream"

definition isTarMeta :: "tar_entry \<Rightarrow> bool" where
  "isTarMeta h = (th_type h = TypeXGlobalHeader \<or> th_type h = TypeXHeader)"

text \<open>\<^verbatim>\<open>strings.Trim(s, "/")\<close> and its halves.\<close>

definition trim_left_slash :: "string \<Rightarrow> string" where
  "trim_left_slash = trim_left_when (\<lambda>c. c = CHR ''/'')"
definition trim_right_slash :: "string \<Rightarrow> string" where
  "trim_right_slash = trim_right_when (\<lambda>c. c = CHR ''/'')"
definition trim_slashes :: "string \<Rightarrow> string" where
  "trim_slashes s = trim_right_slash (trim_left_slash s)"

definition first_segment :: "string \<Rightarrow> string" where
  "first_segment name = fst (cut_at CHR ''/'' (trim_slashes name))"

text \<open>The loop of \<open>archiveTop\<close> on its variables \<^verbatim>\<open>seg\<close>, \<^verbatim>\<open>nested\<close>, \<^verbatim>\<open>uniform\<close>.\<close>

definition top_step :: "string \<times> bool \<times> bool \<Rightarrow> tar_entry \<Rightarrow> string \<times> bool \<times> bool" where
  "top_step st h = (case st of (sg, nested, uniform) \<Rightarrow>
     if isTarMeta h then st
     else let nested' = (nested \<or> contains (th_name h) ''/''); first = first_segment (th_name h)
       in if first = [] then (sg, nested', uniform)
          else if sg = [] then (first, nested', uniform)
          else (sg, nested', if first \<noteq> sg then False else uniform))"

definition archiveTop :: "tarball \<Rightarrow> string + string" where
  "archiveTop t = (case t of Inl e \<Rightarrow> Inl (''gzip: '' @ e)
    | Inr s \<Rightarrow> (case ts_error s of Some e \<Rightarrow> Inl (''tar: '' @ e)
      | None \<Rightarrow> (case foldl top_step ([], False, True) (ts_entries s) of (sg, nested, uniform) \<Rightarrow>
          if nested \<and> uniform \<and> sg \<noteq> [] then Inr sg else Inr [])))"

text \<open>\<open>StripTop\<close>.  The tar writer may refuse a header; its other failures (a short body, a failing
  buffer) cannot happen here.\<close>

fun strip_loop :: "(tar_entry \<Rightarrow> string option) \<Rightarrow> string \<Rightarrow> tar_entry list \<Rightarrow> string option \<Rightarrow> string + tar_entry list" where
  "strip_loop refuses tp [] err = (case err of None \<Rightarrow> Inr [] | Some e \<Rightarrow> Inl (''tar: '' @ e))"
| "strip_loop refuses tp (h # hs) err =
    (if isTarMeta h then strip_loop refuses tp hs err
     else let name = trim_prefix (th_name h) ''/'';
              rel = trim_prefix (trim_prefix name tp) ''/''
       in if rel = [] then strip_loop refuses tp hs err
          else let h' = h\<lparr>th_name := rel,
                          th_link := trim_prefix (trim_prefix (th_link h) tp) ''/''\<rparr>
            in case refuses h' of Some e \<Rightarrow> Inl (''tar write: '' @ e)
             | None \<Rightarrow> if th_type h = TypeReg \<and> th_size h > 0
                 then (case th_fail h of Some e \<Rightarrow> Inl (''tar copy: '' @ e)
                       | None \<Rightarrow> (case strip_loop refuses tp hs err of Inl e \<Rightarrow> Inl e
                                  | Inr out \<Rightarrow> Inr (h' # out)))
                 else (case strip_loop refuses tp hs err of Inl e \<Rightarrow> Inl e
                       | Inr out \<Rightarrow> Inr (h'\<lparr>th_data := []\<rparr> # out)))"

definition StripTop :: "(tar_entry \<Rightarrow> string option) \<Rightarrow> tarball \<Rightarrow> string + tarball" where
  "StripTop refuses t = (case archiveTop t of Inl e \<Rightarrow> Inl e
    | Inr tp \<Rightarrow> if tp = [] then Inr t else
       (case t of Inl e \<Rightarrow> Inl (''gzip: '' @ e)
        | Inr s \<Rightarrow> (case strip_loop refuses tp (ts_entries s) (ts_error s) of Inl e \<Rightarrow> Inl e
            | Inr out \<Rightarrow> Inr (Inr \<lparr>ts_entries = out, ts_error = None\<rparr>))))"

subsection \<open>Paths\<close>

text \<open>\<^verbatim>\<open>filepath.Join\<close> of two elements and \<^verbatim>\<open>filepath.Base\<close>.\<close>

definition path_join :: "string \<Rightarrow> string \<Rightarrow> string" where
  "path_join a b = (if a = [] \<and> b = [] then [] else if a = [] then path_clean b
     else if b = [] then path_clean a else path_clean (a @ ''/'' @ b))"

definition path_base :: "string \<Rightarrow> string" where
  "path_base p = (if p = [] then ''.'' else
     let q = trim_right_slash p;
         r = (case last_index_byte CHR ''/'' q of Some i \<Rightarrow> drop (Suc i) q | None \<Rightarrow> q)
     in if r = [] then ''/'' else r)"

subsection \<open>Unpacking an archive\<close>

record 's build_fs =
  bf_mktemp :: "string \<Rightarrow> 's \<Rightarrow> (string + string) \<times> 's"
  bf_rmall :: "string \<Rightarrow> 's \<Rightarrow> 's"
  bf_mkdirs :: "string \<Rightarrow> 's \<Rightarrow> (string + unit) \<times> 's"
  bf_open :: "string \<Rightarrow> nat \<Rightarrow> 's \<Rightarrow> (string + unit) \<times> 's"
  bf_write :: "string \<Rightarrow> string \<Rightarrow> 's \<Rightarrow> (string + unit) \<times> 's"
  bf_putfile :: "string \<Rightarrow> string \<Rightarrow> 's \<Rightarrow> (string + unit) \<times> 's"
  bf_stat :: "string \<Rightarrow> 's \<Rightarrow> bool option"
  bf_readfile :: "string \<Rightarrow> 's \<Rightarrow> string + string"

text \<open>\<^verbatim>\<open>cleanup()\<close> before an error is returned.\<close>

definition cleaning :: "'s build_fs \<Rightarrow> string \<Rightarrow> ('s, 'e, 'a) act \<Rightarrow> ('s, 'e, 'a) act" where
  "cleaning fs dir m = (\<lambda>s. case m s of (Fail e, s') \<Rightarrow> (Fail e, bf_rmall fs dir s') | r \<Rightarrow> r)"

definition entry_rel :: "string \<Rightarrow> string \<Rightarrow> string" where
  "entry_rel tp name = trim_prefix (if tp \<noteq> [] then trim_prefix name tp else name) ''/''"

text \<open>The body of the loop: \<open>sum0\<close> is the size of the files so far.  Reading the body of an entry
  delivers its data and may then fail.\<close>

definition extract_entry ::
  "'s build_fs \<Rightarrow> string \<Rightarrow> string \<Rightarrow> int \<Rightarrow> int \<Rightarrow> tar_entry \<Rightarrow> ('s, string, int) act" where
  "extract_entry fs dir tp maxBytes sum0 h =
    (if isTarMeta h then ret sum0
     else let rel = entry_rel tp (th_name h) in
       if rel = [] then ret sum0
       else let target = path_join dir rel in
         if \<not> has_prefix target (dir @ ''/'') \<and> target \<noteq> dir then ret sum0
         else case th_type h of
            TypeDir \<Rightarrow> bnd (of_sum (bf_mkdirs fs target)) (\<lambda>_. ret sum0)
          | TypeReg \<Rightarrow>
             if sum0 + th_size h > maxBytes
             then throw (''build context exceeds '' @ int_str maxBytes @ '' bytes'')
             else bnd (of_sum (bf_mkdirs fs (path_dir target))) (\<lambda>_.
                  bnd (of_sum (bf_open fs target (th_mode h mod 512))) (\<lambda>_.
                  bnd (of_sum (bf_write fs target (th_data h))) (\<lambda>_.
                  case th_fail h of Some e \<Rightarrow> throw e | None \<Rightarrow> ret (sum0 + th_size h))))
          | _ \<Rightarrow> ret sum0)"

fun extract_loop ::
  "'s build_fs \<Rightarrow> string \<Rightarrow> string \<Rightarrow> int \<Rightarrow> int \<Rightarrow> tar_entry list \<Rightarrow> string option \<Rightarrow> ('s, string, unit) act" where
  "extract_loop fs dir tp maxBytes sum0 [] err =
     (case err of None \<Rightarrow> ret () | Some e \<Rightarrow> throw (''tar: '' @ e))"
| "extract_loop fs dir tp maxBytes sum0 (h # hs) err =
     bnd (extract_entry fs dir tp maxBytes sum0 h)
       (\<lambda>sum1. extract_loop fs dir tp maxBytes sum1 hs err)"

definition extract_limit :: "int \<Rightarrow> int" where
  "extract_limit maxBytes = (if maxBytes \<le> 0 then 512 * 2 ^ 20 else maxBytes)"

text \<open>The caller removes the returned directory when it is done with it.\<close>

definition Extract :: "'s build_fs \<Rightarrow> tarball \<Rightarrow> int \<Rightarrow> ('s, string, string) act" where
  "Extract fs t maxBytes =
    (case archiveTop t of Inl e \<Rightarrow> throw e
     | Inr tp \<Rightarrow> (case t of Inl e \<Rightarrow> throw (''gzip: '' @ e)
       | Inr s \<Rightarrow>
          bnd (of_sum (bf_mktemp fs ''sandbox-build-'')) (\<lambda>dir.
          bnd (cleaning fs dir (extract_loop fs dir tp (extract_limit maxBytes) 0 (ts_entries s) (ts_error s)))
            (\<lambda>_. ret dir))))"

subsection \<open>Clean absolute paths\<close>

text \<open>An absolute path as its elements, none of which is empty, \<^verbatim>\<open>.\<close> or \<^verbatim>\<open>..\<close>.\<close>

definition clean_seg :: "string \<Rightarrow> bool" where
  "clean_seg x = (x \<noteq> [] \<and> x \<noteq> ''.'' \<and> x \<noteq> ''..'' \<and> CHR ''/'' \<notin> set x)"

definition abs_path :: "string list \<Rightarrow> string" where
  "abs_path ps = CHR ''/'' # join ''/'' ps"

definition clean_dir :: "string \<Rightarrow> bool" where
  "clean_dir d = (\<exists>ps. ps \<noteq> [] \<and> d = abs_path ps \<and> list_all clean_seg ps)"

text \<open>A path that is \<open>dir\<close> itself or leads into it, without \<^verbatim>\<open>..\<close>.\<close>

definition under :: "string \<Rightarrow> string \<Rightarrow> bool" where
  "under dir p = (\<exists>ps xs. dir = abs_path ps \<and> p = abs_path (ps @ xs) \<and> list_all clean_seg (ps @ xs))"

lemma split_at_append_sep: "split_at c (a @ c # b) = split_at c a @ split_at c b"
  by (induction a) (auto split: list.splits)

lemma split_at_join: "ps \<noteq> [] \<Longrightarrow> list_all (\<lambda>p. c \<notin> set p) ps \<Longrightarrow> split_at c (join [c] ps) = ps"
  by (induction "[c]" ps rule: join.induct) (auto simp: split_at_no_sep split_at_append)

lemma split_at_abs_path: "list_all clean_seg ps \<Longrightarrow> ps \<noteq> [] \<Longrightarrow> split_at CHR ''/'' (abs_path ps) = [] # ps"
  by (simp add: abs_path_def split_at_join clean_seg_def list_all_iff)

lemma join_snoc: "ps \<noteq> [] \<Longrightarrow> join sep (ps @ [x]) = join sep ps @ sep @ x"
  by (induction sep ps rule: join.induct) auto

lemma abs_path_snoc: "ps \<noteq> [] \<Longrightarrow> abs_path (ps @ [x]) = abs_path ps @ CHR ''/'' # x"
  by (simp add: abs_path_def join_snoc)

lemma clean_steps_id: "list_all clean_seg ps \<Longrightarrow> foldl (clean_step r) acc ps = acc @ ps"
  by (induction ps arbitrary: acc) (auto simp: clean_step_def clean_seg_def)

lemma clean_steps_clean:
  "list_all clean_seg acc \<Longrightarrow> list_all (\<lambda>p. CHR ''/'' \<notin> set p) ps \<Longrightarrow> list_all clean_seg (foldl (clean_step True) acc ps)"
proof (induction ps arbitrary: acc)
  case (Cons p ps)
  have "list_all clean_seg (butlast acc)"
    using Cons.prems(1) by (auto simp: list_all_iff dest: in_set_butlastD)
  moreover have "clean_seg p" if "p \<noteq> []" "p \<noteq> ''.''" "p \<noteq> ''..''"
    using that Cons.prems(2) by (simp add: clean_seg_def)
  ultimately have "list_all clean_seg (clean_step True acc p)"
    using Cons.prems(1) by (auto simp: clean_step_def)
  with Cons show ?case by simp
qed simp

lemma clean_parts_clean: "list_all clean_seg (clean_parts True p)"
  unfolding clean_parts_def
  by (rule clean_steps_clean) (auto simp: list_all_iff dest: split_at_parts_no_sep)

lemma path_clean_rooted: "has_prefix p ''/'' \<Longrightarrow> path_clean p = abs_path (clean_parts True p)"
  by (simp add: path_clean_def abs_path_def Let_def)

lemma clean_abs_path_slash:
  "list_all clean_seg ps \<Longrightarrow> path_clean (abs_path ps @ ''/'') = abs_path ps"
proof (cases "ps = []")
  case False
  assume "list_all clean_seg ps"
  with False have "split_at CHR ''/'' (abs_path ps @ ''/'') = [] # ps @ [[]]"
    using split_at_append_sep [of "CHR ''/''" "abs_path ps" "[]"] by (simp add: split_at_abs_path)
  moreover have "has_prefix (abs_path ps @ ''/'') ''/''" by (simp add: abs_path_def)
  ultimately show ?thesis
    using \<open>list_all clean_seg ps\<close>
    by (simp add: path_clean_rooted clean_parts_def clean_steps_id clean_step_def)
qed (simp add: abs_path_def path_clean_def clean_parts_def clean_step_def)

lemma path_dir_abs: "list_all clean_seg (ps @ [x]) \<Longrightarrow> path_dir (abs_path (ps @ [x])) = abs_path ps"
proof (cases "ps = []")
  case True
  moreover assume "list_all clean_seg (ps @ [x])"
  ultimately show ?thesis
    using last_index_byte_append [of "CHR ''/''" x "[]"]
    by (simp add: path_dir_def abs_path_def clean_seg_def path_clean_def clean_parts_def clean_step_def)
next
  case False
  assume clean: "list_all clean_seg (ps @ [x])"
  then have "last_index_byte CHR ''/'' (abs_path ps @ CHR ''/'' # x) = Some (length (abs_path ps))"
    by (intro last_index_byte_append) (simp add: clean_seg_def)
  with False clean show ?thesis
    by (simp add: path_dir_def abs_path_snoc clean_abs_path_slash)
qed

text \<open>The check of the unpacker: a cleaned path that starts with \<open>dir/\<close> lies properly under \<open>dir\<close>.\<close>

lemma prefix_under:
  assumes "clean_dir dir" "has_prefix (abs_path ts) (dir @ ''/'')" "list_all clean_seg ts"
  shows "under dir (abs_path ts) \<and> under dir (path_dir (abs_path ts))"
proof -
  from assms(1) obtain ps where ps: "ps \<noteq> []" "dir = abs_path ps" "list_all clean_seg ps"
    by (auto simp: clean_dir_def)
  from assms(2) obtain r where r: "abs_path ts = abs_path ps @ CHR ''/'' # r"
    by (auto simp: has_prefix_iff ps(2))
  have "ts \<noteq> []"
    using r by (auto simp: abs_path_def)
  then have "[] # ts = split_at CHR ''/'' (abs_path ps @ CHR ''/'' # r)"
    using assms(3) by (simp flip: r add: split_at_abs_path)
  then have "ts = ps @ split_at CHR ''/'' r"
    by (simp add: split_at_append_sep split_at_abs_path ps)
  then obtain xs x where ts: "ts = ps @ xs @ [x]"
    by (metis rev_exhaust split_at_nonempty)
  then have "path_dir (abs_path ts) = abs_path (ps @ xs)"
    using path_dir_abs [of "ps @ xs" x] assms(3) by simp
  moreover have "abs_path ts = abs_path (ps @ (xs @ [x]))" using ts by simp
  moreover have "list_all clean_seg (ps @ xs)" "list_all clean_seg (ps @ (xs @ [x]))"
    using assms(3) ts by simp_all
  ultimately show ?thesis
    unfolding under_def using ps(2) by blast
qed

subsection \<open>What unpacking does to the file system\<close>

text \<open>A file system that also records the calls that change it.\<close>

datatype fs_op = FMkdirs string | FOpen string | FWrite string string | FRemoveAll string

definition noted :: "fs_op \<Rightarrow> ('s \<Rightarrow> 'r \<times> 's) \<Rightarrow> 's \<times> fs_op list \<Rightarrow> 'r \<times> ('s \<times> fs_op list)" where
  "noted ev f sl = (case f (fst sl) of (r, s') \<Rightarrow> (r, (s', snd sl @ [ev])))"

definition record_fs :: "'s build_fs \<Rightarrow> ('s \<times> fs_op list) build_fs" where
  "record_fs fs =
    \<lparr>bf_mktemp = (\<lambda>pat sl. case bf_mktemp fs pat (fst sl) of (r, s') \<Rightarrow> (r, (s', snd sl))),
     bf_rmall = (\<lambda>p sl. (bf_rmall fs p (fst sl), snd sl @ [FRemoveAll p])),
     bf_mkdirs = (\<lambda>p. noted (FMkdirs p) (bf_mkdirs fs p)),
     bf_open = (\<lambda>p m. noted (FOpen p) (bf_open fs p m)),
     bf_write = (\<lambda>p d. noted (FWrite p d) (bf_write fs p d)),
     bf_putfile = (\<lambda>p d. noted (FWrite p d) (bf_putfile fs p d)),
     bf_stat = (\<lambda>p sl. bf_stat fs p (fst sl)), bf_readfile = (\<lambda>p sl. bf_readfile fs p (fst sl))\<rparr>"

text \<open>Under \<open>dir\<close>, except that the parent of \<open>dir\<close>, which exists, may be made once more.\<close>

fun op_under :: "string \<Rightarrow> fs_op \<Rightarrow> bool" where
  "op_under dir (FMkdirs p) = (under dir p \<or> p = path_dir dir)"
| "op_under dir (FOpen p) = under dir p"
| "op_under dir (FWrite p d) = under dir p"
| "op_under dir (FRemoveAll p) = (p = dir)"

fun op_bytes :: "fs_op \<Rightarrow> int" where
  "op_bytes (FWrite p d) = int (length d)"
| "op_bytes ev = 0"

text \<open>The calls since \<open>sl\<close> are all under \<open>dir\<close> and write at most \<open>n\<close> bytes.\<close>

definition unpacked :: "string \<Rightarrow> int \<Rightarrow> 's \<times> fs_op list \<Rightarrow> 's \<times> fs_op list \<Rightarrow> bool" where
  "unpacked dir n sl sl' = (\<exists>ops. snd sl' = snd sl @ ops \<and> list_all (op_under dir) ops \<and>
     sum_list (map op_bytes ops) \<le> n)"

text \<open>The tar reader delivers at most as many bytes of an entry as its header announces.\<close>

definition tar_ok :: "tar_entry \<Rightarrow> bool" where
  "tar_ok h = (int (length (th_data h)) \<le> th_size h)"

lemma unpacked_refl: "0 \<le> n \<Longrightarrow> unpacked dir n sl sl"
  by (simp add: unpacked_def)

lemma unpacked_trans: "unpacked dir m sl sl1 \<Longrightarrow> unpacked dir n sl1 sl2 \<Longrightarrow> unpacked dir (m + n) sl sl2"
  unfolding unpacked_def by (fastforce intro: exI [of _ "_ @ _"])

lemma unpacked_le: "unpacked dir m sl sl1 \<Longrightarrow> m \<le> n \<Longrightarrow> unpacked dir n sl sl1"
  unfolding unpacked_def by (meson order_trans)

lemma wp_noted:
  assumes "op_under dir ev" "unpacked dir n u sl"
    and "\<And>x sl'. unpacked dir (n + op_bytes ev) u sl' \<Longrightarrow> wp (k x) Q sl'"
    and "\<And>e sl'. unpacked dir (n + op_bytes ev) u sl' \<Longrightarrow> Q (Fail e) sl'"
  shows "wp (bnd (of_sum (noted ev f)) k) Q sl"
proof -
  have "unpacked dir (n + op_bytes ev) u sl'" if "noted ev f sl = (r, sl')" for r sl'
    using that assms(1,2) by (auto simp: noted_def unpacked_def split: prod.splits)
  then show ?thesis
    by (intro wp_bnd wp_of_sum) (auto intro: assms(3,4))
qed

lemma path_join_dir: "clean_dir dir \<Longrightarrow> rel \<noteq> [] \<Longrightarrow> \<exists>ts. path_join dir rel = abs_path ts \<and> list_all clean_seg ts"
  by (auto simp: path_join_def clean_dir_def abs_path_def intro!: exI [of _ "clean_parts True _"]
      path_clean_rooted [unfolded abs_path_def] clean_parts_clean)

lemma under_refl: "clean_dir dir \<Longrightarrow> under dir dir"
  unfolding clean_dir_def under_def by (metis append_Nil2)

lemma extract_entry_post:
  assumes dir: "clean_dir dir" and h: "tar_ok h" and le: "sum0 \<le> mx"
  shows "wp (extract_entry (record_fs fs) dir tp mx sum0 h)
    (\<lambda>r sl'. case r of Ok n \<Rightarrow> n \<le> mx \<and> unpacked dir (n - sum0) sl sl'
       | Fail e \<Rightarrow> unpacked dir (mx - sum0) sl sl' | Panic p \<Rightarrow> False) sl"
proof (cases "isTarMeta h \<or> entry_rel tp (th_name h) = [] \<or>
    (let t = path_join dir (entry_rel tp (th_name h)) in \<not> has_prefix t (dir @ ''/'') \<and> t \<noteq> dir)")
  case True
  then show ?thesis
    using le by (auto simp: extract_entry_def Let_def intro!: wp_ret unpacked_refl)
next
  case False
  let ?t = "path_join dir (entry_rel tp (th_name h))"
  obtain ts where ts: "?t = abs_path ts" "list_all clean_seg ts"
    using path_join_dir [OF dir] False by blast
  have "has_prefix ?t (dir @ ''/'') \<or> ?t = dir" using False by (simp add: Let_def)
  then have at: "under dir ?t" "op_under dir (FMkdirs (path_dir ?t))"
    using prefix_under [OF dir, of ts] under_refl [OF dir] ts by auto
  let ?Q = "\<lambda>r sl'. case r of Ok n \<Rightarrow> n \<le> mx \<and> unpacked dir (n - sum0) sl sl'
       | Fail e \<Rightarrow> unpacked dir (mx - sum0) sl sl' | Panic p \<Rightarrow> False"
  note step = wp_noted [where dir = dir and n = 0 and u = sl]
  have "wp (bnd (of_sum (noted (FMkdirs ?t) f)) (\<lambda>_. ret sum0)) ?Q sl" for f
    by (rule step) (use at(1) le in \<open>auto intro!: unpacked_refl wp_ret elim: unpacked_le\<close>)
  moreover have "wp (bnd (of_sum (noted (FMkdirs (path_dir ?t)) f)) (\<lambda>_.
      bnd (of_sum (noted (FOpen ?t) g)) (\<lambda>_. bnd (of_sum (noted (FWrite ?t (th_data h)) w)) (\<lambda>_.
      case th_fail h of Some e \<Rightarrow> throw e | None \<Rightarrow> ret (sum0 + th_size h))))) ?Q sl"
    if "sum0 + th_size h \<le> mx" for f g w
  proof (rule step)
    fix sl1 assume "unpacked dir (0 + op_bytes (FMkdirs (path_dir ?t))) sl sl1"
    then have sl1: "unpacked dir 0 sl sl1" by simp
    show "wp (bnd (of_sum (noted (FOpen ?t) g)) (\<lambda>_. bnd (of_sum (noted (FWrite ?t (th_data h)) w)) (\<lambda>_.
        case th_fail h of Some e \<Rightarrow> throw e | None \<Rightarrow> ret (sum0 + th_size h)))) ?Q sl1"
    proof (rule step)
      fix sl2 assume "unpacked dir (0 + op_bytes (FOpen ?t)) sl sl2"
      then have sl2: "unpacked dir 0 sl sl2" by simp
      have size: "int (length (th_data h)) \<le> th_size h" using h by (simp add: tar_ok_def)
      show "wp (bnd (of_sum (noted (FWrite ?t (th_data h)) w)) (\<lambda>_.
          case th_fail h of Some e \<Rightarrow> throw e | None \<Rightarrow> ret (sum0 + th_size h))) ?Q sl2"
      proof (rule step)
        fix sl3 assume "unpacked dir (0 + op_bytes (FWrite ?t (th_data h))) sl sl3"
        then have "unpacked dir (th_size h) sl sl3" "unpacked dir (mx - sum0) sl sl3"
          using size that by (auto elim: unpacked_le)
        then show "wp (case th_fail h of Some e \<Rightarrow> throw e | None \<Rightarrow> ret (sum0 + th_size h)) ?Q sl3"
          using that by (auto intro!: wp_ret wp_throw split: option.split)
      qed (use at sl2 size that in \<open>auto elim: unpacked_le\<close>)
    qed (use at sl1 le in \<open>auto elim: unpacked_le\<close>)
  qed (use at le in \<open>auto intro!: unpacked_refl elim: unpacked_le\<close>)
  moreover have "bf_mkdirs (record_fs fs) p = noted (FMkdirs p) (bf_mkdirs fs p)"
    "bf_open (record_fs fs) p m = noted (FOpen p) (bf_open fs p m)"
    "bf_write (record_fs fs) p d = noted (FWrite p d) (bf_write fs p d)" for p m d
    by (simp_all add: record_fs_def)
  ultimately show ?thesis
    using False le by (auto simp: extract_entry_def Let_def intro!: wp_ret wp_throw unpacked_refl split: tar_type.split)
qed

lemma extract_loop_post:
  assumes dir: "clean_dir dir"
  shows "list_all tar_ok hs \<Longrightarrow> sum0 \<le> mx \<Longrightarrow> wp (extract_loop (record_fs fs) dir tp mx sum0 hs err)
    (\<lambda>r sl'. unpacked dir (mx - sum0) sl sl' \<and> (\<forall>p. r \<noteq> Panic p)) sl"
proof (induction hs arbitrary: sum0 sl)
  case Nil
  then show ?case by (auto intro!: wp_ret wp_throw unpacked_refl split: option.split)
next
  case (Cons h hs)
  show ?case
    unfolding extract_loop.simps
  proof (rule wp_bnd, rule wp_conseq, rule extract_entry_post [OF dir])
    fix r sl1
    assume post: "case r of Ok n \<Rightarrow> n \<le> mx \<and> unpacked dir (n - sum0) sl sl1
       | Fail e \<Rightarrow> unpacked dir (mx - sum0) sl sl1 | Panic p \<Rightarrow> False"
    show "case r of Ok x \<Rightarrow> wp (extract_loop (record_fs fs) dir tp mx x hs err)
          (\<lambda>r sl'. unpacked dir (mx - sum0) sl sl' \<and> (\<forall>p. r \<noteq> Panic p)) sl1
        | Fail e \<Rightarrow> unpacked dir (mx - sum0) sl sl1 \<and> (\<forall>p. Fail e \<noteq> Panic p)
        | Panic p \<Rightarrow> unpacked dir (mx - sum0) sl sl1 \<and> (\<forall>q. Panic p \<noteq> Panic q)"
    proof (cases r)
      case (Ok n)
      with post have "n \<le> mx" "unpacked dir (n - sum0) sl sl1" by auto
      then show ?thesis
        using Ok Cons.prems(1)
        by (auto intro!: wp_conseq [OF Cons.IH] dest: unpacked_trans)
    qed (use post in auto)
  qed (use Cons.prems in auto)
qed

definition tarball_ok :: "tarball \<Rightarrow> bool" where
  "tarball_ok t = (case t of Inl e \<Rightarrow> True | Inr s \<Rightarrow> list_all tar_ok (ts_entries s))"

definition extract_post :: "int \<Rightarrow> 's \<times> fs_op list \<Rightarrow> (string, string) res \<Rightarrow> 's \<times> fs_op list \<Rightarrow> bool" where
  "extract_post n sl r sl' = (case r of
      Ok d \<Rightarrow> clean_dir d \<and> unpacked d n sl sl'
    | Fail e \<Rightarrow> snd sl' = snd sl \<or>
        (\<exists>d sl1. clean_dir d \<and> unpacked d n sl sl1 \<and> snd sl' = snd sl1 @ [FRemoveAll d])
    | Panic p \<Rightarrow> False)"

lemma wp_mktemp:
  assumes "\<And>s d s'. bf_mktemp fs pat s = (Inr d, s') \<Longrightarrow> clean_dir d"
    and "\<And>e sl'. snd sl' = snd sl \<Longrightarrow> Q (Fail e) sl'"
    and "\<And>d sl'. snd sl' = snd sl \<Longrightarrow> clean_dir d \<Longrightarrow> Q (Ok d) sl'"
  shows "wp (of_sum (bf_mktemp (record_fs fs) pat)) Q sl"
  by (rule wp_of_sum) (auto simp: record_fs_def intro!: assms(2,3) intro: assms(1) split: prod.splits)

lemma wp_cleaning:
  assumes "wp m (\<lambda>r sl'. P r sl' \<and> (\<forall>p. r \<noteq> Panic p)) sl"
    and "\<And>x sl'. P (Ok x) sl' \<Longrightarrow> Q (Ok x) sl'"
    and "\<And>e sl'. P (Fail e) sl' \<Longrightarrow> Q (Fail e) (bf_rmall fs d sl')"
  shows "wp (cleaning fs d m) Q sl"
  using assms by (auto simp: wp_def cleaning_def split: prod.splits res.splits)

lemma Extract_post:
  assumes "\<And>s d s'. bf_mktemp fs ''sandbox-build-'' s = (Inr d, s') \<Longrightarrow> clean_dir d" and "tarball_ok t"
  shows "wp (Extract (record_fs fs) t mx) (extract_post (extract_limit mx) sl) sl"
proof (cases "archiveTop t")
  case (Inr tp)
  then obtain st where t: "t = Inr st" by (auto simp: archiveTop_def split: sum.splits)
  have hs: "list_all tar_ok (ts_entries st)" using assms(2) by (simp add: tarball_ok_def t)
  let ?n = "extract_limit mx"
  have body: "wp (bnd (cleaning (record_fs fs) d (extract_loop (record_fs fs) d tp ?n 0 (ts_entries st) (ts_error st)))
      (\<lambda>_. ret d)) (extract_post ?n sl) sl1" if d: "snd sl1 = snd sl" "clean_dir d" for d sl1
  proof -
    have "wp (extract_loop (record_fs fs) d tp ?n 0 (ts_entries st) (ts_error st))
        (\<lambda>r sl'. unpacked d ?n sl sl' \<and> (\<forall>p. r \<noteq> Panic p)) sl1"
      using extract_loop_post [OF d(2) hs, of 0 ?n fs tp "ts_error st" sl1] d(1)
      by (simp add: unpacked_def extract_limit_def)
    then show ?thesis
      by (rule wp_bnd [OF wp_cleaning]) (use d(2) in \<open>auto intro!: wp_ret simp: record_fs_def extract_post_def\<close>)
  qed
  have "Extract (record_fs fs) t mx = bnd (of_sum (bf_mktemp (record_fs fs) ''sandbox-build-'')) (\<lambda>d.
      bnd (cleaning (record_fs fs) d (extract_loop (record_fs fs) d tp ?n 0 (ts_entries st) (ts_error st))) (\<lambda>_. ret d))"
    using Inr by (simp add: Extract_def t)
  moreover have "wp (bnd (of_sum (bf_mktemp (record_fs fs) ''sandbox-build-'')) (\<lambda>d.
      bnd (cleaning (record_fs fs) d (extract_loop (record_fs fs) d tp ?n 0 (ts_entries st) (ts_error st))) (\<lambda>_. ret d)))
      (extract_post ?n sl) sl"
    by (rule wp_bnd, rule wp_mktemp [OF assms(1)], assumption)
       (simp_all add: body, simp add: extract_post_def)
  ultimately show ?thesis by simp
qed (simp add: Extract_def wp_throw extract_post_def)


text \<open>A file system that answers every call, and an archive with an entry that tries to escape.\<close>

definition demo_fs :: "unit build_fs" where
  "demo_fs =
    \<lparr>bf_mktemp = (\<lambda>pat s. (Inr ''/tmp/build-1'', s)), bf_rmall = (\<lambda>p s. s), bf_mkdirs = (\<lambda>p s. (Inr (), s)),
     bf_open = (\<lambda>p m s. (Inr (), s)), bf_write = (\<lambda>p d s. (Inr (), s)),
     bf_putfile = (\<lambda>p d s. (Inr (), s)), bf_stat = (\<lambda>p s. Some True),
     bf_readfile = (\<lambda>p s. Inl ''absent'')\<rparr>"

definition demo_entry :: "string \<Rightarrow> string \<Rightarrow> tar_entry" where
  "demo_entry name data = \<lparr>th_type = TypeReg, th_name = name, th_link = [], th_mode = 420,
     th_size = int (length data), th_data = data, th_fail = None\<rparr>"

definition demo_tar :: tarball where
  "demo_tar = Inr \<lparr>ts_entries = [demo_entry ''web/Dockerfile'' ''FROM x'', demo_entry ''web/../../etc/passwd'' ''root''],
     ts_error = None\<rparr>"

lemma demo_fs_dir: "bf_mktemp demo_fs pat s = (Inr d, s') \<Longrightarrow> clean_dir d"
  by (auto simp: demo_fs_def clean_dir_def abs_path_def clean_seg_def intro!: exI [of _ "[''tmp'', ''build-1'']"])




subsection \<open>Driving buildctl\<close>

record builder =
  bd_addr :: string
  bd_host :: string
  bd_scheme :: string
  bd_timeout :: int
  bd_buildctl :: string

record build_req =
  br_dir :: string
  br_dockerfile :: string
  br_context :: string
  br_repo :: string
  br_tag :: string
  br_args :: "string gomap"

definition FullRef :: "builder \<Rightarrow> string \<Rightarrow> string \<Rightarrow> string" where
  "FullRef b repo tag = trim_right_slash (bd_host b) @ ''/'' @ trim_slashes repo @ '':'' @ tag"

definition bd_effective_scheme :: "builder \<Rightarrow> string" where
  "bd_effective_scheme b = (if bd_scheme b \<noteq> [] then bd_scheme b else ''https'')"

definition bd_buildArgs :: "builder \<Rightarrow> 's build_fs \<Rightarrow> build_req \<Rightarrow> ('s, string, string \<times> string list) act" where
  "bd_buildArgs b fs req = (\<lambda>s.
    if br_repo req = [] \<or> br_tag req = [] then throw ''repo and tag required'' s
    else let ctxDir = path_join (br_dir req) (trim_slashes (br_context req)) in
      if bf_stat fs ctxDir s \<noteq> Some True
      then throw (''build context '' @ go_quote (br_context req) @ '' not found in repository'') s
      else let dockerfile = (if br_dockerfile req = [] then ''Dockerfile'' else br_dockerfile req);
               dockerfileDir = path_dir (trim_slashes dockerfile);
               filename = path_base dockerfile
        in if bf_stat fs (path_join (br_dir req) dockerfile) s = None
           then throw (''dockerfile '' @ go_quote dockerfile @ '' not found in repository'') s
           else let ref = FullRef b (br_repo req) (br_tag req) in
             ret (ref,
               [''--frontend'', ''dockerfile.v0'',
                ''--local'', ''context='' @ ctxDir,
                ''--local'', ''dockerfile='' @ path_join (br_dir req) dockerfileDir,
                ''--opt'', ''filename='' @ filename] @
               concat (map (\<lambda>(k, v). [''--opt'', ''build-arg:'' @ k @ ''='' @ v]) (br_args req)) @
               [''--output'', ''type=image,name='' @ ref @ '',push=true'']) s)"

text \<open>The command line and time limit of a \<^verbatim>\<open>buildctl\<close> run; the process is a parameter that gives
  the output it writes and, when it does not exit cleanly, an error.\<close>

definition buildctl_line :: "builder \<Rightarrow> string list \<Rightarrow> string \<times> string list" where
  "buildctl_line b args =
    ((if bd_buildctl b = [] then ''buildctl'' else bd_buildctl b),
     [''--addr'', if bd_addr b = [] then ''tcp://buildkitd.agent.svc.cluster.local:1234'' else bd_addr b, ''build''] @ args)"

definition buildctl_timeout :: "builder \<Rightarrow> int" where
  "buildctl_timeout b = (if bd_timeout b \<le> 0 then 30 * 60 * 1000000000 else bd_timeout b)"

type_synonym 's process = "string \<times> string list \<Rightarrow> string list \<Rightarrow> int \<Rightarrow> 's \<Rightarrow> (string list \<times> string option) \<times> 's"

definition run_process :: "'s process \<Rightarrow> string \<times> string list \<Rightarrow> string list \<Rightarrow> int \<Rightarrow> ('s, 'e, string list \<times> string option) act" where
  "run_process run cmd env timeout = (\<lambda>s. case run cmd env timeout s of (r, s') \<Rightarrow> (Ok r, s'))"

text \<open>\<open>BuildStream\<close> hands the chunks of output on as they come and ends with the reference or an
  error.\<close>

definition BuildStream :: "builder \<Rightarrow> 's build_fs \<Rightarrow> 's process \<Rightarrow> build_req \<Rightarrow> ('s, 'f, string list \<times> (string + string)) act" where
  "BuildStream b fs run req =
    bnd (attempt (bd_buildArgs b fs req)) (\<lambda>r. case r of Inl e \<Rightarrow> ret ([], Inl e)
      | Inr (ref, args) \<Rightarrow>
          bnd (run_process run (buildctl_line b args) [] (buildctl_timeout b)) (\<lambda>(chunks, err).
            ret (chunks, case err of Some e \<Rightarrow> Inl (''buildctl failed: '' @ e) | None \<Rightarrow> Inr ref)))"

text \<open>\<open>tail\<close>: the ellipsis is one UTF-8 character of three bytes.\<close>

definition log_tail :: "string \<Rightarrow> nat \<Rightarrow> string" where
  "log_tail s n = (if length s \<le> n then s else [CHR 0xE2, CHR 0x80, CHR 0xA6, CHR 0x0A] @ drop (length s - n) s)"

definition runEnv :: "builder \<Rightarrow> 's process \<Rightarrow> string list \<Rightarrow> string list \<Rightarrow> ('s, string, string) act" where
  "runEnv b run env args =
    bnd (run_process run (buildctl_line b args) env (buildctl_timeout b)) (\<lambda>(chunks, err).
      let out = log_tail (concat chunks) (16 * 1024) in
      case err of Some e \<Rightarrow> throw (''buildctl failed: '' @ e @ [CHR 0x0A] @ out) | None \<Rightarrow> ret out)"

definition bd_Build :: "builder \<Rightarrow> 's build_fs \<Rightarrow> 's process \<Rightarrow> build_req \<Rightarrow> ('s, string, string \<times> string) act" where
  "bd_Build b fs run req =
    bnd (bd_buildArgs b fs req) (\<lambda>(ref, args). bnd (runEnv b run [] args) (\<lambda>log. ret (ref, log)))"

subsection \<open>Registry credentials\<close>

text \<open>The deployment's Docker configuration: \<^verbatim>\<open>DOCKER_CONFIG\<close>, and how JSON and base64 are read and
  written.  Field names are matched exactly.\<close>

record docker_env =
  dk_dir :: string
  dk_parse :: "string \<Rightarrow> json option"
  dk_print :: "json \<Rightarrow> string"
  dk_b64dec :: "string \<Rightarrow> string option"
  dk_b64enc :: "string \<Rightarrow> string"

definition registryHostOf :: "string \<Rightarrow> string" where
  "registryHostOf ref = (case index_byte CHR ''/'' ref of None \<Rightarrow> ''docker.io''
     | Some i \<Rightarrow> let first = take i ref in
         if CHR ''.'' \<in> set first \<or> CHR '':'' \<in> set first \<or> first = ''localhost'' then first else ''docker.io'')"

text \<open>Decoding into the struct of \<open>dockerConfigAuth\<close>: the \<^verbatim>\<open>auth\<close> text of each entry.\<close>

definition auth_of_entry :: "json \<Rightarrow> string option" where
  "auth_of_entry j = (case j of JNull \<Rightarrow> Some []
     | JObj kvs \<Rightarrow> (case jget j ''auth'' of JStr a \<Rightarrow> Some a | JNull \<Rightarrow> Some [] | _ \<Rightarrow> None)
     | _ \<Rightarrow> None)"

definition decode_auths :: "json \<Rightarrow> (string \<Rightarrow> string option) option" where
  "decode_auths cfg = (case cfg of JNull \<Rightarrow> Some Map.empty
     | JObj kvs \<Rightarrow> (case jget cfg ''auths'' of JNull \<Rightarrow> Some Map.empty
         | JObj es \<Rightarrow> if list_all (\<lambda>(k, v). auth_of_entry v \<noteq> None) es
             then Some (\<lambda>k. if k \<in> fst ` set es then auth_of_entry (jget (JObj es) k) else None) else None
         | _ \<Rightarrow> None)
     | _ \<Rightarrow> None)"

definition auth_keys :: "string \<Rightarrow> string list" where
  "auth_keys host = [host, ''https://'' @ host, ''http://'' @ host, ''https://'' @ host @ ''/v1/'',
     ''https://'' @ host @ ''/v2/'', ''http://'' @ host @ ''/v2/'']"

fun find_auth :: "docker_env \<Rightarrow> (string \<Rightarrow> string option) \<Rightarrow> string list \<Rightarrow> (string \<times> string) option" where
  "find_auth dk auths [] = None"
| "find_auth dk auths (key # keys) = (case auths key of
      Some a \<Rightarrow> if a = [] then find_auth dk auths keys
        else (case dk_b64dec dk a of None \<Rightarrow> None
          | Some d \<Rightarrow> (case cut_at CHR '':'' d of (u, p, found) \<Rightarrow> if found then Some (u, p) else None))
    | None \<Rightarrow> find_auth dk auths keys)"

definition dockerConfigAuth :: "docker_env \<Rightarrow> 's build_fs \<Rightarrow> string \<Rightarrow> 's \<Rightarrow> (string \<times> string) option" where
  "dockerConfigAuth dk fs host s =
    (if dk_dir dk = [] then None
     else case bf_readfile fs (path_join (dk_dir dk) ''config.json'') s of Inl e \<Rightarrow> None
     | Inr raw \<Rightarrow> (case dk_parse dk raw of None \<Rightarrow> None
       | Some cfg \<Rightarrow> (case decode_auths cfg of None \<Rightarrow> None
         | Some auths \<Rightarrow> find_auth dk auths (auth_keys host))))"

text \<open>\<^verbatim>\<open>m[k] = v\<close> on a JSON object.\<close>

definition jput :: "string \<Rightarrow> json \<Rightarrow> json \<Rightarrow> json" where
  "jput k v j = (case j of JObj kvs \<Rightarrow> JObj (filter (\<lambda>e. fst e \<noteq> k) kvs @ [(k, v)]) | _ \<Rightarrow> JObj [(k, v)])"

text \<open>The deployment's configuration over \<^verbatim>\<open>{"auths": {}}\<close>: \<open>JNull\<close> is the nil map that a file
  holding \<^verbatim>\<open>null\<close> leaves; text that is not a JSON object leaves the default.\<close>

definition load_config :: "docker_env \<Rightarrow> 's build_fs \<Rightarrow> 's \<Rightarrow> json" where
  "load_config dk fs s =
    (let default = JObj [(''auths'', JObj [])] in
     if dk_dir dk = [] then default
     else case bf_readfile fs (path_join (dk_dir dk) ''config.json'') s of Inl e \<Rightarrow> default
     | Inr raw \<Rightarrow> (case dk_parse dk raw of
         Some (JObj kvs) \<Rightarrow> foldl (\<lambda>cfg (k, v). jput k v cfg) default kvs
       | Some JNull \<Rightarrow> JNull
       | _ \<Rightarrow> default))"

definition merge_keys :: "string \<Rightarrow> string list" where
  "merge_keys host = [host, ''https://'' @ host, ''https://'' @ host @ ''/v1/'', ''https://'' @ host @ ''/v2/'']"

definition merged_config :: "json \<Rightarrow> string \<Rightarrow> string \<Rightarrow> json" where
  "merged_config cfg host enc =
    (let auths = (case jget cfg ''auths'' of JObj es \<Rightarrow> JObj es | _ \<Rightarrow> JObj [])
     in jput ''auths'' (foldl (\<lambda>a key. jput key (JObj [(''auth'', JStr enc)]) a) auths (merge_keys host)) cfg)"

definition mergeDockerConfig ::
  "docker_env \<Rightarrow> 's build_fs \<Rightarrow> string \<Rightarrow> string \<Rightarrow> string \<Rightarrow> ('s, string, string) act" where
  "mergeDockerConfig dk fs srcRef user token =
    bnd (pure_of (load_config dk fs)) (\<lambda>cfg.
     if cfg = JNull then panic ''assignment to entry in nil map'' else
     let enc = dk_b64enc dk (user @ '':'' @ token) in
     bnd (of_sum (bf_mktemp fs ''dockerconfig-'')) (\<lambda>dir.
     bnd (cleaning fs dir (of_sum (bf_putfile fs (path_join dir ''config.json'')
            (dk_print dk (merged_config cfg (registryHostOf srcRef) enc))))) (\<lambda>_. ret dir)))"

record import_req =
  ir_source :: string
  ir_repo :: string
  ir_tag :: string
  ir_user :: string
  ir_token :: string

text \<open>\<^verbatim>\<open>defer os.RemoveAll(dir)\<close>\<close>

definition removing :: "'s build_fs \<Rightarrow> string \<Rightarrow> ('s, 'e, 'a) act \<Rightarrow> ('s, 'e, 'a) act" where
  "removing fs dir m = (\<lambda>s. case m s of (r, s') \<Rightarrow> (r, bf_rmall fs dir s'))"

definition bd_Import ::
  "builder \<Rightarrow> docker_env \<Rightarrow> 's build_fs \<Rightarrow> 's process \<Rightarrow> import_req \<Rightarrow> ('s, string, string \<times> string) act" where
  "bd_Import b dk fs run req =
    (if ir_source req = [] \<or> ir_repo req = [] \<or> ir_tag req = [] then throw ''source, repo and tag required'' else
     let ref = FullRef b (ir_repo req) (ir_tag req) in
     bnd (of_sum (bf_mktemp fs ''import-'')) (\<lambda>dir. removing fs dir
      (bnd (of_sum (bf_putfile fs (path_join dir ''Dockerfile'')
             (''ARG BASE_IMAGE'' @ [CHR 0x0A] @ ''FROM ${BASE_IMAGE}'' @ [CHR 0x0A]))) (\<lambda>_.
       let args = [''--frontend'', ''dockerfile.v0'', ''--local'', ''context='' @ dir, ''--local'', ''dockerfile='' @ dir,
                   ''--opt'', ''filename=Dockerfile'', ''--opt'', ''build-arg:BASE_IMAGE='' @ ir_source req,
                   ''--output'', ''type=image,name='' @ ref @ '',push=true'']
       in if ir_user req \<noteq> [] \<or> ir_token req \<noteq> []
          then bnd (mergeDockerConfig dk fs (ir_source req) (ir_user req) (ir_token req)) (\<lambda>merged.
                 removing fs merged (bnd (runEnv b run [''DOCKER_CONFIG='' @ merged] args) (\<lambda>log. ret (ref, log))))
          else bnd (runEnv b run [] args) (\<lambda>log. ret (ref, log))))))"

lemma map_of_filter_key: "map_of (filter (\<lambda>e. fst e \<noteq> k) xs) = (map_of xs)(k := None)"
  by (induction xs) (auto simp: fun_eq_iff)

lemma jget_jput [simp]: "jget (jput k v (JObj kvs)) k' = (if k' = k then v else jget (JObj kvs) k')"
  by (simp add: jget_def jput_def rev_filter map_of_filter_key)

lemma jput_JObj: "\<exists>kvs'. jput k v (JObj kvs) = JObj kvs' \<and> fst ` set kvs' = insert k (fst ` set kvs) \<and>
    set kvs' \<subseteq> insert (k, v) (set kvs)"
  by (auto simp: jput_def)

lemma decode_put:
  assumes "decode_auths (JObj [(''auths'', JObj es)]) = Some au" "a \<noteq> []"
  shows "\<exists>es'. jput k (JObj [(''auth'', JStr a)]) (JObj es) = JObj es' \<and>
    decode_auths (JObj [(''auths'', JObj es')]) = Some (au(k \<mapsto> a))"
proof -
  obtain es' where es': "jput k (JObj [(''auth'', JStr a)]) (JObj es) = JObj es'"
    "fst ` set es' = insert k (fst ` set es)" "set es' \<subseteq> insert (k, JObj [(''auth'', JStr a)]) (set es)"
    using jput_JObj by blast
  have get: "jget (JObj es') x = (if x = k then JObj [(''auth'', JStr a)] else jget (JObj es) x)" for x
    using jget_jput [of k "JObj [(''auth'', JStr a)]" es x] es'(1) by simp
  have ok: "list_all (\<lambda>(k, v). auth_of_entry v \<noteq> None) es"
    and au: "au = (\<lambda>k. if k \<in> fst ` set es then auth_of_entry (jget (JObj es) k) else None)"
    using assms(1) by (auto simp: decode_auths_def jget_def split: if_splits)
  have entry: "auth_of_entry (JObj [(''auth'', JStr a)]) = Some a"
    by (simp add: auth_of_entry_def jget_def)
  then have "list_all (\<lambda>(k, v). auth_of_entry v \<noteq> None) es'"
    using ok es'(3) by (auto simp: list_all_iff)
  then show ?thesis
    using es' entry by (auto simp: decode_auths_def get au jget_def [of "JObj [(''auths'', _)]"] fun_eq_iff)
qed

lemma decode_puts:
  assumes "decode_auths (JObj [(''auths'', JObj es)]) = Some au" "a \<noteq> []"
  shows "\<exists>es'. foldl (\<lambda>j key. jput key (JObj [(''auth'', JStr a)]) j) (JObj es) ks = JObj es' \<and>
    decode_auths (JObj [(''auths'', JObj es')]) = Some (\<lambda>k. if k \<in> set ks then Some a else au k)"
  using assms
proof (induction ks arbitrary: es au)
  case (Cons k ks)
  obtain es1 where es1: "jput k (JObj [(''auth'', JStr a)]) (JObj es) = JObj es1"
    "decode_auths (JObj [(''auths'', JObj es1)]) = Some (au(k \<mapsto> a))"
    using decode_put [OF Cons.prems] by blast
  have "(\<lambda>x. if x \<in> set ks then Some a else (au(k \<mapsto> a)) x) = (\<lambda>x. if x \<in> set (k # ks) then Some a else au x)"
    by auto
  with Cons.IH [OF es1(2) Cons.prems(2)] es1(1) show ?case by simp
qed simp

lemma decode_auths_get:
  "decode_auths (JObj kvs) = decode_auths (JObj [(''auths'', jget (JObj kvs) ''auths'')])"
  by (simp add: decode_auths_def jget_def)

lemma decode_merged:
  assumes "decode_auths (JObj kvs) = Some au" "a \<noteq> []"
  shows "decode_auths (merged_config (JObj kvs) host a) = Some (\<lambda>k. if k \<in> set (merge_keys host) then Some a else au k)"
proof -
  obtain es where es: "(case jget (JObj kvs) ''auths'' of JObj es \<Rightarrow> JObj es | _ \<Rightarrow> JObj []) = JObj es"
    "decode_auths (JObj [(''auths'', JObj es)]) = Some au"
    using assms(1) by (cases "jget (JObj kvs) ''auths''") (auto simp: decode_auths_def jget_def fun_eq_iff)
  from decode_puts [OF es(2) assms(2), of "merge_keys host"] obtain es' where es':
    "foldl (\<lambda>j key. jput key (JObj [(''auth'', JStr a)]) j) (JObj es) (merge_keys host) = JObj es'"
    "decode_auths (JObj [(''auths'', JObj es')]) = Some (\<lambda>k. if k \<in> set (merge_keys host) then Some a else au k)"
    by blast
  obtain kvs' where "jput ''auths'' (JObj es') (JObj kvs) = JObj kvs'" using jput_JObj by blast
  moreover from this have "jget (JObj kvs') ''auths'' = JObj es'"
    using jget_jput [of "''auths''" "JObj es'" kvs "''auths''"] by simp
  ultimately show ?thesis
    using es'(2) decode_auths_get [of kvs'] by (simp add: merged_config_def Let_def es(1) es'(1))
qed

text \<open>Importing from a private registry merges its credentials into a copy of the deployment's
  Docker configuration such that reading the copy for that registry gives back exactly the user
  and token of the request, and reading it for a registry that shares no key gives what the
  deployment's own configuration has, so the push stays authenticated.  The user must not
  contain a colon.\<close>

theorem merged_config_roundtrip:
  assumes "dk_dir dk \<noteq> []" "bf_readfile fs (path_join (dk_dir dk) ''config.json'') s = Inr raw"
    and "dk_parse dk raw = Some (merged_config (JObj kvs) (registryHostOf src) (dk_b64enc dk (user @ '':'' @ token)))"
    and "dk_b64dec dk (dk_b64enc dk (user @ '':'' @ token)) = Some (user @ '':'' @ token)"
    and "dk_b64enc dk (user @ '':'' @ token) \<noteq> []" "CHR '':'' \<notin> set user"
    and "decode_auths (JObj kvs) = Some au"
  shows "dockerConfigAuth dk fs (registryHostOf src) s = Some (user, token) \<and>
    (\<forall>host. set (auth_keys host) \<inter> set (merge_keys (registryHostOf src)) = {} \<longrightarrow>
       dockerConfigAuth dk fs host s = find_auth dk au (auth_keys host))"
proof -
  let ?au = "\<lambda>k. if k \<in> set (merge_keys (registryHostOf src)) then Some (dk_b64enc dk (user @ '':'' @ token)) else au k"
  have read: "dockerConfigAuth dk fs host s = find_auth dk ?au (auth_keys host)" for host
    using assms(1-3) decode_merged [OF assms(7,5)] by (simp add: dockerConfigAuth_def)
  have "find_auth dk ?au ks = find_auth dk au ks" if "set ks \<inter> set (merge_keys (registryHostOf src)) = {}" for ks
    using that by (induction ks) (auto split: option.splits)
  moreover have "find_auth dk ?au (auth_keys (registryHostOf src)) = Some (user, token)"
    using assms(4-6) cut_at_append [of "CHR '':''" user token] by (simp add: auth_keys_def merge_keys_def)
  ultimately show ?thesis by (simp add: read)
qed

definition demo_docker :: docker_env where
  "demo_docker = \<lparr>dk_dir = ''/cfg'', dk_parse = (\<lambda>raw. Some (merged_config (JObj [(''auths'', JObj
      [(''git.local'', JObj [(''auth'', JStr ''gw:push'')])])]) ''ghcr.io'' ''bob:secret'')),
     dk_print = (\<lambda>j. []), dk_b64dec = Some, dk_b64enc = id\<rparr>"

theorem merged_config_roundtrip_witness:
  "dockerConfigAuth demo_docker (demo_fs\<lparr>bf_readfile := (\<lambda>p s. Inr [])\<rparr>) ''ghcr.io'' () = Some (''bob'', ''secret'') \<and>
   dockerConfigAuth demo_docker (demo_fs\<lparr>bf_readfile := (\<lambda>p s. Inr [])\<rparr>) ''git.local'' () = Some (''gw'', ''push'')"
proof -
  let ?fs = "demo_fs\<lparr>bf_readfile := (\<lambda>p s. Inr [])\<rparr>"
  let ?kvs = "[(''auths'', JObj [(''git.local'', JObj [(''auth'', JStr ''gw:push'')])])]"
  have host: "registryHostOf ''ghcr.io/acme/tool:1'' = ''ghcr.io''" by code_simp
  have "decode_auths (JObj ?kvs) \<noteq> None" by code_simp
  then obtain au where au: "decode_auths (JObj ?kvs) = Some au" by blast
  have both: "dockerConfigAuth demo_docker ?fs ''ghcr.io'' () = Some (''bob'', ''secret'')"
    using merged_config_roundtrip [where dk = demo_docker and fs = ?fs and s = "()" and raw = "[]"
        and src = "''ghcr.io/acme/tool:1''" and user = "''bob''" and token = "''secret''", OF _ _ _ _ _ _ au]
    by (simp add: demo_docker_def host)
  moreover have "dockerConfigAuth demo_docker ?fs ''git.local'' () = Some (''gw'', ''push'')" by code_simp
  ultimately show ?thesis by blast
qed

text \<open>The build context is not confined to the repository.  A context or Dockerfile path of the
  request may climb out of the unpacked archive: with \<^verbatim>\<open>../x\<close> as its context the build is run on
  the sibling \<^verbatim>\<open>x\<close> of the context directory, wherever the gateway's file system has one.\<close>

theorem buildArgs_context_escapes:
  assumes "br_dir req = abs_path (ps @ [d])" "list_all clean_seg (ps @ [d])" "ps \<noteq> []"
    and "br_context req = ''../'' @ x" "clean_seg x" "br_repo req \<noteq> []" "br_tag req \<noteq> []"
    and "bf_stat fs (abs_path (ps @ [x])) s = Some True"
    and "bf_stat fs (path_join (br_dir req) (if br_dockerfile req = [] then ''Dockerfile'' else br_dockerfile req)) s \<noteq> None"
  shows "\<exists>ref args. bd_buildArgs b fs req s = (Ok (ref, args), s) \<and> ''context='' @ abs_path (ps @ [x]) \<in> set args"
proof -
  have x: "x \<noteq> []" "CHR ''/'' \<notin> set x" "last x \<noteq> CHR ''/''"
    using assms(5) by (auto simp: clean_seg_def) (metis last_in_set)
  have trim: "trim_slashes (''../'' @ x) = ''../'' @ x"
    using x by (cases x rule: rev_cases)
      (auto simp: trim_slashes_def trim_left_slash_def trim_right_slash_def trim_left_when_def trim_right_when_def)
  have "abs_path (ps @ [d]) \<noteq> []" by (simp add: abs_path_def)
  moreover have "split_at CHR ''/'' (abs_path (ps @ [d]) @ ''/../'' @ x) = [] # ps @ [d, ''..'', x]"
    using assms(2) x by (simp add: split_at_append_sep split_at_abs_path split_at_no_sep)
  then have "clean_parts True (abs_path (ps @ [d]) @ ''/../'' @ x) = ps @ [x]"
    using assms(2,5) by (simp add: clean_parts_def clean_steps_id) (simp add: clean_step_def clean_seg_def)
  then have "path_clean (abs_path (ps @ [d]) @ ''/../'' @ x) = abs_path (ps @ [x])"
    using path_clean_rooted [of "abs_path (ps @ [d]) @ ''/../'' @ x"] by (simp add: abs_path_def)
  ultimately have "path_join (br_dir req) (trim_slashes (br_context req)) = abs_path (ps @ [x])"
    by (simp add: assms(1,4) trim [simplified] path_join_def)
  then show ?thesis
    using assms(6-9) by (auto simp: bd_buildArgs_def Let_def ret_apply)
qed

theorem buildArgs_context_escapes_witness:
  "\<exists>ref args. bd_buildArgs \<lparr>bd_addr = [], bd_host = ''git.local'', bd_scheme = [], bd_timeout = 0, bd_buildctl = []\<rparr> demo_fs
     \<lparr>br_dir = ''/tmp/build-1'', br_dockerfile = [], br_context = ''../other'', br_repo = ''acme/x'', br_tag = ''1'', br_args = []\<rparr> ()
     = (Ok (ref, args), ()) \<and> ''context=/tmp/other'' \<in> set args"
  using buildArgs_context_escapes [where ps = "[''tmp'']" and d = "''build-1''" and x = "''other''" and fs = demo_fs and s = "()"
      and req = "\<lparr>br_dir = ''/tmp/build-1'', br_dockerfile = [], br_context = ''../other'', br_repo = ''acme/x'', br_tag = ''1'', br_args = []\<rparr>"]
  by (simp add: abs_path_def clean_seg_def demo_fs_def)

end
