(* ===== verification/Systems.thy ===== *)
theory Systems
  imports Main
begin

text \<open>
  Transition systems, as the concurrent parts of the gateway are modelled by them: the background
  builds, the watch hub and the gateway itself.  \<open>transition_system\<close> is the contract of an invariant,
  \<open>simulation\<close> that of an abstraction; both carry over from single steps to runs.
\<close>

locale transition_system =
  fixes start :: "'s \<Rightarrow> bool" and step :: "'s \<Rightarrow> 's \<Rightarrow> bool" and inv :: "'s \<Rightarrow> bool"
  assumes start_inv: "start s \<Longrightarrow> inv s"
    and step_inv: "step s s' \<Longrightarrow> inv s \<Longrightarrow> inv s'"
begin

lemma steps_inv: "step\<^sup>*\<^sup>* s s' \<Longrightarrow> inv s \<Longrightarrow> inv s'"
  by (induction rule: rtranclp_induct) (auto intro: step_inv)

lemma reached_inv: "step\<^sup>*\<^sup>* s s' \<Longrightarrow> start s \<Longrightarrow> inv s'"
  by (blast intro: steps_inv start_inv)

text \<open>On an infinite run the invariant holds from any moment on at which it does.\<close>

lemma run_inv:
  assumes "\<And>n. step (r n) (r (Suc n))" "inv (r n)" "n \<le> k"
  shows "inv (r k)"
  using assms(3,2) by (induction rule: dec_induct) (auto intro: step_inv assms(1))

end

locale simulation =
  fixes step :: "'s \<Rightarrow> 's \<Rightarrow> bool" and abs :: "'s \<Rightarrow> 'a" and abs_step :: "'a \<Rightarrow> 'a \<Rightarrow> bool"
  assumes simulates: "step s s' \<Longrightarrow> abs_step\<^sup>*\<^sup>* (abs s) (abs s')"
begin

lemma run_simulates: "step\<^sup>*\<^sup>* s s' \<Longrightarrow> abs_step\<^sup>*\<^sup>* (abs s) (abs s')"
  by (induction rule: rtranclp_induct) (auto intro: simulates rtranclp_trans)

text \<open>What the abstract system keeps, the concrete one keeps.\<close>

lemma abstract_invariant:
  assumes "\<And>a a'. abs_step a a' \<Longrightarrow> P a \<Longrightarrow> P a'" "step\<^sup>*\<^sup>* s s'" "P (abs s)"
  shows "P (abs s')"
proof -
  have "P a \<Longrightarrow> P a'" if "abs_step\<^sup>*\<^sup>* a a'" for a a'
    using that by (induction rule: rtranclp_induct) (auto intro: assms(1))
  from this [OF run_simulates [OF assms(2)] assms(3)] show ?thesis .
qed

end

end
