(* ===== verification/Builds.thy ===== *)
theory Builds
  imports Sessions ImageBuild Systems
begin

text \<open>
  Background image builds (\<^verbatim>\<open>internal/workspacesvc/builds.go\<close>): the process-local map of builds as
  a state machine.  Each step is one critical section of the build mutex (or one atomic read of a
  handler that reads outside it), taken by the starting request, by the goroutine of a build, or
  by a cancelling request; a run is any interleaving of them.  The goroutines that are still
  working are part of the state.
\<close>

subsection \<open>The map of builds\<close>

record build =
  bl_state :: string
  bl_ref :: string
  bl_log :: string
  bl_image :: string
  bl_created :: int
  bl_cancel :: bool

text \<open>\<open>bl_cancel\<close>: the cancel function is set.\<close>

record builds =
  bw_map :: "build gomap"
  bw_live :: "string list"

definition newBuildID :: "string \<Rightarrow> string" where
  "newBuildID rnd = hex_encode rnd"

definition build_insert :: "string \<Rightarrow> string \<Rightarrow> int \<Rightarrow> builds \<Rightarrow> builds" where
  "build_insert i img now w = w\<lparr>bw_map := mput i \<lparr>bl_state = ''running'', bl_ref = [], bl_log = [],
     bl_image = img, bl_created = now, bl_cancel = False\<rparr> (bw_map w)\<rparr>"

text \<open>Setting the cancel function; then the goroutine starts.\<close>

definition build_arm :: "string \<Rightarrow> builds \<Rightarrow> builds" where
  "build_arm i w = w\<lparr>bw_map := (case mget (bw_map w) i of
       Some b \<Rightarrow> mput i (b\<lparr>bl_cancel := True\<rparr>) (bw_map w) | None \<Rightarrow> bw_map w),
     bw_live := i # bw_live w\<rparr>"

text \<open>The goroutine: a chunk of output, and its end.\<close>

definition build_chunk :: "string \<Rightarrow> string \<Rightarrow> builds \<Rightarrow> builds" where
  "build_chunk i chunk w = (case mget (bw_map w) i of
       Some b \<Rightarrow> w\<lparr>bw_map := mput i (b\<lparr>bl_log := bl_log b @ chunk\<rparr>) (bw_map w)\<rparr> | None \<Rightarrow> w)"

definition log_line :: "string \<Rightarrow> string \<Rightarrow> string" where
  "log_line log m = (if log \<noteq> [] \<and> \<not> has_suffix log [CHR 0x0A] then log @ [CHR 0x0A] else log) @ m"

definition build_finish :: "string \<Rightarrow> string + string \<Rightarrow> builds \<Rightarrow> builds" where
  "build_finish i res w = w\<lparr>bw_live := remove1 i (bw_live w),
     bw_map := (case mget (bw_map w) i of None \<Rightarrow> bw_map w
       | Some b \<Rightarrow> (case res of
           Inl e \<Rightarrow> mput i (b\<lparr>bl_state := ''failed'', bl_log := log_line (bl_log b) e\<rparr>) (bw_map w)
         | Inr ref \<Rightarrow> mput i (b\<lparr>bl_state := ''done'', bl_ref := ref\<rparr>) (bw_map w)))\<rparr>"

definition build_not_found :: "string \<Rightarrow> cerr" where
  "build_not_found i = CErr CodeNotFound (''build '' @ go_quote i @ '' not found'')"

text \<open>\<open>CancelBuild\<close>, after authentication.\<close>

definition cancel_build :: "string \<Rightarrow> builds \<Rightarrow> (cerr + bool) \<times> builds" where
  "cancel_build i w = (case mget (bw_map w) i of
      None \<Rightarrow> (Inl (build_not_found i), w)
    | Some b \<Rightarrow> if bl_state b \<noteq> ''running'' \<or> \<not> bl_cancel b then (Inr False, w)
        else (Inr True, w\<lparr>bw_map := mput i (b\<lparr>bl_cancel := False, bl_state := ''failed'',
               bl_log := log_line (bl_log b) ''build canceled by user''\<rparr>) (bw_map w)\<rparr>))"

record build_status =
  bu_state :: string
  bu_ref :: string
  bu_log :: string
  bu_offset :: int

text \<open>
  \<open>GetBuildStatus\<close>, after authentication.  It looks the build up under the mutex and then reads
  its fields outside it: the clamped offset and the slice are read when the map is \<open>w1\<close>, the
  length that is returned as the next offset when it is \<open>w2\<close>.  Without interference both are
  the map at the lookup.
\<close>

definition get_status :: "string \<Rightarrow> int \<Rightarrow> builds \<Rightarrow> builds \<Rightarrow> cerr + build_status" where
  "get_status i since w1 w2 = (case (mget (bw_map w1) i, mget (bw_map w2) i) of
      (Some b1, Some b2) \<Rightarrow>
        let n = int (length (bl_log b1)); k = (if since < 0 \<or> since > n then n else since)
        in Inr \<lparr>bu_state = bl_state b1, bu_ref = bl_ref b1, bu_log = drop (nat k) (bl_log b1),
                bu_offset = int (length (bl_log b2))\<rparr>
    | _ \<Rightarrow> Inl (build_not_found i))"

definition list_builds :: "builds \<Rightarrow> (string \<times> build) list" where
  "list_builds w = sort_by (\<lambda>(i, b). - bl_created b) (bw_map w)"

subsection \<open>Runs\<close>

inductive build_step :: "builds \<Rightarrow> builds \<Rightarrow> bool" where
  insert: "mget (bw_map w) i = None \<Longrightarrow> i \<notin> set (bw_live w) \<Longrightarrow> build_step w (build_insert i img now w)"
| arm: "mget (bw_map w) i = Some b \<Longrightarrow> bl_state b = ''running'' \<Longrightarrow> \<not> bl_cancel b \<Longrightarrow> i \<notin> set (bw_live w) \<Longrightarrow>
    build_step w (build_arm i w)"
| chunk: "i \<in> set (bw_live w) \<Longrightarrow> build_step w (build_chunk i c w)"
| finish: "i \<in> set (bw_live w) \<Longrightarrow> (\<forall>ref. res = Inr ref \<longrightarrow> ref \<noteq> []) \<Longrightarrow> build_step w (build_finish i res w)"
| cancel: "cancel_build i w = (r, w') \<Longrightarrow> build_step w w'"

inductive_cases build_stepE: "build_step w w'"

definition no_builds :: builds where
  "no_builds = \<lparr>bw_map = [], bw_live = []\<rparr>"

inductive reachable :: "builds \<Rightarrow> bool" where
  start: "reachable no_builds"
| step: "reachable w \<Longrightarrow> build_step w w' \<Longrightarrow> reachable w'"

subsection \<open>The invariant\<close>

definition builds_ok :: "builds \<Rightarrow> bool" where
  "builds_ok w = (distinct (bw_live w) \<and> (\<forall>i\<in>set (bw_live w). mget (bw_map w) i \<noteq> None) \<and>
     (\<forall>i b. mget (bw_map w) i = Some b \<longrightarrow>
        bl_state b \<in> {''running'', ''done'', ''failed''} \<and> (bl_ref b \<noteq> [] \<longleftrightarrow> bl_state b = ''done'') \<and>
        (bl_state b = ''running'' \<and> bl_cancel b \<longrightarrow> i \<in> set (bw_live w)) \<and>
        (bl_state b = ''done'' \<longrightarrow> i \<notin> set (bw_live w))))"

lemmas build_ops = build_insert_def build_arm_def build_chunk_def build_finish_def cancel_build_def

lemma build_step_ok: "build_step w w' \<Longrightarrow> builds_ok w \<Longrightarrow> builds_ok w'"
proof (induction rule: build_step.induct)
  case (finish i w res)
  then obtain b where "mget (bw_map w) i = Some b" by (auto simp: builds_ok_def)
  with finish show ?case
    by (cases res) (auto simp: builds_ok_def build_finish_def)
qed (auto simp: builds_ok_def build_ops split: option.splits if_splits)

interpretation builds: transition_system "\<lambda>w. w = no_builds" build_step builds_ok
proof
  show "builds_ok s" if "s = no_builds" for s
    using that by (simp add: builds_ok_def no_builds_def mget_def)
qed (rule build_step_ok)

lemma reachable_steps: "reachable w \<Longrightarrow> build_step\<^sup>*\<^sup>* no_builds w"
  by (induction rule: reachable.induct) (auto intro: rtranclp.rtrancl_into_rtrancl)

lemma reachable_builds: "reachable w \<Longrightarrow> builds_ok w"
  by (rule builds.reached_inv [OF reachable_steps]) simp_all

text \<open>C12: However the requests and goroutines interleave, a build is running, done or failed; it has
  an image reference exactly when it is done; a running build that can be cancelled has a
  goroutine at work, so no build is left running by a goroutine that has ended; and a build that
  is done has none.\<close>

theorem reachable_builds_ok:
  assumes "reachable w" "mget (bw_map w) i = Some b"
  shows "bl_state b \<in> {''running'', ''done'', ''failed''} \<and> (bl_ref b \<noteq> [] \<longleftrightarrow> bl_state b = ''done'') \<and>
    (bl_state b = ''running'' \<and> bl_cancel b \<longrightarrow> i \<in> set (bw_live w)) \<and>
    (bl_state b = ''done'' \<longrightarrow> i \<notin> set (bw_live w))"
  using reachable_builds [OF assms(1)] assms(2) by (auto simp: builds_ok_def)

text \<open>A run of one build up to its end.\<close>

definition demo_armed :: builds where
  "demo_armed = build_arm ''b1'' (build_insert ''b1'' ''acme/x:1'' 5 no_builds)"

definition demo_builds :: builds where
  "demo_builds = build_finish ''b1'' (Inr ''git.local/acme/x:1'') (build_chunk ''b1'' ''step 1'' demo_armed)"

lemma demo_armed_reachable: "reachable demo_armed"
proof -
  have "build_step no_builds (build_insert ''b1'' ''acme/x:1'' 5 no_builds)"
    by (rule build_step.insert) (simp_all add: no_builds_def mget_def)
  moreover have "build_step (build_insert ''b1'' ''acme/x:1'' 5 no_builds) demo_armed"
    unfolding demo_armed_def by (rule build_step.arm) (simp add: build_insert_def no_builds_def mget_def, simp_all add: build_insert_def no_builds_def)
  ultimately show ?thesis by (blast intro: reachable.intros)
qed

lemma demo_chunk: "build_step demo_armed (build_chunk ''b1'' ''step 1'' demo_armed)"
  by (rule build_step.chunk) (simp add: demo_armed_def build_ops)

lemma demo_finish: "build_step (build_chunk ''b1'' ''step 1'' demo_armed) demo_builds"
  unfolding demo_builds_def
  by (rule build_step.finish) (simp_all add: demo_armed_def build_ops no_builds_def mget_def)

lemma demo_builds_reachable: "reachable demo_builds"
  by (blast intro: reachable.step demo_armed_reachable demo_chunk demo_finish)

lemma reachable_builds_ok_witness:
  "\<exists>b. mget (bw_map demo_builds) ''b1'' = Some b \<and> bl_ref b = ''git.local/acme/x:1'' \<and> bl_state b = ''done''"
proof -
  have "mget (bw_map demo_builds) ''b1'' = Some \<lparr>bl_state = ''done'', bl_ref = ''git.local/acme/x:1'',
      bl_log = ''step 1'', bl_image = ''acme/x:1'', bl_created = 5, bl_cancel = True\<rparr>"
    by code_simp
  from reachable_builds_ok [OF demo_builds_reachable this] this show ?thesis by simp
qed

subsection \<open>The log of a build\<close>

text \<open>A step only ever appends to the log of a build.\<close>

definition extends :: "builds \<Rightarrow> builds \<Rightarrow> bool" where
  "extends w w' = (\<forall>i b. mget (bw_map w) i = Some b \<longrightarrow>
     (\<exists>b'. mget (bw_map w') i = Some b' \<and> prefix (bl_log b) (bl_log b')))"

lemma prefix_log_line: "prefix log (log_line log m)"
  by (simp add: log_line_def)

lemma build_step_extends: "build_step w w' \<Longrightarrow> extends w w'"
  by (erule build_step.cases)
     (auto simp: extends_def build_ops prefix_log_line split: option.splits if_splits sum.splits)

lemma steps_extend: "build_step\<^sup>*\<^sup>* w w' \<Longrightarrow> extends w w'"
proof (induction rule: rtranclp_induct)
  case base
  then show ?case by (auto simp: extends_def)
next
  case (step w1 w2)
  then show ?case
    using build_step_extends [OF step.hyps(2)] unfolding extends_def by (meson prefix_order.trans)
qed

text \<open>A client polls: it asks for the output since its offset, appends what it gets and continues
  from the offset it is given.\<close>

fun poll :: "string \<Rightarrow> int \<times> string \<Rightarrow> builds \<Rightarrow> int \<times> string" where
  "poll i (off, acc) w = (case get_status i off w w of
      Inl e \<Rightarrow> (off, acc) | Inr st \<Rightarrow> (bu_offset st, acc @ bu_log st))"

declare poll.simps [simp del]

lemma poll_step:
  assumes "mget (bw_map w) i = Some b" "prefix acc (bl_log b)" "off = int (length acc)"
  shows "poll i (off, acc) w = (int (length (bl_log b)), bl_log b)"
proof -
  from assms(2) obtain rest where "bl_log b = acc @ rest" by (auto simp: prefix_def)
  then show ?thesis by (simp add: poll.simps get_status_def assms(1,3) Let_def)
qed

fun timeline :: "builds list \<Rightarrow> bool" where
  "timeline (w # w' # ws) = (build_step\<^sup>*\<^sup>* w w' \<and> timeline (w' # ws))"
| "timeline ws = True"



text \<open>The status handler reads a build's fields after it has released the mutex.  When the
  goroutine appends a chunk between the read of the slice and the read of the length, the chunk
  is behind the offset the client is given: the next poll does not return it, and the log the
  client has is not the build's log.\<close>

theorem unlocked_read_loses_output:
  assumes "mget (bw_map w) i = Some b" "chunk \<noteq> []"
    and "get_status i 0 w (build_chunk i chunk w) = Inr st"
    and "get_status i (bu_offset st) (build_chunk i chunk w) (build_chunk i chunk w) = Inr st'"
  shows "bu_log st @ bu_log st' = bl_log b \<and> bu_log st @ bu_log st' \<noteq> bl_log b @ chunk"
  using assms by (auto simp: get_status_def build_chunk_def Let_def)

lemma unlocked_read_loses_output_witness:
  "\<exists>st st'. get_status ''b1'' 0 demo_builds (build_chunk ''b1'' ''x'' demo_builds) = Inr st \<and>
     get_status ''b1'' (bu_offset st) (build_chunk ''b1'' ''x'' demo_builds) (build_chunk ''b1'' ''x'' demo_builds) = Inr st' \<and>
     bu_log st @ bu_log st' = ''step 1''"
proof -
  let ?w = "build_chunk ''b1'' ''x'' demo_builds"
  have b: "mget (bw_map demo_builds) ''b1'' = Some \<lparr>bl_state = ''done'', bl_ref = ''git.local/acme/x:1'',
      bl_log = ''step 1'', bl_image = ''acme/x:1'', bl_created = 5, bl_cancel = True\<rparr>"
    by code_simp
  obtain st where st: "get_status ''b1'' 0 demo_builds ?w = Inr st"
    using b by (simp add: get_status_def build_chunk_def Let_def)
  obtain st' where st': "get_status ''b1'' (bu_offset st) ?w ?w = Inr st'"
    using b by (simp add: get_status_def build_chunk_def Let_def)
  from unlocked_read_loses_output [OF b _ st st'] st st' show ?thesis by auto
qed

text \<open>Cancelling is not final.  A running build whose cancellation has been confirmed to the
  user is failed, but if its goroutine had already pushed the image, its end makes the build done
  with that image, although the log says that the build was canceled.\<close>

theorem cancel_not_final:
  assumes "reachable w" "mget (bw_map w) i = Some b" "bl_state b = ''running''" "bl_cancel b" "ref \<noteq> []"
  shows "\<exists>w1 w2 b'. cancel_build i w = (Inr True, w1) \<and> build_step w w1 \<and> build_step w1 w2 \<and>
    mget (bw_map w2) i = Some b' \<and> bl_state b' = ''done'' \<and> bl_ref b' = ref \<and>
    has_suffix (bl_log b') ''build canceled by user''"
proof -
  have live: "i \<in> set (bw_live w)"
    using reachable_builds [OF assms(1)] assms(2-4) by (auto simp: builds_ok_def)
  obtain w1 where w1: "cancel_build i w = (Inr True, w1)"
    using assms by (simp add: cancel_build_def)
  then have "bw_live w1 = bw_live w"
    using assms by (auto simp: cancel_build_def)
  then have "build_step w1 (build_finish i (Inr ref) w1)"
    using live assms(5) by (intro build_step.finish) auto
  moreover have "\<exists>b'. mget (bw_map (build_finish i (Inr ref) w1)) i = Some b' \<and> bl_state b' = ''done'' \<and>
      bl_ref b' = ref \<and> has_suffix (bl_log b') ''build canceled by user''"
    using w1 assms by (auto simp: cancel_build_def build_finish_def log_line_def)
  ultimately show ?thesis using w1 build_step.cancel by blast
qed

lemma cancel_not_final_witness:
  "\<exists>w1 w2 b'. cancel_build ''b1'' demo_armed = (Inr True, w1) \<and> build_step demo_armed w1 \<and> build_step w1 w2 \<and>
    mget (bw_map w2) ''b1'' = Some b' \<and> bl_state b' = ''done'' \<and> bl_ref b' = ''git.local/acme/x:1'' \<and>
    has_suffix (bl_log b') ''build canceled by user''"
proof -
  have "mget (bw_map demo_armed) ''b1'' = Some \<lparr>bl_state = ''running'', bl_ref = [], bl_log = [],
      bl_image = ''acme/x:1'', bl_created = 5, bl_cancel = True\<rparr>"
    by code_simp
  from cancel_not_final [OF demo_armed_reachable this] show ?thesis by simp
qed

subsection \<open>The handlers\<close>

record build_rpc =
  bq_org :: string
  bq_repo :: string
  bq_ref :: string
  bq_image :: string
  bq_tag :: string
  bq_dockerfile :: string
  bq_context :: string
  bq_args :: "string gomap"

text \<open>What the handlers use besides the service: whether a builder is configured, the deployment's
  runtime settings, the file system, and what the gzip and tar readers make of an archive.\<close>

record 'x build_env =
  be_builder :: bool
  be_runtime :: settings
  be_fs :: "'x build_fs"
  be_tar :: "string \<Rightarrow> tarball"

definition lift_fs :: "'x build_fs \<Rightarrow> 'x world build_fs" where
  "lift_fs fs =
    \<lparr>bf_mktemp = (\<lambda>p. quiet (bf_mktemp fs p)), bf_rmall = (\<lambda>d w. w\<lparr>ext := bf_rmall fs d (ext w)\<rparr>),
     bf_mkdirs = (\<lambda>p. quiet (bf_mkdirs fs p)), bf_open = (\<lambda>p m. quiet (bf_open fs p m)),
     bf_write = (\<lambda>p d. quiet (bf_write fs p d)), bf_putfile = (\<lambda>p d. quiet (bf_putfile fs p d)),
     bf_stat = (\<lambda>p w. bf_stat fs p (ext w)), bf_readfile = (\<lambda>p w. bf_readfile fs p (ext w))\<rparr>"

text \<open>\<^verbatim>\<open>imageNameRe\<close>: \<^verbatim>\<open>^[a-z0-9][a-z0-9._-]*$\<close>\<close>

definition matches_imageNameRe :: "string \<Rightarrow> bool" where
  "matches_imageNameRe s = (case s of [] \<Rightarrow> False
     | c # t \<Rightarrow> dns_char c \<and> list_all (\<lambda>c. dns_char c \<or> c \<in> {CHR ''.'', CHR ''_'', CHR ''-''}) t)"

definition svc_buildArgs :: "settings \<Rightarrow> string gomap \<Rightarrow> string gomap" where
  "svc_buildArgs rt caller = mputs caller (mputs (PackageEnv (PackageUpstream rt)) [])"

definition prepareBuild :: "'x service \<Rightarrow> 'x build_env \<Rightarrow> build_rpc \<Rightarrow> ('x, build_req) handler" where
  "prepareBuild S E m =
    (let ref = (if bq_ref m = [] then MainBranch else bq_ref m) in
     if \<not> ValidComponent (bq_org m) \<or> \<not> ValidComponent (bq_repo m)
     then throw (bad_request ''org/repo must be simple names'')
     else if \<not> ValidComponent ref then throw (bad_request ''ref must be a simple name'')
     else if \<not> matches_imageNameRe (bq_image m) then throw (bad_request ''image must be a single simple name'')
     else if \<not> ValidComponent (bq_tag m) then throw (bad_request ''tag must be a simple name'')
     else if \<not> be_builder E then throw (CErr CodeUnavailable ''image builder not configured'')
     else bnd (map_err (\<lambda>e. internal (''fetch repo archive: '' @ gerr_text e))
                 (git_ArchiveTarGz (git S) (bq_org m) (bq_repo m) ref)) (\<lambda>archive.
          bnd (map_err bad_request (Extract (lift_fs (be_fs E)) (be_tar E archive) 0)) (\<lambda>dir.
          ret \<lparr>br_dir = dir, br_dockerfile = bq_dockerfile m, br_context = bq_context m,
               br_repo = bq_org m @ ''/'' @ bq_image m, br_tag = bq_tag m,
               br_args = svc_buildArgs (be_runtime E) (bq_args m)\<rparr>)))"

text \<open>A handler beside the map of builds.  \<open>rnd\<close> are the random bytes of the new id.\<close>

definition beside_builds :: "('x, 'a) handler \<Rightarrow> ('x world \<times> builds, cerr, 'a) act" where
  "beside_builds m = (\<lambda>(w, b). case m w of (r, w') \<Rightarrow> (r, (w', b)))"

definition BuildSandboxImage ::
  "'x service \<Rightarrow> 'x build_env \<Rightarrow> headers \<Rightarrow> build_rpc \<Rightarrow> string \<Rightarrow> int \<Rightarrow> ('x world \<times> builds, cerr, string \<times> build_req) act" where
  "BuildSandboxImage S E h m rnd now =
     bnd (beside_builds (sandboxAuth S h)) (\<lambda>_.
     bnd (beside_builds (prepareBuild S E m)) (\<lambda>breq.
     let i = newBuildID rnd in
     bnd (modify (\<lambda>(w, b). (w, build_arm i (build_insert i (br_repo breq @ '':'' @ br_tag breq) now b)))) (\<lambda>_.
     ret (i, breq))))"

definition GetBuildStatus :: "'x service \<Rightarrow> headers \<Rightarrow> string \<Rightarrow> int \<Rightarrow> ('x world \<times> builds, cerr, build_status) act" where
  "GetBuildStatus S h i since =
     bnd (beside_builds (sandboxAuth S h)) (\<lambda>_. of_sum (\<lambda>(w, b). (get_status i since b b, (w, b))))"

definition ListBuilds :: "'x service \<Rightarrow> headers \<Rightarrow> ('x world \<times> builds, cerr, (string \<times> build) list) act" where
  "ListBuilds S h = bnd (beside_builds (sandboxAuth S h)) (\<lambda>_. pure_of (\<lambda>(w, b). list_builds b))"

definition CancelBuild :: "'x service \<Rightarrow> headers \<Rightarrow> string \<Rightarrow> ('x world \<times> builds, cerr, bool) act" where
  "CancelBuild S h i =
     bnd (beside_builds (sandboxAuth S h)) (\<lambda>_. of_sum (\<lambda>(w, b). case cancel_build i b of (r, b') \<Rightarrow> (r, (w, b'))))"

subsection \<open>What a build does not look at\<close>

text \<open>An action that neither reads nor changes the ownership store.\<close>

definition oblivious :: "('x world, 'e, 'a) act \<Rightarrow> bool" where
  "oblivious m = (\<forall>w d. m (w\<lparr>db := d\<rparr>) = (case m w of (r, w') \<Rightarrow> (r, w'\<lparr>db := d\<rparr>)))"

named_theorems oblivious

lemma obliviousD: "oblivious m \<Longrightarrow> m (w\<lparr>db := d\<rparr>) = (fst (m w), (snd (m w))\<lparr>db := d\<rparr>)"
  by (simp add: oblivious_def split: prod.split)

lemma obliviousI: "(\<And>w d. m (w\<lparr>db := d\<rparr>) = (fst (m w), (snd (m w))\<lparr>db := d\<rparr>)) \<Longrightarrow> oblivious m"
  by (simp add: oblivious_def split: prod.split)

lemma oblivious_ret [oblivious]: "oblivious (ret x)" by (simp add: oblivious_def act)
lemma oblivious_throw [oblivious]: "oblivious (throw x)" by (simp add: oblivious_def act)

lemma oblivious_bnd [oblivious]:
  assumes "oblivious m" "\<And>x. oblivious (k x)"
  shows "oblivious (bnd m k)"
  unfolding oblivious_def bnd_def
  by (auto simp: obliviousD [OF assms(1)] obliviousD [OF assms(2)] split: prod.splits res.splits)

lemma oblivious_map_err [oblivious]: "oblivious m \<Longrightarrow> oblivious (map_err f m)"
  by (rule obliviousI) (auto simp: map_err_def obliviousD split: prod.splits res.splits)

lemma oblivious_logged [oblivious]: "oblivious (of_sum (logged c f))"
  by (auto simp: oblivious_def of_sum_def logged_def split: prod.splits sum.splits)
lemma oblivious_quiet [oblivious]: "oblivious (of_sum (quiet f))"
  by (auto simp: oblivious_def of_sum_def quiet_def split: prod.splits sum.splits)
lemma oblivious_agent_call [oblivious]: "oblivious (agent_call c f)"
  by (simp add: agent_call_def oblivious)

lemma oblivious_cleaning [oblivious]: "oblivious m \<Longrightarrow> oblivious (cleaning (lift_fs fs) d m)"
  by (rule obliviousI) (auto simp: cleaning_def lift_fs_def obliviousD split: prod.splits res.splits)

lemma oblivious_extract_entry [oblivious]: "oblivious (extract_entry (lift_fs fs) d tp mx n e)"
  by (auto simp: extract_entry_def lift_fs_def Let_def intro!: oblivious split: tar_type.split option.split)

lemma oblivious_extract_loop [oblivious]: "oblivious (extract_loop (lift_fs fs) d tp mx n es err)"
  by (induction es arbitrary: n) (auto intro!: oblivious split: option.split)

lemma oblivious_Extract [oblivious]: "oblivious (Extract (lift_fs fs) t mx)"
proof -
  have "oblivious (of_sum (bf_mktemp (lift_fs fs) p))" for p
    by (simp add: lift_fs_def oblivious)
  then show ?thesis
    by (auto simp: Extract_def intro!: oblivious split: sum.split)
qed

lemma oblivious_archive [oblivious]: "oblivious (git_ArchiveTarGz (git S) org repo r)"
  by (auto simp: git_ArchiveTarGz_def fetch_def lift_git_def Let_def intro!: oblivious)

lemma oblivious_auth [oblivious]: "oblivious (sandboxAuth S h)"
  by (auto simp: sandboxAuth_def resolveTenant_def intro!: oblivious split: option.split)

lemma oblivious_prepareBuild [oblivious]: "oblivious (prepareBuild S E m)"
  by (auto simp: prepareBuild_def Let_def intro!: oblivious)

text \<open>Building an image asks no one who owns the repository.  Whatever the ownership store holds,
  the request is answered the same way and the same build is started: any authenticated tenant
  has the archive of any repository built, and the result pushed under that repository's
  organisation.\<close>

theorem BuildSandboxImage_ignores_ownership:
  "fst (BuildSandboxImage S E h m rnd now (w\<lparr>db := d\<rparr>, b)) = fst (BuildSandboxImage S E h m rnd now (w, b)) \<and>
   snd (snd (BuildSandboxImage S E h m rnd now (w\<lparr>db := d\<rparr>, b))) = snd (snd (BuildSandboxImage S E h m rnd now (w, b)))"
proof -
  have "oblivious (bnd (sandboxAuth S h) (\<lambda>_. prepareBuild S E m))" by (intro oblivious)
  then have "fst (bnd (sandboxAuth S h) (\<lambda>_. prepareBuild S E m) (w\<lparr>db := d\<rparr>)) =
      fst (bnd (sandboxAuth S h) (\<lambda>_. prepareBuild S E m) w)"
    by (simp add: obliviousD)
  moreover have "BuildSandboxImage S E h m rnd now (v, b) =
      bnd (beside_builds (bnd (sandboxAuth S h) (\<lambda>_. prepareBuild S E m))) (\<lambda>breq.
      let i = newBuildID rnd in
      bnd (modify (\<lambda>(w, b). (w, build_arm i (build_insert i (br_repo breq @ '':'' @ br_tag breq) now b)))) (\<lambda>_.
      ret (i, breq))) (v, b)" for v
    by (auto simp: BuildSandboxImage_def beside_builds_def bnd_def split: prod.splits res.splits)
  ultimately show ?thesis
    by (auto simp: beside_builds_def bnd_cases bnd_modify Let_def act split: prod.splits res.splits)
qed

end
