(* ===== verification/ServiceSpec.thy ===== *)
theory ServiceSpec
  imports Kube
begin

text \<open>
  Package \<^verbatim>\<open>internal/servicesmgr\<close>, its data and pure parts: the request for a service, the
  Kubernetes objects it becomes and is read back from, probes, resources, rollouts, ports, image
  names and the pod diagnostics.  \<^verbatim>\<open>resource.Quantity\<close> and \<^verbatim>\<open>intstr\<close> belong to the
  Kubernetes libraries: which text is a quantity, its canonical form, and the reading and printing
  of int-or-percent values are parameters.
\<close>

definition LabelManagedSvc :: string where "LabelManagedSvc = ''workspace/service''"
definition LabelNameSvc :: string where "LabelNameSvc = ''workspace/service-name''"
definition AnnoImageSvc :: string where "AnnoImageSvc = ''workspace/service-image''"
definition AnnoCreatorSvc :: string where "AnnoCreatorSvc = ''workspace/service-creator''"
definition AnnoSessionSvc :: string where "AnnoSessionSvc = ''workspace/service-session''"
definition AnnoNamespace :: string where "AnnoNamespace = ''workspace/service-namespace''"
definition AnnoReplicasBeforePause :: string where "AnnoReplicasBeforePause = ''workspace/service-replicas-before-pause''"
definition AnnoPrimary :: string where "AnnoPrimary = ''workspace/service-primary''"
definition LabelPVC :: string where "LabelPVC = ''workspace/pvc''"
definition LabelPVCName :: string where "LabelPVCName = ''workspace/pvc-name''"
definition AnnoPVCCreator :: string where "AnnoPVCCreator = ''workspace/pvc-creator''"
definition AnnoPVCNamespace :: string where "AnnoPVCNamespace = ''workspace/pvc-namespace''"

lemmas svc_keys = LabelManagedSvc_def LabelNameSvc_def AnnoImageSvc_def AnnoCreatorSvc_def AnnoSessionSvc_def
  AnnoNamespace_def AnnoReplicasBeforePause_def AnnoPrimary_def LabelPVC_def LabelPVCName_def
  AnnoPVCCreator_def AnnoPVCNamespace_def

subsection \<open>The request\<close>

record port =
  po_suffix :: string
  po_port :: int
  po_proto :: string
  po_target :: int

definition PresetPorts :: "string \<Rightarrow> (int \<times> string) option" where
  "PresetPorts preset =
    (if preset = ''tcp80'' then Some (80, ''tcp'') else if preset = ''tcp443'' then Some (443, ''tcp'')
     else if preset = ''udp443'' then Some (443, ''udp'') else None)"

record probe =
  pb_path :: string
  pb_http :: int
  pb_tcp :: int
  pb_exec :: "string list"
  pb_delay :: int
  pb_period :: int
  pb_timeout :: int
  pb_failure :: int
  pb_success :: int

definition no_probe :: probe where
  "no_probe = \<lparr>pb_path = [], pb_http = 0, pb_tcp = 0, pb_exec = [], pb_delay = 0, pb_period = 0,
     pb_timeout = 0, pb_failure = 0, pb_success = 0\<rparr>"

definition probe_empty :: "probe \<Rightarrow> bool" where
  "probe_empty p = (pb_http p = 0 \<and> pb_tcp p = 0 \<and> length (pb_exec p) = 0)"

record resources =
  re_cpu :: string
  re_memory :: string
  re_cpu_limit :: string
  re_memory_limit :: string

definition resources_empty :: "resources \<Rightarrow> bool" where
  "resources_empty r = (re_cpu r = [] \<and> re_memory r = [] \<and> re_cpu_limit r = [] \<and> re_memory_limit r = [])"

record env_ref =
  er_name :: string
  er_cm :: string
  er_cm_key :: string
  er_secret :: string
  er_secret_key :: string

record env_from_req =
  ef_cm :: string
  ef_secret :: string

record config_mount =
  cm_config :: string
  cm_secret :: string
  cm_path :: string
  cm_items :: "(string \<times> string) list"

record sidecar =
  sd_name :: string
  sd_image :: string
  sd_command :: "string list"
  sd_env :: "string gomap"
  sd_cpu :: string
  sd_memory :: string
  sd_init :: bool

record toleration =
  tl_key :: string
  tl_operator :: string
  tl_value :: string
  tl_effect :: string

record rollout =
  ro_surge :: string
  ro_unavailable :: string

record svc_volume_mount =
  vn_pvc :: string
  vn_path :: string
  vn_ro :: bool
  vn_sub :: string

record svc_spec =
  ss_name :: string
  ss_image :: string
  ss_command :: "string list"
  ss_env :: "string gomap"
  ss_cpu :: string
  ss_memory :: string
  ss_replicas :: int
  ss_container_port :: int
  ss_creator :: string
  ss_session :: string
  ss_namespace :: string
  ss_ports :: "port list"
  ss_runtime :: rendered
  ss_volumes :: "svc_volume_mount list"
  ss_resources :: resources
  ss_readiness :: probe
  ss_liveness :: probe
  ss_startup :: probe
  ss_rollout :: rollout
  ss_env_refs :: "env_ref list"
  ss_env_from :: "env_from_req list"
  ss_config_mounts :: "config_mount list"
  ss_sidecars :: "sidecar list"
  ss_nodes :: "string gomap"
  ss_tolerations :: "toleration list"

subsection \<open>The Kubernetes objects\<close>

datatype env_source = EnvValue string | EnvConfigKey string string | EnvSecretKey string string

datatype env_from = EnvFromConfigMap string | EnvFromSecret string

datatype probe_handler = HTTPGet string int | TCPSocket int | ExecAction "string list" | NoHandler

record kprobe =
  kp_handler :: probe_handler
  kp_delay :: int
  kp_period :: int
  kp_timeout :: int
  kp_failure :: int
  kp_success :: int

datatype svc_source = SrcPVC string bool | SrcConfigMap string "(string \<times> string) list"
  | SrcSecret string "(string \<times> string) list" | SrcHostPath string string | SrcOther string

record svc_volume =
  sl_name :: string
  sl_src :: svc_source

record svc_container =
  cn_name :: string
  cn_image :: string
  cn_command :: "string list"
  cn_env :: "(string \<times> env_source) list"
  cn_env_from :: "env_from list"
  cn_ports :: "(string \<times> int) list"
  cn_resources :: resource_reqs
  cn_security :: "security_context option"
  cn_readiness :: "kprobe option"
  cn_liveness :: "kprobe option"
  cn_startup :: "kprobe option"
  cn_mounts :: "vmount list"

record svc_pod_spec =
  pp_containers :: "svc_container list"
  pp_init :: "svc_container list"
  pp_volumes :: "svc_volume list"
  pp_tolerations :: "toleration list"
  pp_nodes :: "string gomap"
  pp_class :: "string option"
  pp_pull_secrets :: "string list"

record pod_template =
  tm_labels :: "string gomap"
  tm_annotations :: "string gomap"
  tm_spec :: svc_pod_spec

datatype int_or_string = IntVal int | StrVal string

record rolling =
  rl_surge :: "int_or_string option"
  rl_unavailable :: "int_or_string option"

record deployment =
  d_meta :: kmeta
  d_version :: string
  d_created :: int
  d_replicas :: "int option"
  d_selector :: "string gomap"
  d_template :: pod_template
  d_rolling :: "rolling option"
  d_ready :: int
  d_unavailable :: int

record service_port =
  kn_name :: string
  kn_port :: int
  kn_udp :: bool
  kn_target :: int

record service_obj =
  so_meta :: kmeta
  so_version :: string
  so_selector :: "string gomap"
  so_ports :: "service_port list"
  so_cluster_ip :: string

record claim =
  pc_meta :: kmeta
  pc_storage :: "string option"
  pc_class :: "string option"
  pc_phase :: string
  pc_created :: int

record pod_condition =
  pk_type :: string
  pk_status :: string
  pk_reason :: string
  pk_message :: string

record svc_pod =
  sq_labels :: "string gomap"
  sq_created :: int
  sq_phase :: string
  sq_statuses :: "cstatus list"
  sq_conditions :: "pod_condition list"

record replica_set =
  rs_meta :: kmeta
  rs_replicas :: "int option"
  rs_template :: pod_template
  rs_created :: int

text \<open>A configuration object: a ConfigMap or an opaque Secret.\<close>

record config_obj =
  co_meta :: kmeta
  co_data :: "string gomap"
  co_created :: int

subsection \<open>Image names\<close>

definition is_host_segment :: "string \<Rightarrow> bool" where
  "is_host_segment first = (CHR ''.'' \<in> set first \<or> CHR '':'' \<in> set first \<or> first = ''localhost'')"

definition trim_right_slashes :: "string \<Rightarrow> string" where
  "trim_right_slashes = trim_right_when (\<lambda>c. c = CHR ''/'')"

definition MirrorDockerHubImage :: "string \<Rightarrow> string \<Rightarrow> string" where
  "MirrorDockerHubImage image0 host0 =
    (let img = trim_space image0; host = trim_right_slashes (trim_space host0) in
     if img = [] \<or> host = [] then img
     else let mirrored = (\<lambda>repo. host @ ''/'' @ (if contains repo ''/'' then repo else ''library/'' @ repo))
       in case index_byte CHR ''/'' img of
            None \<Rightarrow> mirrored img
          | Some i \<Rightarrow>
              if is_host_segment (take i img)
              then (if take i img \<in> {''docker.io'', ''index.docker.io'', ''registry-1.docker.io''}
                    then mirrored (drop (Suc i) img) else img)
              else mirrored img)"

subsection \<open>Names and ports\<close>

definition siblingName :: "string \<Rightarrow> string \<Rightarrow> string" where
  "siblingName name sfx = (if sfx = [] then name else name @ ''-'' @ sfx)"

definition corePorts :: "port list \<Rightarrow> service_port list" where
  "corePorts ports = map (\<lambda>p. \<lparr>kn_name = po_proto p @ ''-'' @ int_str (po_port p), kn_port = po_port p,
     kn_udp = (po_proto p = ''udp''), kn_target = po_target p\<rparr>) ports"

definition portsFromService :: "service_obj \<Rightarrow> string \<Rightarrow> port list" where
  "portsFromService svc name =
    (let sfx = (if om_name (so_meta svc) \<noteq> name
                   then trim_prefix (om_name (so_meta svc)) (name @ ''-'') else [])
     in map (\<lambda>p. \<lparr>po_suffix = sfx, po_port = kn_port p,
          po_proto = (if kn_udp p then ''udp'' else ''tcp''), po_target = kn_target p\<rparr>) (so_ports svc))"

text \<open>The validated ports of a request, and their groups: the suffixes in order of appearance.\<close>

fun check_ports :: "int \<Rightarrow> nat \<Rightarrow> port list \<Rightarrow> string + port list" where
  "check_ports cport i [] = Inr []"
| "check_ports cport i (p # ps) =
    (let proto = (if po_proto p = [] then ''tcp'' else po_proto p) in
     if proto \<noteq> ''tcp'' \<and> proto \<noteq> ''udp'' then Inl (''port '' @ nat_str i @ '': protocol must be tcp|udp'')
     else if po_port p \<noteq> 80 \<and> po_port p \<noteq> 443
     then Inl (''port '' @ nat_str i @ '': service port must be 80 or 443'')
     else (case check_ports cport (Suc i) ps of Inl e \<Rightarrow> Inl e
       | Inr out \<Rightarrow> Inr (p\<lparr>po_proto := proto, po_target := (if po_target p = 0 then cport else po_target p)\<rparr> # out)))"

definition resolve_ports :: "svc_spec \<Rightarrow> string + port list" where
  "resolve_ports s =
    (let cport = (if ss_container_port s = 0 then 8080 else ss_container_port s);
         ports = (if ss_ports s = []
                  then [\<lparr>po_suffix = [], po_port = 80, po_proto = ''tcp'', po_target = cport\<rparr>] else ss_ports s)
     in check_ports cport 0 ports)"

definition port_order :: "port list \<Rightarrow> string list" where
  "port_order ports = rev (remdups (rev (map po_suffix ports)))"

definition port_group :: "port list \<Rightarrow> string \<Rightarrow> port list" where
  "port_group ports sfx = filter (\<lambda>p. po_suffix p = sfx) ports"

definition container_ports :: "port list \<Rightarrow> (string \<times> int) list" where
  "container_ports ports = map (\<lambda>t. (''p'' @ int_str t, t)) (rev (remdups (rev (map po_target ports))))"

text \<open>\<^verbatim>\<open>strings.NewReplacer\<close> maps the four separators to a dash.\<close>

definition slug_char :: "char \<Rightarrow> char" where
  "slug_char c = (if c \<in> {CHR '':'', CHR ''/'', CHR ''_'', CHR ''.''} then CHR ''-'' else c)"

definition trim_dashes :: "string \<Rightarrow> string" where
  "trim_dashes s = trim_right_when (\<lambda>c. c = CHR ''-'') (trim_left_when (\<lambda>c. c = CHR ''-'') s)"

definition ServiceName :: "string \<Rightarrow> string" where
  "ServiceName session =
    (let slug = trim_dashes (map slug_char (to_lower session));
         slug = (if length slug > 40 then take 40 slug else slug)
     in if slug = [] then ''app'' else slug)"

subsection \<open>Probes, resources, rollouts\<close>

definition buildProbe :: "probe \<Rightarrow> kprobe option" where
  "buildProbe p = (if probe_empty p then None else
     let handler = (if pb_http p > 0 then HTTPGet (if pb_path p = [] then ''/'' else pb_path p) (pb_http p)
                    else if pb_tcp p > 0 then TCPSocket (pb_tcp p)
                    else if length (pb_exec p) > 0 then ExecAction (pb_exec p) else NoHandler);
         pos = (\<lambda>n. if n > 0 then n else 0)
     in Some \<lparr>kp_handler = handler, kp_delay = pos (pb_delay p), kp_period = pos (pb_period p),
              kp_timeout = pos (pb_timeout p), kp_failure = pos (pb_failure p), kp_success = pos (pb_success p)\<rparr>)"

definition toProbe :: "kprobe option \<Rightarrow> probe" where
  "toProbe kp = (case kp of None \<Rightarrow> no_probe
    | Some k \<Rightarrow>
        let out = no_probe\<lparr>pb_delay := kp_delay k, pb_period := kp_period k, pb_timeout := kp_timeout k,
                           pb_failure := kp_failure k, pb_success := kp_success k\<rparr>
        in case kp_handler k of
             HTTPGet path n \<Rightarrow> out\<lparr>pb_path := path, pb_http := n\<rparr>
           | TCPSocket n \<Rightarrow> out\<lparr>pb_tcp := n\<rparr>
           | ExecAction cmd \<Rightarrow> out\<lparr>pb_exec := cmd\<rparr>
           | NoHandler \<Rightarrow> out)"

text \<open>The requirements the texts of a request become; every non-empty text is parsed by
  \<^verbatim>\<open>resource.MustParse\<close>, so \<open>None\<close> is its panic.\<close>

definition quantities :: "(string \<Rightarrow> bool) \<Rightarrow> (string \<times> string) list \<Rightarrow> string gomap option" where
  "quantities parses kvs = (let given = filter (\<lambda>(k, v). v \<noteq> []) kvs
     in if list_all (\<lambda>(k, v). parses v) given then Some given else None)"

definition buildResources :: "(string \<Rightarrow> bool) \<Rightarrow> resources \<Rightarrow> resource_reqs option" where
  "buildResources parses r =
    (case quantities parses [(''cpu'', re_cpu r), (''memory'', re_memory r)] of None \<Rightarrow> None
     | Some req \<Rightarrow> (case quantities parses [(''cpu'', re_cpu_limit r), (''memory'', re_memory_limit r)] of None \<Rightarrow> None
       | Some lim \<Rightarrow> Some \<lparr>rr_requests = req, rr_limits = lim\<rparr>))"

definition quantityString :: "(string \<Rightarrow> string) \<Rightarrow> string gomap \<Rightarrow> string \<Rightarrow> string" where
  "quantityString canon rl name = (case mget rl name of Some q \<Rightarrow> canon q | None \<Rightarrow> [])"

definition buildRollout :: "(string \<Rightarrow> int_or_string) \<Rightarrow> rollout \<Rightarrow> rolling option" where
  "buildRollout parse r = (if ro_surge r = [] \<and> ro_unavailable r = [] then None
     else Some \<lparr>rl_surge = (if ro_surge r \<noteq> [] then Some (parse (ro_surge r)) else None),
                rl_unavailable = (if ro_unavailable r \<noteq> [] then Some (parse (ro_unavailable r)) else None)\<rparr>)"

subsection \<open>Pod diagnostics\<close>

record diag =
  dg_phase :: string
  dg_restarts :: int
  dg_message :: string

definition no_diag :: diag where "no_diag = \<lparr>dg_phase = [], dg_restarts = 0, dg_message = []\<rparr>"

text \<open>The loop over container statuses in \<open>podDiagnostics\<close>, on \<^verbatim>\<open>restarts\<close> and \<^verbatim>\<open>message\<close>.\<close>

definition diag_step :: "int \<times> string \<Rightarrow> cstatus \<Rightarrow> int \<times> string" where
  "diag_step st cs = (case st of (restarts, message) \<Rightarrow>
     let m1 = (case cs_waiting cs of Some (r, t) \<Rightarrow>
                 if r \<noteq> [] \<and> message = [] then (if t \<noteq> [] then r @ '': '' @ t else r) else message
               | None \<Rightarrow> message);
         m2 = (case cs_terminated cs of Some (r, t) \<Rightarrow>
                 if r \<noteq> [] \<and> r \<noteq> ''Completed'' \<and> m1 = [] then r else m1
               | None \<Rightarrow> m1)
     in (restarts + cs_restarts cs, m2))"

definition newest_pod :: "svc_pod \<Rightarrow> svc_pod list \<Rightarrow> svc_pod" where
  "newest_pod p ps = foldl (\<lambda>best q. if sq_created q > sq_created best then q else best) p ps"

definition podDiagnostics :: "kerr + svc_pod list \<Rightarrow> diag" where
  "podDiagnostics pods = (case pods of Inl e \<Rightarrow> no_diag | Inr [] \<Rightarrow> no_diag
    | Inr (p # ps) \<Rightarrow> let pod = newest_pod p (p # ps) in
        (case foldl diag_step (0, []) (sq_statuses pod) of (restarts, message) \<Rightarrow>
           \<lparr>dg_phase = sq_phase pod, dg_restarts = restarts, dg_message = message\<rparr>))"

definition diagFromPod :: "svc_pod \<Rightarrow> diag" where
  "diagFromPod pod = foldl (\<lambda>d cs.
     let d = d\<lparr>dg_restarts := dg_restarts d + cs_restarts cs\<rparr>;
         d = (case cs_waiting cs of Some (r, t) \<Rightarrow>
                if dg_message d = [] \<and> r \<noteq> []
                then d\<lparr>dg_message := (if t \<noteq> [] then r @ '': '' @ t else r)\<rparr> else d
              | None \<Rightarrow> d)
     in case cs_terminated cs of Some (r, t) \<Rightarrow>
          if dg_message d = [] \<and> r \<noteq> [] \<and> r \<noteq> ''Completed'' then d\<lparr>dg_message := r\<rparr> else d
        | None \<Rightarrow> d)
     \<lparr>dg_phase = sq_phase pod, dg_restarts = 0, dg_message = []\<rparr> (sq_statuses pod)"

text \<open>The newest pod of each service, in one pass over all pods of the namespace.\<close>

fun newest_by_app :: "svc_pod list \<Rightarrow> svc_pod gomap \<Rightarrow> svc_pod gomap" where
  "newest_by_app [] m = m"
| "newest_by_app (p # ps) m =
    (let name = mstr (sq_labels p) ''app'' in
     if name = [] then newest_by_app ps m
     else case mget m name of
         None \<Rightarrow> newest_by_app ps (mput name p m)
       | Some cur \<Rightarrow> newest_by_app ps (if sq_created p > sq_created cur then mput name p m else m))"

definition podDiagnosticsByService :: "kerr + svc_pod list \<Rightarrow> diag gomap" where
  "podDiagnosticsByService pods = (case pods of Inl e \<Rightarrow> []
    | Inr ps \<Rightarrow> map (\<lambda>(name, p). (name, diagFromPod p)) (newest_by_app ps []))"

end
