(* ===== verification/ServicesMgr.thy ===== *)
theory ServicesMgr
  imports ServiceSpec
begin

text \<open>
  Package \<^verbatim>\<open>internal/servicesmgr\<close>, its operations on the cluster: deploying and reading a
  service, pausing, resuming, scaling and deleting it.  Theory \<open>ServiceObjects\<close> has the others.
  The Kubernetes API is a parameter, one record of calls per kind of object; so are the clock and
  the YAML reader and printer.
\<close>

record ('o, 's) kstore =
  ks_api :: "('o, 's) kapi"
  ks_put :: "string \<Rightarrow> 'o \<Rightarrow> 's \<Rightarrow> (kerr + 'o) \<times> 's"

record 's svc_client =
  vc_deps :: "(deployment, 's) kstore"
  vc_svcs :: "(service_obj, 's) kstore"
  vc_pvcs :: "(claim, 's) kstore"
  vc_cms :: "(config_obj, 's) kstore"
  vc_secrets :: "(config_obj, 's) kstore"
  vc_rss :: "(replica_set, 's) kstore"
  vc_pods :: "string \<Rightarrow> (string \<times> string) list \<Rightarrow> 's \<Rightarrow> (kerr + svc_pod list) \<times> 's"
  vc_ns :: string
  vc_registry :: string
  vc_cpu_req :: string
  vc_cpu_lim :: string
  vc_mem_req :: string
  vc_mem_lim :: string
  vc_quantity :: "string \<Rightarrow> bool"
  vc_canon :: "string \<Rightarrow> string"
  vc_intparse :: "string \<Rightarrow> int_or_string"
  vc_intprint :: "int_or_string \<Rightarrow> string"
  vc_now :: "'s \<Rightarrow> int \<times> 's"
  vc_sleep :: "int \<Rightarrow> 's \<Rightarrow> string option \<times> 's"

definition NewServicesClient ::
  "'s svc_client \<Rightarrow> string \<Rightarrow> string \<Rightarrow> string \<times> string \<times> string \<times> string \<Rightarrow> 's svc_client" where
  "NewServicesClient cs ns host lims = (case lims of (creq, clim, mreq, mlim) \<Rightarrow>
     cs\<lparr>vc_ns := (if ns = [] then ''worker'' else ns), vc_registry := host,
        vc_cpu_req := creq, vc_cpu_lim := clim, vc_mem_req := mreq, vc_mem_lim := mlim\<rparr>)"

subsection \<open>Calls\<close>

definition kcreate where "kcreate st ns ob = of_sum (k_create (ks_api st) ns ob)"
definition kread where "kread st ns n = of_sum (k_get (ks_api st) ns n)"
definition kremove where "kremove st ns n = of_sum (k_delete (ks_api st) ns n)"
definition kfind where "kfind st ns sel = of_sum (k_list (ks_api st) ns sel)"
definition kupdate where "kupdate st ns ob = of_sum (ks_put st ns ob)"

lemmas kcalls = kcreate_def kread_def kremove_def kfind_def kupdate_def

text \<open>\<^verbatim>\<open>fmt.Errorf("what: %w", err)\<close> keeps the kind of the error.\<close>

fun kwrap :: "string \<Rightarrow> kerr \<Rightarrow> kerr" where
  "kwrap p (KNotFound m) = KNotFound (p @ '': '' @ m)"
| "kwrap p (KAlreadyExists m) = KAlreadyExists (p @ '': '' @ m)"
| "kwrap p (KConflict m) = KConflict (p @ '': '' @ m)"
| "kwrap p (KOther m) = KOther (p @ '': '' @ m)"

definition from_sum :: "string + 'a \<Rightarrow> ('s, kerr, 'a) act" where
  "from_sum r = (case r of Inl e \<Rightarrow> throw (KOther e) | Inr x \<Rightarrow> ret x)"

definition or_panic :: "'a option \<Rightarrow> ('s, 'e, 'a) act" where
  "or_panic r = (case r of Some x \<Rightarrow> ret x | None \<Rightarrow> panic ''resource.MustParse'')"

text \<open>A loop over a slice with its index that stops at the first error.\<close>

fun index_map :: "(nat \<Rightarrow> 'a \<Rightarrow> string + 'b) \<Rightarrow> nat \<Rightarrow> 'a list \<Rightarrow> string + 'b list" where
  "index_map f i [] = Inr []"
| "index_map f i (x # xs) = (case f i x of Inl e \<Rightarrow> Inl e
     | Inr y \<Rightarrow> (case index_map f (Suc i) xs of Inl e \<Rightarrow> Inl e | Inr ys \<Rightarrow> Inr (y # ys)))"

definition at_index :: "string \<Rightarrow> nat \<Rightarrow> string \<Rightarrow> string" where
  "at_index what i m = what @ ''['' @ nat_str i @ '']: '' @ m"

subsection \<open>The deployment of a request\<close>

definition svc_resources :: "'s svc_client \<Rightarrow> string \<Rightarrow> string \<Rightarrow> resource_reqs option" where
  "svc_resources c cpu mem =
    (let dflt = (\<lambda>v d. if v = [] then d else v);
         creq = (if cpu \<noteq> [] then cpu else dflt (vc_cpu_req c) ''500m'');
         clim = (if cpu \<noteq> [] then cpu else dflt (vc_cpu_lim c) ''2'');
         mreq = (if mem \<noteq> [] then mem else dflt (vc_mem_req c) ''1Gi'');
         mlim = (if mem \<noteq> [] then mem else dflt (vc_mem_lim c) ''4Gi'')
     in if list_all (vc_quantity c) [creq, clim, mreq, mlim]
        then Some \<lparr>rr_requests = [(''cpu'', creq), (''memory'', mreq)],
                   rr_limits = [(''cpu'', clim), (''memory'', mlim)]\<rparr>
        else None)"

definition env_ref_var :: "nat \<Rightarrow> env_ref \<Rightarrow> string + string \<times> env_source" where
  "env_ref_var i e =
    (if er_name e = [] then Inl (at_index ''env_refs'' i ''name is required'')
     else if er_cm e \<noteq> [] \<and> er_cm_key e \<noteq> [] then Inr (er_name e, EnvConfigKey (er_cm e) (er_cm_key e))
     else if er_secret e \<noteq> [] \<and> er_secret_key e \<noteq> []
     then Inr (er_name e, EnvSecretKey (er_secret e) (er_secret_key e))
     else Inl (at_index ''env_refs'' i ''set (config_map+config_key) or (secret+secret_key)''))"

definition env_from_source :: "nat \<Rightarrow> env_from_req \<Rightarrow> string + env_from" where
  "env_from_source i e =
    (if ef_cm e \<noteq> [] then Inr (EnvFromConfigMap (ef_cm e))
     else if ef_secret e \<noteq> [] then Inr (EnvFromSecret (ef_secret e))
     else Inl (at_index ''env_from'' i ''set config_map or secret''))"

definition request_resources :: "'s svc_client \<Rightarrow> svc_spec \<Rightarrow> resource_reqs option" where
  "request_resources c s =
    (case svc_resources c (ss_cpu s) (ss_memory s) of None \<Rightarrow> None
     | Some plain \<Rightarrow>
       (case (if resources_empty (ss_resources s) then Some plain
              else buildResources (vc_quantity c) (ss_resources s)) of None \<Rightarrow> None
        | Some split \<Rightarrow>
          let base = (case rd_resources (ss_runtime s) of Some r \<Rightarrow> r | None \<Rightarrow> split)
          in if list_all (\<lambda>(_, v). vc_quantity c v) (rd_devices (ss_runtime s))
             then Some (base\<lparr>rr_limits := mputs (rd_devices (ss_runtime s)) (rr_limits base)\<rparr>) else None))"

definition plain_mount :: "string \<Rightarrow> string \<Rightarrow> vmount" where
  "plain_mount n path = \<lparr>vm_name = n, vm_path = path, vm_sub = [], vm_ro = False\<rparr>"

definition config_volume :: "nat \<Rightarrow> config_mount \<Rightarrow> string + svc_volume \<times> vmount" where
  "config_volume i m =
    (if cm_path m = [] then Inl (at_index ''config_mounts'' i ''mount_path is required'')
     else let n = ''cfg-'' @ nat_str i in
       if cm_config m \<noteq> [] then Inr (\<lparr>sl_name = n, sl_src = SrcConfigMap (cm_config m) (cm_items m)\<rparr>, plain_mount n (cm_path m))
       else if cm_secret m \<noteq> [] then Inr (\<lparr>sl_name = n, sl_src = SrcSecret (cm_secret m) (cm_items m)\<rparr>, plain_mount n (cm_path m))
       else Inl (at_index ''config_mounts'' i ''set config_map or secret''))"

definition plain_container :: "string \<Rightarrow> string \<Rightarrow> string list \<Rightarrow> (string \<times> env_source) list \<Rightarrow> resource_reqs \<Rightarrow> svc_container" where
  "plain_container n img cmd env rs =
     \<lparr>cn_name = n, cn_image = img, cn_command = cmd, cn_env = env, cn_env_from = [], cn_ports = [],
      cn_resources = rs, cn_security = None, cn_readiness = None, cn_liveness = None, cn_startup = None,
      cn_mounts = []\<rparr>"

definition values_env :: "string gomap \<Rightarrow> (string \<times> env_source) list" where
  "values_env m = map (\<lambda>(k, v). (k, EnvValue v)) m"

definition sidecar_container :: "'s svc_client \<Rightarrow> nat \<times> sidecar \<Rightarrow> ('s, kerr, bool \<times> svc_container) act" where
  "sidecar_container c isc = (case isc of (i, sc) \<Rightarrow>
     if sd_name sc = [] \<or> sd_image sc = []
     then throw (KOther (at_index ''sidecars'' i ''name and image are required''))
     else bnd (or_panic (svc_resources c (sd_cpu sc) (sd_memory sc))) (\<lambda>rs.
       ret (sd_init sc, plain_container (sd_name sc) (sd_image sc) (sd_command sc) (values_env (sd_env sc)) rs)))"

definition check_toleration :: "nat \<Rightarrow> toleration \<Rightarrow> string + toleration" where
  "check_toleration i t = (if tl_key t = [] then Inl (at_index ''tolerations'' i ''key is required'') else Inr t)"

definition pvc_volume :: "nat \<Rightarrow> svc_volume_mount \<Rightarrow> string + svc_volume \<times> vmount" where
  "pvc_volume i v =
    (if vn_pvc v = [] \<or> vn_path v = [] then Inl (at_index ''volumes'' i ''pvc and mount_path are required'')
     else let n = ''pvc-'' @ nat_str i
       in Inr (\<lparr>sl_name = n, sl_src = SrcPVC (vn_pvc v) (vn_ro v)\<rparr>,
               \<lparr>vm_name = n, vm_path = vn_path v, vm_sub = vn_sub v, vm_ro = vn_ro v\<rparr>))"

definition svc_tun :: "svc_spec \<Rightarrow> (svc_volume \<times> vmount) list" where
  "svc_tun s = (if rd_tun (ss_runtime s)
     then [(\<lparr>sl_name = ''devtun'', sl_src = SrcHostPath ''/dev/net/tun'' ''CharDevice''\<rparr>, plain_mount ''devtun'' ''/dev/net/tun'')]
     else [])"

definition svc_labels :: "string \<Rightarrow> string gomap" where
  "svc_labels name = [(LabelManagedSvc, ''1''), (LabelNameSvc, name), (''app'', name)]"

definition svc_annotations :: "svc_spec \<Rightarrow> string gomap" where
  "svc_annotations s = [(AnnoImageSvc, ss_image s), (AnnoCreatorSvc, ss_creator s),
     (AnnoSessionSvc, ss_session s), (AnnoNamespace, ss_namespace s)]"

text \<open>The image names of a request, mirrored.\<close>

definition mirrored :: "'s svc_client \<Rightarrow> svc_spec \<Rightarrow> svc_spec" where
  "mirrored c s = s\<lparr>ss_image := MirrorDockerHubImage (ss_image s) (vc_registry c),
     ss_sidecars := map (\<lambda>sc. sc\<lparr>sd_image := MirrorDockerHubImage (sd_image sc) (vc_registry c)\<rparr>) (ss_sidecars s)\<rparr>"

definition build_deployment :: "'s svc_client \<Rightarrow> svc_spec \<Rightarrow> port list \<Rightarrow> ('s, kerr, deployment) act" where
  "build_deployment c s ports =
    bnd (from_sum (index_map env_ref_var 0 (ss_env_refs s))) (\<lambda>refs.
    bnd (from_sum (index_map env_from_source 0 (ss_env_from s))) (\<lambda>froms.
    bnd (or_panic (request_resources c s)) (\<lambda>rs.
    bnd (from_sum (index_map config_volume 0 (ss_config_mounts s))) (\<lambda>configs.
    bnd (collect (sidecar_container c) (enumerate 0 (ss_sidecars s))) (\<lambda>cars.
    bnd (from_sum (index_map check_toleration 0 (ss_tolerations s))) (\<lambda>tols.
    bnd (from_sum (index_map pvc_volume 0 (ss_volumes s))) (\<lambda>pvcs.
      let rt = ss_runtime s; vols = configs @ svc_tun s @ pvcs;
          main = \<lparr>cn_name = ''svc'', cn_image = ss_image s, cn_command = ss_command s,
            cn_env = values_env (ss_env s) @ values_env (rd_env rt) @ refs, cn_env_from = froms,
            cn_ports = container_ports ports, cn_resources = rs, cn_security = rd_security rt,
            cn_readiness = buildProbe (ss_readiness s), cn_liveness = buildProbe (ss_liveness s),
            cn_startup = buildProbe (ss_startup s), cn_mounts = map snd vols\<rparr>;
          podspec = \<lparr>pp_containers = main # map snd (filter (\<lambda>x. \<not> fst x) cars),
            pp_init = map snd (filter fst cars), pp_volumes = map fst vols, pp_tolerations = tols,
            pp_nodes = (if rd_nodes rt \<noteq> [] then rd_nodes rt else ss_nodes s),
            pp_class = (if rd_class rt \<noteq> [] then Some (rd_class rt) else None),
            pp_pull_secrets = rd_pull_secrets rt\<rparr>
      in ret \<lparr>d_meta = \<lparr>om_name = ss_name s, om_labels = svc_labels (ss_name s), om_annotations = svc_annotations s\<rparr>,
              d_version = [], d_created = 0,
              d_replicas = Some (if ss_replicas s \<le> 0 then 1 else ss_replicas s),
              d_selector = [(''app'', ss_name s)],
              d_template = \<lparr>tm_labels = svc_labels (ss_name s), tm_annotations = svc_annotations s, tm_spec = podspec\<rparr>,
              d_rolling = buildRollout (vc_intparse c) (ss_rollout s), d_ready = 0, d_unavailable = 0\<rparr>)))))))"

definition build_sibling :: "svc_spec \<Rightarrow> port list \<Rightarrow> string \<Rightarrow> service_obj" where
  "build_sibling s ports sfx =
    \<lparr>so_meta = \<lparr>om_name = siblingName (ss_name s) sfx, om_labels = svc_labels (ss_name s),
                om_annotations = svc_annotations s @ [(AnnoPrimary, ss_name s)]\<rparr>,
     so_version = [], so_selector = [(''app'', ss_name s)], so_ports = corePorts (port_group ports sfx),
     so_cluster_ip = []\<rparr>"

subsection \<open>Create or update\<close>

definition applyDeployment :: "'s svc_client \<Rightarrow> deployment \<Rightarrow> ('s, kerr, unit) act" where
  "applyDeployment c dep =
    bnd (attempt (kcreate (vc_deps c) (vc_ns c) dep)) (\<lambda>r. case r of Inr _ \<Rightarrow> ret ()
      | Inl e \<Rightarrow> if IsAlreadyExists e
          then bnd (kread (vc_deps c) (vc_ns c) (om_name (d_meta dep))) (\<lambda>cur.
               bnd (map_err (kwrap ''apply deployment'')
                      (kupdate (vc_deps c) (vc_ns c) (dep\<lparr>d_version := d_version cur\<rparr>))) (\<lambda>_. ret ()))
          else throw (kwrap ''apply deployment'' e))"

definition applyService :: "'s svc_client \<Rightarrow> service_obj \<Rightarrow> ('s, kerr, unit) act" where
  "applyService c svc =
    bnd (attempt (kcreate (vc_svcs c) (vc_ns c) svc)) (\<lambda>r. case r of Inr _ \<Rightarrow> ret ()
      | Inl e \<Rightarrow> if IsAlreadyExists e
          then bnd (kread (vc_svcs c) (vc_ns c) (om_name (so_meta svc))) (\<lambda>cur.
               bnd (map_err (kwrap ''apply service'')
                      (kupdate (vc_svcs c) (vc_ns c)
                         (svc\<lparr>so_version := so_version cur, so_cluster_ip := so_cluster_ip cur\<rparr>))) (\<lambda>_. ret ()))
          else throw (kwrap ''apply service'' e))"

subsection \<open>Reading a service\<close>

record svc_view =
  sw_name :: string
  sw_image :: string
  sw_phase :: string
  sw_ready :: bool
  sw_replicas :: int
  sw_url :: string
  sw_creator :: string
  sw_session :: string
  sw_namespace :: string
  sw_created :: int
  sw_ports :: "port list"
  sw_paused :: bool
  sw_diag :: diag
  sw_ready_replicas :: int
  sw_cpu :: string
  sw_memory :: string
  sw_command :: "string list"
  sw_env :: "string gomap"
  sw_volumes :: "svc_volume_mount list"
  sw_configs :: "config_mount list"
  sw_resources :: resources
  sw_readiness :: probe
  sw_liveness :: probe
  sw_startup :: probe
  sw_rollout :: rollout
  sw_sidecars :: int

text \<open>A mount is of a claim when a claim volume has its name, else of a ConfigMap or Secret when the
  volume of its name is one.  Later volumes of a name win, as the maps are filled in order.\<close>

definition claim_of :: "svc_volume list \<Rightarrow> string \<Rightarrow> string option" where
  "claim_of vols n = foldl (\<lambda>r v. case sl_src v of SrcPVC pvc ro \<Rightarrow> if sl_name v = n then Some pvc else r | _ \<Rightarrow> r) None vols"

definition source_of :: "svc_volume list \<Rightarrow> string \<Rightarrow> svc_source option" where
  "source_of vols n = map_option sl_src (find (\<lambda>v. sl_name v = n) (rev vols))"

definition view_volumes :: "svc_volume list \<Rightarrow> vmount list \<Rightarrow> svc_volume_mount list" where
  "view_volumes vols ms = List.map_filter (\<lambda>m. map_option
     (\<lambda>pvc. \<lparr>vn_pvc = pvc, vn_path = vm_path m, vn_ro = vm_ro m, vn_sub = vm_sub m\<rparr>) (claim_of vols (vm_name m))) ms"

definition view_configs :: "svc_volume list \<Rightarrow> vmount list \<Rightarrow> config_mount list" where
  "view_configs vols ms = List.map_filter (\<lambda>m. if claim_of vols (vm_name m) \<noteq> None then None else
     (case source_of vols (vm_name m) of
        Some (SrcConfigMap n items) \<Rightarrow> Some \<lparr>cm_config = n, cm_secret = [], cm_path = vm_path m, cm_items = []\<rparr>
      | Some (SrcSecret n items) \<Rightarrow> Some \<lparr>cm_config = [], cm_secret = n, cm_path = vm_path m, cm_items = []\<rparr>
      | _ \<Rightarrow> None)) ms"

definition env_value :: "env_source \<Rightarrow> string" where
  "env_value e = (case e of EnvValue v \<Rightarrow> v | _ \<Rightarrow> [])"

text \<open>The map is filled in order, so a later entry of the same name wins.\<close>

definition view_env :: "(string \<times> env_source) list \<Rightarrow> string gomap" where
  "view_env env = foldl (\<lambda>m (n, e). mput n (env_value e) m) [] env"

definition toService :: "'s svc_client \<Rightarrow> deployment \<Rightarrow> port list \<Rightarrow> svc_view" where
  "toService c d ports =
    (let anno = om_annotations (d_meta d); podspec = tm_spec (d_template d);
         q = (\<lambda>rl n. quantityString (vc_canon c) rl n);
         base = \<lparr>sw_name = om_name (d_meta d), sw_image = mstr anno AnnoImageSvc,
           sw_phase = (if d_ready d > 0 then ''Running'' else if d_unavailable d > 0 then ''Progressing'' else ''Pending''),
           sw_ready = (d_ready d > 0),
           sw_replicas = (case d_replicas d of Some n \<Rightarrow> n | None \<Rightarrow> 0),
           sw_url = ''http://'' @ om_name (d_meta d) @ ''.'' @ vc_ns c @ ''.svc.cluster.local:'' @
             int_str (case find (\<lambda>p. po_suffix p = [] \<and> po_proto p = ''tcp'') ports of Some p \<Rightarrow> po_port p | None \<Rightarrow> 80),
           sw_creator = mstr anno AnnoCreatorSvc, sw_session = mstr anno AnnoSessionSvc, sw_namespace = [],
           sw_created = d_created d, sw_ports = ports,
           sw_paused = (mget anno AnnoReplicasBeforePause \<noteq> None), sw_diag = no_diag,
           sw_ready_replicas = d_ready d, sw_cpu = [], sw_memory = [], sw_command = [], sw_env = [],
           sw_volumes = [], sw_configs = [],
           sw_resources = \<lparr>re_cpu = [], re_memory = [], re_cpu_limit = [], re_memory_limit = []\<rparr>,
           sw_readiness = no_probe, sw_liveness = no_probe, sw_startup = no_probe,
           sw_rollout = (case d_rolling d of None \<Rightarrow> \<lparr>ro_surge = [], ro_unavailable = []\<rparr>
             | Some r \<Rightarrow> \<lparr>ro_surge = (case rl_surge r of Some v \<Rightarrow> vc_intprint c v | None \<Rightarrow> []),
                         ro_unavailable = (case rl_unavailable r of Some v \<Rightarrow> vc_intprint c v | None \<Rightarrow> [])\<rparr>),
           sw_sidecars = 0\<rparr>
     in case pp_containers podspec of [] \<Rightarrow> base
       | ctr # extra \<Rightarrow>
         let req = rr_requests (cn_resources ctr); lim = rr_limits (cn_resources ctr) in
         base\<lparr>sw_command := cn_command ctr, sw_env := view_env (cn_env ctr),
              sw_cpu := q req ''cpu'', sw_memory := q req ''memory'',
              sw_resources := \<lparr>re_cpu = q req ''cpu'', re_memory = q req ''memory'',
                               re_cpu_limit = q lim ''cpu'', re_memory_limit = q lim ''memory''\<rparr>,
              sw_readiness := toProbe (cn_readiness ctr), sw_liveness := toProbe (cn_liveness ctr),
              sw_startup := toProbe (cn_startup ctr),
              sw_volumes := view_volumes (pp_volumes podspec) (cn_mounts ctr),
              sw_configs := view_configs (pp_volumes podspec) (cn_mounts ctr),
              sw_sidecars := int (length extra) + int (length (pp_init podspec))\<rparr>)"

definition svc_selector_of :: "string \<Rightarrow> (string \<times> string) list" where
  "svc_selector_of name = [(LabelManagedSvc, ''1''), (LabelNameSvc, name)]"

definition portsFor :: "'s svc_client \<Rightarrow> string \<Rightarrow> ('s, kerr, port list) act" where
  "portsFor c name = bnd (attempt (kfind (vc_svcs c) (vc_ns c) (svc_selector_of name))) (\<lambda>r. case r of
      Inl e \<Rightarrow> ret [] | Inr svcs \<Rightarrow> ret (concat (map (\<lambda>v. portsFromService v name) svcs)))"

definition list_pods :: "'s svc_client \<Rightarrow> (string \<times> string) list \<Rightarrow> ('s, kerr, kerr + svc_pod list) act" where
  "list_pods c sel = attempt (of_sum (vc_pods c (vc_ns c) sel))"

definition svc_Get :: "'s svc_client \<Rightarrow> string \<Rightarrow> ('s, kerr, svc_view) act" where
  "svc_Get c name =
    bnd (kread (vc_deps c) (vc_ns c) name) (\<lambda>d.
    bnd (portsFor c name) (\<lambda>ports.
    bnd (list_pods c [(''app'', name)]) (\<lambda>pods.
    ret ((toService c d ports)\<lparr>sw_diag := podDiagnostics pods\<rparr>))))"

definition svc_Exists :: "'s svc_client \<Rightarrow> string \<Rightarrow> ('s, kerr, bool) act" where
  "svc_Exists c name = bnd (attempt (kread (vc_deps c) (vc_ns c) name)) (\<lambda>r. case r of
      Inl e \<Rightarrow> if IsNotFound e then ret False else throw e | Inr _ \<Rightarrow> ret True)"

definition portsByService :: "kerr + service_obj list \<Rightarrow> port list gomap" where
  "portsByService r = (case r of Inl e \<Rightarrow> []
    | Inr svcs \<Rightarrow> foldl (\<lambda>m v.
        let n = mstr (om_labels (so_meta v)) LabelNameSvc; name = (if n = [] then om_name (so_meta v) else n)
        in mput name ((case mget m name of Some ps \<Rightarrow> ps | None \<Rightarrow> []) @ portsFromService v name) m) [] svcs)"

definition svc_List :: "'s svc_client \<Rightarrow> ('s, kerr, svc_view list) act" where
  "svc_List c =
    bnd (kfind (vc_deps c) (vc_ns c) [(LabelManagedSvc, ''1'')]) (\<lambda>deps.
    bnd (attempt (kfind (vc_svcs c) (vc_ns c) [(LabelManagedSvc, ''1'')])) (\<lambda>svcs.
    bnd (list_pods c []) (\<lambda>pods.
      let portsBy = portsByService svcs; diagBy = podDiagnosticsByService pods
      in ret (map (\<lambda>d. let n = om_name (d_meta d) in
           (toService c d (case mget portsBy n of Some ps \<Rightarrow> ps | None \<Rightarrow> []))
             \<lparr>sw_diag := (case mget diagBy n of Some dg \<Rightarrow> dg | None \<Rightarrow> no_diag)\<rparr>) deps))))"

subsection \<open>Deploy\<close>

text \<open>The conflict check: every Service about to be written is absent or managed by the creator.\<close>

definition precheck :: "'s svc_client \<Rightarrow> svc_spec \<Rightarrow> string \<Rightarrow> ('s, kerr, unit) act" where
  "precheck c s sfx =
    (let svcName = siblingName (ss_name s) sfx in
     bnd (attempt (kread (vc_svcs c) (vc_ns c) svcName)) (\<lambda>r. case r of
       Inl e \<Rightarrow> if IsNotFound e then ret () else throw e
     | Inr cur \<Rightarrow>
         if mstr (om_labels (so_meta cur)) LabelManagedSvc \<noteq> ''1'' \<or>
            (ss_creator s \<noteq> [] \<and> mstr (om_annotations (so_meta cur)) AnnoCreatorSvc \<noteq> ss_creator s)
         then throw (KOther (''service '' @ go_quote svcName @ '' already exists and is not managed by this tenant''))
         else ret ()))"

text \<open>What follows the check: the deployment, then one Service per suffix.\<close>

definition write_service :: "'s svc_client \<Rightarrow> svc_spec \<Rightarrow> port list \<Rightarrow> ('s, kerr, svc_view) act" where
  "write_service c s ports =
     bnd (build_deployment c s ports) (\<lambda>dep.
     bnd (applyDeployment c dep) (\<lambda>_.
     bnd (each (\<lambda>sfx. applyService c (build_sibling s ports sfx)) (port_order ports)) (\<lambda>_.
     svc_Get c (ss_name s))))"

definition svc_Deploy :: "'s svc_client \<Rightarrow> svc_spec \<Rightarrow> ('s, kerr, svc_view) act" where
  "svc_Deploy c s0 =
    (if ss_name s0 = [] \<or> ss_image s0 = [] then throw (KOther ''name and image required'') else
     let s = mirrored c s0 in
     bnd (from_sum (resolve_ports s)) (\<lambda>ports.
     bnd (each (precheck c s) (port_order ports)) (\<lambda>_. write_service c s ports)))"

subsection \<open>Pause, resume, scale, delete\<close>

definition del_key :: "string \<Rightarrow> 'v gomap \<Rightarrow> 'v gomap" where
  "del_key k m = filter (\<lambda>e. fst e \<noteq> k) m"

definition d_annos_update :: "(string gomap \<Rightarrow> string gomap) \<Rightarrow> deployment \<Rightarrow> deployment" where
  "d_annos_update f d = d\<lparr>d_meta := (d_meta d)\<lparr>om_annotations := f (om_annotations (d_meta d))\<rparr>\<rparr>"

definition paused_dep :: "deployment \<Rightarrow> deployment" where
  "paused_dep d =
    (let marked = (if mget (om_annotations (d_meta d)) AnnoReplicasBeforePause \<noteq> None then d
       else let prev = (case d_replicas d of Some n \<Rightarrow> n | None \<Rightarrow> 0)
         in d_annos_update (mput AnnoReplicasBeforePause (int_str (if prev < 1 then 1 else prev))) d)
     in marked\<lparr>d_replicas := Some 0\<rparr>)"

text \<open>\<^verbatim>\<open>strconv.ParseInt(v, 10, 32)\<close>\<close>

definition parse_int32 :: "string \<Rightarrow> int option" where
  "parse_int32 v =
    (let neg = has_prefix v ''-''; digits = (if neg \<or> has_prefix v ''+'' then drop 1 v else v);
         n = (if neg then - int (str_nat digits) else int (str_nat digits))
     in if digits = [] \<or> \<not> list_all is_digit digits \<or> n < - (2 ^ 31) \<or> 2 ^ 31 \<le> n then None else Some n)"

definition resumed_dep :: "deployment \<Rightarrow> deployment" where
  "resumed_dep d =
    (let v = mstr (om_annotations (d_meta d)) AnnoReplicasBeforePause;
         reps = (case (if v = [] then None else parse_int32 v) of Some n \<Rightarrow> if n > 0 then n else 1 | None \<Rightarrow> 1)
     in d_annos_update (del_key AnnoReplicasBeforePause) (d\<lparr>d_replicas := Some reps\<rparr>))"

definition change_deployment ::
  "'s svc_client \<Rightarrow> string \<Rightarrow> (deployment \<Rightarrow> deployment) \<Rightarrow> ('s, kerr, svc_view) act" where
  "change_deployment c name f =
    bnd (kread (vc_deps c) (vc_ns c) name) (\<lambda>d.
    bnd (kupdate (vc_deps c) (vc_ns c) (f d)) (\<lambda>_. svc_Get c name))"

definition svc_Pause :: "'s svc_client \<Rightarrow> string \<Rightarrow> ('s, kerr, svc_view) act" where
  "svc_Pause c name = change_deployment c name paused_dep"

definition svc_Resume :: "'s svc_client \<Rightarrow> string \<Rightarrow> ('s, kerr, svc_view) act" where
  "svc_Resume c name = change_deployment c name resumed_dep"

definition svc_Scale :: "'s svc_client \<Rightarrow> string \<Rightarrow> int \<Rightarrow> ('s, kerr, svc_view) act" where
  "svc_Scale c name replicas =
    (if replicas < 0 then throw (KOther ''replicas must be >= 0'')
     else change_deployment c name (\<lambda>d. d_annos_update (del_key AnnoReplicasBeforePause) (d\<lparr>d_replicas := Some replicas\<rparr>)))"

definition svc_Delete :: "'s svc_client \<Rightarrow> string \<Rightarrow> ('s, kerr, bool) act" where
  "svc_Delete c name =
    bnd (attempt (kread (vc_deps c) (vc_ns c) name)) (\<lambda>r. case r of
      Inl e \<Rightarrow> if IsNotFound e then ret False else throw e
    | Inr _ \<Rightarrow>
        bnd (attempt (kfind (vc_svcs c) (vc_ns c) (svc_selector_of name))) (\<lambda>l.
        bnd (case l of Inl _ \<Rightarrow> ret ()
             | Inr svcs \<Rightarrow> each (\<lambda>v. ignore (kremove (vc_svcs c) (vc_ns c) (om_name (so_meta v)))) svcs) (\<lambda>_.
        bnd (attempt (kremove (vc_deps c) (vc_ns c) name)) (\<lambda>k. case k of
          Inl e \<Rightarrow> if IsNotFound e then ret True else throw e
        | Inr _ \<Rightarrow> ret True))))"

end
