(* ===== verification/ServiceObjects.thy ===== *)
theory ServiceObjects
  imports ServicesMgr Forgejo
begin

text \<open>
  Package \<^verbatim>\<open>internal/servicesmgr\<close>, the other objects it manages: volume claims, manifests,
  rollout history (\<^verbatim>\<open>rollback.go\<close>), readiness (\<^verbatim>\<open>wait.go\<close>) and configuration
  objects (\<^verbatim>\<open>configstore.go\<close>).
\<close>

subsection \<open>Volume claims\<close>

record pvc_view =
  pv_name :: string
  pv_size :: string
  pv_class :: string
  pv_phase :: string
  pv_creator :: string
  pv_namespace :: string
  pv_created :: int
  pv_mounted :: "string list"

definition claims_of :: "deployment \<Rightarrow> string list" where
  "claims_of d = List.map_filter (\<lambda>v. case sl_src v of SrcPVC n ro \<Rightarrow> if n \<noteq> [] then Some n else None | _ \<Rightarrow> None)
     (pp_volumes (tm_spec (d_template d)))"

definition mount_index :: "deployment list \<Rightarrow> string \<Rightarrow> string list" where
  "mount_index deps n = concat (map (\<lambda>d. map (\<lambda>_. om_name (d_meta d)) (filter (\<lambda>x. x = n) (claims_of d))) deps)"

text \<open>When the deployments cannot be listed the index is empty.\<close>

definition mountedIndex :: "'s svc_client \<Rightarrow> ('s, kerr, string \<Rightarrow> string list) act" where
  "mountedIndex c = bnd (attempt (kfind (vc_deps c) (vc_ns c) [(LabelManagedSvc, ''1'')])) (\<lambda>r. case r of
      Inl e \<Rightarrow> ret (\<lambda>_. []) | Inr deps \<Rightarrow> ret (mount_index deps))"

definition mountedBy :: "'s svc_client \<Rightarrow> string \<Rightarrow> ('s, kerr, string list) act" where
  "mountedBy c name = bnd (mountedIndex c) (\<lambda>ix. ret (ix name))"

definition toPVC :: "'s svc_client \<Rightarrow> claim \<Rightarrow> string list \<Rightarrow> pvc_view" where
  "toPVC c p mounted =
    \<lparr>pv_name = om_name (pc_meta p), pv_size = (case pc_storage p of Some q \<Rightarrow> vc_canon c q | None \<Rightarrow> []),
     pv_class = (case pc_class p of Some k \<Rightarrow> k | None \<Rightarrow> []), pv_phase = pc_phase p,
     pv_creator = mstr (om_annotations (pc_meta p)) AnnoPVCCreator,
     pv_namespace = mstr (om_annotations (pc_meta p)) AnnoPVCNamespace,
     pv_created = pc_created p, pv_mounted = mounted\<rparr>"

definition svc_GetPVC :: "'s svc_client \<Rightarrow> string \<Rightarrow> ('s, kerr, pvc_view) act" where
  "svc_GetPVC c name = bnd (kread (vc_pvcs c) (vc_ns c) name) (\<lambda>p.
     bnd (mountedBy c name) (\<lambda>m. ret (toPVC c p m)))"

definition svc_ListPVCs :: "'s svc_client \<Rightarrow> ('s, kerr, pvc_view list) act" where
  "svc_ListPVCs c = bnd (kfind (vc_pvcs c) (vc_ns c) [(LabelPVC, ''1'')]) (\<lambda>ps.
     bnd (mountedIndex c) (\<lambda>ix. ret (map (\<lambda>p. toPVC c p (ix (om_name (pc_meta p)))) ps)))"

definition svc_CreatePVC ::
  "'s svc_client \<Rightarrow> string \<Rightarrow> string \<Rightarrow> string \<Rightarrow> string \<Rightarrow> string \<Rightarrow> ('s, kerr, pvc_view) act" where
  "svc_CreatePVC c name size0 storageClass creator namespace =
    (if name = [] then throw (KOther ''name required'') else
     let size = (if size0 = [] then ''1Gi'' else size0) in
     if \<not> vc_quantity c size then throw (KOther (''invalid size '' @ go_quote size)) else
     bnd (attempt (svc_GetPVC c name)) (\<lambda>r. case r of
       Inr existing \<Rightarrow>
         if pv_creator existing \<noteq> [] \<and> creator \<noteq> [] \<and> pv_creator existing \<noteq> creator
         then throw (KOther (''pvc '' @ go_quote name @ '' belongs to another tenant'')) else ret existing
     | Inl e \<Rightarrow> if \<not> IsNotFound e then throw e else
         bnd (map_err (kwrap ''create pvc'') (kcreate (vc_pvcs c) (vc_ns c)
           \<lparr>pc_meta = \<lparr>om_name = name, om_labels = [(LabelPVC, ''1''), (LabelPVCName, name)],
                       om_annotations = [(AnnoPVCCreator, creator), (AnnoPVCNamespace, namespace)]\<rparr>,
            pc_storage = Some size, pc_class = (if storageClass \<noteq> [] then Some storageClass else None),
            pc_phase = [], pc_created = 0\<rparr>)) (\<lambda>_. svc_GetPVC c name)))"

definition svc_DeletePVC :: "'s svc_client \<Rightarrow> string \<Rightarrow> ('s, kerr, bool) act" where
  "svc_DeletePVC c name =
    bnd (mountedBy c name) (\<lambda>mounted.
     if length mounted > 0
     then throw (KOther (''pvc '' @ go_quote name @ '' is mounted by: '' @ join '', '' mounted))
     else bnd (attempt (kremove (vc_pvcs c) (vc_ns c) name)) (\<lambda>r. case r of
       Inl e \<Rightarrow> if IsNotFound e then ret False else throw e | Inr _ \<Rightarrow> ret True))"

subsection \<open>Manifests\<close>

text \<open>The YAML printer and reader: the text of an object, the kind of a document, and the object in
  it.  What the cleaned objects drop (uid, status and other fields the server fills in) is not in
  the records of this model, except the version and the cluster address.\<close>

record yaml =
  ya_dep :: "deployment \<Rightarrow> string + string"
  ya_svc :: "service_obj \<Rightarrow> string + string"
  ya_kind :: "string \<Rightarrow> string + string"
  ya_read_dep :: "string \<Rightarrow> string + deployment"
  ya_read_svc :: "string \<Rightarrow> string + service_obj"

definition revision_key :: string where "revision_key = ''deployment.kubernetes.io/revision''"
definition restarted_key :: string where "restarted_key = ''kubectl.kubernetes.io/restartedAt''"

definition cleanDeployment :: "deployment \<Rightarrow> deployment" where
  "cleanDeployment d =
    (d_annos_update (\<lambda>m. del_key restarted_key (del_key revision_key m)) d)
      \<lparr>d_version := [], d_created := 0, d_ready := 0, d_unavailable := 0,
       d_template := (d_template d)\<lparr>tm_annotations := del_key restarted_key (tm_annotations (d_template d))\<rparr>\<rparr>"

definition cleanService :: "service_obj \<Rightarrow> service_obj" where
  "cleanService v = v\<lparr>so_version := [], so_cluster_ip := []\<rparr>"

definition joined_yaml :: "(string + string) list \<Rightarrow> string + string" where
  "joined_yaml docs = (case all_right docs of Inl e \<Rightarrow> Inl e | Inr ds \<Rightarrow> Inr (join (''---'' @ [CHR 0x0A]) ds))"

definition svc_Manifest :: "'s svc_client \<Rightarrow> yaml \<Rightarrow> string \<Rightarrow> ('s, kerr, string) act" where
  "svc_Manifest c y name =
    bnd (kread (vc_deps c) (vc_ns c) name) (\<lambda>d.
    bnd (attempt (kfind (vc_svcs c) (vc_ns c) (svc_selector_of name))) (\<lambda>r.
      let svcs = (case r of Inr xs \<Rightarrow> sort_by (\<lambda>v. om_name (so_meta v)) xs | Inl _ \<Rightarrow> [])
      in from_sum (joined_yaml (ya_dep y (cleanDeployment d) # map (\<lambda>v. ya_svc y (cleanService v)) svcs))))"

definition splitYAMLDocs :: "string \<Rightarrow> string list" where
  "splitYAMLDocs manifest =
    (case foldl (\<lambda>(docs, cur) line. if trim_space line = ''---'' then (docs @ [join [CHR 0x0A] cur], [])
         else (docs, cur @ [line])) ([], []) (split_at CHR 0x0A manifest) of
      (docs, cur) \<Rightarrow> docs @ [join [CHR 0x0A] cur])"

definition mergeAnnotations :: "string gomap \<Rightarrow> string gomap \<Rightarrow> string gomap" where
  "mergeAnnotations base over =
    foldl (\<lambda>m k. case mget base k of Some v \<Rightarrow> mput k v m | None \<Rightarrow> m) over [AnnoImageSvc, AnnoCreatorSvc, AnnoSessionSvc]"

definition managed_labels :: "string \<Rightarrow> string gomap" where
  "managed_labels name = [(LabelManagedSvc, ''1''), (LabelNameSvc, name), (''app'', name)]"

text \<open>The documents of a manifest: the last deployment and all services.\<close>

fun read_docs :: "yaml \<Rightarrow> string list \<Rightarrow> deployment option \<times> service_obj list \<Rightarrow> string + deployment option \<times> service_obj list" where
  "read_docs y [] acc = Inr acc"
| "read_docs y (doc # docs) (dep, svcs) =
    (if trim_space doc = [] then read_docs y docs (dep, svcs)
     else (case ya_kind y doc of Inl e \<Rightarrow> Inl (''parse yaml: '' @ e)
      | Inr kind \<Rightarrow>
          if to_lower kind = ''deployment'' then (case ya_read_dep y doc of Inl e \<Rightarrow> Inl (''parse deployment: '' @ e)
            | Inr d \<Rightarrow> read_docs y docs (Some d, svcs))
          else if to_lower kind = ''service'' then (case ya_read_svc y doc of Inl e \<Rightarrow> Inl (''parse service: '' @ e)
            | Inr v \<Rightarrow> read_docs y docs (dep, svcs @ [v]))
          else Inl (''unsupported kind '' @ go_quote kind @ '' (only Deployment + Service)'')))"

definition pin_deployment :: "string \<Rightarrow> deployment \<Rightarrow> deployment \<Rightarrow> deployment" where
  "pin_deployment name cur dep = dep
     \<lparr>d_meta := \<lparr>om_name = name, om_labels = managed_labels name,
                 om_annotations = mergeAnnotations (om_annotations (d_meta cur)) (om_annotations (d_meta dep))\<rparr>,
      d_selector := [(''app'', name)],
      d_template := (d_template dep)\<lparr>tm_labels := managed_labels name\<rparr>\<rparr>"

definition pin_service :: "string \<Rightarrow> service_obj \<Rightarrow> string + service_obj" where
  "pin_service name v =
    (let l = mstr (om_labels (so_meta v)) LabelNameSvc in
     if l \<noteq> [] \<and> l \<noteq> name then Inl (''service '' @ go_quote (om_name (so_meta v)) @ '' belongs to another service'')
     else Inr (v\<lparr>so_meta := (so_meta v)\<lparr>om_labels := mput ''app'' name (mput LabelNameSvc name (mput LabelManagedSvc ''1'' (om_labels (so_meta v))))\<rparr>,
                 so_selector := [(''app'', name)], so_cluster_ip := []\<rparr>))"

definition svc_ApplyManifest ::
  "'s svc_client \<Rightarrow> yaml \<Rightarrow> string \<Rightarrow> string \<Rightarrow> bool \<Rightarrow> ('s, kerr, svc_view option \<times> string) act" where
  "svc_ApplyManifest c y name manifest dryRun =
    bnd (kread (vc_deps c) (vc_ns c) name) (\<lambda>cur.
    bnd (from_sum (read_docs y (splitYAMLDocs manifest) (None, []))) (\<lambda>(dep0, svcs0). case dep0 of
      None \<Rightarrow> throw (KOther ''manifest has no Deployment'')
    | Some dep1 \<Rightarrow>
        if om_name (d_meta dep1) \<noteq> [] \<and> om_name (d_meta dep1) \<noteq> name
        then throw (KOther (''deployment name '' @ go_quote (om_name (d_meta dep1)) @ '' does not match '' @ go_quote name))
        else let dep = pin_deployment name cur dep1 in
        bnd (from_sum (all_right (map (pin_service name) svcs0))) (\<lambda>svcs.
        bnd (from_sum (joined_yaml (ya_dep y dep # map (ya_svc y) svcs))) (\<lambda>normalized.
        if dryRun then ret (None, normalized)
        else bnd (applyDeployment c dep) (\<lambda>_.
             bnd (each (applyService c) svcs) (\<lambda>_.
             bnd (svc_Get c name) (\<lambda>out. ret (Some out, normalized))))))))"

subsection \<open>Rollbacks\<close>

record revision =
  rv_revision :: int
  rv_image :: string
  rv_replicas :: int
  rv_created :: int
  rv_current :: bool

text \<open>\<^verbatim>\<open>strconv.ParseInt(v, 10, 64)\<close> with its error dropped: out of range gives the nearest bound.\<close>

definition parse_int64 :: "string \<Rightarrow> int" where
  "parse_int64 v =
    (let neg = has_prefix v ''-''; digits = (if neg \<or> has_prefix v ''+'' then drop 1 v else v);
         n = (if neg then - int (str_nat digits) else int (str_nat digits))
     in if digits = [] \<or> \<not> list_all is_digit digits then 0
        else if n < - (2 ^ 63) then - (2 ^ 63) else if 2 ^ 63 \<le> n then 2 ^ 63 - 1 else n)"

definition revisionOf :: "string gomap \<Rightarrow> int" where
  "revisionOf annotations = parse_int64 (mstr annotations revision_key)"

definition revisions_of :: "replica_set list \<Rightarrow> (int \<times> replica_set) list" where
  "revisions_of rss = sort_by fst (filter (\<lambda>(n, r). n \<noteq> 0) (map (\<lambda>r. (revisionOf (om_annotations (rs_meta r)), r)) rss))"

definition pick_revision :: "deployment \<Rightarrow> int \<Rightarrow> replica_set list \<Rightarrow> string + string" where
  "pick_revision d revision rss =
    (let revs = revisions_of rss in
     if revs = [] then Inl ''no rollout history''
     else if revision > 0
     then (case find (\<lambda>(n, r). n = revision) revs of
             Some (n, r) \<Rightarrow> Inr (om_name (rs_meta r)) | None \<Rightarrow> Inl (''revision '' @ int_str revision @ '' not found''))
     else (case find (\<lambda>(n, r). n < revisionOf (om_annotations (d_meta d))) (rev revs) of
             Some (n, r) \<Rightarrow> Inr (om_name (rs_meta r)) | None \<Rightarrow> Inl ''no previous revision''))"

definition targetRevision :: "'s svc_client \<Rightarrow> deployment \<Rightarrow> int \<Rightarrow> ('s, kerr, string) act" where
  "targetRevision c d revision =
     bnd (kfind (vc_rss c) (vc_ns c) (d_selector d)) (\<lambda>rss. from_sum (pick_revision d revision rss))"

definition svc_Rollback :: "'s svc_client \<Rightarrow> string \<Rightarrow> int \<Rightarrow> ('s, kerr, svc_view) act" where
  "svc_Rollback c name revision =
    bnd (kread (vc_deps c) (vc_ns c) name) (\<lambda>d.
    bnd (targetRevision c d revision) (\<lambda>target.
    bnd (map_err (kwrap (''revision '' @ target @ '' not found'')) (kread (vc_rss c) (vc_ns c) target)) (\<lambda>rs.
    bnd (kupdate (vc_deps c) (vc_ns c) (d\<lparr>d_template := rs_template rs\<rparr>)) (\<lambda>_.
    svc_Get c name))))"

definition svc_Revisions :: "'s svc_client \<Rightarrow> string \<Rightarrow> ('s, kerr, revision list) act" where
  "svc_Revisions c name =
    bnd (kread (vc_deps c) (vc_ns c) name) (\<lambda>d.
    bnd (kfind (vc_rss c) (vc_ns c) (d_selector d)) (\<lambda>rss.
      let cur = revisionOf (om_annotations (d_meta d)) in
      ret (map (\<lambda>(n, r). \<lparr>rv_revision = n,
          rv_image = (case pp_containers (tm_spec (rs_template r)) of ctr # _ \<Rightarrow> cn_image ctr | [] \<Rightarrow> []),
          rv_replicas = (case rs_replicas r of Some k \<Rightarrow> k | None \<Rightarrow> 0), rv_created = rs_created r,
          rv_current = (n = cur)\<rparr>) (revisions_of rss))))"

subsection \<open>Waiting for readiness\<close>

record wait_result =
  wr_ready :: bool
  wr_failed :: bool
  wr_reason :: string

definition deterministicFailureReasons :: "string list" where
  "deterministicFailureReasons = [''RunContainerError'', ''CreateContainerError'', ''CreateContainerConfigError'',
     ''InvalidImageName'', ''ErrImagePull'', ''ImagePullBackOff'', ''ImageInspectError'', ''ErrImageNeverPull'']"

definition waitingText :: "string \<Rightarrow> string \<Rightarrow> string" where
  "waitingText reason message = (if message = [] then reason
     else if has_prefix message reason then message else reason @ '': '' @ message)"

fun status_verdict :: "cstatus list \<Rightarrow> wait_result" where
  "status_verdict [] = \<lparr>wr_ready = False, wr_failed = False, wr_reason = []\<rparr>"
| "status_verdict (cs # rest) =
    (let w = (case cs_waiting cs of None \<Rightarrow> None
        | Some (r, t) \<Rightarrow> if r \<in> set deterministicFailureReasons
            then Some \<lparr>wr_ready = False, wr_failed = True, wr_reason = waitingText r t\<rparr>
            else if r \<noteq> [] then Some \<lparr>wr_ready = False, wr_failed = False, wr_reason = waitingText r t\<rparr> else None)
     in case w of Some v \<Rightarrow> v
      | None \<Rightarrow> (case cs_terminated cs of
            Some (r, t) \<Rightarrow> if r \<noteq> [] \<and> r \<noteq> ''Completed''
              then \<lparr>wr_ready = False, wr_failed = False, wr_reason = waitingText r t\<rparr> else status_verdict rest
          | None \<Rightarrow> status_verdict rest))"

definition pod_verdict :: "svc_pod list \<Rightarrow> wait_result" where
  "pod_verdict pods = (case pods of [] \<Rightarrow> \<lparr>wr_ready = False, wr_failed = False, wr_reason = []\<rparr>
    | p # ps \<Rightarrow> let pod = newest_pod p (p # ps) in
       (case find (\<lambda>k. pk_type k = ''PodScheduled'' \<and> pk_status k = ''False'' \<and> pk_reason k = ''Unschedulable'') (sq_conditions pod) of
          Some k \<Rightarrow> \<lparr>wr_ready = False, wr_failed = True, wr_reason = ''FailedScheduling: '' @ pk_message k\<rparr>
        | None \<Rightarrow> status_verdict (sq_statuses pod)))"

definition deploymentReadiness :: "'s svc_client \<Rightarrow> deployment \<Rightarrow> ('s, kerr, wait_result) act" where
  "deploymentReadiness c d =
    (if d_ready d > 0 then ret \<lparr>wr_ready = True, wr_failed = False, wr_reason = []\<rparr>
     else bnd (list_pods c (d_selector d)) (\<lambda>r. ret (case r of
       Inl e \<Rightarrow> \<lparr>wr_ready = False, wr_failed = False, wr_reason = []\<rparr> | Inr pods \<Rightarrow> pod_verdict pods)))"

definition svc_clock :: "'s svc_client \<Rightarrow> ('s, kerr, int) act" where
  "svc_clock c = (\<lambda>w. case vc_now c w of (t, w') \<Rightarrow> (Ok t, w'))"

definition svc_sleep :: "'s svc_client \<Rightarrow> int \<Rightarrow> ('s, kerr, unit) act" where
  "svc_sleep c ms = (\<lambda>w. case vc_sleep c ms w of (None, w') \<Rightarrow> (Ok (), w') | (Some e, w') \<Rightarrow> (Fail (KOther e), w'))"

text \<open>The poll loop with fuel \<open>n\<close>; when the fuel is used up the deadline has passed, and the last
  observation is reported.\<close>

fun wait_service :: "'s svc_client \<Rightarrow> string \<Rightarrow> int \<Rightarrow> nat \<Rightarrow> ('s, kerr, wait_result) act" where
  "wait_service c name deadline n =
    bnd (kread (vc_deps c) (vc_ns c) name) (\<lambda>d.
    bnd (deploymentReadiness c d) (\<lambda>res.
     if wr_ready res then ret \<lparr>wr_ready = True, wr_failed = False, wr_reason = []\<rparr>
     else if wr_failed res then ret res
     else bnd (svc_clock c) (\<lambda>now.
       if \<not> now < deadline then deploymentReadiness c d
       else (case n of 0 \<Rightarrow> deploymentReadiness c d
             | Suc m \<Rightarrow> bnd (svc_sleep c 500) (\<lambda>_. wait_service c name deadline m)))))"

declare wait_service.simps [simp del]

definition svc_WaitReady :: "'s svc_client \<Rightarrow> string \<Rightarrow> int \<Rightarrow> ('s, kerr, wait_result) act" where
  "svc_WaitReady c name timeout0 =
    (let timeout = (if timeout0 \<le> 0 then 60000 else timeout0) in
     bnd (svc_clock c) (\<lambda>now. wait_service c name (now + timeout) (nat (timeout div 500) + 1)))"

subsection \<open>Configuration objects\<close>

record config_view =
  cv_name :: string
  cv_data :: "string gomap"
  cv_creator :: string
  cv_namespace :: string
  cv_created :: int

text \<open>The two kinds differ in their keys and in the store they live in.\<close>

record 's config_kind =
  ck_store :: "(config_obj, 's) kstore"
  ck_label :: string
  ck_label_name :: string
  ck_creator :: string
  ck_namespace :: string
  ck_what :: string

definition config_maps :: "'s svc_client \<Rightarrow> 's config_kind" where
  "config_maps c = \<lparr>ck_store = vc_cms c, ck_label = ''workspace/configmap'', ck_label_name = ''workspace/configmap-name'',
     ck_creator = ''workspace/configmap-creator'', ck_namespace = ''workspace/configmap-namespace'', ck_what = ''configmap''\<rparr>"

definition opaque_secrets :: "'s svc_client \<Rightarrow> 's config_kind" where
  "opaque_secrets c = \<lparr>ck_store = vc_secrets c, ck_label = ''workspace/secret'', ck_label_name = ''workspace/secret-name'',
     ck_creator = ''workspace/secret-creator'', ck_namespace = ''workspace/secret-namespace'', ck_what = ''secret''\<rparr>"

definition toConfig :: "'s config_kind \<Rightarrow> config_obj \<Rightarrow> config_view" where
  "toConfig k o' = \<lparr>cv_name = om_name (co_meta o'), cv_data = co_data o',
     cv_creator = mstr (om_annotations (co_meta o')) (ck_creator k),
     cv_namespace = mstr (om_annotations (co_meta o')) (ck_namespace k), cv_created = co_created o'\<rparr>"

definition config_object :: "'s config_kind \<Rightarrow> string \<Rightarrow> string gomap \<Rightarrow> string \<Rightarrow> string \<Rightarrow> config_obj" where
  "config_object k name data creator namespace =
    \<lparr>co_meta = \<lparr>om_name = name, om_labels = [(ck_label k, ''1''), (ck_label_name k, name)],
                om_annotations = [(ck_creator k, creator), (ck_namespace k, namespace)]\<rparr>,
     co_data = data, co_created = 0\<rparr>"

definition config_Get :: "'s config_kind \<Rightarrow> string \<Rightarrow> string \<Rightarrow> ('s, kerr, config_view) act" where
  "config_Get k ns name = bnd (kread (ck_store k) ns name) (\<lambda>o'. ret (toConfig k o'))"

definition config_Put ::
  "'s config_kind \<Rightarrow> string \<Rightarrow> string \<Rightarrow> string gomap \<Rightarrow> string \<Rightarrow> string \<Rightarrow> ('s, kerr, config_view) act" where
  "config_Put k ns name data creator namespace =
    (if name = [] then throw (KOther ''name required'') else
     let ob = config_object k name data creator namespace in
     bnd (attempt (config_Get k ns name)) (\<lambda>r. case r of
       Inr existing \<Rightarrow>
         if \<not> (cv_creator existing \<noteq> [] \<and> cv_creator existing = creator)
         then throw (KOther (ck_what k @ '' '' @ go_quote name @ '' is not writable by this tenant''))
         else bnd (map_err (kwrap (''update '' @ ck_what k)) (kupdate (ck_store k) ns ob)) (\<lambda>_. config_Get k ns name)
     | Inl e \<Rightarrow> if \<not> IsNotFound e then throw e
         else bnd (map_err (kwrap (''create '' @ ck_what k)) (kcreate (ck_store k) ns ob)) (\<lambda>_. config_Get k ns name)))"

definition config_List :: "'s config_kind \<Rightarrow> string \<Rightarrow> ('s, kerr, config_view list) act" where
  "config_List k ns = bnd (kfind (ck_store k) ns [(ck_label k, ''1'')]) (\<lambda>os. ret (map (toConfig k) os))"

definition config_Delete :: "'s config_kind \<Rightarrow> string \<Rightarrow> string \<Rightarrow> ('s, kerr, bool) act" where
  "config_Delete k ns name = bnd (attempt (kremove (ck_store k) ns name)) (\<lambda>r. case r of
      Inl e \<Rightarrow> if IsNotFound e then ret False else throw e | Inr _ \<Rightarrow> ret True)"

text \<open>The exported operations, in the managed namespace.\<close>

definition svc_PutConfigMap where "svc_PutConfigMap c = config_Put (config_maps c) (vc_ns c)"
definition svc_GetConfigMap where "svc_GetConfigMap c = config_Get (config_maps c) (vc_ns c)"
definition svc_ListConfigMaps where "svc_ListConfigMaps c = config_List (config_maps c) (vc_ns c)"
definition svc_DeleteConfigMap where "svc_DeleteConfigMap c = config_Delete (config_maps c) (vc_ns c)"
definition svc_PutSecret where "svc_PutSecret c = config_Put (opaque_secrets c) (vc_ns c)"
definition svc_GetSecret where "svc_GetSecret c = config_Get (opaque_secrets c) (vc_ns c)"
definition svc_ListSecrets where "svc_ListSecrets c = config_List (opaque_secrets c) (vc_ns c)"
definition svc_DeleteSecret where "svc_DeleteSecret c = config_Delete (opaque_secrets c) (vc_ns c)"

lemmas svc_config_ops = svc_PutConfigMap_def svc_GetConfigMap_def svc_ListConfigMaps_def svc_DeleteConfigMap_def
  svc_PutSecret_def svc_GetSecret_def svc_ListSecrets_def svc_DeleteSecret_def

end
