(* ===== verification/ServiceHandlers.thy ===== *)
theory ServiceHandlers
  imports Sessions ServiceObjects
begin

text \<open>
  The request handlers of \<^verbatim>\<open>internal/workspacesvc/service.go\<close> for long-lived services, volume
  claims and configuration objects.  \<open>svc_env\<close> holds the fields of the Go service these handlers
  use beside those of \<open>service\<close>.  Request messages carry the records of the service manager where
  the generated types have the same fields; a nil sub-message is \<open>None\<close>.
\<close>

subsection \<open>The environment\<close>

record 'x svc_env =
  en_svc :: "'x svc_client option"
  en_yaml :: yaml
  en_domain :: string
  en_ns :: string
  en_pvc_class :: string
  en_pvc_size :: string
  en_runtime :: settings
  en_is_ip :: "string \<Rightarrow> bool"
  en_golden_pvc :: string
  en_golden_size :: string
  en_vm_proxy :: string
  en_vm_tag :: string
  en_bootstrap :: "bootstrap option"

definition lift_kstore :: "string \<Rightarrow> ('o \<Rightarrow> kmeta) \<Rightarrow> ('o, 'x) kstore \<Rightarrow> ('o, 'x world) kstore" where
  "lift_kstore kind meta st =
    \<lparr>ks_api = lift_kapi kind meta (ks_api st),
     ks_put = (\<lambda>ns ob. logged (CKube VUpdate kind (om_name (meta ob))) (ks_put st ns ob))\<rparr>"

definition lift_svc :: "'x svc_client \<Rightarrow> 'x world svc_client" where
  "lift_svc c =
    \<lparr>vc_deps = lift_kstore ''deployments'' d_meta (vc_deps c), vc_svcs = lift_kstore ''services'' so_meta (vc_svcs c),
     vc_pvcs = lift_kstore ''claims'' pc_meta (vc_pvcs c), vc_cms = lift_kstore ''configmaps'' co_meta (vc_cms c),
     vc_secrets = lift_kstore ''secrets'' co_meta (vc_secrets c), vc_rss = lift_kstore ''replicasets'' rs_meta (vc_rss c),
     vc_pods = (\<lambda>ns sel. logged (CKube VList ''pods'' []) (vc_pods c ns sel)),
     vc_ns = vc_ns c, vc_registry = vc_registry c, vc_cpu_req = vc_cpu_req c, vc_cpu_lim = vc_cpu_lim c,
     vc_mem_req = vc_mem_req c, vc_mem_lim = vc_mem_lim c, vc_quantity = vc_quantity c, vc_canon = vc_canon c,
     vc_intparse = vc_intparse c, vc_intprint = vc_intprint c,
     vc_now = quiet (vc_now c), vc_sleep = (\<lambda>ms. quiet (vc_sleep c ms))\<rparr>"

definition no_backend :: cerr where
  "no_backend = CErr CodeUnavailable ''service backend not configured''"

definition with_svc ::
  "'x svc_env \<Rightarrow> ('x world, 'e, 'a) act \<Rightarrow> ('x world svc_client \<Rightarrow> ('x world, 'e, 'a) act) \<Rightarrow> ('x world, 'e, 'a) act" where
  "with_svc E none f = (case en_svc E of Some c \<Rightarrow> f (lift_svc c) | None \<Rightarrow> none)"

text \<open>A method call that is not guarded: a nil client is dereferenced and panics.\<close>

abbreviation svc_deref :: "'x svc_env \<Rightarrow> ('x world svc_client \<Rightarrow> ('x world, 'e, 'a) act) \<Rightarrow> ('x world, 'e, 'a) act" where
  "svc_deref E f \<equiv> with_svc E (panic ''nil pointer dereference'') f"

definition svc_err :: "code \<Rightarrow> ('s, kerr, 'a) act \<Rightarrow> ('s, cerr, 'a) act" where
  "svc_err c m = map_err (\<lambda>e. CErr c (kerr_text e)) m"

abbreviation svc_internal :: "('s, kerr, 'a) act \<Rightarrow> ('s, cerr, 'a) act" where
  "svc_internal \<equiv> svc_err CodeInternal"

subsection \<open>Who may write\<close>

definition callerNamespace :: "headers \<Rightarrow> string" where
  "callerNamespace h = (let session = sessionFromHeaders h in if session = [] then []
     else (case ParseSession session of Some (org, _, _) \<Rightarrow> org | None \<Rightarrow> []))"

definition writable :: "string \<Rightarrow> string \<Rightarrow> bool" where
  "writable creator tenant = (creator \<noteq> [] \<and> creator = tenant)"

definition owned :: "string \<Rightarrow> string \<Rightarrow> bool" where
  "owned creator tenant = (creator = [] \<or> creator = tenant)"

definition canWrite :: "string \<Rightarrow> headers \<Rightarrow> bool" where
  "canWrite resourceNS h = (let ns = callerNamespace h in ns = [] \<or> resourceNS = [] \<or> resourceNS = ns)"

definition resolveNamespace :: "headers \<Rightarrow> string \<Rightarrow> string" where
  "resolveNamespace h explicit = (let ns = callerNamespace h in if ns \<noteq> [] then ns else explicit)"

subsection \<open>The view of a service\<close>

record port_info =
  pi_name :: string
  pi_preset :: string
  pi_port :: int
  pi_proto :: string
  pi_target :: int
  pi_url :: string

text \<open>\<open>si_svc\<close> holds the fields that are copied unchanged.\<close>

record service_info =
  si_svc :: svc_view
  si_public_url :: string
  si_ports :: "port_info list"
  si_resources :: "resources option"
  si_readiness :: "probe option"
  si_liveness :: "probe option"
  si_startup :: "probe option"
  si_rollout :: "rollout option"
  si_operable :: bool

definition fromResources :: "resources \<Rightarrow> resources option" where
  "fromResources r = (if resources_empty r then None else Some r)"
definition fromProbeSpec :: "probe \<Rightarrow> probe option" where
  "fromProbeSpec p = (if probe_empty p then None else Some p)"
definition fromRollout :: "rollout \<Rightarrow> rollout option" where
  "fromRollout r = (if ro_surge r = [] \<and> ro_unavailable r = [] then None else Some r)"

definition toResources :: "resources option \<Rightarrow> resources" where
  "toResources r = (case r of Some x \<Rightarrow> x | None \<Rightarrow> \<lparr>re_cpu = [], re_memory = [], re_cpu_limit = [], re_memory_limit = []\<rparr>)"
definition toProbeSpec :: "probe option \<Rightarrow> probe" where
  "toProbeSpec p = (case p of Some x \<Rightarrow> x | None \<Rightarrow> no_probe)"
definition toRollout :: "rollout option \<Rightarrow> rollout" where
  "toRollout r = (case r of Some x \<Rightarrow> x | None \<Rightarrow> \<lparr>ro_surge = [], ro_unavailable = []\<rparr>)"

definition presetKey :: "int \<Rightarrow> string \<Rightarrow> string" where
  "presetKey port proto =
    (if port = 80 \<and> proto = ''tcp'' then ''tcp80'' else if port = 443 \<and> proto = ''tcp'' then ''tcp443''
     else if port = 443 \<and> proto = ''udp'' then ''udp443'' else proto @ int_str port)"

definition publicDomainFor :: "'x svc_env \<Rightarrow> headers \<Rightarrow> string" where
  "publicDomainFor E h =
    (if en_domain E \<noteq> [] then en_domain E else
     let host0 = forwardedHost h in if host0 = [] then [] else
     let host = (case index_byte CHR '':'' host0 of Some i \<Rightarrow> take i host0 | None \<Rightarrow> host0) in
     if host = ''localhost'' \<or> has_suffix host ''.svc.cluster.local'' \<or> has_suffix host ''.svc'' then []
     else if en_is_ip E host then []
     else let parts = split_at CHR ''.'' host in
       if length parts < 3 then [] else join ''.'' (drop 2 parts))"

definition servicePublicURLs :: "'x svc_env \<Rightarrow> headers \<Rightarrow> svc_view \<Rightarrow> string gomap" where
  "servicePublicURLs E h v =
    (let domain = publicDomainFor E h; ns = (if en_ns E = [] then ''worker'' else en_ns E)
     in if domain = [] then []
        else foldl (\<lambda>m p. mput (po_suffix p) (''https://'' @ siblingName (sw_name v) (po_suffix p) @ ''.'' @ ns @ ''.'' @ domain) m)
          [] (filter (\<lambda>p. po_port p = 80 \<and> po_proto p = ''tcp'') (sw_ports v)))"

definition toServiceInfoImpl :: "svc_view \<Rightarrow> string gomap \<Rightarrow> service_info" where
  "toServiceInfoImpl v urls =
    (let url_of = (\<lambda>p. if presetKey (po_port p) (po_proto p) = ''tcp80'' then mstr urls (po_suffix p) else [])
     in \<lparr>si_svc = v,
         si_public_url = (case filter (\<lambda>p. po_suffix p = [] \<and> presetKey (po_port p) (po_proto p) = ''tcp80'') (sw_ports v) of
             [] \<Rightarrow> [] | ps \<Rightarrow> url_of (last ps)),
         si_ports = map (\<lambda>p. \<lparr>pi_name = po_suffix p, pi_preset = presetKey (po_port p) (po_proto p), pi_port = po_port p,
             pi_proto = po_proto p, pi_target = po_target p, pi_url = url_of p\<rparr>) (sw_ports v),
         si_resources = fromResources (sw_resources v), si_readiness = fromProbeSpec (sw_readiness v),
         si_liveness = fromProbeSpec (sw_liveness v), si_startup = fromProbeSpec (sw_startup v),
         si_rollout = fromRollout (sw_rollout v), si_operable = False\<rparr>)"

definition toServiceInfo :: "'x svc_env \<Rightarrow> headers \<Rightarrow> svc_view \<Rightarrow> service_info" where
  "toServiceInfo E h v = toServiceInfoImpl v (servicePublicURLs E h v)"

subsection \<open>Requested ports and volumes\<close>

record port_req =
  pq_preset :: string
  pq_name :: string
  pq_target :: int

text \<open>\<open>seen\<close>: the names that already have a public port.\<close>

fun service_ports :: "int \<Rightarrow> nat \<Rightarrow> string list \<Rightarrow> port_req list \<Rightarrow> string + port list" where
  "service_ports cport i seen [] = Inr []"
| "service_ports cport i seen (sp # sps) =
    (case PresetPorts (pq_preset sp) of
       None \<Rightarrow> Inl (at_index ''services'' i ''preset must be tcp80|tcp443|udp443'')
     | Some (n, proto) \<Rightarrow>
         let sfx = pq_name sp in
         if sfx \<noteq> [] \<and> \<not> ValidServiceName sfx then Inl (at_index ''services'' i ''name must be a DNS-1123 label'')
         else if n = 80 \<and> sfx \<in> set seen then Inl (at_index ''services'' i ''only one tcp80 per service name'')
         else let t0 = (if pq_target sp = 0 then cport else pq_target sp); t = (if t0 = 0 then 8080 else t0) in
           (case service_ports cport (Suc i) (if n = 80 then sfx # seen else seen) sps of
              Inl e \<Rightarrow> Inl e
            | Inr out \<Rightarrow> Inr (\<lparr>po_suffix = sfx, po_port = n, po_proto = proto, po_target = t\<rparr> # out)))"

definition servicePorts :: "port_req list \<Rightarrow> int \<Rightarrow> string + port list" where
  "servicePorts specs cport =
    (if specs = [] then Inr [\<lparr>po_suffix = [], po_port = 80, po_proto = ''tcp'', po_target = (if cport = 0 then 8080 else cport)\<rparr>]
     else service_ports cport 0 [] specs)"

definition bad_arg :: "string \<Rightarrow> cerr" where "bad_arg m = CErr CodeInvalidArgument m"

definition resolve_volume ::
  "'x svc_env \<Rightarrow> string \<Rightarrow> nat \<times> svc_volume_mount \<Rightarrow> ('x, svc_volume_mount) handler" where
  "resolve_volume E tenant im = (case im of (i, m) \<Rightarrow>
    let missing = CErr CodeNotFound (at_index ''volumes'' i (''pvc '' @ go_quote (vn_pvc m) @ '' not found'')) in
    if \<not> ValidServiceName (vn_pvc m) then throw (bad_arg (at_index ''volumes'' i ''pvc must be a DNS-1123 label''))
    else if vn_path m = [] \<or> \<not> has_prefix (vn_path m) ''/''
    then throw (bad_arg (at_index ''volumes'' i ''mount_path must be an absolute path''))
    else bnd (attempt (svc_deref E (\<lambda>c. svc_GetPVC c (vn_pvc m)))) (\<lambda>r. case r of
        Inl _ \<Rightarrow> throw missing
      | Inr pvc \<Rightarrow> if pv_creator pvc \<noteq> [] \<and> pv_creator pvc \<noteq> tenant then throw missing
          else ret (m\<lparr>vn_pvc := pv_name pvc\<rparr>)))"

definition resolveVolumes ::
  "'x svc_env \<Rightarrow> string \<Rightarrow> svc_volume_mount list \<Rightarrow> ('x, svc_volume_mount list) handler" where
  "resolveVolumes E tenant mounts = collect (resolve_volume E tenant) (enumerate 0 mounts)"

subsection \<open>Services\<close>

text \<open>The guard of \<open>DeleteService\<close>, \<open>ScaleService\<close> and \<open>pauseResume\<close>: a service that is not
  writable is reported as not found.\<close>

definition no_service :: cerr where "no_service = CErr CodeNotFound ''service not found''"

definition writable_service ::
  "'x world svc_client \<Rightarrow> headers \<Rightarrow> string \<Rightarrow> string \<Rightarrow> ('x, unit) handler" where
  "writable_service c h tenant name =
    bnd (attempt (svc_Get c name)) (\<lambda>r. case r of
      Inl _ \<Rightarrow> throw no_service
    | Inr cur \<Rightarrow> if \<not> writable (sw_creator cur) tenant then throw no_service
        else if \<not> canWrite (sw_namespace cur) h then throw no_service else ret ())"

definition ownedService :: "'x service \<Rightarrow> 'x svc_env \<Rightarrow> headers \<Rightarrow> string \<Rightarrow> ('x, svc_view) handler" where
  "ownedService S E h name =
    bnd (sandboxAuth S h) (\<lambda>tenant.
    with_svc E (throw no_backend) (\<lambda>c.
    bnd (attempt (svc_Get c name)) (\<lambda>r. case r of
      Inl _ \<Rightarrow> throw no_service
    | Inr v \<Rightarrow> if sw_creator v \<noteq> [] \<and> sw_creator v \<noteq> tenant
        then throw (CErr CodePermissionDenied ''service belongs to another tenant'') else ret v)))"

definition other_namespace :: cerr where
  "other_namespace = CErr CodePermissionDenied ''service belongs to another namespace''"

record deploy_req =
  dq_name :: string
  dq_image :: string
  dq_command :: "string list"
  dq_env :: "string gomap"
  dq_cpu :: string
  dq_memory :: string
  dq_replicas :: int
  dq_cport :: int
  dq_namespace :: string
  dq_services :: "port_req list"
  dq_kvm :: bool
  dq_gpu :: int
  dq_volumes :: "svc_volume_mount list"
  dq_resources :: "resources option"
  dq_readiness :: "probe option"
  dq_liveness :: "probe option"
  dq_startup :: "probe option"
  dq_rollout :: "rollout option"
  dq_env_refs :: "env_ref list"
  dq_env_from :: "env_from_req list"
  dq_config_mounts :: "config_mount list"
  dq_sidecars :: "sidecar list"
  dq_nodes :: "string gomap"
  dq_tolerations :: "toleration list"

definition deploy_spec ::
  "'x svc_env \<Rightarrow> headers \<Rightarrow> deploy_req \<Rightarrow> string \<Rightarrow> string \<Rightarrow> port list \<Rightarrow> svc_volume_mount list \<Rightarrow> svc_spec" where
  "deploy_spec E h rq tenant name ports vols =
    \<lparr>ss_name = name, ss_image = dq_image rq, ss_command = dq_command rq, ss_env = dq_env rq, ss_cpu = dq_cpu rq,
     ss_memory = dq_memory rq, ss_replicas = dq_replicas rq, ss_container_port = dq_cport rq, ss_creator = tenant,
     ss_session = sessionFromHeaders h, ss_namespace = resolveNamespace h (dq_namespace rq), ss_ports = ports,
     ss_runtime = Render (en_runtime E) (dq_kvm rq) (dq_gpu rq), ss_volumes = vols,
     ss_resources = toResources (dq_resources rq), ss_readiness = toProbeSpec (dq_readiness rq),
     ss_liveness = toProbeSpec (dq_liveness rq), ss_startup = toProbeSpec (dq_startup rq),
     ss_rollout = toRollout (dq_rollout rq), ss_env_refs = dq_env_refs rq, ss_env_from = dq_env_from rq,
     ss_config_mounts = dq_config_mounts rq, ss_sidecars = dq_sidecars rq, ss_nodes = dq_nodes rq,
     ss_tolerations = dq_tolerations rq\<rparr>"

definition awaitServiceReady :: "'x world svc_client \<Rightarrow> string \<Rightarrow> ('x, unit) handler" where
  "awaitServiceReady c name =
    bnd (svc_internal (svc_WaitReady c name 60000)) (\<lambda>res.
     if wr_failed res then throw (CErr CodeFailedPrecondition
       (''service '' @ go_quote name @ '' failed to start: '' @ wr_reason res)) else ret ())"

text \<open>The ownership guard of \<open>DeployService\<close>: only a service that can be read is checked.\<close>

definition deploy_guard :: "'x world svc_client \<Rightarrow> headers \<Rightarrow> string \<Rightarrow> string \<Rightarrow> ('x, unit) handler" where
  "deploy_guard c h tenant name =
    bnd (attempt (svc_Get c name)) (\<lambda>r. case r of
      Inl _ \<Rightarrow> ret ()
    | Inr cur \<Rightarrow> if \<not> writable (sw_creator cur) tenant
        then throw (CErr CodePermissionDenied ''service not writable by this tenant'')
        else if \<not> canWrite (sw_namespace cur) h then throw other_namespace else ret ())"

definition DeployService :: "'x service \<Rightarrow> 'x svc_env \<Rightarrow> headers \<Rightarrow> deploy_req \<Rightarrow> ('x, service_info) handler" where
  "DeployService S E h rq =
    bnd (sandboxAuth S h) (\<lambda>tenant.
    with_svc E (throw no_backend) (\<lambda>c.
    let name = (if dq_name rq = [] then ServiceName (sessionFromHeaders h) else dq_name rq) in
    if \<not> ValidServiceName name
    then throw (bad_arg ''name must be a DNS-1123 label (lowercase letters, digits, '-')'')
    else bnd (deploy_guard c h tenant name) (\<lambda>_.
    case servicePorts (dq_services rq) (dq_cport rq) of Inl m \<Rightarrow> throw (bad_arg m)
    | Inr ports \<Rightarrow>
      bnd (resolveVolumes E tenant (dq_volumes rq)) (\<lambda>vols.
      let s = deploy_spec E h rq tenant name ports vols in
      if ss_image s = [] then throw (bad_arg ''image is required'')
      else bnd (svc_internal (svc_Deploy c s)) (\<lambda>svc.
      bnd (awaitServiceReady c name) (\<lambda>_.
      bnd (attempt (svc_Get c name)) (\<lambda>cur.
        ret (toServiceInfo E h (case cur of Inr v \<Rightarrow> v | Inl _ \<Rightarrow> svc)))))))))"

definition RollbackService ::
  "'x service \<Rightarrow> 'x svc_env \<Rightarrow> headers \<Rightarrow> string \<Rightarrow> int \<Rightarrow> ('x, service_info) handler" where
  "RollbackService S E h name revision =
    bnd (ownedService S E h name) (\<lambda>cur.
    if \<not> canWrite (sw_namespace cur) h then throw other_namespace
    else with_svc E (throw no_backend) (\<lambda>c.
    bnd (svc_err CodeFailedPrecondition (svc_Rollback c name revision)) (\<lambda>v. ret (toServiceInfo E h v))))"

definition ListServices :: "'x service \<Rightarrow> 'x svc_env \<Rightarrow> headers \<Rightarrow> ('x, service_info list) handler" where
  "ListServices S E h =
    bnd (sandboxAuth S h) (\<lambda>tenant.
    with_svc E (ret []) (\<lambda>c.
    bnd (svc_internal (svc_List c)) (\<lambda>svcs.
      ret (sort_by (\<lambda>i. - sw_created (si_svc i))
        (map (\<lambda>v. (toServiceInfo E h v)\<lparr>si_operable := writable (sw_creator v) tenant \<and> canWrite (sw_namespace v) h\<rparr>)
          (filter (\<lambda>v. \<not> (sw_creator v \<noteq> [] \<and> sw_creator v \<noteq> tenant)) svcs))))))"

definition DeleteService :: "'x service \<Rightarrow> 'x svc_env \<Rightarrow> headers \<Rightarrow> string \<Rightarrow> ('x, bool) handler" where
  "DeleteService S E h name =
    bnd (sandboxAuth S h) (\<lambda>tenant.
    with_svc E (ret False) (\<lambda>c.
    bnd (writable_service c h tenant name) (\<lambda>_. svc_internal (svc_Delete c name))))"

definition pauseResume :: "'x service \<Rightarrow> 'x svc_env \<Rightarrow> headers \<Rightarrow> string \<Rightarrow> bool \<Rightarrow> ('x, service_info) handler" where
  "pauseResume S E h name pause =
    bnd (sandboxAuth S h) (\<lambda>tenant.
    with_svc E (throw no_backend) (\<lambda>c.
    bnd (writable_service c h tenant name) (\<lambda>_.
    bnd (svc_internal (if pause then svc_Pause c name else svc_Resume c name)) (\<lambda>v. ret (toServiceInfo E h v)))))"

definition PauseService where "PauseService S E h name = pauseResume S E h name True"
definition ResumeService where "ResumeService S E h name = pauseResume S E h name False"

definition ScaleService :: "'x service \<Rightarrow> 'x svc_env \<Rightarrow> headers \<Rightarrow> string \<Rightarrow> int \<Rightarrow> ('x, service_info) handler" where
  "ScaleService S E h name replicas =
    bnd (sandboxAuth S h) (\<lambda>tenant.
    with_svc E (throw no_backend) (\<lambda>c.
    bnd (writable_service c h tenant name) (\<lambda>_.
    if replicas < 0 then throw (bad_arg ''replicas must be >= 0'')
    else bnd (svc_internal (svc_Scale c name replicas)) (\<lambda>v. ret (toServiceInfo E h v)))))"

definition GetServiceManifest :: "'x service \<Rightarrow> 'x svc_env \<Rightarrow> headers \<Rightarrow> string \<Rightarrow> ('x, string) handler" where
  "GetServiceManifest S E h name =
    bnd (ownedService S E h name) (\<lambda>_.
    with_svc E (throw no_backend) (\<lambda>c. svc_internal (svc_Manifest c (en_yaml E) name)))"

definition ApplyServiceManifest ::
  "'x service \<Rightarrow> 'x svc_env \<Rightarrow> headers \<Rightarrow> string \<Rightarrow> string \<Rightarrow> bool \<Rightarrow> ('x, service_info option \<times> string) handler" where
  "ApplyServiceManifest S E h name text dryRun =
    bnd (ownedService S E h name) (\<lambda>cur.
    if \<not> canWrite (sw_namespace cur) h then throw other_namespace
    else with_svc E (throw no_backend) (\<lambda>c.
    bnd (svc_err CodeInvalidArgument (svc_ApplyManifest c (en_yaml E) name text dryRun)) (\<lambda>(out, y).
      ret (map_option (toServiceInfo E h) out, y))))"

subsection \<open>Volume claims\<close>

definition CreatePVC ::
  "'x service \<Rightarrow> 'x svc_env \<Rightarrow> headers \<Rightarrow> string \<Rightarrow> string \<Rightarrow> string \<Rightarrow> string \<Rightarrow> ('x, pvc_view) handler" where
  "CreatePVC S E h name storageClass size0 namespace =
    bnd (sandboxAuth S h) (\<lambda>tenant.
    with_svc E (throw no_backend) (\<lambda>c.
    if \<not> ValidServiceName name
    then throw (bad_arg ''name must be a DNS-1123 label (lowercase letters, digits, '-')'')
    else if storageClass \<noteq> [] \<and> storageClass \<noteq> en_pvc_class E
    then throw (bad_arg (''storage_class must be '' @ go_quote (en_pvc_class E)))
    else let size = (if size0 = [] then en_pvc_size E else size0) in
    bnd (attempt (svc_GetPVC c name)) (\<lambda>r.
    bnd (case r of Inl _ \<Rightarrow> ret ()
         | Inr cur \<Rightarrow> if writable (pv_creator cur) tenant then ret ()
             else throw (CErr CodePermissionDenied ''pvc not writable by this tenant'')) (\<lambda>_.
    svc_internal (svc_CreatePVC c name size (en_pvc_class E) tenant (resolveNamespace h namespace))))))"

text \<open>The views of the claims listed, with whether the caller may operate on them.\<close>

definition listPVCs :: "'x svc_env \<Rightarrow> headers \<Rightarrow> string \<Rightarrow> ('x, (pvc_view \<times> bool) list) handler" where
  "listPVCs E h tenant = with_svc E (ret []) (\<lambda>c.
    bnd (svc_internal (svc_ListPVCs c)) (\<lambda>pvcs.
      ret (map (\<lambda>p. (p, writable (pv_creator p) tenant \<and> canWrite (pv_namespace p) h))
        (filter (\<lambda>p. \<not> (pv_creator p \<noteq> [] \<and> pv_creator p \<noteq> tenant)) pvcs))))"

definition ListPVCs :: "'x service \<Rightarrow> 'x svc_env \<Rightarrow> headers \<Rightarrow> ('x, (pvc_view \<times> bool) list) handler" where
  "ListPVCs S E h = bnd (sandboxAuth S h) (\<lambda>tenant. listPVCs E h tenant)"

definition no_claim :: cerr where "no_claim = CErr CodeNotFound ''pvc not found''"

definition DeletePVC :: "'x service \<Rightarrow> 'x svc_env \<Rightarrow> headers \<Rightarrow> string \<Rightarrow> ('x, bool) handler" where
  "DeletePVC S E h name =
    bnd (sandboxAuth S h) (\<lambda>tenant.
    with_svc E (ret False) (\<lambda>c.
    bnd (attempt (svc_GetPVC c name)) (\<lambda>r. case r of
      Inl _ \<Rightarrow> throw no_claim
    | Inr cur \<Rightarrow>
        if \<not> writable (pv_creator cur) tenant then throw no_claim
        else if \<not> canWrite (pv_namespace cur) h then throw no_claim
        else svc_err CodeFailedPrecondition (svc_DeletePVC c name))))"

subsection \<open>Configuration objects\<close>

text \<open>The handlers for ConfigMaps and for Secrets differ only in the operations they call.\<close>

definition put_config where
  "put_config put S E h name data =
    bnd (sandboxAuth S h) (\<lambda>tenant.
    with_svc E (throw no_backend) (\<lambda>c. svc_internal (put c name data tenant (resolveNamespace h []))))"

definition list_config where
  "list_config ls S E h =
    bnd (sandboxAuth S h) (\<lambda>tenant.
    with_svc E (ret []) (\<lambda>c.
    bnd (svc_internal (ls c)) (\<lambda>xs. ret (filter (\<lambda>v. owned (cv_creator v) tenant) xs))))"

definition delete_config where
  "delete_config get rm S E h name =
    bnd (sandboxAuth S h) (\<lambda>tenant.
    with_svc E (ret False) (\<lambda>c.
    bnd (attempt (get c name)) (\<lambda>r. case r of
      Inl (e :: kerr) \<Rightarrow> ret False
    | Inr cur \<Rightarrow> if \<not> writable (cv_creator cur) tenant then ret False else svc_internal (rm c name))))"

definition PutConfigMap :: "'x service \<Rightarrow> 'x svc_env \<Rightarrow> headers \<Rightarrow> string \<Rightarrow> string gomap \<Rightarrow> ('x, config_view) handler" where
  "PutConfigMap = put_config svc_PutConfigMap"
definition ListConfigMaps :: "'x service \<Rightarrow> 'x svc_env \<Rightarrow> headers \<Rightarrow> ('x, config_view list) handler" where
  "ListConfigMaps = list_config svc_ListConfigMaps"
definition DeleteConfigMap :: "'x service \<Rightarrow> 'x svc_env \<Rightarrow> headers \<Rightarrow> string \<Rightarrow> ('x, bool) handler" where
  "DeleteConfigMap = delete_config svc_GetConfigMap svc_DeleteConfigMap"
definition PutSecret :: "'x service \<Rightarrow> 'x svc_env \<Rightarrow> headers \<Rightarrow> string \<Rightarrow> string gomap \<Rightarrow> ('x, config_view) handler" where
  "PutSecret = put_config svc_PutSecret"
definition ListSecrets :: "'x service \<Rightarrow> 'x svc_env \<Rightarrow> headers \<Rightarrow> ('x, config_view list) handler" where
  "ListSecrets = list_config svc_ListSecrets"
definition DeleteSecret :: "'x service \<Rightarrow> 'x svc_env \<Rightarrow> headers \<Rightarrow> string \<Rightarrow> ('x, bool) handler" where
  "DeleteSecret = delete_config svc_GetSecret svc_DeleteSecret"

lemmas config_handlers = put_config_def list_config_def delete_config_def PutConfigMap_def ListConfigMaps_def
  DeleteConfigMap_def PutSecret_def ListSecrets_def DeleteSecret_def

end
