(* ===== verification/ServiceFrames.thy ===== *)
theory ServiceFrames
  imports Frames ServiceHandlers
begin

text \<open>
  What the service manager may change, proved once against the contract of its Kubernetes client:
  every call admitted by \<open>W\<close> (its verb, the kind and the name of the object) stays within \<open>R\<close>.
  Interpreted on the logged client: the ownership store is left alone, and the trace grows by
  admitted calls only.
\<close>

definition store_in ::
  "('s \<Rightarrow> 's \<Rightarrow> bool) \<Rightarrow> (verb \<Rightarrow> string \<Rightarrow> string \<Rightarrow> bool) \<Rightarrow> string \<Rightarrow> ('o \<Rightarrow> kmeta) \<Rightarrow>
   string \<Rightarrow> ('o, 's) kstore \<Rightarrow> bool" where
  "store_in R W kind meta ns st =
    ((\<forall>ob. W VCreate kind (om_name (meta ob)) \<longrightarrow> keeps R (kcreate st ns ob)) \<and>
     (\<forall>ob. W VUpdate kind (om_name (meta ob)) \<longrightarrow> keeps R (kupdate st ns ob)) \<and>
     (\<forall>n. W VGet kind n \<longrightarrow> keeps R (kread st ns n)) \<and>
     (\<forall>n. W VDelete kind n \<longrightarrow> keeps R (kremove st ns n)) \<and>
     (\<forall>sel. W VList kind [] \<longrightarrow> keeps R (kfind st ns sel)))"

lemma store_inD:
  assumes "store_in R W kind meta ns st"
  shows "W VCreate kind (om_name (meta ob)) \<Longrightarrow> keeps R (kcreate st ns ob)"
    "W VUpdate kind (om_name (meta ob)) \<Longrightarrow> keeps R (kupdate st ns ob)"
    "W VGet kind n \<Longrightarrow> keeps R (kread st ns n)"
    "W VDelete kind n \<Longrightarrow> keeps R (kremove st ns n)"
    "W VList kind [] \<Longrightarrow> keeps R (kfind st ns sel)"
  using assms by (simp_all add: store_in_def)

lemma keeps_from_sum [keeps]: "preord R \<Longrightarrow> keeps R (from_sum r)"
  by (auto simp: from_sum_def intro!: keeps split: sum.split)

lemma keeps_or_panic [keeps]: "preord R \<Longrightarrow> keeps R (or_panic r)"
  by (auto simp: or_panic_def intro!: keeps split: option.split)

lemma keeps_svc_err [keeps]: "keeps R m \<Longrightarrow> keeps R (svc_err cd m)"
  by (simp add: svc_err_def keeps)

lemma keeps_sidecar [keeps]: "preord R \<Longrightarrow> keeps R (sidecar_container c isc)"
  by (auto simp: sidecar_container_def intro!: keeps split: prod.split)

lemma build_deployment_keeps [keeps]: "preord R \<Longrightarrow> keeps R (build_deployment c s ports)"
  by (auto simp: build_deployment_def Let_def intro!: keeps)

definition reads_ok :: "(verb \<Rightarrow> string \<Rightarrow> string \<Rightarrow> bool) \<Rightarrow> bool" where
  "reads_ok W = (\<forall>kind n. W VGet kind n \<and> W VList kind n)"

locale svc_frame =
  fixes R :: "'s \<Rightarrow> 's \<Rightarrow> bool" and c :: "'s svc_client" and W :: "verb \<Rightarrow> string \<Rightarrow> string \<Rightarrow> bool"
  assumes pre: "preord R"
    and deps: "store_in R W ''deployments'' d_meta (vc_ns c) (vc_deps c)"
    and svcs: "store_in R W ''services'' so_meta (vc_ns c) (vc_svcs c)"
    and pvcs: "store_in R W ''claims'' pc_meta (vc_ns c) (vc_pvcs c)"
    and cms: "store_in R W ''configmaps'' co_meta (vc_ns c) (vc_cms c)"
    and secrets: "store_in R W ''secrets'' co_meta (vc_ns c) (vc_secrets c)"
    and rss: "store_in R W ''replicasets'' rs_meta (vc_ns c) (vc_rss c)"
    and pods: "\<And>sel. W VList ''pods'' [] \<Longrightarrow> keeps R (of_sum (vc_pods c (vc_ns c) sel))"
    and now: "\<And>w. R w (snd (vc_now c w))"
    and sleeps: "\<And>ms w. R w (snd (vc_sleep c ms w))"
begin

lemmas calls = store_inD [OF deps] store_inD [OF svcs] store_inD [OF pvcs] store_inD [OF cms]
  store_inD [OF secrets] store_inD [OF rss]

lemma clock_keeps: "keeps R (svc_clock c)"
  using now by (auto simp: keeps_def svc_clock_def split: prod.splits) (metis snd_conv)

lemma sleep_keeps: "keeps R (svc_sleep c ms)"
  using sleeps by (auto simp: keeps_def svc_sleep_def split: prod.splits option.splits) (metis snd_conv)+

lemma get_keeps:
  assumes "reads_ok W"
  shows "keeps R (portsFor c name)" "keeps R (list_pods c sel)" "keeps R (svc_Get c name)" "keeps R (svc_Exists c name)"
    "keeps R (svc_List c)"
  using assms
  by (auto simp: reads_ok_def portsFor_def list_pods_def svc_Get_def svc_Exists_def svc_List_def Let_def
      intro!: keeps pre calls pods)

lemma claim_reads:
  assumes "reads_ok W"
  shows "keeps R (mountedIndex c)" "keeps R (mountedBy c name)" "keeps R (svc_GetPVC c name)" "keeps R (svc_ListPVCs c)"
  using assms
  by (auto simp: reads_ok_def mountedIndex_def mountedBy_def svc_GetPVC_def svc_ListPVCs_def intro!: keeps pre calls)

lemma config_reads:
  assumes "reads_ok W"
  shows "keeps R (svc_GetConfigMap c name)" "keeps R (svc_GetSecret c name)"
    "keeps R (svc_ListConfigMaps c)" "keeps R (svc_ListSecrets c)"
  using assms
  by (auto simp: reads_ok_def svc_config_ops config_Get_def config_List_def config_maps_def opaque_secrets_def
      intro!: keeps pre calls)

lemma readiness_keeps: "reads_ok W \<Longrightarrow> keeps R (deploymentReadiness c d)"
  by (auto simp: deploymentReadiness_def intro!: keeps pre get_keeps)

lemma wait_keeps: "reads_ok W \<Longrightarrow> keeps R (wait_service c name deadline n)"
proof (induction n)
  case 0
  then show ?case
    by (subst wait_service.simps)
       (auto simp: reads_ok_def intro!: keeps pre calls readiness_keeps clock_keeps)
next
  case (Suc n)
  then show ?case
    by (subst wait_service.simps)
       (auto simp: reads_ok_def intro!: keeps pre calls readiness_keeps clock_keeps sleep_keeps)
qed

lemma ready_keeps: "reads_ok W \<Longrightarrow> keeps R (svc_WaitReady c name t)"
  by (auto simp: svc_WaitReady_def Let_def intro!: keeps pre clock_keeps wait_keeps)

lemma precheck_keeps: "reads_ok W \<Longrightarrow> keeps R (precheck c s sfx)"
  by (auto simp: precheck_def reads_ok_def Let_def intro!: keeps pre calls)

lemma apply_keeps:
  assumes "reads_ok W"
  shows "(\<And>v. v \<in> {VCreate, VUpdate} \<Longrightarrow> W v ''deployments'' (om_name (d_meta d))) \<Longrightarrow> keeps R (applyDeployment c d)"
    "(\<And>v. v \<in> {VCreate, VUpdate} \<Longrightarrow> W v ''services'' (om_name (so_meta o'))) \<Longrightarrow> keeps R (applyService c o')"
  using assms
  by (auto simp: applyDeployment_def applyService_def reads_ok_def intro!: keeps pre calls)

end

lemma index_map_Inr:
  "index_map f i xs = Inr ys \<Longrightarrow> length ys = length xs \<and> (\<forall>k < length xs. f (i + k) (xs ! k) = Inr (ys ! k))"
proof (induction xs arbitrary: i ys)
  case (Cons x xs)
  then obtain y ys' where y: "f i x = Inr y" "index_map f (Suc i) xs = Inr ys'" "ys = y # ys'"
    by (auto split: sum.splits)
  from Cons.IH [OF y(2)] y show ?case by (auto simp: nth_Cons' gr0_conv_Suc)
qed simp

text \<open>What is known of a deployment that was built.\<close>

lemma from_sum_Ok: "from_sum r w = (Ok x, w') \<longleftrightarrow> r = Inr x \<and> w' = w"
  by (auto simp: from_sum_def act split: sum.splits)

lemma or_panic_Ok: "or_panic r w = (Ok x, w') \<longleftrightarrow> r = Some x \<and> w' = w"
  by (auto simp: or_panic_def act split: option.splits)

lemma build_deployment_name:
  "build_deployment c s ports w = (Ok d, w') \<Longrightarrow> om_name (d_meta d) = ss_name s"
  by (auto simp: build_deployment_def Let_def ret_def elim!: bnd_OkD)

context svc_frame
begin

lemma write_service_keeps:
  assumes "reads_ok W"
    and dep: "\<And>v. v \<in> {VCreate, VUpdate} \<Longrightarrow> W v ''deployments'' (ss_name s)"
    and sib: "\<And>v sfx. v \<in> {VCreate, VUpdate} \<Longrightarrow> sfx \<in> set (port_order ports) \<Longrightarrow>
       W v ''services'' (siblingName (ss_name s) sfx)"
  shows "keeps R (write_service c s ports)"
proof -
  have siblings: "keeps R (each (\<lambda>sfx. applyService c (build_sibling s ports sfx)) sfxs)"
    if "set sfxs \<subseteq> set (port_order ports)" for sfxs
    using that
  proof (induction sfxs)
    case (Cons a sfxs)
    have "keeps R (applyService c (build_sibling s ports a))"
      by (rule apply_keeps(2) [OF assms(1)]) (use sib Cons.prems in \<open>auto simp: build_sibling_def\<close>)
    with Cons show ?case by (auto intro!: keeps pre)
  qed (simp add: keeps pre)
  show ?thesis
    unfolding write_service_def
    by (intro keeps_bnd_results [OF pre build_deployment_keeps [OF pre]] keeps_bnd pre apply_keeps(1) assms(1)
        siblings get_keeps order.refl)
       (auto dest!: build_deployment_name intro!: dep)
qed

lemma deploy_keeps:
  assumes "reads_ok W"
    and "\<And>v. v \<in> {VCreate, VUpdate} \<Longrightarrow> W v ''deployments'' (ss_name s)"
    and "\<And>v sfx ports. v \<in> {VCreate, VUpdate} \<Longrightarrow> resolve_ports (mirrored c s) = Inr ports \<Longrightarrow>
       sfx \<in> set (port_order ports) \<Longrightarrow> W v ''services'' (siblingName (ss_name s) sfx)"
  shows "keeps R (svc_Deploy c s)"
  unfolding svc_Deploy_def Let_def
  by (intro keeps_if keeps_throw pre keeps_bnd_results [OF pre keeps_from_sum [OF pre]] keeps_bnd
      keeps_each precheck_keeps write_service_keeps assms(1))
     (auto simp: from_sum_Ok mirrored_def intro: assms)

end

subsection \<open>The logged client\<close>

lemma store_in_trace: "store_in (traced_in P) (\<lambda>v kind n. P (CKube v kind n)) kind meta ns (lift_kstore kind meta st)"
  by (auto simp: store_in_def kcalls lift_kstore_def lift_kapi_def intro!: keeps)

lemma store_in_db: "store_in same_db (\<lambda>v kind n. True) kind meta ns (lift_kstore kind meta st)"
  by (auto simp: store_in_def kcalls lift_kstore_def lift_kapi_def intro!: keeps)

interpretation svc_trace: svc_frame "traced_in P" "lift_svc c" "\<lambda>v kind n. P (CKube v kind n)" for P c
  by unfold_locales
    (auto simp: lift_svc_def snd_quiet traced_in_def store_in_trace [unfolded traced_in_def]
       intro!: keeps store_in_trace keeps_trace_logged [unfolded traced_in_def])

interpretation svc_db: svc_frame same_db "lift_svc c" "\<lambda>v kind n. True" for c
  by unfold_locales (auto simp: lift_svc_def snd_quiet intro!: keeps store_in_db)

end
