(* ===== verification/ServiceLaws.thy ===== *)
theory ServiceLaws
  imports ServiceFrames
begin

text \<open>
  The documented behaviour of the Kubernetes API for the objects of the service manager, relative
  to a view of the live objects, and a server in memory that has it.  An update replaces a live
  object; what the server fills in itself (version, status, cluster address) is its own.
\<close>

record svc_cluster =
  kv_deps :: "string \<Rightarrow> deployment option"
  kv_svcs :: "string \<Rightarrow> service_obj option"
  kv_pvcs :: "string \<Rightarrow> claim option"
  kv_cms :: "string \<Rightarrow> config_obj option"
  kv_secs :: "string \<Rightarrow> config_obj option"
  kv_rss :: "string \<Rightarrow> replica_set option"

definition put_dep where "put_dep n x v = v\<lparr>kv_deps := (kv_deps v)(n := x)\<rparr>"
definition put_svc where "put_svc n x v = v\<lparr>kv_svcs := (kv_svcs v)(n := x)\<rparr>"
definition put_pvc where "put_pvc n x v = v\<lparr>kv_pvcs := (kv_pvcs v)(n := x)\<rparr>"
definition put_cm where "put_cm n x v = v\<lparr>kv_cms := (kv_cms v)(n := x)\<rparr>"
definition put_sec where "put_sec n x v = v\<lparr>kv_secs := (kv_secs v)(n := x)\<rparr>"
definition put_rs where "put_rs n x v = v\<lparr>kv_rss := (kv_rss v)(n := x)\<rparr>"

lemmas put_defs = put_dep_def put_svc_def put_pvc_def put_cm_def put_sec_def put_rs_def

text \<open>Equal but for what the server fills in.\<close>

definition same_dep :: "deployment \<Rightarrow> deployment \<Rightarrow> bool" where
  "same_dep a b = (d_meta b = d_meta a \<and> d_replicas b = d_replicas a \<and> d_selector b = d_selector a \<and>
     d_template b = d_template a \<and> d_rolling b = d_rolling a)"

definition same_svc :: "service_obj \<Rightarrow> service_obj \<Rightarrow> bool" where
  "same_svc a b = (so_meta b = so_meta a \<and> so_selector b = so_selector a \<and> so_ports b = so_ports a)"

definition same_pvc :: "claim \<Rightarrow> claim \<Rightarrow> bool" where
  "same_pvc a b = (pc_meta b = pc_meta a \<and> pc_storage b = pc_storage a)"

definition same_config :: "config_obj \<Rightarrow> config_obj \<Rightarrow> bool" where
  "same_config a b = (co_meta b = co_meta a \<and> co_data b = co_data a)"

definition store_ok ::
  "('s \<Rightarrow> 'v) \<Rightarrow> ('v, 'o) getter \<Rightarrow> ('v, 'o) setter \<Rightarrow> ('o \<Rightarrow> kmeta) \<Rightarrow> ('o \<Rightarrow> 'o \<Rightarrow> bool) \<Rightarrow> string \<Rightarrow>
   ('o, 's) kstore \<Rightarrow> bool" where
  "store_ok view rd wr meta stored ns st =
    (kind_ok view rd wr (\<lambda>ob. om_name (meta ob)) stored ns (ks_api st) \<and>
     (\<forall>n s ob. rd (view s) n = Some ob \<longrightarrow> om_name (meta ob) = n) \<and>
     (\<forall>ob s. case ks_put st ns ob s of
        (Inr _, s') \<Rightarrow> rd (view s) (om_name (meta ob)) \<noteq> None \<and>
           (\<exists>ob'. stored ob ob' \<and> view s' = wr (om_name (meta ob)) (Some ob') (view s))
      | (Inl _, s') \<Rightarrow> view s' = view s))"

definition cluster_ok :: "('s \<Rightarrow> svc_cluster) \<Rightarrow> 's svc_client \<Rightarrow> bool" where
  "cluster_ok view c =
    (store_ok view kv_deps put_dep d_meta same_dep (vc_ns c) (vc_deps c) \<and>
     store_ok view kv_svcs put_svc so_meta same_svc (vc_ns c) (vc_svcs c) \<and>
     store_ok view kv_pvcs put_pvc pc_meta same_pvc (vc_ns c) (vc_pvcs c) \<and>
     store_ok view kv_cms put_cm co_meta same_config (vc_ns c) (vc_cms c) \<and>
     store_ok view kv_secs put_sec co_meta same_config (vc_ns c) (vc_secrets c) \<and>
     store_ok view kv_rss put_rs rs_meta (=) (vc_ns c) (vc_rss c) \<and>
     (\<forall>sel s. view (snd (vc_pods c (vc_ns c) sel s)) = view s) \<and>
     (\<forall>s. view (snd (vc_now c s)) = view s) \<and> (\<forall>ms s. view (snd (vc_sleep c ms s)) = view s))"

subsection \<open>Calls under the laws\<close>

lemma of_sum_OkD: "of_sum f s = (Ok x, s') \<longleftrightarrow> f s = (Inr x, s')"
  and of_sum_FailD: "of_sum f s = (Fail e, s') \<longleftrightarrow> f s = (Inl e, s')"
  and of_sum_Panic: "of_sum f s = (Panic p, s') \<longleftrightarrow> False"
  by (simp_all add: of_sum_def split: prod.splits sum.splits)

lemma store_calls:
  assumes "store_ok view rd wr meta stored ns st"
  shows kread_Ok: "kread st ns n s = (Ok ob, s') \<Longrightarrow>
      view s' = view s \<and> (\<forall>ob'. rd (view s) n = Some ob' \<longrightarrow> ob = ob')"
    and kread_Fail: "kread st ns n s = (Fail e, s') \<Longrightarrow> view s' = view s \<and> (IsNotFound e \<longrightarrow> rd (view s) n = None)"
    and kcreate_Ok: "kcreate st ns ob s = (Ok x, s') \<Longrightarrow>
      rd (view s) (om_name (meta ob)) = None \<and>
      (\<exists>ob'. stored ob ob' \<and> view s' = wr (om_name (meta ob)) (Some ob') (view s))"
    and kcreate_Fail: "kcreate st ns ob s = (Fail e, s') \<Longrightarrow> view s' = view s"
    and kupdate_Ok: "kupdate st ns ob s = (Ok x, s') \<Longrightarrow>
      rd (view s) (om_name (meta ob)) \<noteq> None \<and>
      (\<exists>ob'. stored ob ob' \<and> view s' = wr (om_name (meta ob)) (Some ob') (view s))"
    and kupdate_Fail: "kupdate st ns ob s = (Fail e, s') \<Longrightarrow> view s' = view s"
    and kremove_Ok: "kremove st ns n s = (Ok y, s') \<Longrightarrow> view s' = wr n None (view s)"
    and kremove_Fail: "kremove st ns n s = (Fail e, s') \<Longrightarrow> view s' = view s \<and> (IsNotFound e \<longrightarrow> rd (view s) n = None)"
    and kfind_view: "kfind st ns sel s = (r, s') \<Longrightarrow> view s' = view s"
    and name_of: "rd (view s) n = Some ob \<Longrightarrow> om_name (meta ob) = n"
proof -
  have k: "kind_ok view rd wr (\<lambda>ob. om_name (meta ob)) stored ns (ks_api st)"
    and u: "\<And>ob s. case ks_put st ns ob s of
        (Inr _, s') \<Rightarrow> rd (view s) (om_name (meta ob)) \<noteq> None \<and>
           (\<exists>ob'. stored ob ob' \<and> view s' = wr (om_name (meta ob)) (Some ob') (view s))
      | (Inl _, s') \<Rightarrow> view s' = view s"
    and nm: "\<And>n s ob. rd (view s) n = Some ob \<Longrightarrow> om_name (meta ob) = n"
    using assms [unfolded store_ok_def, THEN conjunct1]
      assms [unfolded store_ok_def, THEN conjunct2, THEN conjunct2, rule_format]
      assms [unfolded store_ok_def, THEN conjunct2, THEN conjunct1, rule_format] by simp_all
  show "kread st ns n s = (Ok ob, s') \<Longrightarrow> view s' = view s \<and> (\<forall>ob'. rd (view s) n = Some ob' \<longrightarrow> ob = ob')"
    unfolding kread_def of_sum_OkD using get_view [OF k] get_live [OF k] by blast
  show "kread st ns n s = (Fail e, s') \<Longrightarrow> view s' = view s \<and> (IsNotFound e \<longrightarrow> rd (view s) n = None)"
    unfolding kread_def of_sum_FailD
    using k [unfolded kind_ok_def, THEN conjunct2, THEN conjunct1, THEN spec [of _ n], THEN spec [of _ s]] by simp
  show "kcreate st ns ob s = (Ok x, s') \<Longrightarrow> rd (view s) (om_name (meta ob)) = None \<and>
      (\<exists>ob'. stored ob ob' \<and> view s' = wr (om_name (meta ob)) (Some ob') (view s))"
    unfolding kcreate_def of_sum_OkD by (rule create_Inr [OF k])
  show "kcreate st ns ob s = (Fail e, s') \<Longrightarrow> view s' = view s"
    unfolding kcreate_def of_sum_FailD by (rule create_Inl [OF k])
  show "kupdate st ns ob s = (Ok x, s') \<Longrightarrow> rd (view s) (om_name (meta ob)) \<noteq> None \<and>
      (\<exists>ob'. stored ob ob' \<and> view s' = wr (om_name (meta ob)) (Some ob') (view s))"
    unfolding kupdate_def of_sum_OkD using u [where ob = ob and s = s] by simp
  show "kupdate st ns ob s = (Fail e, s') \<Longrightarrow> view s' = view s"
    unfolding kupdate_def of_sum_FailD using u [where ob = ob and s = s] by simp
  show "kremove st ns n s = (Ok y, s') \<Longrightarrow> view s' = wr n None (view s)"
    unfolding kremove_def of_sum_OkD using delete_cases [OF k, where n = n and s = s] by simp
  show "kremove st ns n s = (Fail e, s') \<Longrightarrow> view s' = view s \<and> (IsNotFound e \<longrightarrow> rd (view s) n = None)"
    unfolding kremove_def of_sum_FailD using delete_cases [OF k, where n = n and s = s] by simp
  show "kfind st ns sel s = (r, s') \<Longrightarrow> view s' = view s"
    unfolding kfind_def of_sum_def by (cases "k_list (ks_api st) ns sel s") (auto dest!: list_view [OF k] split: sum.splits)
  show "rd (view s) n = Some ob \<Longrightarrow> om_name (meta ob) = n" by (rule nm)
qed

subsection \<open>Frames on the view\<close>

lemma keeps_of_sum_cases:
  assumes "\<And>s x s'. of_sum f s = (Ok x, s') \<Longrightarrow> R s s'" "\<And>s e s'. of_sum f s = (Fail e, s') \<Longrightarrow> R s s'"
  shows "keeps R (of_sum f)"
  by (rule keepsI) (metis res.exhaust assms of_sum_Panic)

text \<open>A call keeps a part \<open>g\<close> of the view unless it writes an object that \<open>g\<close> depends on.\<close>

lemma store_view_frame:
  assumes ok: "store_ok view rd wr meta stored ns st"
    and g: "\<And>v n x V. v \<in> {VCreate, VUpdate, VDelete} \<Longrightarrow> W v kind n \<Longrightarrow> g (wr n x V) = g V"
  shows "store_in (\<lambda>s s'. g (view s') = g (view s)) W kind meta ns st"
proof -
  note calls = store_calls [OF ok]
  show ?thesis
    unfolding store_in_def kcalls
  proof (intro conjI allI impI keeps_of_sum_cases)
    fix ob s x s' assume W: "W VCreate kind (om_name (meta ob))"
    assume "of_sum (k_create (ks_api st) ns ob) s = (Ok x, s')"
    with calls(3) obtain ob' where "view s' = wr (om_name (meta ob)) (Some ob') (view s)"
      unfolding kcreate_def by blast
    then show "g (view s') = g (view s)" by (simp add: g [OF _ W])
  next
    fix ob s x s' assume W: "W VUpdate kind (om_name (meta ob))"
    assume "of_sum (ks_put st ns ob) s = (Ok x, s')"
    with calls(5) obtain ob' where "view s' = wr (om_name (meta ob)) (Some ob') (view s)"
      unfolding kupdate_def by blast
    then show "g (view s') = g (view s)" by (simp add: g [OF _ W])
  next
    fix n s x s' assume W: "W VDelete kind n"
    assume "of_sum (k_delete (ks_api st) ns n) s = (Ok x, s')"
    with calls(7) have "view s' = wr n None (view s)" unfolding kremove_def by blast
    then show "g (view s') = g (view s)" by (simp add: g [OF _ W])
  qed (auto dest: calls [unfolded kcalls])
qed

lemma cluster_frame:
  assumes ok: "cluster_ok view c"
    and dep: "\<And>v n x V. v \<in> {VCreate, VUpdate, VDelete} \<Longrightarrow> W v ''deployments'' n \<Longrightarrow> g (put_dep n x V) = g V"
    and svc: "\<And>v n x V. v \<in> {VCreate, VUpdate, VDelete} \<Longrightarrow> W v ''services'' n \<Longrightarrow> g (put_svc n x V) = g V"
    and pvc: "\<And>v n x V. v \<in> {VCreate, VUpdate, VDelete} \<Longrightarrow> W v ''claims'' n \<Longrightarrow> g (put_pvc n x V) = g V"
    and cm: "\<And>v n x V. v \<in> {VCreate, VUpdate, VDelete} \<Longrightarrow> W v ''configmaps'' n \<Longrightarrow> g (put_cm n x V) = g V"
    and sec: "\<And>v n x V. v \<in> {VCreate, VUpdate, VDelete} \<Longrightarrow> W v ''secrets'' n \<Longrightarrow> g (put_sec n x V) = g V"
    and rs: "\<And>v n x V. v \<in> {VCreate, VUpdate, VDelete} \<Longrightarrow> W v ''replicasets'' n \<Longrightarrow> g (put_rs n x V) = g V"
  shows "svc_frame (\<lambda>s s'. g (view s') = g (view s)) c W"
proof
  show "preord (\<lambda>s s'. g (view s') = g (view s))"
    by (auto simp: preord_def reflp_def transp_def)
  show "keeps (\<lambda>s s'. g (view s') = g (view s)) (of_sum (vc_pods c (vc_ns c) sel))" for sel
    using ok by (auto simp: cluster_ok_def intro!: keeps_of_sum) (metis snd_conv)
  show "g (view (snd (vc_now c w))) = g (view w)" "g (view (snd (vc_sleep c ms w))) = g (view w)" for ms w
    using ok by (simp_all add: cluster_ok_def)
  note parts = ok [unfolded cluster_ok_def]
  note part = parts [THEN conjunct1] parts [THEN conjunct2, THEN conjunct1]
    parts [THEN conjunct2, THEN conjunct2, THEN conjunct1]
    parts [THEN conjunct2, THEN conjunct2, THEN conjunct2, THEN conjunct1]
    parts [THEN conjunct2, THEN conjunct2, THEN conjunct2, THEN conjunct2, THEN conjunct1]
    parts [THEN conjunct2, THEN conjunct2, THEN conjunct2, THEN conjunct2, THEN conjunct2, THEN conjunct1]
  show "store_in (\<lambda>s s'. g (view s') = g (view s)) W ''deployments'' d_meta (vc_ns c) (vc_deps c)"
    by (rule store_view_frame [OF part(1), where g = g]) (rule dep)
  show "store_in (\<lambda>s s'. g (view s') = g (view s)) W ''services'' so_meta (vc_ns c) (vc_svcs c)"
    by (rule store_view_frame [OF part(2), where g = g]) (rule svc)
  show "store_in (\<lambda>s s'. g (view s') = g (view s)) W ''claims'' pc_meta (vc_ns c) (vc_pvcs c)"
    by (rule store_view_frame [OF part(3), where g = g]) (rule pvc)
  show "store_in (\<lambda>s s'. g (view s') = g (view s)) W ''configmaps'' co_meta (vc_ns c) (vc_cms c)"
    by (rule store_view_frame [OF part(4), where g = g]) (rule cm)
  show "store_in (\<lambda>s s'. g (view s') = g (view s)) W ''secrets'' co_meta (vc_ns c) (vc_secrets c)"
    by (rule store_view_frame [OF part(5), where g = g]) (rule sec)
  show "store_in (\<lambda>s s'. g (view s') = g (view s)) W ''replicasets'' rs_meta (vc_ns c) (vc_rss c)"
    by (rule store_view_frame [OF part(6), where g = g]) (rule rs)
qed

text \<open>Reading keeps the whole view.\<close>

lemma cluster_reads: "cluster_ok view c \<Longrightarrow> svc_frame (\<lambda>s s'. view s' = view s) c (\<lambda>v kind n. v \<in> {VGet, VList})"
  by (rule cluster_frame [where g = "\<lambda>v. v", simplified]) auto

lemma reads_admitted: "reads_ok (\<lambda>v kind n. v \<in> {VGet, VList})"
  by (simp add: reads_ok_def)

end
