(* ===== verification/ServiceDemo.thy ===== *)
theory ServiceDemo
  imports ServiceLaws
begin

text \<open>
  A server that keeps the objects of the service manager in tables and behaves as documented, a
  client on it and a small deployment, on which the properties of the service manager are applied.
\<close>

record kmem =
  km_deps :: "deployment list"
  km_svcs :: "service_obj list"
  km_pvcs :: "claim list"
  km_cms :: "config_obj list"
  km_secs :: "config_obj list"
  km_rss :: "replica_set list"
  km_clock :: int

definition by_name :: "('o \<Rightarrow> kmeta) \<Rightarrow> 'o list \<Rightarrow> string \<Rightarrow> 'o option" where
  "by_name meta xs = (\<lambda>n. find (\<lambda>ob. om_name (meta ob) = n) xs)"

definition drop_name :: "('o \<Rightarrow> kmeta) \<Rightarrow> string \<Rightarrow> 'o list \<Rightarrow> 'o list" where
  "drop_name meta n xs = filter (\<lambda>ob. om_name (meta ob) \<noteq> n) xs"

definition mem_store ::
  "('s \<Rightarrow> 'o list) \<Rightarrow> (('o list \<Rightarrow> 'o list) \<Rightarrow> 's \<Rightarrow> 's) \<Rightarrow> ('o \<Rightarrow> kmeta) \<Rightarrow> ('o, 's) kstore" where
  "mem_store tab upd meta =
    (let put = (\<lambda>ob xs. drop_name meta (om_name (meta ob)) xs @ [ob]) in
    \<lparr>ks_api =
      \<lparr>k_create = (\<lambda>ns ob m. if by_name meta (tab m) (om_name (meta ob)) = None then (Inr ob, upd (put ob) m)
          else (Inl (KAlreadyExists ''already exists''), m)),
       k_get = (\<lambda>ns n m. case by_name meta (tab m) n of Some ob \<Rightarrow> (Inr ob, m) | None \<Rightarrow> (Inl (KNotFound ''not found''), m)),
       k_delete = (\<lambda>ns n m. if by_name meta (tab m) n = None then (Inl (KNotFound ''not found''), m)
          else (Inr (), upd (drop_name meta n) m)),
       k_list = (\<lambda>ns sel m. (Inr (filter (\<lambda>ob. list_all (\<lambda>(k, v). mget (om_labels (meta ob)) k = Some v) sel) (tab m)), m))\<rparr>,
     ks_put = (\<lambda>ns ob m. if by_name meta (tab m) (om_name (meta ob)) = None then (Inl (KNotFound ''not found''), m)
          else (Inr ob, upd (put ob) m))\<rparr>)"

definition kmem_view :: "kmem \<Rightarrow> svc_cluster" where
  "kmem_view m =
    \<lparr>kv_deps = by_name d_meta (km_deps m), kv_svcs = by_name so_meta (km_svcs m), kv_pvcs = by_name pc_meta (km_pvcs m),
     kv_cms = by_name co_meta (km_cms m), kv_secs = by_name co_meta (km_secs m), kv_rss = by_name rs_meta (km_rss m)\<rparr>"

definition kmem_client :: "kmem svc_client" where
  "kmem_client =
    \<lparr>vc_deps = mem_store km_deps km_deps_update d_meta, vc_svcs = mem_store km_svcs km_svcs_update so_meta,
     vc_pvcs = mem_store km_pvcs km_pvcs_update pc_meta, vc_cms = mem_store km_cms km_cms_update co_meta,
     vc_secrets = mem_store km_secs km_secs_update co_meta, vc_rss = mem_store km_rss km_rss_update rs_meta,
     vc_pods = (\<lambda>ns sel m. (Inr [], m)), vc_ns = ''worker'', vc_registry = [],
     vc_cpu_req = [], vc_cpu_lim = [], vc_mem_req = [], vc_mem_lim = [],
     vc_quantity = list_all is_alnum, vc_canon = (\<lambda>q. q), vc_intparse = StrVal,
     vc_intprint = (\<lambda>v. case v of IntVal i \<Rightarrow> int_str i | StrVal t \<Rightarrow> t),
     vc_now = (\<lambda>m. (km_clock m, m)), vc_sleep = (\<lambda>ms m. (None, m\<lparr>km_clock := km_clock m + ms\<rparr>))\<rparr>"

definition no_kmem :: kmem where
  "no_kmem = \<lparr>km_deps = [], km_svcs = [], km_pvcs = [], km_cms = [], km_secs = [], km_rss = [], km_clock = 0\<rparr>"

lemma by_name_put: "by_name meta (drop_name meta (om_name (meta ob)) xs @ [ob]) = (by_name meta xs)(om_name (meta ob) := Some ob)"
  by (auto simp: by_name_def drop_name_def fun_eq_iff find_keyed_replace)

lemma by_name_drop: "by_name meta (drop_name meta n xs) = (by_name meta xs)(n := None)"
  by (auto simp: by_name_def drop_name_def fun_eq_iff find_keyed_delete)

lemma by_name_Some: "by_name meta xs n = Some ob \<Longrightarrow> om_name (meta ob) = n"
  by (auto simp: by_name_def find_Some_iff)

lemma mem_store_ok:
  assumes "\<And>m. rd (view m) = by_name meta (tab m)"
    and "\<And>f m n x. by_name meta (f (tab m)) = (rd (view m))(n := x) \<Longrightarrow> view (upd f m) = wr n x (view m)"
    and "\<And>ob. st ob ob"
  shows "store_ok view rd wr meta st ns (mem_store tab upd meta)"
  unfolding store_ok_def kind_ok_def mem_store_def Let_def
  by (auto simp: assms(1) by_name_put by_name_drop IsNotFound_def intro!: assms(2) exI [of _ "_ :: 'b"] assms(3)
      dest: by_name_Some split: option.splits)

lemma kmem_ok: "cluster_ok kmem_view kmem_client"
  unfolding cluster_ok_def kmem_client_def
  by (auto intro!: mem_store_ok
      simp: kmem_view_def put_defs same_dep_def same_svc_def same_pvc_def same_config_def)

end
