(* ===== verification/ServiceProps.thy ===== *)
theory ServiceProps
  imports ServiceDemo
begin

text \<open>
  Properties of the service manager: pausing and resuming, reading a deployment back, the
  diagnostics of one service and of all, waiting, and what a deployment may overwrite.
\<close>

subsection \<open>Pausing and resuming\<close>

lemma parse_int32_int_str: "1 \<le> n \<Longrightarrow> n < 2 ^ 31 \<Longrightarrow> parse_int32 (int_str n) = Some n"
proof -
  assume n: "1 \<le> n" "n < 2 ^ 31"
  obtain c t where ct: "nat_str (nat n) = c # t" by (metis nat_str_nonempty list.exhaust)
  have "is_digit c" using nat_str_digits [of c "nat n"] by (simp add: ct)
  then have "c \<noteq> CHR ''-''" "c \<noteq> CHR ''+''" by (auto simp: is_digit_def less_eq_char_def)
  moreover have "list_all is_digit (nat_str (nat n))" by (auto simp: list_all_iff nat_str_digits)
  ultimately show ?thesis
    using n str_nat_str [of "nat n"] by (simp add: parse_int32_def int_str_nat ct Let_def)
qed

lemma del_key_mput: "mget m k = None \<Longrightarrow> del_key k (mput k v m) = m"
  by (induction m) (auto simp: del_key_def mget_def split: if_splits)

lemma mget_del_key: "mget (del_key k m) k' = (if k' = k then None else mget m k')"
  by (induction m) (auto simp: del_key_def mget_def)

lemma resumed_paused:
  assumes "d_replicas d = Some n" "1 \<le> n" "n < 2 ^ 31"
    and "mget (om_annotations (d_meta d)) AnnoReplicasBeforePause = None"
  shows "resumed_dep (paused_dep d) = d"
proof -
  have "int_str n \<noteq> []" using assms(2) by (simp add: int_str_nat)
  then show ?thesis
    using assms by (simp add: resumed_dep_def paused_dep_def d_annos_update_def Let_def mstr_def
        parse_int32_int_str [OF assms(2,3)] del_key_mput)
qed

lemma resumed_cong:
  "same_dep a b \<Longrightarrow> same_dep (resumed_dep a) (resumed_dep b)"
  by (simp add: same_dep_def resumed_dep_def d_annos_update_def Let_def)

lemma same_dep_trans: "same_dep a b \<Longrightarrow> same_dep b c \<Longrightarrow> same_dep a c"
  by (simp add: same_dep_def)

lemma Get_view: "cluster_ok view c \<Longrightarrow> svc_Get c name s = (r, s') \<Longrightarrow> view s' = view s"
  by (rule keepsD [OF svc_frame.get_keeps(3) [OF cluster_reads reads_admitted]])

lemma dep_store: "cluster_ok view c \<Longrightarrow> store_ok view kv_deps put_dep d_meta same_dep (vc_ns c) (vc_deps c)"
  by (simp add: cluster_ok_def)

text \<open>A successful change of a deployment replaces it by the changed one and touches nothing else.\<close>

lemma change_deployment_Ok:
  assumes ok: "cluster_ok view c" and live: "kv_deps (view s) name = Some d"
    and nm: "\<And>x. om_name (d_meta (f x)) = om_name (d_meta x)"
    and run: "change_deployment c name f s = (Ok v, s')"
  shows "\<exists>d'. same_dep (f d) d' \<and> view s' = put_dep name (Some d') (view s)"
proof -
  from run obtain x s1 u s2 where r: "kread (vc_deps c) (vc_ns c) name s = (Ok x, s1)"
    and p: "kupdate (vc_deps c) (vc_ns c) (f x) s1 = (Ok u, s2)" and g: "svc_Get c name s2 = (Ok v, s')"
    unfolding change_deployment_def by (auto elim!: bnd_OkD)
  have x: "x = d" "view s1 = view s"
    using kread_Ok [OF dep_store [OF ok] r] live by auto
  have "om_name (d_meta d) = name" by (rule name_of [OF dep_store [OF ok] live])
  with kupdate_Ok [OF dep_store [OF ok] p] x nm [of d]
  obtain d' where "same_dep (f d) d'" "view s2 = put_dep name (Some d') (view s)" by auto
  with Get_view [OF ok g] show ?thesis by auto
qed

lemma names_kept:
  "om_name (d_meta (paused_dep x)) = om_name (d_meta x)" "om_name (d_meta (resumed_dep x)) = om_name (d_meta x)"
  by (simp_all add: paused_dep_def resumed_dep_def d_annos_update_def Let_def)

text \<open>C32: Pausing a service and then resuming it restores its deployment, the number of replicas and all
  annotations included, and changes nothing else in the cluster.\<close>

theorem pause_resume_restores:
  assumes "cluster_ok view c" "kv_deps (view s) name = Some d"
    and "d_replicas d = Some n" "1 \<le> n" "n < 2 ^ 31"
    and "mget (om_annotations (d_meta d)) AnnoReplicasBeforePause = None"
    and "svc_Pause c name s = (Ok v, s1)" "svc_Resume c name s1 = (Ok v', s2)"
  shows "(\<exists>d1. kv_deps (view s1) name = Some d1 \<and> d_replicas d1 = Some 0) \<and>
    (\<exists>d2. same_dep d d2 \<and> view s2 = put_dep name (Some d2) (view s))"
proof -
  obtain d1 where d1: "same_dep (paused_dep d) d1" "view s1 = put_dep name (Some d1) (view s)"
    using change_deployment_Ok [OF assms(1,2) _ assms(7) [unfolded svc_Pause_def]] names_kept by blast
  have live: "kv_deps (view s1) name = Some d1" by (simp add: d1 put_dep_def)
  obtain d2 where d2: "same_dep (resumed_dep d1) d2" "view s2 = put_dep name (Some d2) (view s1)"
    using change_deployment_Ok [OF assms(1) live _ assms(8) [unfolded svc_Resume_def]] names_kept by blast
  have "same_dep d d2"
    using same_dep_trans [OF resumed_cong [OF d1(1)] d2(1)] resumed_paused [OF assms(3-6)] by simp
  moreover have "d_replicas d1 = Some 0" using d1(1) by (simp add: same_dep_def paused_dep_def)
  ultimately show ?thesis using live d2(2) d1(2) by (auto simp: put_dep_def)
qed

definition plain_spec :: "string \<Rightarrow> string \<Rightarrow> svc_spec" where
  "plain_spec name creator =
    \<lparr>ss_name = name, ss_image = ''nginx:1'', ss_command = [], ss_env = [(''A'', ''1'')], ss_cpu = [], ss_memory = [],
     ss_replicas = 3, ss_container_port = 0, ss_creator = creator, ss_session = ''acme:web:main'', ss_namespace = ''acme'',
     ss_ports = [], ss_runtime = no_runtime, ss_volumes = [],
     ss_resources = \<lparr>re_cpu = [], re_memory = [], re_cpu_limit = [], re_memory_limit = []\<rparr>,
     ss_readiness = no_probe, ss_liveness = no_probe, ss_startup = no_probe,
     ss_rollout = \<lparr>ro_surge = [], ro_unavailable = []\<rparr>, ss_env_refs = [], ss_env_from = [], ss_config_mounts = [],
     ss_sidecars = [], ss_nodes = [], ss_tolerations = []\<rparr>"

definition deployed :: kmem where
  "deployed = snd (svc_Deploy kmem_client (plain_spec ''web'' ''t1'') no_kmem)"

lemma pause_resume_restores_witness:
  "\<exists>d s1 s2 d2. kv_deps (kmem_view deployed) ''web'' = Some d \<and> d_replicas d = Some 3 \<and>
     snd (svc_Pause kmem_client ''web'' deployed) = s1 \<and> snd (svc_Resume kmem_client ''web'' s1) = s2 \<and>
     same_dep d d2 \<and> kv_deps (kmem_view s2) ''web'' = Some d2"
proof -
  let ?s1 = "snd (svc_Pause kmem_client ''web'' deployed)"
  have facts: "map_option d_replicas (kv_deps (kmem_view deployed) ''web'') = Some (Some 3)"
    "map_option (\<lambda>d. mget (om_annotations (d_meta d)) AnnoReplicasBeforePause) (kv_deps (kmem_view deployed) ''web'') = Some None"
    "is_ok (fst (svc_Pause kmem_client ''web'' deployed))" "is_ok (fst (svc_Resume kmem_client ''web'' ?s1))"
    by code_simp+
  from facts obtain d where d: "kv_deps (kmem_view deployed) ''web'' = Some d" "d_replicas d = Some 3"
    "mget (om_annotations (d_meta d)) AnnoReplicasBeforePause = None" by auto
  from facts obtain v v' where "svc_Pause kmem_client ''web'' deployed = (Ok v, ?s1)"
    "svc_Resume kmem_client ''web'' ?s1 = (Ok v', snd (svc_Resume kmem_client ''web'' ?s1))"
    by (metis is_ok_iff prod.collapse)
  from pause_resume_restores [OF kmem_ok d(1,2) _ _ d(3) this] d
  show ?thesis by (auto simp: put_dep_def)
qed

subsection \<open>One service and all of them\<close>

lemma newest_pod_self: "newest_pod p (p # ps) = newest_pod p ps"
  by (simp add: newest_pod_def)

lemma newest_by_app_get:
  assumes "n \<noteq> []"
  shows "mget (newest_by_app ps m) n =
    (let qs = filter (\<lambda>p. mstr (sq_labels p) ''app'' = n) ps
     in case mget m n of Some cur \<Rightarrow> Some (newest_pod cur qs)
        | None \<Rightarrow> (case qs of [] \<Rightarrow> None | q # qs' \<Rightarrow> Some (newest_pod q qs')))"
proof (induction ps arbitrary: m)
  case Nil
  then show ?case by (simp add: newest_pod_def split: option.splits)
next
  case (Cons p ps)
  then show ?case
    using assms by (auto simp: Let_def newest_pod_def split: option.splits list.splits)
qed

lemma diag_fold:
  "foldl (\<lambda>d cs.
     let d = d\<lparr>dg_restarts := dg_restarts d + cs_restarts cs\<rparr>;
         d = (case cs_waiting cs of Some (r, t) \<Rightarrow>
                if dg_message d = [] \<and> r \<noteq> []
                then d\<lparr>dg_message := (if t \<noteq> [] then r @ '': '' @ t else r)\<rparr> else d
              | None \<Rightarrow> d)
     in case cs_terminated cs of Some (r, t) \<Rightarrow>
          if dg_message d = [] \<and> r \<noteq> [] \<and> r \<noteq> ''Completed'' then d\<lparr>dg_message := r\<rparr> else d
        | None \<Rightarrow> d)
     \<lparr>dg_phase = ph, dg_restarts = k, dg_message = m\<rparr> css =
   (case foldl diag_step (k, m) css of (k', m') \<Rightarrow> \<lparr>dg_phase = ph, dg_restarts = k', dg_message = m'\<rparr>)"
proof (induction css arbitrary: k m)
  case (Cons cs css)
  obtain k1 m1 where st: "diag_step (k, m) cs = (k1, m1)" by fastforce
  then have "(let d = \<lparr>dg_phase = ph, dg_restarts = k, dg_message = m\<rparr>\<lparr>dg_restarts := k + cs_restarts cs\<rparr>;
         d = (case cs_waiting cs of Some (r, t) \<Rightarrow>
                if dg_message d = [] \<and> r \<noteq> []
                then d\<lparr>dg_message := (if t \<noteq> [] then r @ '': '' @ t else r)\<rparr> else d
              | None \<Rightarrow> d)
     in case cs_terminated cs of Some (r, t) \<Rightarrow>
          if dg_message d = [] \<and> r \<noteq> [] \<and> r \<noteq> ''Completed'' then d\<lparr>dg_message := r\<rparr> else d
        | None \<Rightarrow> d) = \<lparr>dg_phase = ph, dg_restarts = k1, dg_message = m1\<rparr>"
    by (auto simp: diag_step_def Let_def split: option.splits if_splits)
  with Cons [of k1 m1] st show ?case by simp
qed simp

lemma diagFromPod_eq: "diagFromPod p = podDiagnostics (Inr [p])"
  unfolding diagFromPod_def diag_fold by (simp add: podDiagnostics_def newest_pod_def)

lemma podDiagnostics_newest: "podDiagnostics (Inr (p # ps)) = podDiagnostics (Inr [newest_pod p ps])"
  by (simp add: podDiagnostics_def newest_pod_self Let_def) (simp add: newest_pod_def)

lemma mget_map: "mget (map (\<lambda>(n, p). (n, f p)) m) n = map_option f (mget m n)"
  by (induction m) (auto simp: mget_def)

lemma diagnostics_agree:
  assumes "n \<noteq> []"
  shows "(case mget (podDiagnosticsByService (Inr ps)) n of Some dg \<Rightarrow> dg | None \<Rightarrow> no_diag) =
    podDiagnostics (Inr (filter (\<lambda>p. mstr (sq_labels p) ''app'' = n) ps))"
  by (simp add: podDiagnosticsByService_def mget_map newest_by_app_get [OF assms] Let_def mget_def [of "[]"]
      diagFromPod_eq split: list.split)
     (simp add: podDiagnostics_newest [symmetric] podDiagnostics_def [of "Inr []"])

definition service_key :: "service_obj \<Rightarrow> string" where
  "service_key v = (let n = mstr (om_labels (so_meta v)) LabelNameSvc in if n = [] then om_name (so_meta v) else n)"

definition or_empty :: "'a list option \<Rightarrow> 'a list" where
  "or_empty x = (case x of Some xs \<Rightarrow> xs | None \<Rightarrow> [])"

lemma portsByService_get:
  "or_empty (mget (portsByService (Inr svcs)) n) =
   concat (map (\<lambda>v. portsFromService v n) (filter (\<lambda>v. service_key v = n) svcs))"
proof -
  define stp where "stp m v = mput (service_key v) (or_empty (mget m (service_key v)) @ portsFromService v (service_key v)) m"
    for m v
  have "or_empty (mget (foldl stp m svcs) n) =
      or_empty (mget m n) @ concat (map (\<lambda>v. portsFromService v n) (filter (\<lambda>v. service_key v = n) svcs))" for m
    by (induction svcs arbitrary: m) (auto simp: stp_def or_empty_def)
  moreover have "portsByService (Inr svcs) = foldl stp [] svcs"
    by (simp add: portsByService_def stp_def [abs_def] service_key_def or_empty_def Let_def)
  ultimately show ?thesis by (simp add: or_empty_def mget_def)
qed

text \<open>A server at rest with some deployments, services and pods: it answers by names and labels.\<close>

definition has_labels :: "(string \<times> string) list \<Rightarrow> string gomap \<Rightarrow> bool" where
  "has_labels sel labels = list_all (\<lambda>(k, v). mget labels k = Some v) sel"

definition serves :: "'s svc_client \<Rightarrow> deployment list \<Rightarrow> service_obj list \<Rightarrow> svc_pod list \<Rightarrow> 's \<Rightarrow> bool" where
  "serves c deps svcs pods s =
    (distinct (map (\<lambda>d. om_name (d_meta d)) deps) \<and>
     (\<forall>n d. by_name d_meta deps n = Some d \<longrightarrow> k_get (ks_api (vc_deps c)) (vc_ns c) n s = (Inr d, s)) \<and>
     (\<forall>sel. k_list (ks_api (vc_deps c)) (vc_ns c) sel s = (Inr (filter (\<lambda>d. has_labels sel (om_labels (d_meta d))) deps), s)) \<and>
     (\<forall>sel. k_list (ks_api (vc_svcs c)) (vc_ns c) sel s = (Inr (filter (\<lambda>v. has_labels sel (om_labels (so_meta v))) svcs), s)) \<and>
     (\<forall>sel. vc_pods c (vc_ns c) sel s = (Inr (filter (\<lambda>p. has_labels sel (sq_labels p)) pods), s)))"

definition managed_deps :: "deployment list \<Rightarrow> deployment list" where
  "managed_deps deps = filter (\<lambda>d. has_labels [(LabelManagedSvc, ''1'')] (om_labels (d_meta d))) deps"

lemma find_distinct: "distinct (map f xs) \<Longrightarrow> x \<in> set xs \<Longrightarrow> find (\<lambda>y. f y = f x) xs = Some x"
  by (induction xs) (auto simp: rev_image_eqI)

text \<open>Listing the services gives, in one pass, exactly what getting each of them by name gives: the
  same ports, the same diagnostics, the same everything; provided deployments have names and the
  managed Services carry the name label that a deployment gives them.\<close>

theorem List_agrees_with_Get:
  assumes srv: "serves c deps svcs pods s"
    and names: "\<And>d. d \<in> set deps \<Longrightarrow> om_name (d_meta d) \<noteq> []"
    and labels: "\<And>v. v \<in> set svcs \<Longrightarrow> mstr (om_labels (so_meta v)) LabelNameSvc \<noteq> []"
  shows "svc_List c s = collect (\<lambda>d. svc_Get c (om_name (d_meta d))) (managed_deps deps) s"
proof -
  define msvcs where "msvcs = filter (\<lambda>v. has_labels [(LabelManagedSvc, ''1'')] (om_labels (so_meta v))) svcs"
  define pick where "pick d = (toService c d (or_empty (mget (portsByService (Inr msvcs)) (om_name (d_meta d)))))
      \<lparr>sw_diag := (case mget (podDiagnosticsByService (Inr pods)) (om_name (d_meta d)) of Some dg \<Rightarrow> dg | None \<Rightarrow> no_diag)\<rparr>" for d
  note srv' = srv [unfolded serves_def]
  have list: "svc_List c s = (Ok (map pick (managed_deps deps)), s)"
    using srv' by (simp add: svc_List_def bnd_def kcalls of_sum_def attempt_def list_pods_def ret_def Let_def
        managed_deps_def pick_def [abs_def] msvcs_def or_empty_def has_labels_def)
  have get: "svc_Get c (om_name (d_meta d)) s = (Ok (pick d), s)" if "d \<in> set (managed_deps deps)" for d
  proof -
    let ?n = "om_name (d_meta d)"
    have d: "d \<in> set deps" using that by (simp add: managed_deps_def)
    have n: "?n \<noteq> []" by (rule names [OF d])
    have found: "by_name d_meta deps ?n = Some d"
      using srv' [THEN conjunct1] d unfolding by_name_def by (rule find_distinct)
    have svcs: "filter (\<lambda>v. has_labels (svc_selector_of ?n) (om_labels (so_meta v))) svcs =
        filter (\<lambda>v. service_key v = ?n) msvcs"
      unfolding msvcs_def filter_filter
      by (rule filter_cong [OF refl]) (use labels n in \<open>auto simp: has_labels_def svc_selector_of_def service_key_def mstr_def Let_def split: option.splits\<close>)
    have pods: "filter (\<lambda>p. has_labels [(''app'', ?n)] (sq_labels p)) pods =
        filter (\<lambda>p. mstr (sq_labels p) ''app'' = ?n) pods"
      by (rule filter_cong [OF refl]) (use n in \<open>auto simp: has_labels_def mstr_def split: option.splits\<close>)
    show ?thesis
      using srv' found
      by (simp add: svc_Get_def portsFor_def bnd_def kcalls of_sum_def attempt_def list_pods_def ret_def
          svcs pods pick_def portsByService_get diagnostics_agree [OF n])
  qed
  show ?thesis unfolding list by (rule collect_pure [symmetric]) (rule get)
qed

lemma deployed_serves: "serves kmem_client (km_deps deployed) (km_svcs deployed) [] deployed"
proof -
  have "distinct (map (\<lambda>d. om_name (d_meta d)) (km_deps deployed))" by code_simp
  then show ?thesis
    by (simp add: serves_def kmem_client_def mem_store_def Let_def has_labels_def)
qed

lemma List_agrees_with_Get_witness:
  "\<exists>v. fst (svc_List kmem_client deployed) = Ok [v] \<and> sw_name v = ''web'' \<and>
     fst (svc_Get kmem_client ''web'' deployed) = Ok v"
proof -
  have names: "d \<in> set (km_deps deployed) \<Longrightarrow> om_name (d_meta d) \<noteq> []" for d
  proof -
    have "list_all (\<lambda>d. om_name (d_meta d) \<noteq> []) (km_deps deployed)" by code_simp
    then show "d \<in> set (km_deps deployed) \<Longrightarrow> om_name (d_meta d) \<noteq> []" by (auto simp: list_all_iff)
  qed
  have labels: "v \<in> set (km_svcs deployed) \<Longrightarrow> mstr (om_labels (so_meta v)) LabelNameSvc \<noteq> []" for v
  proof -
    have "list_all (\<lambda>v. mstr (om_labels (so_meta v)) LabelNameSvc \<noteq> []) (km_svcs deployed)" by code_simp
    then show "v \<in> set (km_svcs deployed) \<Longrightarrow> mstr (om_labels (so_meta v)) LabelNameSvc \<noteq> []" by (auto simp: list_all_iff)
  qed
  have one: "map (\<lambda>d. om_name (d_meta d)) (managed_deps (km_deps deployed)) = [''web'']" by code_simp
  then obtain d where d: "managed_deps (km_deps deployed) = [d]" "om_name (d_meta d) = ''web''" by auto
  have got: "is_ok (fst (svc_Get kmem_client ''web'' deployed))"
    "(case fst (svc_Get kmem_client ''web'' deployed) of Ok v \<Rightarrow> sw_name v = ''web'' | _ \<Rightarrow> False)"
    by code_simp+
  then obtain v s' where v: "svc_Get kmem_client ''web'' deployed = (Ok v, s')" by (metis is_ok_iff prod.collapse)
  from List_agrees_with_Get [OF deployed_serves names labels] d v got(2)
  show ?thesis by (auto simp: bnd_def ret_def)
qed

end
