(* ===== verification/DeployProps.thy ===== *)
theory DeployProps
  imports ServiceProps
begin

text \<open>
  Properties of deploying: what a deployment may overwrite, and how a deployment that was built is
  read back; and of waiting for a deployment.
\<close>

subsection \<open>What a deployment overwrites\<close>

definition foreign_service :: "svc_spec \<Rightarrow> service_obj \<Rightarrow> bool" where
  "foreign_service s v = (mstr (om_labels (so_meta v)) LabelManagedSvc \<noteq> ''1'' \<or>
     (ss_creator s \<noteq> [] \<and> mstr (om_annotations (so_meta v)) AnnoCreatorSvc \<noteq> ss_creator s))"

lemma svc_store: "cluster_ok view c \<Longrightarrow> store_ok view kv_svcs put_svc so_meta same_svc (vc_ns c) (vc_svcs c)"
  by (simp add: cluster_ok_def)

lemma precheck_Ok:
  assumes "cluster_ok view c" "precheck c sp sfx s = (Ok u, s')"
  shows "view s' = view s \<and> (\<forall>v. kv_svcs (view s) (siblingName (ss_name sp) sfx) = Some v \<longrightarrow> \<not> foreign_service sp v)"
proof -
  note calls = kread_Ok [OF svc_store [OF assms(1)]] kread_Fail [OF svc_store [OF assms(1)]]
  from assms(2) show ?thesis
    unfolding precheck_def Let_def
    by (auto elim!: bnd_OkD simp: attempt_cases act foreign_service_def dest!: calls
        split: prod.splits res.splits sum.splits if_splits)
qed

lemma prechecks_Ok:
  assumes "cluster_ok view c"
  shows "each (precheck c sp) sfxs s = (Ok u, s') \<Longrightarrow> view s' = view s \<and>
    (\<forall>sfx\<in>set sfxs. \<forall>v. kv_svcs (view s) (siblingName (ss_name sp) sfx) = Some v \<longrightarrow> \<not> foreign_service sp v)"
proof (induction sfxs arbitrary: s)
  case (Cons a sfxs)
  from Cons.prems obtain s1 where "precheck c sp a s = (Ok (), s1)" "each (precheck c sp) sfxs s1 = (Ok u, s')"
    by (auto elim!: bnd_OkD)
  with precheck_Ok [OF assms this(1)] Cons.IH show ?case by auto
qed (simp add: act)

text \<open>The part of the view at one Service, as a frame.\<close>

lemma spare_frame:
  assumes "cluster_ok view c"
  shows "svc_frame (\<lambda>s s'. kv_svcs (view s') n = kv_svcs (view s) n) c
    (\<lambda>v kind m. v \<in> {VGet, VList} \<or> kind \<noteq> ''services'' \<or> m \<noteq> n)"
  by (rule cluster_frame [OF assms, where g = "\<lambda>v. kv_svcs v n"]) (auto simp: put_defs)

lemma spare_reads: "reads_ok (\<lambda>v kind m. v \<in> {VGet, VList} \<or> kind \<noteq> ''services'' \<or> m \<noteq> n)"
  by (simp add: reads_ok_def)



subsection \<open>Reading a deployment back\<close>

lemma find_append_none: "find P xs = None \<Longrightarrow> find P (xs @ ys) = find P ys"
  by (induction xs) auto

text \<open>Volumes paired with their mounts, under distinct names.\<close>

definition paired :: "(svc_volume \<times> vmount) list \<Rightarrow> bool" where
  "paired vols = (distinct (map (\<lambda>x. sl_name (fst x)) vols) \<and> (\<forall>x\<in>set vols. vm_name (snd x) = sl_name (fst x)))"

definition claim_name :: "svc_source \<Rightarrow> string option" where
  "claim_name src = (case src of SrcPVC pvc ro \<Rightarrow> Some pvc | _ \<Rightarrow> None)"

lemma claim_of_fold:
  "n \<notin> set (map sl_name vols) \<Longrightarrow>
   foldl (\<lambda>r v. case sl_src v of SrcPVC pvc ro \<Rightarrow> if sl_name v = n then Some pvc else r | _ \<Rightarrow> r) r vols = r"
  by (induction vols arbitrary: r) (auto split: svc_source.split)

lemma claim_of_paired:
  assumes "paired vols" "x \<in> set vols"
  shows "claim_of (map fst vols) (vm_name (snd x)) = claim_name (sl_src (fst x))"
    and "source_of (map fst vols) (vm_name (snd x)) = Some (sl_src (fst x))"
proof -
  from assms(2) obtain a b where v: "vols = a @ x # b" by (auto simp: in_set_conv_decomp)
  have nm: "vm_name (snd x) = sl_name (fst x)" using assms by (simp add: paired_def)
  have out: "sl_name (fst x) \<notin> set (map sl_name (map fst a))" "sl_name (fst x) \<notin> set (map sl_name (map fst b))"
    using assms(1) by (auto simp: paired_def v image_iff)
  show "claim_of (map fst vols) (vm_name (snd x)) = claim_name (sl_src (fst x))"
    using claim_of_fold [OF out(1)] claim_of_fold [OF out(2)]
    by (simp add: claim_of_def v nm claim_name_def split: svc_source.split)
  have "find (\<lambda>v. sl_name v = sl_name (fst x)) (rev (map fst b)) = None"
    using out(2) unfolding find_None_iff by (metis set_map set_rev image_eqI)
  then show "source_of (map fst vols) (vm_name (snd x)) = Some (sl_src (fst x))"
    by (simp add: source_of_def v nm find_append_none)
qed

lemma map_filter_cong: "(\<And>x. x \<in> set xs \<Longrightarrow> f x = g x) \<Longrightarrow> List.map_filter f xs = List.map_filter g xs"
  by (induction xs) (simp_all cong: option.case_cong)

definition seen_config :: "svc_volume \<times> vmount \<Rightarrow> config_mount option" where
  "seen_config x = (case sl_src (fst x) of
     SrcConfigMap n items \<Rightarrow> Some \<lparr>cm_config = n, cm_secret = [], cm_path = vm_path (snd x), cm_items = []\<rparr>
   | SrcSecret n items \<Rightarrow> Some \<lparr>cm_config = [], cm_secret = n, cm_path = vm_path (snd x), cm_items = []\<rparr>
   | _ \<Rightarrow> None)"

definition seen_volume :: "svc_volume \<times> vmount \<Rightarrow> svc_volume_mount option" where
  "seen_volume x = map_option (\<lambda>pvc. \<lparr>vn_pvc = pvc, vn_path = vm_path (snd x), vn_ro = vm_ro (snd x), vn_sub = vm_sub (snd x)\<rparr>)
     (claim_name (sl_src (fst x)))"

lemma map_filter_map: "List.map_filter f (map g xs) = List.map_filter (\<lambda>x. f (g x)) xs"
  by (induction xs) (simp_all cong: option.case_cong)

lemma view_paired:
  assumes "paired vols"
  shows "view_volumes (map fst vols) (map snd vols) = List.map_filter seen_volume vols"
    and "view_configs (map fst vols) (map snd vols) = List.map_filter seen_config vols"
  unfolding view_volumes_def view_configs_def map_filter_map
  by (rule map_filter_cong; simp add: claim_of_paired [OF assms] seen_volume_def seen_config_def claim_name_def
        split: svc_source.split)+

text \<open>Requests that say each thing once: a probe has one handler and no negative number, a configuration
  mount one source and all of its keys.\<close>

definition clean_probe :: "probe \<Rightarrow> bool" where
  "clean_probe p = (p = no_probe \<or>
     (0 \<le> pb_delay p \<and> 0 \<le> pb_period p \<and> 0 \<le> pb_timeout p \<and> 0 \<le> pb_failure p \<and> 0 \<le> pb_success p \<and>
      ((0 < pb_http p \<and> pb_path p \<noteq> [] \<and> pb_tcp p = 0 \<and> pb_exec p = []) \<or>
       (pb_http p = 0 \<and> pb_path p = [] \<and> 0 < pb_tcp p \<and> pb_exec p = []) \<or>
       (pb_http p = 0 \<and> pb_path p = [] \<and> pb_tcp p = 0 \<and> pb_exec p \<noteq> []))))"

lemma probe_roundtrip: "clean_probe p \<Longrightarrow> toProbe (buildProbe p) = p"
  by (cases p) (auto simp: clean_probe_def toProbe_def buildProbe_def probe_empty_def no_probe_def Let_def)

definition clean_mount :: "config_mount \<Rightarrow> bool" where
  "clean_mount m = (cm_items m = [] \<and> (cm_config m = [] \<or> cm_secret m = []))"

definition clean_spec :: "svc_spec \<Rightarrow> bool" where
  "clean_spec s = (clean_probe (ss_readiness s) \<and> clean_probe (ss_liveness s) \<and> clean_probe (ss_startup s) \<and>
     list_all clean_mount (ss_config_mounts s))"

text \<open>The volumes built: configuration mounts, the tunnel device, claims.\<close>

lemma config_volume_Inr:
  "config_volume i m = Inr x \<Longrightarrow> sl_name (fst x) = ''cfg-'' @ nat_str i \<and> vm_name (snd x) = sl_name (fst x) \<and>
     claim_name (sl_src (fst x)) = None \<and> (clean_mount m \<longrightarrow> seen_config x = Some m)"
  by (cases m) (auto simp: config_volume_def Let_def plain_mount_def claim_name_def seen_config_def clean_mount_def
      split: if_splits)

lemma pvc_volume_Inr:
  "pvc_volume i v = Inr x \<Longrightarrow> sl_name (fst x) = ''pvc-'' @ nat_str i \<and> vm_name (snd x) = sl_name (fst x) \<and>
     seen_config x = None \<and> seen_volume x = Some v"
  by (cases v) (auto simp: pvc_volume_def Let_def claim_name_def seen_config_def seen_volume_def split: if_splits)

lemma index_map_Cons:
  "index_map f i (x # xs) = Inr zs \<longleftrightarrow> (\<exists>y ys. f i x = Inr y \<and> index_map f (Suc i) xs = Inr ys \<and> zs = y # ys)"
  by (auto split: sum.splits)

declare index_map.simps(2) [simp del]

lemma config_volumes:
  "index_map config_volume i ms = Inr xs \<Longrightarrow>
   map (\<lambda>x. sl_name (fst x)) xs = map (\<lambda>k. ''cfg-'' @ nat_str k) [i..<i + length ms] \<and>
   (\<forall>x\<in>set xs. vm_name (snd x) = sl_name (fst x) \<and> claim_name (sl_src (fst x)) = None) \<and>
   (list_all clean_mount ms \<longrightarrow> List.map_filter seen_config xs = ms)"
proof (induction ms arbitrary: i xs)
  case (Cons m ms)
  then obtain y ys where y: "config_volume i m = Inr y" "index_map config_volume (Suc i) ms = Inr ys" "xs = y # ys"
    by (auto simp: index_map_Cons)
  have "[i..<i + length (m # ms)] = i # [Suc i..<Suc i + length ms]" by (simp add: upt_conv_Cons del: upt_Suc)
  with config_volume_Inr [OF y(1)] Cons.IH [OF y(2)] y(3) show ?case by (simp del: upt_Suc)
qed simp

lemma claim_volumes:
  "index_map pvc_volume i vs = Inr xs \<Longrightarrow>
   map (\<lambda>x. sl_name (fst x)) xs = map (\<lambda>k. ''pvc-'' @ nat_str k) [i..<i + length vs] \<and>
   (\<forall>x\<in>set xs. vm_name (snd x) = sl_name (fst x) \<and> seen_config x = None) \<and>
   List.map_filter seen_volume xs = vs"
proof (induction vs arbitrary: i xs)
  case (Cons v vs)
  then obtain y ys where y: "pvc_volume i v = Inr y" "index_map pvc_volume (Suc i) vs = Inr ys" "xs = y # ys"
    by (auto simp: index_map_Cons)
  have "[i..<i + length (v # vs)] = i # [Suc i..<Suc i + length vs]" by (simp add: upt_conv_Cons del: upt_Suc)
  with pvc_volume_Inr [OF y(1)] Cons.IH [OF y(2)] y(3) show ?case by (simp del: upt_Suc)
qed simp

lemma tun_volumes:
  "x \<in> set (svc_tun s) \<Longrightarrow> sl_name (fst x) = ''devtun'' \<and> vm_name (snd x) = sl_name (fst x) \<and>
     seen_config x = None \<and> seen_volume x = None"
  by (auto simp: svc_tun_def plain_mount_def seen_config_def seen_volume_def claim_name_def split: if_splits)

lemma map_filter_None: "(\<And>x. x \<in> set xs \<Longrightarrow> f x = None) \<Longrightarrow> List.map_filter f xs = []"
  by (induction xs) simp_all

lemma map_filter_append: "List.map_filter f (xs @ ys) = List.map_filter f xs @ List.map_filter f ys"
  by (induction xs) (simp_all split: option.split)

lemma built_volumes:
  assumes "index_map config_volume 0 (ss_config_mounts s) = Inr cs" "index_map pvc_volume 0 (ss_volumes s) = Inr ps"
  shows "paired (cs @ svc_tun s @ ps)"
    and "view_volumes (map fst (cs @ svc_tun s @ ps)) (map snd (cs @ svc_tun s @ ps)) = ss_volumes s"
    and "list_all clean_mount (ss_config_mounts s) \<Longrightarrow>
      view_configs (map fst (cs @ svc_tun s @ ps)) (map snd (cs @ svc_tun s @ ps)) = ss_config_mounts s"
proof -
  note c = config_volumes [OF assms(1)] and p = claim_volumes [OF assms(2)] and t = tun_volumes [of _ s]
  have "set (map (\<lambda>x. sl_name (fst x)) cs) \<subseteq> range (\<lambda>k. ''cfg-'' @ nat_str k)"
    unfolding c [THEN conjunct1] by auto
  then have names: "x \<in> set cs \<Longrightarrow> \<exists>k. sl_name (fst x) = ''cfg-'' @ nat_str k" for x by auto
  have "set (map (\<lambda>x. sl_name (fst x)) ps) \<subseteq> range (\<lambda>k. ''pvc-'' @ nat_str k)"
    unfolding p [THEN conjunct1] by auto
  then have namesp: "x \<in> set ps \<Longrightarrow> \<exists>k. sl_name (fst x) = ''pvc-'' @ nat_str k" for x by auto
  have "distinct (map (\<lambda>x. sl_name (fst x)) cs)" "distinct (map (\<lambda>x. sl_name (fst x)) ps)"
    using c p by (simp_all add: distinct_map inj_on_def)
  moreover have "distinct (map (\<lambda>x. sl_name (fst x)) (svc_tun s))" by (simp add: svc_tun_def)
  ultimately show pd: "paired (cs @ svc_tun s @ ps)"
    using c p t names namesp by (fastforce simp: paired_def)
  have "List.map_filter seen_volume cs = []" "List.map_filter seen_volume (svc_tun s) = []"
    "List.map_filter seen_config (svc_tun s) = []" "List.map_filter seen_config ps = []"
    using c p t by (auto intro!: map_filter_None simp: seen_volume_def)
  with c p show "view_volumes (map fst (cs @ svc_tun s @ ps)) (map snd (cs @ svc_tun s @ ps)) = ss_volumes s"
    "list_all clean_mount (ss_config_mounts s) \<Longrightarrow>
      view_configs (map fst (cs @ svc_tun s @ ps)) (map snd (cs @ svc_tun s @ ps)) = ss_config_mounts s"
    unfolding view_paired [OF pd] map_filter_append by simp_all
qed

lemma view_env_last:
  "mget (foldl (\<lambda>m (n, e). mput n (env_value e) m) m env) k =
   (case map_of (rev env) k of Some e \<Rightarrow> Some (env_value e) | None \<Rightarrow> mget m k)"
  by (induction env arbitrary: m) (auto simp: map_add_def split: option.splits)

lemma env_refs_shape:
  "index_map env_ref_var i es = Inr refs \<Longrightarrow>
   map fst refs = map er_name es \<and> (\<forall>r\<in>set refs. env_value (snd r) = [])"
proof (induction es arbitrary: i refs)
  case (Cons e es)
  then obtain y ys where y: "env_ref_var i e = Inr y" "index_map env_ref_var (Suc i) es = Inr ys" "refs = y # ys"
    by (auto simp: index_map_Cons)
  from y(1) have "fst y = er_name e \<and> env_value (snd y) = []"
    by (auto simp: env_ref_var_def env_value_def split: if_splits)
  with Cons.IH [OF y(2)] y(3) show ?case by simp
qed simp

lemma view_env_refs:
  assumes "index_map env_ref_var 0 es = Inr refs" "e \<in> set es"
  shows "mget (view_env (env @ refs)) (er_name e) = Some []"
proof -
  note sh = env_refs_shape [OF assms(1)]
  have "er_name e \<in> fst ` set refs" using sh assms(2) by (metis image_eqI list.set_map)
  then obtain x where x: "map_of (rev refs) (er_name e) = Some x" "(er_name e, x) \<in> set refs"
    by (metis (no_types, lifting) map_of_SomeD map_of_eq_None_iff not_None_eq set_rev)
  then have "env_value x = []" using sh by force
  with x(1) show ?thesis
    by (simp add: view_env_def view_env_last [of "foldl _ [] env"])
qed

lemma collect_length: "collect f xs s = (Ok ys, s') \<Longrightarrow> length ys = length xs"
  by (induction xs arbitrary: s ys) (auto simp: act elim!: bnd_OkD)

lemma filter_split_length: "length (filter (\<lambda>x. \<not> P x) xs) + length (filter P xs) = length xs"
  by (induction xs) auto

lemmas anno_keys = AnnoImageSvc_def AnnoCreatorSvc_def AnnoSessionSvc_def AnnoNamespace_def AnnoReplicasBeforePause_def


definition full_spec :: svc_spec where
  "full_spec = (plain_spec ''web'' ''t1'')
    \<lparr>ss_volumes := [\<lparr>vn_pvc = ''data'', vn_path = ''/d'', vn_ro = True, vn_sub = ''s''\<rparr>],
     ss_readiness := no_probe\<lparr>pb_path := ''/ok'', pb_http := 80, pb_period := 5\<rparr>,
     ss_env_refs := [\<lparr>er_name = ''KEY'', er_cm = [], er_cm_key = [], er_secret = ''s1'', er_secret_key = ''token''\<rparr>],
     ss_config_mounts := [\<lparr>cm_config = ''conf'', cm_secret = [], cm_path = ''/c'', cm_items = []\<rparr>],
     ss_sidecars := [\<lparr>sd_name = ''side'', sd_image = ''b:1'', sd_command = [], sd_env = [], sd_cpu = [], sd_memory = [], sd_init = True\<rparr>]\<rparr>"


subsection \<open>Waiting for a deployment\<close>

text \<open>A clock that is read truly, is never set back by a call and advances by what was slept.\<close>

definition clocked :: "('s \<Rightarrow> int) \<Rightarrow> 's svc_client \<Rightarrow> bool" where
  "clocked time c =
    ((\<forall>w. fst (vc_now c w) = time w \<and> time w \<le> time (snd (vc_now c w))) \<and>
     (\<forall>ms w. fst (vc_sleep c ms w) = None \<longrightarrow> time w + ms \<le> time (snd (vc_sleep c ms w))) \<and>
     (\<forall>n w. time w \<le> time (snd (k_get (ks_api (vc_deps c)) (vc_ns c) n w))) \<and>
     (\<forall>sel w. time w \<le> time (snd (vc_pods c (vc_ns c) sel w))))"

lemma wp_read_time:
  assumes "clocked time c"
  shows "wp (kread (vc_deps c) (vc_ns c) n) (\<lambda>r w'. time w \<le> time w') w"
    and "wp (deploymentReadiness c d) (\<lambda>r w'. time w \<le> time w' \<and> (\<forall>res. r = Ok res \<longrightarrow> wr_ready res = (d_ready d > 0))) w"
    and "wp (svc_clock c) (\<lambda>r w'. r = Ok (time w) \<and> time w \<le> time w') w"
    and "wp (svc_sleep c ms) (\<lambda>r w'. (\<forall>u. r = Ok u \<longrightarrow> time w + ms \<le> time w')) w"
proof -
  note cl = assms [unfolded clocked_def]
  show "wp (kread (vc_deps c) (vc_ns c) n) (\<lambda>r w'. time w \<le> time w') w"
    unfolding kread_def using cl by (auto intro!: wp_of_sum) (metis snd_conv)+
  have pods: "wp (list_pods c sel) (\<lambda>r w'. time w \<le> time w') w" for sel
    unfolding list_pods_def using cl by (auto intro!: wp_attempt wp_of_sum) (metis snd_conv)+
  have verdict: "\<not> wr_ready (pod_verdict ps)" for ps
  proof -
    have "\<not> wr_ready (status_verdict cs)" for cs
      by (induction cs) (auto simp: Let_def split: option.split)
    then show ?thesis by (auto simp: pod_verdict_def Let_def split: list.split option.split)
  qed
  show "wp (deploymentReadiness c d) (\<lambda>r w'. time w \<le> time w' \<and> (\<forall>res. r = Ok res \<longrightarrow> wr_ready res = (d_ready d > 0))) w"
  proof (cases "d_ready d > 0")
    case True
    then show ?thesis by (simp add: deploymentReadiness_def wp_ret)
  next
    case False
    then show ?thesis
      unfolding deploymentReadiness_def
      by (auto intro!: wp_bnd wp_ret wp_conseq [OF pods] simp: verdict split: res.split sum.split)
  qed
  show "wp (svc_clock c) (\<lambda>r w'. r = Ok (time w) \<and> time w \<le> time w') w"
    using cl by (auto simp: wp_def svc_clock_def split: prod.split) (metis fst_conv, metis snd_conv)
  show "wp (svc_sleep c ms) (\<lambda>r w'. (\<forall>u. r = Ok u \<longrightarrow> time w + ms \<le> time w')) w"
    using cl by (auto simp: wp_def svc_sleep_def split: prod.split option.split) (metis fst_conv snd_conv)
qed

lemma bnd_cong_run:
  "wp m (\<lambda>r w'. \<forall>x. r = Ok x \<longrightarrow> f x w' = g x w') w \<Longrightarrow> bnd m f w = bnd m g w"
  by (auto simp: wp_def bnd_def split: prod.split res.split)

lemma wait_service_fuel:
  assumes "clocked time c" "deadline - time w < 500 * int n"
  shows "wait_service c name deadline (n + k) w = wait_service c name deadline n w"
  using assms(2)
proof (induction n arbitrary: w)
  note clk = wp_read_time [OF assms(1)]
  case 0
  show ?case
    apply (subst (1 2) wait_service.simps)
    apply (rule bnd_cong_run, rule wp_conseq [OF clk(1)], clarify)
    apply (rule bnd_cong_run, rule wp_conseq [OF clk(2)], clarify)
    subgoal using 0 by (auto intro!: bnd_cong_run wp_conseq [OF clk(3)])
    done
next
  note clk = wp_read_time [OF assms(1)]
  case (Suc n)
  show ?case
    apply (subst (1 2) wait_service.simps)
    apply (rule bnd_cong_run, rule wp_conseq [OF clk(1)], clarify)
    apply (rule bnd_cong_run, rule wp_conseq [OF clk(2)], clarify)
    subgoal using Suc by (auto intro!: bnd_cong_run wp_conseq [OF clk(3)] wp_conseq [OF clk(4)])
    done
qed

lemma wait_service_verdict:
  assumes "clocked time c" "deadline - time w < 500 * int n"
  shows "wp (wait_service c name deadline n)
    (\<lambda>r w'. \<forall>res. r = Ok res \<longrightarrow> wr_ready res \<or> wr_failed res \<or> deadline \<le> time w') w"
  using assms(2)
proof (induction n arbitrary: w)
  note clk = wp_read_time [OF assms(1)]
  case 0
  then show ?case
    by (subst wait_service.simps)
       (auto intro!: wp_bnd wp_ret wp_conseq [OF clk(1)] wp_conseq [OF clk(2)] wp_conseq [OF clk(3)] split: res.split)
next
  note clk = wp_read_time [OF assms(1)]
  case (Suc n)
  then show ?case
    by (subst wait_service.simps)
       (auto intro!: wp_bnd wp_ret wp_conseq [OF clk(1)] wp_conseq [OF clk(2)] wp_conseq [OF clk(3)] wp_conseq [OF clk(4)]
          split: res.split)
qed


lemma kmem_clocked: "clocked km_clock kmem_client"
  by (auto simp: clocked_def kmem_client_def mem_store_def Let_def split: option.split)


end
