(* ===== verification/SandboxHandlers.thy ===== *)
theory SandboxHandlers
  imports ServiceHandlers
begin

text \<open>
  The sandbox handlers of \<^verbatim>\<open>internal/workspacesvc\<close>: creating a sandbox (with the guest systems of
  \<^verbatim>\<open>sandbox_vm.go\<close>), reading, deleting and resolving it, and the read-only handlers that talk to its
  worker.  The worker's answers are a parameter; a call to it is in the trace with the address and
  the token it was made with.
\<close>

subsection \<open>Guest systems\<close>

definition defaultGoldenDiskCachePVC :: string where "defaultGoldenDiskCachePVC = ''sandbox-golden-cache''"

definition vmImageName :: "string gomap" where
  "vmImageName = [(''macos'', ''sandbox-macos''), (''windows'', ''sandbox-windows'')]"

definition vmDefaultDisk :: "string gomap" where
  "vmDefaultDisk =
    [(''macos'', ''http://artifact.worker.svc.cluster.local/artifacts/generic/golden-macos/15/data-xcode.qcow2''),
     (''windows'', ''http://artifact.worker.svc.cluster.local/artifacts/generic/golden-windows/11/data-devtools.qcow2'')]"

definition deviceImageName :: "string gomap" where
  "deviceImageName = [(''android'', ''sandbox-android:aosp'')]"

definition normalizeOS :: "string \<Rightarrow> string" where
  "normalizeOS os =
    (let s = to_lower (trim_space os) in
     if s = [] \<or> s = ''linux'' then ''linux''
     else if s \<in> {''macos'', ''darwin'', ''osx''} then ''macos''
     else if s \<in> {''windows'', ''win''} then ''windows''
     else if s = ''android'' then ''android'' else ''linux'')"

definition vmImageTagOrDefault :: "'x svc_env \<Rightarrow> string" where
  "vmImageTagOrDefault E = (if en_vm_tag E \<noteq> [] then en_vm_tag E else ''base'')"

definition vmSandboxImage :: "'x service \<Rightarrow> 'x svc_env \<Rightarrow> string \<Rightarrow> string" where
  "vmSandboxImage S E os =
    (let host = (if sv_imageHost S = [] then ''artifact.worker.svc.cluster.local'' else sv_imageHost S);
         vm = mstr vmImageName os
     in if vm \<noteq> [] then host @ ''/sandbox/'' @ vm @ '':'' @ vmImageTagOrDefault E
        else host @ ''/sandbox/'' @ mstr deviceImageName os)"

definition withEnv :: "string gomap \<Rightarrow> string gomap \<Rightarrow> string gomap" where
  "withEnv base extra = mputs extra (mputs base [])"

definition sandboxEnv :: "'x svc_env \<Rightarrow> string gomap \<Rightarrow> string gomap" where
  "sandboxEnv E caller =
    (let up = PackageUpstream (en_runtime E) in
     if up = [] then caller
     else mputs caller (mput ''SANDBOX_PACKAGE_UPSTREAM'' up (mputs (PackageEnv up) [])))"

definition ensureGoldenDiskCache :: "'x svc_env \<Rightarrow> string \<Rightarrow> ('x, unit) handler" where
  "ensureGoldenDiskCache E name =
    (let size = (if en_golden_size E = [] then ''40Gi'' else en_golden_size E) in
     bnd (map_err (\<lambda>e. internal (''ensure golden-disk cache pvc '' @ go_quote name @ '': '' @ kerr_text e))
       (svc_deref E (\<lambda>c. svc_CreatePVC c name size (en_pvc_class E) [] []))) (\<lambda>_. ret ()))"

subsection \<open>Admissible images\<close>

text \<open>\<^verbatim>\<open>strings.SplitN(s, "/", 2)\<close> is a cut at the first slash.\<close>

definition image_parts :: "string \<Rightarrow> string \<times> string" where
  "image_parts img =
    (let path = after_scheme img;
         (host, rest0) = (case cut_at CHR ''/'' path of (a, b, found) \<Rightarrow>
            if found \<and> (CHR ''.'' \<in> set a \<or> CHR '':'' \<in> set a \<or> a = ''localhost'') then (a, b) else ([], path));
         rest1 = (case last_index_byte CHR ''@'' rest0 of Some i \<Rightarrow> take i rest0 | None \<Rightarrow> rest0);
         rest2 = (case last_index_byte CHR '':'' rest1 of
            Some i \<Rightarrow> if \<not> contains (drop i rest1) ''/'' then take i rest1 else rest1 | None \<Rightarrow> rest1)
     in (host, rest2))"

definition validateSandboxImage :: "'x service \<Rightarrow> string \<Rightarrow> ('x, unit) handler" where
  "validateSandboxImage S img =
    (if sv_sandboxOrg S = [] \<and> sv_imageHost S = [] then ret () else
     case image_parts img of (gotHost, rest) \<Rightarrow>
       if sv_imageHost S \<noteq> [] \<and> gotHost \<noteq> sv_imageHost S
       then throw (CErr CodePermissionDenied (''sandbox image must come from the '' @ go_quote (sv_imageHost S) @ '' registry''))
       else if sv_sandboxOrg S \<noteq> [] \<and> fst (cut_at CHR ''/'' rest) \<noteq> sv_sandboxOrg S
       then throw (CErr CodePermissionDenied (''sandbox image must come from the '' @ go_quote (sv_sandboxOrg S) @ '' org''))
       else ret ())"

subsection \<open>Handlers\<close>

definition sbx_internal :: "('s, sbx_err, 'a) act \<Rightarrow> ('s, cerr, 'a) act" where
  "sbx_internal m = map_err (\<lambda>e. internal (sbx_text e)) m"

definition no_sandbox :: cerr where "no_sandbox = CErr CodeNotFound ''sandbox not found''"

text \<open>A listed sandbox, with whether the caller may operate on it.\<close>

definition listSandboxes :: "'x service \<Rightarrow> headers \<Rightarrow> string \<Rightarrow> string \<Rightarrow> ('x, (sandbox \<times> bool) list) handler" where
  "listSandboxes S h tenant want0 =
    bnd (sbx_internal (with_sbx S sbx_List)) (\<lambda>sbxs.
      let caller = sessionFromHeaders h; want = (if caller \<noteq> [] then caller else want0) in
      ret (sort_by (\<lambda>(sb, op). - sb_created sb)
        (map (\<lambda>sb. (sb, sandboxAccessible sb tenant caller))
          (filter (\<lambda>sb. \<not> (sb_creator sb \<noteq> [] \<and> sb_creator sb \<noteq> tenant) \<and> \<not> (want \<noteq> [] \<and> sb_session sb \<noteq> want)) sbxs))))"

definition ListSandboxes :: "'x service \<Rightarrow> headers \<Rightarrow> string \<Rightarrow> ('x, (sandbox \<times> bool) list) handler" where
  "ListSandboxes S h want = bnd (sandboxAuth S h) (\<lambda>tenant. listSandboxes S h tenant want)"

record sandbox_req =
  xq_name :: string
  xq_image :: string
  xq_os :: string
  xq_disk :: string
  xq_kvm :: bool
  xq_gpu :: int
  xq_cpu :: string
  xq_memory :: string
  xq_env :: "string gomap"
  xq_session :: string
  xq_volumes :: "svc_volume_mount list"

text \<open>What the guest system decides: the image, KVM, the memory, the extra environment and the
  golden-disk claim.\<close>

record guest =
  gu_image :: string
  gu_kvm :: bool
  gu_memory :: string
  gu_env :: "string gomap"
  gu_pvc :: string

definition guest_of :: "'x service \<Rightarrow> 'x svc_env \<Rightarrow> sandbox_req \<Rightarrow> ('x, guest) handler" where
  "guest_of S E rq =
    (let os = normalizeOS (xq_os rq); mem = (if xq_memory rq = [] then ''8Gi'' else xq_memory rq);
         vm_image = (if xq_image rq = [] then vmSandboxImage S E os else xq_image rq) in
     if os = ''macos'' \<or> os = ''windows'' then
       if mget vmImageName os = None
       then throw (bad_arg (''unsupported os '' @ go_quote (xq_os rq) @ '' (want linux|windows|macos|android)''))
       else let disk0 = trim_space (xq_disk rq); disk = (if disk0 = [] then mstr vmDefaultDisk os else disk0);
                pvc = (if en_golden_pvc E = [] then defaultGoldenDiskCachePVC else en_golden_pvc E)
         in bnd (ensureGoldenDiskCache E pvc) (\<lambda>_.
            ret \<lparr>gu_image = vm_image, gu_kvm = True, gu_memory = mem,
                 gu_env = (''GOLDEN_DISK_URL'', disk) # (if en_vm_proxy E \<noteq> [] then [(''SANDBOX_PROXY'', en_vm_proxy E)] else []),
                 gu_pvc = pvc\<rparr>)
     else if os = ''android''
     then ret \<lparr>gu_image = vm_image, gu_kvm = True, gu_memory = mem, gu_env = [], gu_pvc = []\<rparr>
     else ret \<lparr>gu_image = (if xq_image rq = [] then sv_defaultImage S else xq_image rq), gu_kvm = xq_kvm rq,
               gu_memory = xq_memory rq, gu_env = [], gu_pvc = []\<rparr>)"

definition name_taken :: "string \<Rightarrow> cerr" where
  "name_taken name = CErr CodeAlreadyExists
     (''sandbox '' @ go_quote name @ '' already exists; delete it before reusing the name'')"

definition sandbox_spec ::
  "'x svc_env \<Rightarrow> sandbox_req \<Rightarrow> guest \<Rightarrow> string \<Rightarrow> string \<Rightarrow> svc_volume_mount list \<Rightarrow> spec" where
  "sandbox_spec E rq g tenant session vols =
    \<lparr>sp_name = xq_name rq, sp_image = gu_image g, sp_cpu = xq_cpu rq, sp_memory = gu_memory g,
     sp_env = sandboxEnv E (withEnv (xq_env rq) (gu_env g)), sp_creator = tenant, sp_session = session,
     sp_runtime = Render (en_runtime E) (gu_kvm g) (xq_gpu rq), sp_bootstrap = en_bootstrap E,
     sp_golden = gu_pvc g,
     sp_volumes = map (\<lambda>v. \<lparr>v_pvc = vn_pvc v, v_path = vn_path v, v_ro = vn_ro v, v_sub = vn_sub v\<rparr>) vols\<rparr>"

definition CreateSandbox :: "'x service \<Rightarrow> 'x svc_env \<Rightarrow> headers \<Rightarrow> sandbox_req \<Rightarrow> ('x, sandbox) handler" where
  "CreateSandbox S E h rq =
    bnd (sandboxAuth S h) (\<lambda>tenant.
    if \<not> ValidComponent (xq_name rq) then throw (bad_arg ''name must be simple'') else
    bnd (guest_of S E rq) (\<lambda>g.
    if gu_image g = [] then throw (CErr CodeFailedPrecondition ''no sandbox image given and no default configured'') else
    bnd (validateSandboxImage S (gu_image g)) (\<lambda>_.
    let caller = sessionFromHeaders h; session = (if caller \<noteq> [] then caller else xq_session rq) in
    bnd (sbx_internal (with_sbx S (\<lambda>c. sbx_Get c (xq_name rq)))) (\<lambda>ex.
    if ex \<noteq> None then throw (name_taken (xq_name rq)) else
    bnd (resolveVolumes E tenant (xq_volumes rq)) (\<lambda>vols.
    bnd (map_err (\<lambda>e. case e of ErrExists n \<Rightarrow> name_taken (xq_name rq) | SbxErr m \<Rightarrow> internal m)
      (with_sbx S (\<lambda>c. sbx_Create c (sandbox_spec E rq g tenant session vols)))) (\<lambda>(sb, token).
    bnd (map_err (\<lambda>e. CErr CodeDeadlineExceeded (sbx_text e)) (with_sbx S (\<lambda>c. sbx_WaitReady c (xq_name rq) 60000))) (\<lambda>_.
    bnd (attempt (with_sbx S (\<lambda>c. sbx_Get c (xq_name rq)))) (\<lambda>r.
      ret (case r of Inr (Some cur) \<Rightarrow> cur | _ \<Rightarrow> sb)))))))))"

text \<open>The guard of the handlers on one sandbox.\<close>

definition accessible_sandbox :: "'x service \<Rightarrow> headers \<Rightarrow> string \<Rightarrow> string \<Rightarrow> ('x, sandbox) handler" where
  "accessible_sandbox S h tenant name =
    bnd (sbx_internal (with_sbx S (\<lambda>c. sbx_Get c name))) (\<lambda>r. case r of
      None \<Rightarrow> throw no_sandbox
    | Some sb \<Rightarrow> if sandboxAccessible sb tenant (sessionFromHeaders h) then ret sb else throw no_sandbox)"

definition DeleteSandbox :: "'x service \<Rightarrow> headers \<Rightarrow> string \<Rightarrow> ('x, bool) handler" where
  "DeleteSandbox S h name =
    bnd (sandboxAuth S h) (\<lambda>tenant.
    bnd (accessible_sandbox S h tenant name) (\<lambda>_.
    sbx_internal (with_sbx S (\<lambda>c. sbx_Delete c name))))"

text \<open>Resolving gives the address and token of the worker, and the phase and message seen.\<close>

definition ResolveSandbox ::
  "'x service \<Rightarrow> headers \<Rightarrow> string \<Rightarrow> ('x, string \<times> string \<times> string \<times> string) handler" where
  "ResolveSandbox S h name =
    bnd (sandboxAuth S h) (\<lambda>tenant.
    bnd (accessible_sandbox S h tenant name) (\<lambda>sb.
    bnd (map_err (\<lambda>e. CErr CodeNotFound (sbx_text e)) (with_sbx S (\<lambda>c. sbx_Resolve c name))) (\<lambda>(url, token).
    ret (url, token, sb_phase sb, sb_message sb))))"

definition ownedSandbox :: "'x service \<Rightarrow> headers \<Rightarrow> string \<Rightarrow> ('x, string \<times> string) handler" where
  "ownedSandbox S h name =
    bnd (sandboxAuth S h) (\<lambda>tenant.
    bnd (accessible_sandbox S h tenant name) (\<lambda>_.
    map_err (\<lambda>e. CErr CodeNotFound (sbx_text e)) (with_sbx S (\<lambda>c. sbx_Resolve c name))))"

subsection \<open>Talking to the worker\<close>

text \<open>A call to the worker at an address with a token.  \<open>f\<close> is the worker's answer.\<close>

definition worker_call :: "string \<Rightarrow> string \<Rightarrow> (string \<Rightarrow> string \<Rightarrow> 'x \<Rightarrow> (string + 'a) \<times> 'x) \<Rightarrow> ('x world, string, 'a) act" where
  "worker_call url token f = of_sum (logged (CWorker url token) (f url token))"

record worker_info =
  wi_workspace :: string
  wi_home :: string
  wi_os :: string
  wi_arch :: string

definition GetSandbox ::
  "'x service \<Rightarrow> (string \<Rightarrow> string \<Rightarrow> 'x \<Rightarrow> (string + worker_info) \<times> 'x) \<Rightarrow> headers \<Rightarrow> string \<Rightarrow>
   ('x, sandbox \<times> worker_info option) handler" where
  "GetSandbox S info h name =
    bnd (sandboxAuth S h) (\<lambda>tenant.
    bnd (accessible_sandbox S h tenant name) (\<lambda>sb.
    bnd (attempt (with_sbx S (\<lambda>c. sbx_Resolve c (sb_name sb)))) (\<lambda>r. case r of
      Inl _ \<Rightarrow> ret (sb, None)
    | Inr (url, token) \<Rightarrow> bnd (attempt (worker_call url token info)) (\<lambda>i. case i of
        Inl _ \<Rightarrow> ret (sb, None) | Inr wi \<Rightarrow> ret (sb, Some wi)))))"

text \<open>The read-only handlers: job list, job output, files, file content.  \<open>f\<close> is the call they make;
  their answer is the worker's, field by field.\<close>

definition worker_read ::
  "'x service \<Rightarrow> (string \<Rightarrow> string \<Rightarrow> 'x \<Rightarrow> (string + 'a) \<times> 'x) \<Rightarrow> headers \<Rightarrow> string \<Rightarrow> ('x, 'a) handler" where
  "worker_read S f h name =
    bnd (ownedSandbox S h name) (\<lambda>(url, token). map_err internal (worker_call url token f))"

end
