(* ===== verification/HandlerProps.thy ===== *)
theory HandlerProps
  imports DeployProps SandboxHandlers SessionFacts
begin

text \<open>
  Properties of the service and sandbox handlers: who may change a service, which checks are empty,
  who may reach a sandbox and its worker, and which images a sandbox may run.
\<close>

subsection \<open>A gateway on the server in memory\<close>

definition kd_service :: "'x service" where
  "kd_service =
    \<lparr>sv_agent =
      \<lparr>ag_identity = (\<lambda>h x. (let t = hdr_get h ''X-Demo-Tenant'' in
          if t = [] then (Inl (CErr CodeUnauthenticated []), x) else (Inr t, x))),
       ag_get_session = (\<lambda>h i x. (Inr False, x)), ag_create = (\<lambda>h rq x. (Inr (), x)), ag_fork = (\<lambda>h rq x. (Inr (), x)),
       ag_delete = (\<lambda>h i x. (Inr (), x)), ag_list = (\<lambda>h x. (Inr [], x)), ag_config = (\<lambda>h k x. (Inr [], x))\<rparr>,
     sv_git = \<lparr>fc_base = ''http://git'', fc_token = ''tok'', fc_http = (\<lambda>rq x. (Inl ''no host'', x))\<rparr>,
     sv_gogit =
      \<lparr>gg_newdir = (\<lambda>x. (Inr ''/tmp/c1'', x)), gg_rmall = (\<lambda>d x. x),
       gg_clone = (\<lambda>d u n t b x. (Inr (), x)), gg_ignore = (\<lambda>d x. (Inr None, x)),
       gg_stat = (\<lambda>d p x. (True, x)), gg_remove = (\<lambda>d p x. (Inr (), x)), gg_mkdirs = (\<lambda>d p x. (Inr (), x)),
       gg_write = (\<lambda>d p c x. (Inr (), x)), gg_addall = (\<lambda>d x. (Inr (), x)), gg_clean = (\<lambda>d x. (Inr False, x)),
       gg_commit = (\<lambda>d m x. (Inr ''abc123'', x)), gg_setref = (\<lambda>d b s x. (Inr (), x)),
       gg_push = (\<lambda>d rs f u t x. (Inr (), x))\<rparr>,
     sv_sbx = None, sv_sql = (\<lambda>x. (None, x)), sv_unix = (\<lambda>x. (1700000000, x)),
     sv_nanos = (\<lambda>x. (1700000000000000000, x)), sv_bus = None, sv_token = [], sv_tenant = [],
     sv_sandboxOrg = ''sandbox'', sv_imageHost = ''artifact.local'', sv_defaultImage = ''artifact.local/sandbox/base:1''\<rparr>"

definition kd_env :: "kmem svc_env" where
  "kd_env =
    \<lparr>en_svc = Some kmem_client,
     en_yaml = \<lparr>ya_dep = (\<lambda>d. Inr ''d''), ya_svc = (\<lambda>v. Inr ''v''), ya_kind = (\<lambda>t. Inl ''no yaml''),
       ya_read_dep = (\<lambda>t. Inl ''no yaml''), ya_read_svc = (\<lambda>t. Inl ''no yaml'')\<rparr>,
     en_domain = ''example.org'', en_ns = ''worker'', en_pvc_class = ''local-path'', en_pvc_size = ''1Gi'',
     en_runtime = DefaultSettings, en_is_ip = (\<lambda>h. False), en_golden_pvc = [], en_golden_size = [],
     en_vm_proxy = [], en_vm_tag = [], en_bootstrap = None\<rparr>"

definition kd_world :: "kmem \<Rightarrow> kmem world" where
  "kd_world m = \<lparr>db = empty_store, trace = [], ext = m\<rparr>"

definition kd_hdr :: "string \<Rightarrow> string \<Rightarrow> headers" where
  "kd_hdr tenant session =
     Some ((''X-Demo-Tenant'', [tenant]) # (if session = [] then [] else [(''X-Session-Name'', [session])]))"

subsection \<open>Who may change a service\<close>

text \<open>Calls that change nothing outside: reads of the cluster and of the caller's identity.\<close>

definition is_read :: "call \<Rightarrow> bool" where
  "is_read cl = (case cl of CKube v kind n \<Rightarrow> v \<in> {VGet, VList} | CGetIdentity \<Rightarrow> True | _ \<Rightarrow> False)"

lemma is_read_kube [simp]: "is_read (CKube v kind n) = (v \<in> {VGet, VList})" "is_read CGetIdentity"
  by (simp_all add: is_read_def)

lemma reads_is_read: "reads_ok (\<lambda>v kind n. is_read (CKube v kind n))"
  by (simp add: reads_ok_def)

lemma auth_reads: "keeps (traced_in is_read) (sandboxAuth S h)"
  by (auto simp: sandboxAuth_def resolveTenant_def intro!: keeps)

lemmas get_reads = svc_trace.get_keeps(3) [OF reads_is_read]

lemma traced_in_refl: "traced_in P w w"
  by (simp add: traced_in_def)

text \<open>The caller was identified and then saw the service as its own.\<close>

definition owner_seen :: "'x service \<Rightarrow> 'x svc_client \<Rightarrow> headers \<Rightarrow> string \<Rightarrow> 'x world \<Rightarrow> bool" where
  "owner_seen S c h name w = (\<exists>tenant w0 v w1. sandboxAuth S h w = (Ok tenant, w0) \<and>
     svc_Get (lift_svc c) name w0 = (Ok v, w1) \<and> sw_creator v = tenant \<and> tenant \<noteq> [])"

lemma guarded_service:
  assumes "en_svc E = Some c"
    and m: "m = bnd (sandboxAuth S h) (\<lambda>tenant. with_svc E none (\<lambda>c. bnd (writable_service c h tenant name) (k c)))"
  shows "traced_in is_read w (snd (m w)) \<or> owner_seen S c h name w"
proof (cases "sandboxAuth S h w")
  case (Pair r0 w0)
  have t0: "traced_in is_read w w0" by (rule keepsD [OF auth_reads Pair])
  show ?thesis
  proof (cases r0)
    case (Ok tenant)
    obtain r1 w1 where g: "svc_Get (lift_svc c) name w0 = (r1, w1)" by fastforce
    have "traced_in is_read w0 w1" by (rule keepsD [OF get_reads g])
    then have t1: "traced_in is_read w w1" using t0 by (rule preord_trans [OF preord_traced_in, rotated])
    show ?thesis
    proof (cases "\<exists>v. r1 = Ok v \<and> writable (sw_creator v) tenant")
      case True
      then have "owner_seen S c h name w"
        using Pair Ok g by (auto simp: owner_seen_def writable_def)
      then show ?thesis ..
    next
      case False
      then have "\<exists>x. writable_service (lift_svc c) h tenant name w0 = (x, w1) \<and> \<not> is_ok x"
        by (cases r1) (auto simp: writable_service_def bnd_def attempt_cases g act)
      then have "snd (m w) = w1"
        using Pair Ok assms(1) by (auto simp: m with_svc_def bnd_cases split: res.splits)
      with t1 show ?thesis by simp
    qed
  qed (use Pair t0 in \<open>simp_all add: m bnd_cases\<close>)
qed

text \<open>C19: Deleting, scaling, pausing or resuming a service changes something only when the caller owns
  it: in every run either all calls made were reads, or the caller's tenant was established and the
  service was then read and named that tenant as its creator.\<close>

theorem service_writes_need_ownership:
  assumes "en_svc E = Some c"
  shows "(traced_in is_read w (snd (DeleteService S E h name w)) \<or> owner_seen S c h name w) \<and>
    (traced_in is_read w (snd (ScaleService S E h name replicas w)) \<or> owner_seen S c h name w) \<and>
    (traced_in is_read w (snd (pauseResume S E h name pause w)) \<or> owner_seen S c h name w)"
  unfolding DeleteService_def ScaleService_def pauseResume_def
  by (intro conjI guarded_service [OF assms refl])

lemma service_writes_need_ownership_witness:
  "traced_in is_read (kd_world deployed) (snd (DeleteService kd_service kd_env (kd_hdr ''t2'' []) ''web'' (kd_world deployed)))"
proof -
  have "(case svc_Get (lift_svc kmem_client) ''web'' (snd (sandboxAuth kd_service (kd_hdr ''t2'' []) (kd_world deployed))) of
      (Ok v, w) \<Rightarrow> sw_creator v = ''t1'' | _ \<Rightarrow> False)"
    "(case sandboxAuth kd_service (kd_hdr ''t2'' []) (kd_world deployed) of (Ok t, w) \<Rightarrow> t = ''t2'' | _ \<Rightarrow> False)"
    by code_simp+
  then have "\<not> owner_seen kd_service kmem_client (kd_hdr ''t2'' []) ''web'' (kd_world deployed)"
    by (auto simp: owner_seen_def split: prod.splits res.splits)
  moreover have "en_svc kd_env = Some kmem_client" by (simp add: kd_env_def)
  ultimately show ?thesis using service_writes_need_ownership by blast
qed

text \<open>Ownership is enforced unevenly.  On a service without a creator, deleting, scaling, pausing and
  resuming are refused to everybody; rolling it back and replacing it by a manifest are open to
  every tenant.\<close>

theorem unowned_service_open:
  assumes svc: "en_svc E = Some c" and auth: "sandboxAuth S h w = (Ok tenant, w0)"
    and got: "svc_Get (lift_svc c) name w0 = (Ok v, w1)" and unowned: "sw_creator v = []"
  shows "fst (DeleteService S E h name w) = Fail no_service \<and>
    fst (ScaleService S E h name replicas w) = Fail no_service \<and>
    fst (pauseResume S E h name pause w) = Fail no_service \<and>
    RollbackService S E h name revision w =
      bnd (svc_err CodeFailedPrecondition (svc_Rollback (lift_svc c) name revision)) (\<lambda>v. ret (toServiceInfo E h v)) w1 \<and>
    ApplyServiceManifest S E h name text dry w =
      bnd (svc_err CodeInvalidArgument (svc_ApplyManifest (lift_svc c) (en_yaml E) name text dry))
        (\<lambda>(out, y). ret (map_option (toServiceInfo E h) out, y)) w1"
proof -
  have ns: "sw_namespace v = []"
    using got by (auto simp: svc_Get_def ret_def toService_def Let_def elim!: bnd_OkD split: list.splits)
  have owned: "ownedService S E h name w = (Ok v, w1)"
    using auth got svc unowned by (simp add: ownedService_def with_svc_def bnd_cases attempt_cases act)
  have refused: "writable_service (lift_svc c) h tenant name w0 = (Fail no_service, w1)"
    using got unowned by (simp add: writable_service_def writable_def bnd_cases attempt_cases act)
  show ?thesis
    using owned refused auth svc
    by (simp add: DeleteService_def ScaleService_def pauseResume_def RollbackService_def ApplyServiceManifest_def
        bnd_cases with_svc_def canWrite_def ns)
qed

definition orphaned :: kmem where
  "orphaned = snd (svc_Deploy kmem_client (plain_spec ''web'' []) no_kmem)"

lemma unowned_service_open_witness:
  "fst (DeleteService kd_service kd_env (kd_hdr ''t2'' []) ''web'' (kd_world orphaned)) = Fail no_service \<and>
   fst (RollbackService kd_service kd_env (kd_hdr ''t2'' []) ''web'' 0 (kd_world orphaned)) =
     Fail (CErr CodeFailedPrecondition ''no rollout history'')"
proof -
  let ?w0 = "snd (sandboxAuth kd_service (kd_hdr ''t2'' []) (kd_world orphaned))"
  have a: "fst (sandboxAuth kd_service (kd_hdr ''t2'' []) (kd_world orphaned)) = Ok ''t2''" by code_simp
  have g: "(case fst (svc_Get (lift_svc kmem_client) ''web'' ?w0) of Ok v \<Rightarrow> sw_creator v = [] | _ \<Rightarrow> False)" by code_simp
  then obtain v where v: "fst (svc_Get (lift_svc kmem_client) ''web'' ?w0) = Ok v" "sw_creator v = []"
    by (auto split: res.splits)
  have r: "(case fst (svc_Rollback (lift_svc kmem_client) ''web'' 0 (snd (svc_Get (lift_svc kmem_client) ''web'' ?w0))) of
      Fail (KOther m) \<Rightarrow> m = ''no rollout history'' | _ \<Rightarrow> False)" by code_simp
  have E: "en_svc kd_env = Some kmem_client" by (simp add: kd_env_def)
  have A: "sandboxAuth kd_service (kd_hdr ''t2'' []) (kd_world orphaned) = (Ok ''t2'', ?w0)" using a by (simp add: prod_eq_iff)
  have G: "svc_Get (lift_svc kmem_client) ''web'' ?w0 = (Ok v, snd (svc_Get (lift_svc kmem_client) ''web'' ?w0))"
    using v(1) by (simp add: prod_eq_iff)
  from unowned_service_open [OF E A G v(2)] r
  show ?thesis by (auto simp: svc_err_def bnd_def map_err_cases split: prod.splits res.splits kerr.splits)
qed

text \<open>The namespace of a service never separates two sessions of a tenant: whatever namespace its
  deployment records, a session of any other namespace of that tenant may delete it.\<close>

theorem service_namespace_unchecked:
  assumes svc: "en_svc E = Some c" and auth: "sandboxAuth S h w = (Ok tenant, w0)"
    and got: "svc_Get (lift_svc c) name w0 = (Ok v, w1)" and own: "sw_creator v = tenant" "tenant \<noteq> []"
  shows "DeleteService S E h name w = svc_internal (svc_Delete (lift_svc c) name) w1"
proof -
  have ns: "sw_namespace v = []"
    using got by (auto simp: svc_Get_def ret_def toService_def Let_def elim!: bnd_OkD split: list.splits)
  then have "writable_service (lift_svc c) h tenant name w0 = (Ok (), w1)"
    using got own by (simp add: writable_service_def writable_def canWrite_def bnd_cases attempt_cases act)
  then show ?thesis using auth svc by (simp add: DeleteService_def with_svc_def bnd_cases)
qed

lemma service_namespace_unchecked_witness:
  "\<exists>d v. kv_deps (kmem_view deployed) ''web'' = Some d \<and> mstr (om_annotations (d_meta d)) AnnoNamespace = ''acme'' \<and>
     callerNamespace (kd_hdr ''t1'' ''other:web:main'') = ''other'' \<and>
     fst (DeleteService kd_service kd_env (kd_hdr ''t1'' ''other:web:main'') ''web'' (kd_world deployed)) = Ok v \<and> v"
proof -
  let ?h = "kd_hdr ''t1'' ''other:web:main''" let ?w0 = "snd (sandboxAuth kd_service ?h (kd_world deployed))"
  have a: "fst (sandboxAuth kd_service ?h (kd_world deployed)) = Ok ''t1''"
    and ns: "callerNamespace ?h = ''other''"
    and d: "map_option (\<lambda>d. mstr (om_annotations (d_meta d)) AnnoNamespace) (kv_deps (kmem_view deployed) ''web'') = Some ''acme''"
    and g: "(case fst (svc_Get (lift_svc kmem_client) ''web'' ?w0) of Ok v \<Rightarrow> sw_creator v = ''t1'' | _ \<Rightarrow> False)"
    and x: "(case fst (svc_Delete (lift_svc kmem_client) ''web'' (snd (svc_Get (lift_svc kmem_client) ''web'' ?w0))) of
      Ok v \<Rightarrow> v | _ \<Rightarrow> False)"
    by code_simp+
  from g obtain v where v: "fst (svc_Get (lift_svc kmem_client) ''web'' ?w0) = Ok v" "sw_creator v = ''t1''"
    by (auto split: res.splits)
  have E: "en_svc kd_env = Some kmem_client" by (simp add: kd_env_def)
  have A: "sandboxAuth kd_service ?h (kd_world deployed) = (Ok ''t1'', ?w0)" using a by (simp add: prod_eq_iff)
  have G: "svc_Get (lift_svc kmem_client) ''web'' ?w0 = (Ok v, snd (svc_Get (lift_svc kmem_client) ''web'' ?w0))"
    using v(1) by (simp add: prod_eq_iff)
  from service_namespace_unchecked [OF E A G v(2)] x d ns
  show ?thesis by (auto simp: svc_err_def map_err_cases split: prod.splits res.splits)
qed

subsection \<open>Configuration objects\<close>

text \<open>Swapping the ConfigMap and Secret stores of a client.\<close>

definition with_configs :: "(config_obj, 's) kstore \<Rightarrow> (config_obj, 's) kstore \<Rightarrow> 's svc_client \<Rightarrow> 's svc_client" where
  "with_configs a b c = c\<lparr>vc_cms := a, vc_secrets := b\<rparr>"

lemma with_configs_sel [simp]:
  "vc_deps (with_configs a b c) = vc_deps c" "vc_svcs (with_configs a b c) = vc_svcs c"
  "vc_pvcs (with_configs a b c) = vc_pvcs c" "vc_rss (with_configs a b c) = vc_rss c"
  "vc_pods (with_configs a b c) = vc_pods c" "vc_ns (with_configs a b c) = vc_ns c"
  "vc_registry (with_configs a b c) = vc_registry c" "vc_cpu_req (with_configs a b c) = vc_cpu_req c"
  "vc_cpu_lim (with_configs a b c) = vc_cpu_lim c" "vc_mem_req (with_configs a b c) = vc_mem_req c"
  "vc_mem_lim (with_configs a b c) = vc_mem_lim c" "vc_quantity (with_configs a b c) = vc_quantity c"
  "vc_canon (with_configs a b c) = vc_canon c" "vc_intparse (with_configs a b c) = vc_intparse c"
  "vc_intprint (with_configs a b c) = vc_intprint c" "vc_now (with_configs a b c) = vc_now c"
  "vc_sleep (with_configs a b c) = vc_sleep c"
  by (simp_all add: with_configs_def)

lemma lift_with_configs:
  "lift_svc (with_configs a b c) =
   with_configs (lift_kstore ''configmaps'' co_meta a) (lift_kstore ''secrets'' co_meta b) (lift_svc c)"
  by (simp add: lift_svc_def with_configs_def)

lemma configs_unused:
  "svc_Get (with_configs a b c) name = svc_Get c name"
  "svc_GetPVC (with_configs a b c) name = svc_GetPVC c name"
  "deploymentReadiness (with_configs a b c) d = deploymentReadiness c d"
  "svc_clock (with_configs a b c) = svc_clock c" "svc_sleep (with_configs a b c) ms = svc_sleep c ms"
  unfolding svc_Get_def portsFor_def list_pods_def toService_def svc_GetPVC_def mountedBy_def mountedIndex_def
      toPVC_def deploymentReadiness_def svc_clock_def svc_sleep_def with_configs_sel by (rule refl)+

lemma configs_unused_wait: "wait_service (with_configs a b c) name deadline n = wait_service c name deadline n"
proof (induction n)
  case 0
  show ?case
    unfolding wait_service.simps [of "with_configs a b c" name deadline 0] wait_service.simps [of c name deadline 0]
      with_configs_sel configs_unused nat.case by (rule refl)
next
  case (Suc n)
  show ?case
    unfolding wait_service.simps [of "with_configs a b c" name deadline "Suc n"]
      wait_service.simps [of c name deadline "Suc n"] with_configs_sel configs_unused nat.case Suc by (rule refl)
qed

lemma configs_unused_build:
  "svc_resources (with_configs a b c) = svc_resources c"
  "build_deployment (with_configs a b c) s ports = build_deployment c s ports"
proof -
  show r: "svc_resources (with_configs a b c) = svc_resources c"
    by (intro ext) (unfold svc_resources_def with_configs_sel, rule refl)
  have "sidecar_container (with_configs a b c) = sidecar_container c"
    by (intro ext) (unfold sidecar_container_def r, rule refl)
  then show "build_deployment (with_configs a b c) s ports = build_deployment c s ports"
    unfolding build_deployment_def request_resources_def r with_configs_sel by simp
qed

lemma configs_unused_deploy:
  "svc_Deploy (with_configs a b c) s = svc_Deploy c s"
  "svc_WaitReady (with_configs a b c) name t = svc_WaitReady c name t"
proof -
  have "mirrored (with_configs a b c) = mirrored c"
    by (intro ext) (unfold mirrored_def with_configs_sel, rule refl)
  moreover have "applyDeployment (with_configs a b c) = applyDeployment c"
    by (intro ext) (unfold applyDeployment_def with_configs_sel, rule refl)
  moreover have "applyService (with_configs a b c) = applyService c"
    by (intro ext) (unfold applyService_def with_configs_sel, rule refl)
  moreover have "precheck (with_configs a b c) = precheck c"
    by (intro ext) (unfold precheck_def with_configs_sel, rule refl)
  ultimately show "svc_Deploy (with_configs a b c) s = svc_Deploy c s"
    unfolding svc_Deploy_def write_service_def configs_unused_build configs_unused by simp
  show "svc_WaitReady (with_configs a b c) name t = svc_WaitReady c name t"
    unfolding svc_WaitReady_def configs_unused configs_unused_wait by (rule refl)
qed

text \<open>Deploying a service never asks whose the Secrets and ConfigMaps are that the request mounts or
  puts into the environment: the whole run, the answer and the deployment written are the same
  whatever these stores hold, although listing, replacing and deleting them is checked.\<close>

theorem DeployService_ignores_config_owners:
  "DeployService S (E\<lparr>en_svc := Some (with_configs a b c)\<rparr>) h rq = DeployService S (E\<lparr>en_svc := Some c\<rparr>) h rq"
proof -
  let ?E = "E\<lparr>en_svc := Some (with_configs a b c)\<rparr>" let ?F = "E\<lparr>en_svc := Some c\<rparr>"
  have ws: "with_svc ?E none f = f (with_configs (lift_kstore ''configmaps'' co_meta a) (lift_kstore ''secrets'' co_meta b) (lift_svc c))"
    "with_svc ?F none f = f (lift_svc c)" for none and f :: "'a world svc_client \<Rightarrow> ('a world, 'f, 'g) act"
    by (simp_all add: with_svc_def lift_with_configs)
  have vols: "resolve_volume ?E = resolve_volume ?F"
    by (intro ext) (unfold resolve_volume_def ws configs_unused, rule refl)
  have sel: "en_ns ?E = en_ns ?F" "en_domain ?E = en_domain ?F" "en_is_ip ?E = en_is_ip ?F" by simp_all
  have info: "toServiceInfo ?E h v = toServiceInfo ?F h v" for v
    unfolding toServiceInfo_def servicePublicURLs_def publicDomainFor_def sel by (rule refl)
  have spec: "deploy_spec ?E = deploy_spec ?F" by (simp add: deploy_spec_def fun_eq_iff)
  show ?thesis
    unfolding DeployService_def ws resolveVolumes_def vols info spec deploy_guard_def awaitServiceReady_def
      configs_unused configs_unused_deploy by (rule refl)
qed

text \<open>A Secret or ConfigMap is replaced, or deleted, only by its creator.\<close>

lemma config_stores:
  assumes "cluster_ok view c"
  shows "store_ok view kv_cms put_cm co_meta same_config (vc_ns c) (vc_cms c)"
    "store_ok view kv_secs put_sec co_meta same_config (vc_ns c) (vc_secrets c)"
  using assms by (simp_all add: cluster_ok_def)

lemma config_Get_cases:
  assumes ok: "store_ok view rd wr co_meta st ns (ck_store k)" and run: "config_Get k ns name s = (r, s')"
  shows "view s' = view s \<and> (case r of
      Ok v \<Rightarrow> \<forall>ob. rd (view s) name = Some ob \<longrightarrow> cv_creator v = mstr (om_annotations (co_meta ob)) (ck_creator k)
    | Fail e \<Rightarrow> IsNotFound e \<longrightarrow> rd (view s) name = None | Panic p \<Rightarrow> False)"
proof (cases "kread (ck_store k) ns name s")
  case (Pair q s1)
  show ?thesis
  proof (cases q)
    case (Ok x)
    with Pair run have "r = Ok (toConfig k x)" "s' = s1" by (simp_all add: config_Get_def bnd_cases act)
    then show ?thesis using kread_Ok [OF ok Pair [unfolded Ok]] by (auto simp: toConfig_def)
  next
    case (Fail e)
    with Pair run have "r = Fail e" "s' = s1" by (simp_all add: config_Get_def bnd_cases act)
    then show ?thesis using kread_Fail [OF ok Pair [unfolded Fail]] by simp
  next
    case (Panic p)
    with Pair show ?thesis by (simp add: kread_def of_sum_Panic)
  qed
qed

lemma config_write_keeps:
  assumes ok: "store_ok view rd wr co_meta st ns (ck_store k)"
    and set: "\<And>m x V. rd (wr m x V) = (rd V)(m := x)"
    and live: "rd (view s) n = Some ob"
  shows "om_name (co_meta x) \<noteq> n \<Longrightarrow> kupdate (ck_store k) ns x s = (r, s') \<Longrightarrow> rd (view s') n = Some ob"
    and "kcreate (ck_store k) ns x s = (r, s') \<Longrightarrow> rd (view s') n = Some ob"
proof -
  show "om_name (co_meta x) \<noteq> n \<Longrightarrow> kupdate (ck_store k) ns x s = (r, s') \<Longrightarrow> rd (view s') n = Some ob"
    using kupdate_Ok [OF ok, of x s _ s'] kupdate_Fail [OF ok, of x s _ s'] set live
    by (cases r) (auto simp: kupdate_def of_sum_Panic)
  show "kcreate (ck_store k) ns x s = (r, s') \<Longrightarrow> rd (view s') n = Some ob"
    using kcreate_Ok [OF ok, of x s _ s'] kcreate_Fail [OF ok, of x s _ s'] set live
    by (cases r) (auto simp: kcreate_def of_sum_Panic)
qed

lemma config_Put_spares:
  assumes ok: "store_ok view rd wr co_meta st ns (ck_store k)"
    and set: "\<And>m x V. rd (wr m x V) = (rd V)(m := x)"
    and live: "rd (view s) n = Some ob" and foreign: "mstr (om_annotations (co_meta ob)) (ck_creator k) \<noteq> creator"
    and run: "config_Put k ns name data creator namespace s = (r, s')"
  shows "rd (view s') n = Some ob"
proof -
  let ?P = "\<lambda>s. rd (view s) n = Some ob" and ?ob = "config_object k name data creator namespace"
  have nm: "om_name (co_meta ?ob) = name" by (simp add: config_object_def)
  have get: "?P w' \<longleftrightarrow> ?P w" if "config_Get k ns name w = (q, w')" for w q w'
    using config_Get_cases [OF ok that] by simp
  have after: "?P w'" if "bnd (map_err f m) (\<lambda>_. config_Get k ns name) w = (q, w')"
      "\<And>q w'. m w = (q, w') \<Longrightarrow> ?P w'" for f m w q w'
    using that by (auto simp: bnd_cases map_err_def split: prod.splits res.splits dest: get)
  show ?thesis
  proof (cases "config_Get k ns name s")
    case (Pair g s1)
    note facts = config_Get_cases [OF ok Pair]
    have l1: "?P s1" using facts live by simp
    note keeps1 = config_write_keeps [OF ok set, OF l1, of ?ob, unfolded nm]
    show ?thesis
      using run Pair facts foreign live l1
      by (cases g; cases "name = n")
        (auto simp: config_Put_def Let_def bnd_cases [of "attempt _"] attempt_cases throw_def split: if_splits
          intro: after [OF _ keeps1(1)] after [OF _ keeps1(2)])
  qed
qed

end
