(* ===== verification/SandboxProps.thy ===== *)
theory SandboxProps
  imports SandboxHandlers SessionFacts Demo
begin

text \<open>
  Properties of the sandbox handlers: who reaches a sandbox and its worker, which images a sandbox may
  run, and which volumes and ports a request gets past the handlers.
\<close>

subsection \<open>Who reaches a sandbox\<close>

text \<open>Calls before a sandbox has been admitted: the caller's identity and reads of pods.\<close>

definition peeks :: "call \<Rightarrow> bool" where
  "peeks cl = (case cl of CKube v kind n \<Rightarrow> v = VGet \<and> kind = ''pods'' | CGetIdentity \<Rightarrow> True | _ \<Rightarrow> False)"

lemma peeks_simps [simp]: "peeks (CKube v kind n) = (v = VGet \<and> kind = ''pods'')" "peeks CGetIdentity"
  by (simp_all add: peeks_def)

lemma auth_peeks: "keeps (traced_in peeks) (sandboxAuth S h)"
  by (auto simp: sandboxAuth_def resolveTenant_def intro!: keeps)

lemma clock_peeks: "keeps (traced_in peeks) (clock (lift_sbx c))"
  by (rule keepsI) (auto simp: clock_def lift_sbx_def traced_in_def dest: db_quiet split: prod.splits)

lemma get_peeks: "keeps (traced_in peeks) (sbx_internal (with_sbx S (\<lambda>c. sbx_Get c name)))"
proof (cases "sv_sbx S")
  case (Some c)
  have "keeps (traced_in peeks) (kget (sc_pods (lift_sbx c)) ns n)" for ns n
    by (auto simp: kget_def lift_sbx_def lift_kapi_def intro!: keeps)
  with Some show ?thesis
    by (auto simp: sbx_internal_def with_sbx_def sbx_Get_def toSandbox_def intro!: keeps clock_peeks split: sum.split)
qed (auto simp: sbx_internal_def with_sbx_def intro!: keeps)

text \<open>The caller was identified and the sandbox read afterwards is one it may reach.\<close>

definition sandbox_seen :: "'x service \<Rightarrow> headers \<Rightarrow> string \<Rightarrow> 'x world \<Rightarrow> bool" where
  "sandbox_seen S h name w = (\<exists>tenant w0 sb w1. sandboxAuth S h w = (Ok tenant, w0) \<and>
     sbx_internal (with_sbx S (\<lambda>c. sbx_Get c name)) w0 = (Ok (Some sb), w1) \<and>
     (sb_creator sb = [] \<or> sb_creator sb = tenant) \<and>
     (sessionFromHeaders h = [] \<or> sb_session sb = sessionFromHeaders h))"

definition barred :: "'x world \<Rightarrow> (cerr, 'a) res \<times> 'x world \<Rightarrow> bool" where
  "barred w run = (\<not> is_ok (fst run) \<and> traced_in peeks w (snd run))"

lemma guarded_sandbox:
  assumes m: "m = bnd (sandboxAuth S h) (\<lambda>tenant. bnd (accessible_sandbox S h tenant name) (k tenant))"
  shows "barred w (m w) \<or> sandbox_seen S h name w"
proof (cases "sandboxAuth S h w")
  case (Pair r0 w0)
  have t0: "traced_in peeks w w0" by (rule keepsD [OF auth_peeks Pair])
  show ?thesis
  proof (cases r0)
    case (Ok tenant)
    obtain r1 w1 where g: "sbx_internal (with_sbx S (\<lambda>c. sbx_Get c name)) w0 = (r1, w1)" by fastforce
    have "traced_in peeks w0 w1" by (rule keepsD [OF get_peeks g])
    then have t1: "traced_in peeks w w1" using t0 by (rule preord_trans [OF preord_traced_in, rotated])
    show ?thesis
    proof (cases "\<exists>sb. r1 = Ok (Some sb) \<and> sandboxAccessible sb tenant (sessionFromHeaders h)")
      case True
      then have "sandbox_seen S h name w"
        using Pair Ok g by (auto simp: sandbox_seen_def sandboxAccessible_def split: if_splits)
      then show ?thesis ..
    next
      case False
      then have "\<exists>x. accessible_sandbox S h tenant name w0 = (x, w1) \<and> \<not> is_ok x"
        by (cases r1) (auto simp: accessible_sandbox_def bnd_def g act split: option.split)
      then have "\<not> is_ok (fst (m w)) \<and> snd (m w) = w1"
        using Pair Ok by (auto simp: m bnd_cases split: res.splits)
      with t1 show ?thesis by (simp add: barred_def)
    qed
  qed (use Pair t0 in \<open>simp_all add: m bnd_cases barred_def\<close>)
qed

text \<open>C11: A sandbox is confined to its tenant and its session: each handler on one sandbox (read, delete,
  resolve, and every read through its worker) either fails having only identified the caller and read
  the pod -- no token is read, no worker is called, nothing is deleted -- or the caller was identified
  and the pod read then is unowned or of its tenant and, when the caller is a session, of this session.\<close>

theorem sandbox_confined:
  "(barred w (DeleteSandbox S h name w) \<or> sandbox_seen S h name w) \<and>
   (barred w (ResolveSandbox S h name w) \<or> sandbox_seen S h name w) \<and>
   (barred w (GetSandbox S info h name w) \<or> sandbox_seen S h name w) \<and>
   (barred w (worker_read S f h name w) \<or> sandbox_seen S h name w)"
proof (intro conjI)
  show "barred w (DeleteSandbox S h name w) \<or> sandbox_seen S h name w"
    unfolding DeleteSandbox_def by (rule guarded_sandbox [OF refl])
  show "barred w (ResolveSandbox S h name w) \<or> sandbox_seen S h name w"
    unfolding ResolveSandbox_def by (rule guarded_sandbox [OF refl])
  show "barred w (GetSandbox S info h name w) \<or> sandbox_seen S h name w"
    unfolding GetSandbox_def by (rule guarded_sandbox [OF refl])
  have own: "barred w (ownedSandbox S h name w) \<or> sandbox_seen S h name w"
    unfolding ownedSandbox_def by (rule guarded_sandbox [OF refl])
  have "barred w (worker_read S f h name w)" if "barred w (ownedSandbox S h name w)"
    using that by (cases "ownedSandbox S h name w"; cases "fst (ownedSandbox S h name w)")
      (auto simp: worker_read_def barred_def bnd_cases)
  with own show "barred w (worker_read S f h name w) \<or> sandbox_seen S h name w" by blast
qed

subsection \<open>Which images a sandbox may run\<close>

text \<open>\<open>r\<close> is \<open>b\<close> without a tag or digest.\<close>

definition stem :: "string \<Rightarrow> string \<Rightarrow> bool" where
  "stem b r = (\<exists>t. b = r @ t \<and> (t = [] \<or> hd t \<in> {CHR ''@'', CHR '':''}))"

lemma stem_refl: "stem b b" by (simp add: stem_def)

lemma stem_trans: "stem a b \<Longrightarrow> stem b c \<Longrightarrow> stem a c"
  unfolding stem_def by (metis append_assoc append_Nil2 append_self_conv hd_append2)

lemma last_index_byte_SomeD:
  assumes "last_index_byte c s = Some i"
  shows "i < length s \<and> s ! i = c"
proof -
  from assms obtain j where j: "index_byte c (rev s) = Some j" "i = length s - Suc j"
    by (auto simp: last_index_byte_def)
  from index_byte_SomeD [OF j(1)] have "j < length s" "rev s ! j = c" by simp_all
  with j(2) show ?thesis by (simp add: rev_nth [of j s])
qed

lemma stem_cut:
  assumes "last_index_byte c s = Some i" "c \<in> {CHR ''@'', CHR '':''}"
  shows "stem s (take i s)"
  unfolding stem_def
  using last_index_byte_SomeD [OF assms(1)] assms(2) by (intro exI [of _ "drop i s"]) (auto simp: hd_drop_conv_nth)

lemma cut_at_takeWhile: "fst (cut_at c s) = takeWhile (\<lambda>x. x \<noteq> c) s"
proof (induction s)
  case (Cons x s)
  then show ?case by (cases "index_byte c s") (auto simp: cut_at_def)
qed (simp add: cut_at_def)

lemma stem_first:
  assumes "stem b r"
  shows "\<exists>t. b = takeWhile (\<lambda>x. x \<noteq> CHR ''/'') r @ t \<and> (t = [] \<or> hd t \<in> {CHR ''/'', CHR ''@'', CHR '':''})"
proof -
  let ?p = "\<lambda>x. x \<noteq> CHR ''/''"
  from assms obtain u where u: "b = r @ u" "u = [] \<or> hd u \<in> {CHR ''@'', CHR '':''}" by (auto simp: stem_def)
  have b: "b = takeWhile ?p r @ (dropWhile ?p r @ u)" using u(1) by simp
  have "dropWhile ?p r @ u = [] \<or> hd (dropWhile ?p r @ u) \<in> {CHR ''/'', CHR ''@'', CHR '':''}"
  proof (cases "dropWhile ?p r")
    case Nil
    with u(2) show ?thesis unfolding Nil append_Nil by blast
  next
    case (Cons x y)
    then have "\<not> ?p x" using hd_dropWhile [of ?p r] by simp
    then show ?thesis unfolding Cons by simp
  qed
  with b show ?thesis by blast
qed

lemma image_parts_shape:
  assumes "image_parts img = (host, rest)" "host \<noteq> []"
  shows "\<exists>b. after_scheme img = host @ ''/'' @ b \<and> stem b rest"
proof -
  obtain a b found where c: "cut_at CHR ''/'' (after_scheme img) = (a, b, found)" by (metis prod_cases3)
  let ?p = "found \<and> (CHR ''.'' \<in> set a \<or> CHR '':'' \<in> set a \<or> a = ''localhost'')"
  have parts: "?p" "host = a"
    using assms unfolding image_parts_def Let_def c prod.case by (cases ?p, simp_all)+
  note f = parts(1) [THEN conjunct1] and h = parts(2)
  have img: "after_scheme img = host @ ''/'' @ b"
  proof (cases "index_byte CHR ''/'' (after_scheme img)")
    case None with c f show ?thesis by (simp add: cut_at_def)
  next
    case (Some k)
    with c have "a = take k (after_scheme img)" "b = drop (Suc k) (after_scheme img)" by (simp_all add: cut_at_def)
    with index_byte_SomeD [OF Some] show ?thesis by (metis h append_Cons append_Nil id_take_nth_drop)
  qed
  let ?r1 = "case last_index_byte CHR ''@'' b of Some i \<Rightarrow> take i b | None \<Rightarrow> b"
  have r: "rest = (case last_index_byte CHR '':'' ?r1 of
      Some i \<Rightarrow> if \<not> contains (drop i ?r1) ''/'' then take i ?r1 else ?r1 | None \<Rightarrow> ?r1)"
    using assms(1) parts(1) unfolding image_parts_def Let_def c prod.case by simp
  have "stem b ?r1" by (auto simp: stem_refl stem_cut split: option.split)
  moreover have "stem ?r1 rest"
    unfolding r by (auto simp: stem_refl stem_cut split: option.split)
  ultimately show ?thesis using img stem_trans by blast
qed

text \<open>With a registry host and an organisation configured, an accepted sandbox image comes from them:
  after an optional scheme the reference is the host, a slash, and the organisation, followed by nothing
  or by a slash, a tag or a digest.  In particular an image without a host is refused.\<close>

theorem validateSandboxImage_sound:
  assumes "validateSandboxImage S img w = (Ok (), w')" "sv_imageHost S \<noteq> []" "sv_sandboxOrg S \<noteq> []"
  shows "\<exists>t. after_scheme img = sv_imageHost S @ ''/'' @ sv_sandboxOrg S @ t \<and>
    (t = [] \<or> hd t \<in> {CHR ''/'', CHR ''@'', CHR '':''})"
proof -
  obtain host rest where p: "image_parts img = (host, rest)" by fastforce
  with assms have "host = sv_imageHost S" "takeWhile (\<lambda>x. x \<noteq> CHR ''/'') rest = sv_sandboxOrg S"
    by (auto simp: validateSandboxImage_def act cut_at_takeWhile split: if_splits)
  with image_parts_shape [OF p] assms(2) obtain b where
    "after_scheme img = sv_imageHost S @ ''/'' @ b" "stem b rest" by auto
  with stem_first [OF this(2)] \<open>takeWhile _ rest = _\<close> show ?thesis by auto
qed

lemma validateSandboxImage_sound_witness:
  "\<exists>t. after_scheme ''docker://artifact.local/sandbox/base:2'' = ''artifact.local/sandbox'' @ t \<and>
     (t = [] \<or> hd t \<in> {CHR ''/'', CHR ''@'', CHR '':''})"
proof -
  let ?S = "demo_service\<lparr>sv_imageHost := ''artifact.local''\<rparr>"
  have "fst (validateSandboxImage ?S ''docker://artifact.local/sandbox/base:2'' demo_world) = Ok ()"
    by code_simp
  then have "validateSandboxImage ?S ''docker://artifact.local/sandbox/base:2'' demo_world =
      (Ok (), snd (validateSandboxImage ?S ''docker://artifact.local/sandbox/base:2'' demo_world))"
    by (simp add: prod_eq_iff)
  from validateSandboxImage_sound [OF this] show ?thesis by (simp add: demo_service_def)
qed

subsection \<open>Volumes and ports\<close>

text \<open>A volume is accepted exactly when its claim exists and is unowned or of the tenant.\<close>

lemma resolve_volume_iff:
  assumes "en_svc E = Some c"
  shows "is_ok (fst (resolve_volume E tenant (i, m) w)) \<longleftrightarrow>
    ValidServiceName (vn_pvc m) \<and> has_prefix (vn_path m) ''/'' \<and>
    (\<exists>v. fst (svc_GetPVC (lift_svc c) (vn_pvc m) w) = Ok v \<and> (pv_creator v = [] \<or> pv_creator v = tenant))"
proof (cases "svc_GetPVC (lift_svc c) (vn_pvc m) w")
  case (Pair r w1)
  then show ?thesis using assms
    by (cases r) (auto simp: resolve_volume_def with_svc_def Let_def bnd_cases attempt_cases act)
qed

lemma service_ports_checked:
  "service_ports cport i seen sps = Inr ps \<Longrightarrow> check_ports c j ps = Inr ps"
proof (induction sps arbitrary: i j seen ps)
  case (Cons sp sps)
  from Cons.prems obtain n proto out t where
    s: "PresetPorts (pq_preset sp) = Some (n, proto)" and
    o': "service_ports cport (Suc i) (if n = 80 then pq_name sp # seen else seen) sps = Inr out" and
    p: "ps = \<lparr>po_suffix = pq_name sp, po_port = n, po_proto = proto, po_target = t\<rparr> # out" and t: "t \<noteq> 0"
    by (auto simp: Let_def split: option.splits prod.splits sum.splits if_splits)
  from s have "n \<in> {80, 443}" "proto \<in> {''tcp'', ''udp''}"
    by (auto simp: PresetPorts_def split: if_splits)
  with Cons.IH [OF o', of "Suc j"] t show ?case by (auto simp: p Let_def)
qed simp

text \<open>The ports a request resolves to are never refused or changed later: what \<^verbatim>\<open>servicePorts\<close>
  accepts, the check of the deployment accepts unchanged, whatever its default container port.\<close>

lemma servicePorts_survive_Deploy:
  assumes "servicePorts specs cport = Inr ports" "ss_ports s = ports"
  shows "resolve_ports s = Inr ports"
proof (cases "specs = []")
  case True
  then show ?thesis using assms(1) by (auto simp: resolve_ports_def servicePorts_def assms(2))
next
  case False
  then have "service_ports cport 0 [] specs = Inr ports" using assms(1) by (simp add: servicePorts_def)
  from service_ports_checked [OF this] show ?thesis
    using assms False by (cases "ports = []") (auto simp: resolve_ports_def servicePorts_def Let_def neq_Nil_conv
        split: option.splits prod.splits sum.splits if_splits)
qed

end
