(* ===== verification/HelmRelease.thy ===== *)
theory HelmRelease
  imports Forgejo ServicesMgr
begin

text \<open>
  The records of \<^verbatim>\<open>internal/helmmgr/helmmgr.go\<close> and their JSON form, as \<^verbatim>\<open>encoding/json\<close> derives it from
  the struct tags, and the unstructured Kubernetes objects a chart renders to, as JSON values.
  JSON text is not modelled: printing and parsing are parameters of the client.
\<close>

subsection \<open>Records\<close>

record hobject =
  ho_api :: string
  ho_kind :: string
  ho_name :: string

record hrevision =
  hr_number :: int
  hr_ref :: string
  hr_chart :: string
  hr_chart_version :: string
  hr_app_version :: string
  hr_values :: string
  hr_created :: int
  hr_objects :: "hobject list"
  hr_manifest :: string

record release =
  rl_name :: string
  rl_ns :: string
  rl_creator :: string
  rl_session :: string
  rl_org :: string
  rl_ref :: string
  rl_chart :: string
  rl_chart_version :: string
  rl_app_version :: string
  rl_revision :: int
  rl_status :: string
  rl_updated :: int
  rl_history :: "hrevision list"
  rl_objects :: "hobject list"

definition no_object :: hobject where "no_object = \<lparr>ho_api = [], ho_kind = [], ho_name = []\<rparr>"

definition no_revision :: hrevision where
  "no_revision = \<lparr>hr_number = 0, hr_ref = [], hr_chart = [], hr_chart_version = [], hr_app_version = [],
     hr_values = [], hr_created = 0, hr_objects = [], hr_manifest = []\<rparr>"

definition no_release :: release where
  "no_release = \<lparr>rl_name = [], rl_ns = [], rl_creator = [], rl_session = [], rl_org = [], rl_ref = [], rl_chart = [],
     rl_chart_version = [], rl_app_version = [], rl_revision = 0, rl_status = [], rl_updated = 0, rl_history = [], rl_objects = []\<rparr>"

subsection \<open>Marshalling\<close>

text \<open>A nil slice is marshalled as \<^verbatim>\<open>null\<close>; a member tagged \<^verbatim>\<open>omitempty\<close> is left out when it is empty.\<close>

definition jlist :: "('a \<Rightarrow> json) \<Rightarrow> 'a list \<Rightarrow> json" where
  "jlist f xs = (if xs = [] then JNull else JArr (map f xs))"

definition omit_str :: "string \<Rightarrow> string \<Rightarrow> (string \<times> json) list" where
  "omit_str k s = (if s = [] then [] else [(k, JStr s)])"

definition omit_list :: "('a \<Rightarrow> json) \<Rightarrow> string \<Rightarrow> 'a list \<Rightarrow> (string \<times> json) list" where
  "omit_list f k xs = (if xs = [] then [] else [(k, JArr (map f xs))])"

definition object_json :: "hobject \<Rightarrow> json" where
  "object_json ob = JObj [(''apiVersion'', JStr (ho_api ob)), (''kind'', JStr (ho_kind ob)), (''name'', JStr (ho_name ob))]"

definition revision_json :: "hrevision \<Rightarrow> json" where
  "revision_json r = JObj ([(''revision'', JNum (hr_number r)), (''ref'', JStr (hr_ref r)), (''chartPath'', JStr (hr_chart r))]
     @ omit_str ''chartVersion'' (hr_chart_version r) @ omit_str ''appVersion'' (hr_app_version r)
     @ [(''values'', JStr (hr_values r)), (''createdAt'', JNum (hr_created r)),
        (''objects'', jlist object_json (hr_objects r)), (''manifest'', JStr (hr_manifest r))])"

definition release_json :: "release \<Rightarrow> json" where
  "release_json r = JObj ([(''name'', JStr (rl_name r)), (''namespace'', JStr (rl_ns r)), (''creator'', JStr (rl_creator r)),
       (''session'', JStr (rl_session r))]
     @ omit_str ''orgNs'' (rl_org r) @ [(''ref'', JStr (rl_ref r)), (''chartPath'', JStr (rl_chart r))]
     @ omit_str ''chartVersion'' (rl_chart_version r) @ omit_str ''appVersion'' (rl_app_version r)
     @ [(''revision'', JNum (rl_revision r)), (''status'', JStr (rl_status r)), (''updatedAt'', JNum (rl_updated r))]
     @ omit_list revision_json ''history'' (rl_history r) @ omit_list object_json ''objects'' (rl_objects r))"

subsection \<open>Unmarshalling\<close>

text \<open>A member is decoded over the value the field has; \<^verbatim>\<open>null\<close> leaves it.  Members are matched to
  fields without regard to case, unknown members are skipped, and a later member overrides an earlier.\<close>

type_synonym 'a field = "json \<Rightarrow> 'a \<Rightarrow> string + 'a"

definition str_field :: "((string \<Rightarrow> string) \<Rightarrow> 'a \<Rightarrow> 'a) \<Rightarrow> 'a field" where
  "str_field upd v a = (case v of JStr s \<Rightarrow> Inr (upd (\<lambda>_. s) a) | JNull \<Rightarrow> Inr a | _ \<Rightarrow> Inl unmarshal_error)"

definition int_field :: "((int \<Rightarrow> int) \<Rightarrow> 'a \<Rightarrow> 'a) \<Rightarrow> 'a field" where
  "int_field upd v a = (case v of JNum i \<Rightarrow> Inr (upd (\<lambda>_. i) a) | JNull \<Rightarrow> Inr a | _ \<Rightarrow> Inl unmarshal_error)"

definition list_field :: "(json \<Rightarrow> string + 'b) \<Rightarrow> (('b list \<Rightarrow> 'b list) \<Rightarrow> 'a \<Rightarrow> 'a) \<Rightarrow> 'a field" where
  "list_field dec upd v a = (case v of
      JArr xs \<Rightarrow> (case all_right (map dec xs) of Inl e \<Rightarrow> Inl e | Inr ys \<Rightarrow> Inr (upd (\<lambda>_. ys) a))
    | JNull \<Rightarrow> Inr (upd (\<lambda>_. []) a) | _ \<Rightarrow> Inl unmarshal_error)"

fun dec_members :: "(string \<times> 'a field) list \<Rightarrow> (string \<times> json) list \<Rightarrow> 'a \<Rightarrow> string + 'a" where
  "dec_members fs [] a = Inr a"
| "dec_members fs ((k, v) # kvs) a =
    (case map_of fs (to_lower k) of
       None \<Rightarrow> dec_members fs kvs a
     | Some f \<Rightarrow> (case f v a of Inl e \<Rightarrow> Inl e | Inr b \<Rightarrow> dec_members fs kvs b))"

definition dec_struct :: "(string \<times> 'a field) list \<Rightarrow> 'a \<Rightarrow> json \<Rightarrow> string + 'a" where
  "dec_struct fs zero j = (case j of JObj kvs \<Rightarrow> dec_members fs kvs zero | JNull \<Rightarrow> Inr zero | _ \<Rightarrow> Inl unmarshal_error)"

definition json_object :: "json \<Rightarrow> string + hobject" where
  "json_object = dec_struct [(''apiversion'', str_field ho_api_update), (''kind'', str_field ho_kind_update),
     (''name'', str_field ho_name_update)] no_object"

definition json_revision :: "json \<Rightarrow> string + hrevision" where
  "json_revision = dec_struct
    [(''revision'', int_field hr_number_update), (''ref'', str_field hr_ref_update), (''chartpath'', str_field hr_chart_update),
     (''chartversion'', str_field hr_chart_version_update), (''appversion'', str_field hr_app_version_update),
     (''values'', str_field hr_values_update), (''createdat'', int_field hr_created_update),
     (''objects'', list_field json_object hr_objects_update), (''manifest'', str_field hr_manifest_update)] no_revision"

definition json_release :: "json \<Rightarrow> string + release" where
  "json_release = dec_struct
    [(''name'', str_field rl_name_update), (''namespace'', str_field rl_ns_update), (''creator'', str_field rl_creator_update),
     (''session'', str_field rl_session_update), (''orgns'', str_field rl_org_update), (''ref'', str_field rl_ref_update),
     (''chartpath'', str_field rl_chart_update), (''chartversion'', str_field rl_chart_version_update),
     (''appversion'', str_field rl_app_version_update), (''revision'', int_field rl_revision_update),
     (''status'', str_field rl_status_update), (''updatedat'', int_field rl_updated_update),
     (''history'', list_field json_revision rl_history_update), (''objects'', list_field json_object rl_objects_update)] no_release"

subsection \<open>The round trip\<close>

lemma all_right_map: "(\<And>x. x \<in> set xs \<Longrightarrow> f (g x) = Inr x) \<Longrightarrow> all_right (map (f \<circ> g) xs) = Inr xs"
  by (induction xs) auto

lemma dec_members_append:
  "dec_members fs (xs @ ys) a = (case dec_members fs xs a of Inl e \<Rightarrow> Inl e | Inr b \<Rightarrow> dec_members fs ys b)"
  by (induction fs xs a rule: dec_members.induct) (auto split: option.split sum.split)

lemma lower_members:
  "to_lower ''apiVersion'' = ''apiversion''" "to_lower ''kind'' = ''kind''" "to_lower ''name'' = ''name''"
  "to_lower ''revision'' = ''revision''" "to_lower ''ref'' = ''ref''" "to_lower ''chartPath'' = ''chartpath''"
  "to_lower ''chartVersion'' = ''chartversion''" "to_lower ''appVersion'' = ''appversion''" "to_lower ''values'' = ''values''"
  "to_lower ''createdAt'' = ''createdat''" "to_lower ''objects'' = ''objects''" "to_lower ''manifest'' = ''manifest''"
  "to_lower ''namespace'' = ''namespace''" "to_lower ''creator'' = ''creator''" "to_lower ''session'' = ''session''"
  "to_lower ''orgNs'' = ''orgns''" "to_lower ''status'' = ''status''" "to_lower ''updatedAt'' = ''updatedat''"
  "to_lower ''history'' = ''history''"
  by code_simp+

lemmas decoding = dec_struct_def str_field_def int_field_def list_field_def omit_str_def omit_list_def jlist_def
  lower_members dec_members_append

lemma json_object_roundtrip: "json_object (object_json ob) = Inr ob"
  by (cases ob) (simp add: json_object_def object_json_def decoding no_object_def)

lemma objects_roundtrip: "all_right (map (json_object \<circ> object_json) xs) = Inr xs"
  by (rule all_right_map) (rule json_object_roundtrip)

lemma json_revision_roundtrip: "json_revision (revision_json r) = Inr r"
  by (cases r) (simp add: json_revision_def revision_json_def decoding objects_roundtrip no_revision_def)

lemma revisions_roundtrip: "all_right (map (json_revision \<circ> revision_json) xs) = Inr xs"
  by (rule all_right_map) (rule json_revision_roundtrip)

lemma json_release_roundtrip: "json_release (release_json r) = Inr r"
  by (cases r) (simp add: json_release_def release_json_def decoding objects_roundtrip revisions_roundtrip no_release_def)

end
