(* ===== verification/HelmMgr.thy ===== *)
theory HelmMgr
  imports HelmRelease
begin

text \<open>
  Package \<^verbatim>\<open>internal/helmmgr\<close>: rendering a chart to a manifest under a safety filter, applying it to the
  managed namespace, and the release state kept in ConfigMaps -- a head per release and a body per
  revision.  Helm's loader and engine, YAML and JSON text, the REST mapper, the Kubernetes API and the
  clock are the fields of \<open>helm_client\<close>; the accessors of an unstructured object follow their
  documentation on JSON values.
\<close>

subsection \<open>Unstructured objects\<close>

fun nested :: "json \<Rightarrow> string list \<Rightarrow> json option" where
  "nested j [] = Some j"
| "nested j (k # ks) = (case j of JObj m \<Rightarrow> (case mget m k of Some v \<Rightarrow> nested v ks | None \<Rightarrow> None) | _ \<Rightarrow> None)"

text \<open>Missing maps on the way are created; when something else is in the way nothing is set.\<close>

fun set_nested :: "string list \<Rightarrow> json \<Rightarrow> json \<Rightarrow> json" where
  "set_nested [] v j = v"
| "set_nested (k # ks) v j = (case j of JObj m \<Rightarrow>
      JObj (mput k (case mget m k of
          Some (JObj n) \<Rightarrow> set_nested ks v (JObj n)
        | Some w \<Rightarrow> if ks = [] then v else w
        | None \<Rightarrow> set_nested ks v (JObj [])) m)
    | _ \<Rightarrow> j)"

fun del_nested :: "string list \<Rightarrow> json \<Rightarrow> json" where
  "del_nested [] j = j"
| "del_nested (k # ks) j = (case j of JObj m \<Rightarrow>
      (if ks = [] then JObj (filter (\<lambda>p. fst p \<noteq> k) m)
       else case mget m k of Some w \<Rightarrow> JObj (mput k (del_nested ks w) m) | None \<Rightarrow> j)
    | _ \<Rightarrow> j)"

definition nested_str :: "json \<Rightarrow> string list \<Rightarrow> string" where
  "nested_str j ks = (case nested j ks of Some (JStr s) \<Rightarrow> s | _ \<Rightarrow> [])"

definition nested_list :: "json \<Rightarrow> string list \<Rightarrow> json list" where
  "nested_list j ks = (case nested j ks of Some (JArr xs) \<Rightarrow> xs | _ \<Rightarrow> [])"

definition u_kind :: "json \<Rightarrow> string" where "u_kind u = nested_str u [''kind'']"
definition u_api :: "json \<Rightarrow> string" where "u_api u = nested_str u [''apiVersion'']"
definition u_name :: "json \<Rightarrow> string" where "u_name u = nested_str u [''metadata'', ''name'']"
definition u_ns :: "json \<Rightarrow> string" where "u_ns u = nested_str u [''metadata'', ''namespace'']"
definition u_version :: "json \<Rightarrow> string" where "u_version u = nested_str u [''metadata'', ''resourceVersion'']"

definition u_labels :: "json \<Rightarrow> string gomap" where
  "u_labels u = (case nested u [''metadata'', ''labels''] of
      Some (JObj m) \<Rightarrow> if list_all (\<lambda>(k, v). case v of JStr s \<Rightarrow> True | _ \<Rightarrow> False) m
                     then map (\<lambda>(k, v). (k, jstr v)) m else []
    | _ \<Rightarrow> [])"

definition set_labels :: "string gomap \<Rightarrow> json \<Rightarrow> json" where
  "set_labels ls u = set_nested [''metadata'', ''labels''] (JObj (map (\<lambda>(k, v). (k, JStr v)) ls)) u"

text \<open>An empty value removes the member.\<close>

definition set_meta :: "string \<Rightarrow> string \<Rightarrow> json \<Rightarrow> json" where
  "set_meta k v u = (if v = [] then del_nested [''metadata'', k] u else set_nested [''metadata'', k] (JStr v) u)"

subsection \<open>The client\<close>

record chart =
  ch_meta :: "(string \<times> string) option"
  ch_values :: "json \<Rightarrow> string \<Rightarrow> string \<Rightarrow> string + json"
  ch_render :: "json \<Rightarrow> string + string gomap"

record 's dynamic =
  dy_get :: "string \<Rightarrow> string \<Rightarrow> string \<Rightarrow> 's \<Rightarrow> (kerr + json) \<times> 's"
  dy_create :: "string \<Rightarrow> string \<Rightarrow> json \<Rightarrow> 's \<Rightarrow> (kerr + json) \<times> 's"
  dy_update :: "string \<Rightarrow> string \<Rightarrow> json \<Rightarrow> 's \<Rightarrow> (kerr + json) \<times> 's"
  dy_delete :: "string \<Rightarrow> string \<Rightarrow> string \<Rightarrow> 's \<Rightarrow> (kerr + unit) \<times> 's"

text \<open>\<open>hc_mapping\<close>: the REST mapping of an API version and kind, as the resource and whether it is
  cluster-scoped; \<open>hc_gv\<close>: the error of parsing an API version; \<open>hc_having\<close>: the ConfigMaps that
  have a label.\<close>

record 's helm_client =
  hc_cms :: "(config_obj, 's) kstore"
  hc_having :: "string \<Rightarrow> string \<Rightarrow> 's \<Rightarrow> (kerr + config_obj list) \<times> 's"
  hc_dyn :: "'s dynamic"
  hc_mapping :: "string \<Rightarrow> string \<Rightarrow> kerr + string \<times> bool"
  hc_gv :: "string \<Rightarrow> string option"
  hc_ns :: string
  hc_max :: int
  hc_load :: "string \<Rightarrow> 's \<Rightarrow> (string + chart) \<times> 's"
  hc_values :: "string \<Rightarrow> string + json"
  hc_doc :: "string \<Rightarrow> string + json"
  hc_print :: "json \<Rightarrow> string"
  hc_parse :: "string \<Rightarrow> string + json"
  hc_now :: "'s \<Rightarrow> int \<times> 's"

text \<open>\<^verbatim>\<open>NewForConfig\<close> settles the namespace and the number of revisions kept.\<close>

definition defaultHistoryMax :: int where "defaultHistoryMax = 10"

definition NewHelmClient :: "string \<Rightarrow> int \<Rightarrow> 's helm_client \<Rightarrow> 's helm_client" where
  "NewHelmClient ns hm c = c\<lparr>hc_ns := (if ns = [] then ''worker'' else ns),
     hc_max := (if hm = 0 then defaultHistoryMax else hm)\<rparr>"

definition allowedKinds :: "string list" where
  "allowedKinds = [''ConfigMap'', ''Secret'', ''Service'', ''ServiceAccount'', ''PersistentVolumeClaim'', ''Deployment'',
     ''StatefulSet'', ''DaemonSet'', ''Job'', ''CronJob'', ''Ingress'', ''NetworkPolicy'', ''HorizontalPodAutoscaler'',
     ''PodDisruptionBudget'']"

definition releaseLabel :: string where "releaseLabel = ''workspace/helm-release''"
definition releaseCMName :: string where "releaseCMName = ''helm-release-''"
definition revisionCMName :: string where "revisionCMName = ''helm-release-rev-''"
definition recordKindLabel :: string where "recordKindLabel = ''workspace/helm-record''"
definition recordHead :: string where "recordHead = ''head''"
definition recordRevision_kind :: string where "recordRevision_kind = ''revision''"
definition revisionLabel :: string where "revisionLabel = ''workspace/helm-revision''"

record render_opts =
  ro_release :: string
  ro_chart :: string
  ro_values :: string
  ro_ref :: string
  ro_org :: string

subsection \<open>The safety filter\<close>

definition pod_bases :: "string list list" where
  "pod_bases = [[''spec'', ''template'', ''spec''], [''spec'', ''jobTemplate'', ''spec'', ''template'', ''spec'']]"

definition has_host_path :: "json \<Rightarrow> bool" where
  "has_host_path v = (case v of JObj m \<Rightarrow> mget m ''hostPath'' \<noteq> None | _ \<Rightarrow> False)"

definition is_privileged :: "json \<Rightarrow> bool" where
  "is_privileged v = (nested v [''securityContext'', ''privileged''] = Some (JBool True))"

definition forbidDangerous :: "json \<Rightarrow> string option" where
  "forbidDangerous u =
    (case find (\<lambda>k. nested u ([''spec'', ''template'', ''spec''] @ [k]) = Some (JBool True)) [''hostNetwork'', ''hostPID'', ''hostIPC''] of
       Some k \<Rightarrow> Some (k @ '' is not allowed'')
     | None \<Rightarrow> foldl (\<lambda>acc base. case acc of Some e \<Rightarrow> Some e | None \<Rightarrow>
           if list_ex has_host_path (nested_list u (base @ [''volumes''])) then Some ''hostPath volumes are not allowed''
           else if list_ex is_privileged (nested_list u (base @ [''containers''])) then Some ''privileged containers are not allowed''
           else None) None pod_bases)"

definition isClusterScoped :: "'s helm_client \<Rightarrow> json \<Rightarrow> bool" where
  "isClusterScoped c u = (case hc_mapping c (u_api u) (u_kind u) of Inl e \<Rightarrow> False | Inr (res, cluster) \<Rightarrow> cluster)"

text \<open>\<^verbatim>\<open>strings.Split\<close> with a longer separator; the first argument counts bytes of it still to skip.\<close>

fun split_go :: "nat \<Rightarrow> string \<Rightarrow> string \<Rightarrow> string list" where
  "split_go n sep [] = [[]]"
| "split_go (Suc n) sep (c # s) = split_go n sep s"
| "split_go 0 sep (c # s) =
    (if has_prefix (c # s) sep then [] # split_go (length sep - 1) sep s
     else (case split_go 0 sep s of p # ps \<Rightarrow> (c # p) # ps | [] \<Rightarrow> [[c]]))"

definition doc_sep :: string where "doc_sep = CHR 0x0A # ''---''"

definition manifest_docs :: "string \<Rightarrow> string list" where
  "manifest_docs manifest = filter (\<lambda>d. trim_space d \<noteq> []) (split_go 0 doc_sep manifest)"

text \<open>A document that is empty or has no kind is skipped.\<close>

definition skipped_doc :: "json \<Rightarrow> bool" where
  "skipped_doc u = (u = JNull \<or> u = JObj [] \<or> u_kind u = [])"

definition check_doc :: "'s helm_client \<Rightarrow> json \<Rightarrow> string + hobject" where
  "check_doc c u =
    (let kind = u_kind u; ns = u_ns u in
     if kind \<notin> set allowedKinds then Inl (''kind '' @ go_quote kind @ '' is not allowed'')
     else if ns \<noteq> [] \<and> ns \<noteq> hc_ns c
     then Inl (kind @ ''/'' @ u_name u @ '': namespace '' @ go_quote ns @ '' is not allowed (only '' @ go_quote (hc_ns c) @ '')'')
     else if isClusterScoped c u then Inl (kind @ '' is cluster-scoped and not allowed'')
     else (case forbidDangerous u of Some e \<Rightarrow> Inl (kind @ ''/'' @ u_name u @ '': '' @ e)
           | None \<Rightarrow> Inr \<lparr>ho_api = u_api u, ho_kind = kind, ho_name = u_name u\<rparr>))"

fun check_docs :: "'s helm_client \<Rightarrow> string list \<Rightarrow> string + hobject list" where
  "check_docs c [] = Inr []"
| "check_docs c (d # ds) =
    (case hc_doc c d of Inl e \<Rightarrow> Inl (''parse rendered doc: '' @ e)
     | Inr u \<Rightarrow> if skipped_doc u then check_docs c ds
         else (case check_doc c u of Inl e \<Rightarrow> Inl e
               | Inr ob \<Rightarrow> (case check_docs c ds of Inl e \<Rightarrow> Inl e | Inr obs \<Rightarrow> Inr (ob # obs))))"

definition hm_validate :: "'s helm_client \<Rightarrow> string \<Rightarrow> string + hobject list" where
  "hm_validate c manifest =
    (case check_docs c (manifest_docs manifest) of Inl e \<Rightarrow> Inl e
     | Inr [] \<Rightarrow> Inl ''chart rendered no objects'' | Inr obs \<Rightarrow> Inr obs)"

definition joined_templates :: "string gomap \<Rightarrow> string" where
  "joined_templates rendered =
    join (doc_sep @ [CHR 0x0A])
      (filter (\<lambda>s. s \<noteq> [])
        (map (\<lambda>n. trim_space (mstr rendered n))
          (filter (\<lambda>n. \<not> (has_suffix n ''_helpers.tpl'' \<or> has_suffix n ''NOTES.txt''))
            (sort (map fst rendered)))))"

definition hm_Template ::
  "'s helm_client \<Rightarrow> string \<Rightarrow> render_opts \<Rightarrow> ('s, kerr, string \<times> hobject list \<times> string \<times> string) act" where
  "hm_Template c dir o' =
    bnd (map_err (\<lambda>e. KOther (''load chart: '' @ e)) (of_sum (hc_load c dir))) (\<lambda>ch.
    bnd (if trim_space (ro_values o') = [] then ret (JObj [])
         else from_sum (map_sum (\<lambda>e. ''parse values: '' @ e) id (hc_values c (ro_values o')))) (\<lambda>vals.
    bnd (from_sum (map_sum (\<lambda>e. ''render values: '' @ e) id (ch_values ch vals (ro_release o') (hc_ns c)))) (\<lambda>rv.
    bnd (from_sum (map_sum (\<lambda>e. ''render: '' @ e) id (ch_render ch rv))) (\<lambda>rendered.
    let manifest = joined_templates rendered in
    bnd (from_sum (hm_validate c manifest)) (\<lambda>objects.
    ret (manifest, objects, (case ch_meta ch of Some m \<Rightarrow> m | None \<Rightarrow> ([], []))))))))"

subsection \<open>Applying a manifest\<close>

definition helm_mapping :: "'s helm_client \<Rightarrow> string \<Rightarrow> string \<Rightarrow> ('s, kerr, string) act" where
  "helm_mapping c api kind = (case hc_mapping c api kind of Inl e \<Rightarrow> throw e | Inr (res, cluster) \<Rightarrow> ret res)"

definition keep_cluster_ip :: "json \<Rightarrow> json \<Rightarrow> json" where
  "keep_cluster_ip cur u = (let ip = nested_str cur [''spec'', ''clusterIP''] in
     if u_kind u = ''Service'' \<and> ip \<noteq> [] then set_nested [''spec'', ''clusterIP''] (JStr ip) u else u)"

definition applyObject :: "'s helm_client \<Rightarrow> json \<Rightarrow> ('s, kerr, unit) act" where
  "applyObject c u =
    bnd (helm_mapping c (u_api u) (u_kind u)) (\<lambda>res.
    bnd (attempt (of_sum (dy_get (hc_dyn c) res (hc_ns c) (u_name u)))) (\<lambda>r. case r of
      Inl e \<Rightarrow> if IsNotFound e then bnd (of_sum (dy_create (hc_dyn c) res (hc_ns c) u)) (\<lambda>_. ret ()) else throw e
    | Inr cur \<Rightarrow> bnd (of_sum (dy_update (hc_dyn c) res (hc_ns c)
          (keep_cluster_ip cur (set_meta ''resourceVersion'' (u_version cur) u)))) (\<lambda>_. ret ())))"

definition stamped :: "'s helm_client \<Rightarrow> string \<Rightarrow> json \<Rightarrow> json" where
  "stamped c release u = set_meta ''namespace'' (hc_ns c)
     (set_labels (mput ''app.kubernetes.io/managed-by'' ''workspace-gateway'' (mput releaseLabel release (u_labels u))) u)"

definition apply_doc :: "'s helm_client \<Rightarrow> string \<Rightarrow> string \<Rightarrow> ('s, kerr, unit) act" where
  "apply_doc c release d =
    (case hc_doc c d of Inl e \<Rightarrow> throw (KOther e)
     | Inr u \<Rightarrow> if skipped_doc u then ret ()
         else map_err (kwrap (''apply '' @ u_kind u @ ''/'' @ u_name u)) (applyObject c (stamped c release u)))"

definition applyManifest :: "'s helm_client \<Rightarrow> string \<Rightarrow> string \<Rightarrow> ('s, kerr, unit) act" where
  "applyManifest c manifest release = each (apply_doc c release) (manifest_docs manifest)"

definition deleteObject :: "'s helm_client \<Rightarrow> hobject \<Rightarrow> ('s, kerr, unit) act" where
  "deleteObject c ob = (case hc_gv c (ho_api ob) of Some e \<Rightarrow> throw (KOther e)
     | None \<Rightarrow> bnd (helm_mapping c (ho_api ob) (ho_kind ob)) (\<lambda>res.
         of_sum (dy_delete (hc_dyn c) res (hc_ns c) (ho_name ob))))"

subsection \<open>Release state\<close>

definition cmName :: "string \<Rightarrow> string" where "cmName release = releaseCMName @ release"

definition revCMName :: "string \<Rightarrow> int \<Rightarrow> string" where
  "revCMName release n = revisionCMName @ release @ ''-v'' @ int_str n"

definition decode_with_json :: "'s helm_client \<Rightarrow> (json \<Rightarrow> string + 'a) \<Rightarrow> string \<Rightarrow> string + 'a" where
  "decode_with_json c f text = (case hc_parse c text of Inl e \<Rightarrow> Inl e | Inr j \<Rightarrow> f j)"

text \<open>Create, or replace what is there.\<close>

definition upsert_config :: "'s helm_client \<Rightarrow> config_obj \<Rightarrow> ('s, kerr, unit) act" where
  "upsert_config c cm =
    bnd (attempt (kcreate (hc_cms c) (hc_ns c) cm)) (\<lambda>r. case r of Inr _ \<Rightarrow> ret ()
    | Inl e \<Rightarrow> if \<not> IsAlreadyExists e then throw e
        else bnd (kread (hc_cms c) (hc_ns c) (om_name (co_meta cm))) (\<lambda>_.
             bnd (kupdate (hc_cms c) (hc_ns c) cm) (\<lambda>_. ret ())))"

definition joinInts :: "int list \<Rightarrow> string" where "joinInts ns = join '','' (map int_str ns)"

definition head_config :: "'s helm_client \<Rightarrow> release \<Rightarrow> config_obj" where
  "head_config c r =
    \<lparr>co_meta = \<lparr>om_name = cmName (rl_name r), om_labels = [(releaseLabel, rl_name r), (recordKindLabel, recordHead),
        (''app.kubernetes.io/managed-by'', ''workspace-gateway'')], om_annotations = []\<rparr>,
     co_data = [(''release'', hc_print c (release_json (r\<lparr>rl_history := []\<rparr>))),
        (''revisions'', joinInts (map hr_number (rl_history r)))], co_created = 0\<rparr>"

definition revision_config :: "'s helm_client \<Rightarrow> string \<Rightarrow> hrevision \<Rightarrow> config_obj" where
  "revision_config c release rv =
    \<lparr>co_meta = \<lparr>om_name = revCMName release (hr_number rv), om_labels = [(releaseLabel, release),
        (recordKindLabel, recordRevision_kind), (revisionLabel, int_str (hr_number rv)),
        (''app.kubernetes.io/managed-by'', ''workspace-gateway'')], om_annotations = []\<rparr>,
     co_data = [(''revision'', hc_print c (revision_json rv))], co_created = 0\<rparr>"

definition putHead :: "'s helm_client \<Rightarrow> release \<Rightarrow> ('s, kerr, unit) act" where
  "putHead c r = upsert_config c (head_config c r)"

definition putRevision :: "'s helm_client \<Rightarrow> string \<Rightarrow> hrevision \<Rightarrow> ('s, kerr, unit) act" where
  "putRevision c release rv = upsert_config c (revision_config c release rv)"

definition delete_config_ok :: "'s helm_client \<Rightarrow> string \<Rightarrow> ('s, kerr, unit) act" where
  "delete_config_ok c n = bnd (attempt (kremove (hc_cms c) (hc_ns c) n)) (\<lambda>r. case r of
      Inl e \<Rightarrow> if IsNotFound e then ret () else throw e | Inr _ \<Rightarrow> ret ())"

text \<open>\<^verbatim>\<open>strconv.Atoi\<close> on a 64-bit machine.\<close>

definition Atoi :: "string \<Rightarrow> int option" where
  "Atoi s = (let (neg, ds) = (case s of c # t \<Rightarrow> if c = CHR ''-'' then (True, t) else if c = CHR ''+'' then (False, t) else (False, s)
                              | [] \<Rightarrow> (False, [])) in
     if ds = [] \<or> \<not> list_all is_digit ds then None
     else let n = (if neg then - int (str_nat ds) else int (str_nat ds))
          in if - (2 ^ 63) \<le> n \<and> n < 2 ^ 63 then Some n else None)"

definition kept_revisions :: "int \<Rightarrow> int list \<Rightarrow> int list" where
  "kept_revisions hm nums = drop (nat (int (length nums) - hm)) (sort nums)"

definition prune_one :: "'s helm_client \<Rightarrow> int list \<Rightarrow> config_obj \<Rightarrow> ('s, kerr, unit) act" where
  "prune_one c keep cm =
    (case Atoi (mstr (om_labels (co_meta cm)) revisionLabel) of None \<Rightarrow> ret ()
     | Some n \<Rightarrow> if n \<in> set keep then ret () else delete_config_ok c (om_name (co_meta cm)))"

definition revision_selector :: "string \<Rightarrow> (string \<times> string) list" where
  "revision_selector release = [(releaseLabel, release), (recordKindLabel, recordRevision_kind)]"

definition pruneHistory :: "'s helm_client \<Rightarrow> release \<Rightarrow> ('s, kerr, unit) act" where
  "pruneHistory c r =
    (if hc_max c \<le> 0 then ret ()
     else bnd (kfind (hc_cms c) (hc_ns c) (revision_selector (rl_name r))) (\<lambda>stored.
       each (prune_one c (kept_revisions (hc_max c) (map hr_number (rl_history r)))) stored))"

definition put_release :: "'s helm_client \<Rightarrow> release \<Rightarrow> ('s, kerr, unit) act" where
  "put_release c r = bnd (putHead c r) (\<lambda>_. pruneHistory c r)"

definition migrateLegacy :: "'s helm_client \<Rightarrow> release \<Rightarrow> ('s, kerr, unit) act" where
  "migrateLegacy c r = bnd (each (putRevision c (rl_name r)) (rl_history r)) (\<lambda>_. put_release c r)"

definition decoded_revisions :: "'s helm_client \<Rightarrow> config_obj list \<Rightarrow> hrevision list" where
  "decoded_revisions c cms = sort_by hr_number
     (concat (map (\<lambda>cm. case decode_with_json c json_revision (mstr (co_data cm) ''revision'') of Inl _ \<Rightarrow> [] | Inr rv \<Rightarrow> [rv]) cms))"

definition loadRevisions :: "'s helm_client \<Rightarrow> string \<Rightarrow> ('s, kerr, hrevision list) act" where
  "loadRevisions c release =
    bnd (kfind (hc_cms c) (hc_ns c) (revision_selector release)) (\<lambda>cms. ret (decoded_revisions c cms))"

definition hm_Get :: "'s helm_client \<Rightarrow> string \<Rightarrow> ('s, kerr, release option) act" where
  "hm_Get c release =
    bnd (attempt (kread (hc_cms c) (hc_ns c) (cmName release))) (\<lambda>h. case h of
      Inl e \<Rightarrow> if IsNotFound e then ret None else throw e
    | Inr head \<Rightarrow>
        bnd (from_sum (decode_with_json c json_release (mstr (co_data head) ''release''))) (\<lambda>r.
        bnd (if rl_history r \<noteq> [] then ignore (migrateLegacy c r) else ret ()) (\<lambda>_.
        bnd (loadRevisions c release) (\<lambda>revs. ret (Some (r\<lparr>rl_history := revs\<rparr>))))))"

definition deleteReleaseState :: "'s helm_client \<Rightarrow> string \<Rightarrow> ('s, kerr, unit) act" where
  "deleteReleaseState c release =
    bnd (kfind (hc_cms c) (hc_ns c) [(releaseLabel, release)]) (\<lambda>stored.
    bnd (each (\<lambda>cm. delete_config_ok c (om_name (co_meta cm))) stored) (\<lambda>_.
    delete_config_ok c (cmName release)))"

definition recordRevision :: "'s helm_client \<Rightarrow> release \<Rightarrow> ('s, kerr, release) act" where
  "recordRevision c r =
    (if rl_history r = [] then throw (KOther (''release '' @ go_quote (rl_name r) @ '' has no revision to record''))
     else bnd (putRevision c (rl_name r) (last (rl_history r))) (\<lambda>_. bnd (put_release c r) (\<lambda>_. ret r)))"

definition hm_List :: "'s helm_client \<Rightarrow> ('s, kerr, release list) act" where
  "hm_List c =
    bnd (of_sum (hc_having c (hc_ns c) releaseLabel)) (\<lambda>cms.
      ret (sort_by (\<lambda>r. - rl_updated r) (concat (map (\<lambda>cm.
        if mstr (om_labels (co_meta cm)) recordKindLabel = recordRevision_kind then []
        else case decode_with_json c json_release (mstr (co_data cm) ''release'') of
            Inl _ \<Rightarrow> [] | Inr r \<Rightarrow> [r\<lparr>rl_history := []\<rparr>]) cms))))"

subsection \<open>Releases\<close>

definition release_char :: "char \<Rightarrow> bool" where
  "release_char x = (is_lower x \<or> is_digit x \<or> x = CHR ''-'')"

definition validReleaseName :: "string \<Rightarrow> bool" where
  "validReleaseName s = (s \<noteq> [] \<and> length s \<le> 53 \<and> list_all release_char s \<and> hd s \<noteq> CHR ''-'' \<and> last s \<noteq> CHR ''-'')"

definition helm_clock :: "'s helm_client \<Rightarrow> ('s, kerr, int) act" where
  "helm_clock c = (\<lambda>s. case hc_now c s of (n, s') \<Rightarrow> (Ok n, s'))"

text \<open>The release with one revision more, from the parts the caller names.\<close>

definition next_revision ::
  "release \<Rightarrow> int \<Rightarrow> string \<Rightarrow> string \<Rightarrow> string \<Rightarrow> string \<Rightarrow> string \<Rightarrow> hobject list \<Rightarrow> string \<Rightarrow> release" where
  "next_revision cur now ref chart cv av values objects manifest =
    (let n = rl_revision cur + 1 in
     cur\<lparr>rl_ref := ref, rl_chart := chart, rl_chart_version := cv, rl_app_version := av, rl_objects := objects,
       rl_revision := n, rl_status := ''deployed'', rl_updated := now,
       rl_history := rl_history cur @ [\<lparr>hr_number = n, hr_ref = ref, hr_chart = chart, hr_chart_version = cv,
         hr_app_version = av, hr_values = values, hr_created = now, hr_objects = objects, hr_manifest = manifest\<rparr>]\<rparr>)"

definition fresh_release :: "'s helm_client \<Rightarrow> render_opts \<Rightarrow> string \<Rightarrow> string \<Rightarrow> release" where
  "fresh_release c o' creator session = no_release\<lparr>rl_name := ro_release o', rl_ns := hc_ns c, rl_creator := creator,
     rl_session := session, rl_org := ro_org o'\<rparr>"

definition hm_Apply ::
  "'s helm_client \<Rightarrow> string \<Rightarrow> render_opts \<Rightarrow> string \<Rightarrow> string \<Rightarrow> ('s, kerr, release) act" where
  "hm_Apply c dir o' creator session =
    (if \<not> validReleaseName (ro_release o') then throw (KOther ''release name must be a DNS-1123 label'')
     else bnd (hm_Template c dir o') (\<lambda>(manifest, objects, cv, av).
     bnd (applyManifest c manifest (ro_release o')) (\<lambda>_.
     bnd (hm_Get c (ro_release o')) (\<lambda>got.
     bnd (helm_clock c) (\<lambda>now.
     let cur = (case got of Some r \<Rightarrow> r | None \<Rightarrow> fresh_release c o' creator session);
         new = next_revision cur now (ro_ref o') (ro_chart o') cv av (ro_values o') objects manifest
     in recordRevision c new)))))"

definition hm_Rollback :: "'s helm_client \<Rightarrow> string \<Rightarrow> int \<Rightarrow> ('s, kerr, release) act" where
  "hm_Rollback c release n =
    bnd (hm_Get c release) (\<lambda>got. case got of
      None \<Rightarrow> throw (KOther (''release '' @ go_quote release @ '' not found''))
    | Some cur \<Rightarrow> (case find (\<lambda>rv. hr_number rv = n) (rl_history cur) of
        None \<Rightarrow> throw (KOther (''revision '' @ int_str n @ '' not found''))
      | Some t \<Rightarrow>
          bnd (applyManifest c (hr_manifest t) release) (\<lambda>_.
          bnd (helm_clock c) (\<lambda>now.
          recordRevision c (next_revision cur now (hr_ref t) (hr_chart t) (hr_chart_version t) (hr_app_version t)
            (hr_values t) (hr_objects t) (hr_manifest t))))))"

definition hm_Uninstall :: "'s helm_client \<Rightarrow> string \<Rightarrow> ('s, kerr, bool) act" where
  "hm_Uninstall c release =
    bnd (hm_Get c release) (\<lambda>got. case got of None \<Rightarrow> ret False
    | Some cur \<Rightarrow>
        bnd (if rl_history cur = [] then ret ()
             else each (\<lambda>ob. ignore (deleteObject c ob)) (rev (hr_objects (last (rl_history cur))))) (\<lambda>_.
        bnd (deleteReleaseState c release) (\<lambda>_. ret True)))"

end
