(* ===== verification/HelmStatus.thy ===== *)
theory HelmStatus
  imports HelmMgr
begin

text \<open>
  \<^verbatim>\<open>internal/helmmgr/objects.go\<close>: the live status of the objects of a release and the log of one of its
  pods.  The typed reads of the Kubernetes API and the log stream are the fields of \<open>status_api\<close>.
\<close>

record container_state =
  cn_ready :: bool
  cn_restarts :: int
  cn_waiting :: "(string \<times> string) option"
  cn_terminated :: "(string \<times> int) option"

record pod_state =
  pt_phase :: string
  pt_states :: "container_state list"
  pt_names :: "string list"

text \<open>\<open>sa_dep\<close> and \<open>sa_sts\<close>: the replicas asked for, if given, and those ready; \<open>sa_ds\<close>: scheduled and
  ready; \<open>sa_job\<close>: succeeded.  \<open>sa_logs\<close>: the lines read and the error that ended the reading.\<close>

record 's status_api =
  sa_pod :: "string \<Rightarrow> string \<Rightarrow> 's \<Rightarrow> (kerr + pod_state) \<times> 's"
  sa_dep :: "string \<Rightarrow> string \<Rightarrow> 's \<Rightarrow> (kerr + int option \<times> int) \<times> 's"
  sa_sts :: "string \<Rightarrow> string \<Rightarrow> 's \<Rightarrow> (kerr + int option \<times> int) \<times> 's"
  sa_ds :: "string \<Rightarrow> string \<Rightarrow> 's \<Rightarrow> (kerr + int \<times> int) \<times> 's"
  sa_job :: "string \<Rightarrow> string \<Rightarrow> 's \<Rightarrow> (kerr + int) \<times> 's"
  sa_logs :: "string \<Rightarrow> string \<Rightarrow> string \<Rightarrow> bool \<Rightarrow> int \<Rightarrow> 's \<Rightarrow> (kerr + string list \<times> string option) \<times> 's"

record object_status =
  os_kind :: string
  os_name :: string
  os_ns :: string
  os_status :: string
  os_ready :: bool
  os_message :: string
  os_phase :: string
  os_restarts :: int
  os_readyReps :: int
  os_desired :: int

definition errReason :: "kerr \<Rightarrow> string" where
  "errReason e = (if IsNotFound e then [] else kerr_text e)"

definition phase :: "bool \<Rightarrow> int \<Rightarrow> int \<Rightarrow> string" where
  "phase ready desired readyReps = (if ready then ''Ready'' else if desired = 0 then ''Complete''
     else if readyReps = 0 then ''Progressing'' else ''Progressing'')"

definition state_message :: "string \<Rightarrow> container_state \<Rightarrow> string" where
  "state_message msg cs = (case cn_waiting cs of
      Some (r, t) \<Rightarrow> if r \<noteq> [] then (if t \<noteq> [] then r @ '': '' @ t else r)
        else (case cn_terminated cs of Some (q, code) \<Rightarrow> if q \<noteq> [] \<and> code \<noteq> 0 then q else msg | None \<Rightarrow> msg)
    | None \<Rightarrow> (case cn_terminated cs of Some (q, code) \<Rightarrow> if q \<noteq> [] \<and> code \<noteq> 0 then q else msg | None \<Rightarrow> msg))"

definition applyPodStatus :: "object_status \<Rightarrow> pod_state \<Rightarrow> object_status" where
  "applyPodStatus st p =
    (let ready = (pt_phase p = ''Running'' \<and> list_all cn_ready (pt_states p))
     in st\<lparr>os_phase := pt_phase p, os_status := (if ready then ''Ready'' else pt_phase p),
           os_restarts := os_restarts st + sum_list (map cn_restarts (pt_states p)),
           os_message := foldl state_message (os_message st) (pt_states p), os_ready := ready\<rparr>)"

definition scaled :: "object_status \<Rightarrow> int \<Rightarrow> int \<Rightarrow> object_status" where
  "scaled st desired ready = (let ok = (desired > 0 \<and> ready \<ge> desired)
     in st\<lparr>os_desired := desired, os_readyReps := ready, os_ready := ok, os_status := phase ok desired ready\<rparr>)"

definition replicas_of :: "int option \<Rightarrow> int" where
  "replicas_of r = (case r of Some n \<Rightarrow> n | None \<Rightarrow> 0)"

text \<open>A read that fails reports the object as not found.\<close>

definition status_by :: "('s \<Rightarrow> (kerr + 'a) \<times> 's) \<Rightarrow> (object_status \<Rightarrow> 'a \<Rightarrow> object_status) \<Rightarrow> object_status \<Rightarrow>
    ('s, kerr, object_status) act" where
  "status_by get f st = bnd (attempt (of_sum get)) (\<lambda>r. case r of
      Inl e \<Rightarrow> ret (st\<lparr>os_status := ''NotFound'', os_message := errReason e\<rparr>) | Inr x \<Rightarrow> ret (f st x))"

definition fillStatus :: "'s helm_client \<Rightarrow> 's status_api \<Rightarrow> object_status \<Rightarrow> ('s, kerr, object_status) act" where
  "fillStatus c a st =
    (let kind = to_lower (os_kind st); ns = hc_ns c; n = os_name st in
     if kind = ''pod'' then status_by (sa_pod a ns n) applyPodStatus st
     else if kind = ''deployment'' then status_by (sa_dep a ns n) (\<lambda>st (d, r). scaled st (replicas_of d) r) st
     else if kind = ''statefulset'' then status_by (sa_sts a ns n) (\<lambda>st (d, r). scaled st (replicas_of d) r) st
     else if kind = ''daemonset'' then status_by (sa_ds a ns n) (\<lambda>st (d, r). scaled st d r) st
     else if kind = ''job'' then status_by (sa_job a ns n)
       (\<lambda>st k. st\<lparr>os_ready := k > 0, os_status := (if k > 0 then ''Complete'' else ''Progressing'')\<rparr>) st
     else if kind \<in> {''service'', ''configmap'', ''secret'', ''persistentvolumeclaim'', ''serviceaccount''}
     then ret (st\<lparr>os_status := ''Ready'', os_ready := True\<rparr>)
     else ret (st\<lparr>os_status := ''Ready''\<rparr>))"

definition object_status_of :: "string \<Rightarrow> string \<Rightarrow> string \<Rightarrow> object_status" where
  "object_status_of kind name ns = \<lparr>os_kind = kind, os_name = name, os_ns = ns, os_status = [], os_ready = False,
     os_message = [], os_phase = [], os_restarts = 0, os_readyReps = 0, os_desired = 0\<rparr>"

definition hm_Objects :: "'s helm_client \<Rightarrow> 's status_api \<Rightarrow> string \<Rightarrow> ('s, kerr, object_status list) act" where
  "hm_Objects c a release =
    bnd (hm_Get c release) (\<lambda>got. case got of
      None \<Rightarrow> throw (KOther (''release '' @ go_quote release @ '' not found''))
    | Some rel \<Rightarrow> collect (\<lambda>ob. fillStatus c a (object_status_of (ho_kind ob) (ho_name ob) (hc_ns c))) (rl_objects rel))"

text \<open>The lines, whether there are any, and a message.\<close>

definition hm_ObjectLogs ::
  "'s helm_client \<Rightarrow> 's status_api \<Rightarrow> string \<Rightarrow> string \<Rightarrow> string \<Rightarrow> int \<Rightarrow> bool \<Rightarrow> string \<Rightarrow>
   ('s, kerr, string list \<times> bool \<times> string) act" where
  "hm_ObjectLogs c a release kind name tail0 previous container0 =
    (if to_lower kind \<noteq> ''pod'' then ret ([], False, ''only Pod objects have container logs'')
     else bnd (hm_Get c release) (\<lambda>got. case got of
       None \<Rightarrow> throw (KOther (''release '' @ go_quote release @ '' not found''))
     | Some rel \<Rightarrow>
         if \<not> list_ex (\<lambda>ob. to_lower (ho_kind ob) = ''pod'' \<and> ho_name ob = name) (rl_objects rel)
         then ret ([], False, ''pod '' @ go_quote name @ '' is not part of release '' @ go_quote release)
         else bnd (of_sum (sa_pod a (hc_ns c) name)) (\<lambda>p.
           let container = (if container0 = [] \<and> pt_names p \<noteq> [] then hd (pt_names p) else container0);
               tl = (if tail0 \<le> 0 then 200 else tail0) in
           bnd (attempt (of_sum (sa_logs a (hc_ns c) name container previous tl))) (\<lambda>r. case r of
             Inl e \<Rightarrow> ret ([], False, kerr_text e)
           | Inr (ls, Some e) \<Rightarrow> ret (ls, ls \<noteq> [], e)
           | Inr (ls, None) \<Rightarrow>
               let st = applyPodStatus (object_status_of ''Pod'' name []) p in
               ret (ls, ls \<noteq> [], if ls = [] then ''no log output (phase='' @ os_phase st @ '' restarts='' @
                  int_str (os_restarts st) @ '' '' @ os_message st @ '')'' else [])))))"

end
