(* ===== verification/HelmHandlers.thy ===== *)
theory HelmHandlers
  imports HelmStatus ServiceHandlers Builds
begin

text \<open>
  The Helm handlers of \<^verbatim>\<open>internal/workspacesvc/service.go\<close>.  \<open>helm_env\<close> holds the fields of the Go
  service they use; a dynamic call is in the trace with the resource, the name and the object sent.
\<close>

subsection \<open>The environment\<close>

record 'x helm_env =
  he_helm :: "'x helm_client option"
  he_status :: "'x status_api"
  he_fs :: "'x build_fs"
  he_tar :: "string \<Rightarrow> tarball"

definition lift_dynamic :: "'x dynamic \<Rightarrow> 'x world dynamic" where
  "lift_dynamic d =
    \<lparr>dy_get = (\<lambda>res ns n. logged (CDynamic VGet res n JNull) (dy_get d res ns n)),
     dy_create = (\<lambda>res ns u. logged (CDynamic VCreate res (u_name u) u) (dy_create d res ns u)),
     dy_update = (\<lambda>res ns u. logged (CDynamic VUpdate res (u_name u) u) (dy_update d res ns u)),
     dy_delete = (\<lambda>res ns n. logged (CDynamic VDelete res n JNull) (dy_delete d res ns n))\<rparr>"

definition lift_helm :: "'x helm_client \<Rightarrow> 'x world helm_client" where
  "lift_helm c =
    \<lparr>hc_cms = lift_kstore ''configmaps'' co_meta (hc_cms c),
     hc_having = (\<lambda>ns l. logged (CKube VList ''configmaps'' []) (hc_having c ns l)), hc_dyn = lift_dynamic (hc_dyn c),
     hc_mapping = hc_mapping c, hc_gv = hc_gv c, hc_ns = hc_ns c, hc_max = hc_max c,
     hc_load = (\<lambda>d. quiet (hc_load c d)), hc_values = hc_values c, hc_doc = hc_doc c, hc_print = hc_print c,
     hc_parse = hc_parse c, hc_now = quiet (hc_now c)\<rparr>"

definition lift_status :: "'x status_api \<Rightarrow> 'x world status_api" where
  "lift_status a =
    \<lparr>sa_pod = (\<lambda>ns n. logged (CKube VGet ''pods'' n) (sa_pod a ns n)),
     sa_dep = (\<lambda>ns n. logged (CKube VGet ''deployments'' n) (sa_dep a ns n)),
     sa_sts = (\<lambda>ns n. logged (CKube VGet ''statefulsets'' n) (sa_sts a ns n)),
     sa_ds = (\<lambda>ns n. logged (CKube VGet ''daemonsets'' n) (sa_ds a ns n)),
     sa_job = (\<lambda>ns n. logged (CKube VGet ''jobs'' n) (sa_job a ns n)),
     sa_logs = (\<lambda>ns n ct pr tl. logged (CKube VGet ''logs'' n) (sa_logs a ns n ct pr tl))\<rparr>"

definition no_helm :: cerr where "no_helm = CErr CodeUnavailable ''helm backend not configured''"

definition with_helm ::
  "'x helm_env \<Rightarrow> ('x world, 'e, 'a) act \<Rightarrow> ('x world helm_client \<Rightarrow> ('x world, 'e, 'a) act) \<Rightarrow> ('x world, 'e, 'a) act" where
  "with_helm E none f = (case he_helm E of Some c \<Rightarrow> f (lift_helm c) | None \<Rightarrow> none)"

subsection \<open>Messages\<close>

record helm_info =
  hi_release :: release
  hi_objects :: "string list"
  hi_operable :: bool

definition object_label :: "hobject \<Rightarrow> string" where
  "object_label ob = ho_kind ob @ ''/'' @ ho_name ob"

definition toHelmReleaseInfo :: "release \<Rightarrow> helm_info" where
  "toHelmReleaseInfo r =
    (let objs = (if rl_objects r = [] \<and> rl_history r \<noteq> [] then hr_objects (last (rl_history r)) else rl_objects r)
     in \<lparr>hi_release = r\<lparr>rl_history := [], rl_objects := []\<rparr>, hi_objects = map object_label objs, hi_operable = False\<rparr>)"

record helm_req =
  hq_org :: string
  hq_repo :: string
  hq_ref :: string
  hq_release :: string
  hq_chart :: string
  hq_values :: string
  hq_ns :: string
  hq_dry :: bool

record helm_answer =
  ha_release :: "helm_info option"
  ha_manifest :: string
  ha_objects :: "string list"

text \<open>\<^verbatim>\<open>^[a-z0-9]([-a-z0-9]{0,52}[a-z0-9])?$\<close>\<close>

definition matches_helmReleaseRe :: "string \<Rightarrow> bool" where
  "matches_helmReleaseRe s = (case s of [] \<Rightarrow> False
     | c # t \<Rightarrow> dns_char c \<and> (t = [] \<or>
         list_all (\<lambda>x. dns_char x \<or> x = CHR ''-'') (butlast t) \<and> length (butlast t) \<le> 52 \<and> dns_char (last t)))"

subsection \<open>The chart's directory\<close>

definition clean_chart_path :: "string \<Rightarrow> string" where
  "clean_chart_path chartPath = trim_prefix (path_clean (CHR ''/'' # (if chartPath = [] then ''.'' else chartPath))) ''/''"

definition helmChartDir ::
  "'x service \<Rightarrow> 'x helm_env \<Rightarrow> string \<Rightarrow> string \<Rightarrow> string \<Rightarrow> string \<Rightarrow> ('x world, string, string \<times> string) act" where
  "helmChartDir S E org repo ref chartPath =
    bnd (map_err (\<lambda>e. ''fetch repo archive: '' @ gerr_text e) (git_ArchiveTarGz (git S) org repo ref)) (\<lambda>archive.
    bnd (Extract (lift_fs (he_fs E)) (he_tar E archive) 0) (\<lambda>dir.
    let chartDir = path_join dir (clean_chart_path chartPath) in
    if chartDir \<noteq> dir \<and> \<not> has_prefix chartDir (dir @ ''/'')
    then bnd (modify (bf_rmall (lift_fs (he_fs E)) dir)) (\<lambda>_. throw ''chart path escapes the repository'')
    else ret (chartDir, dir)))"

text \<open>\<^verbatim>\<open>defer cleanup()\<close>: the directory is removed on every outcome.\<close>

definition removing :: "'s build_fs \<Rightarrow> string \<Rightarrow> ('s, 'e, 'a) act \<Rightarrow> ('s, 'e, 'a) act" where
  "removing fs dir m = (\<lambda>s. case m s of (r, s') \<Rightarrow> (r, bf_rmall fs dir s'))"

subsection \<open>Handlers\<close>

definition no_release_found :: cerr where "no_release_found = CErr CodeNotFound ''release not found''"

definition deploy_release_guard :: "'x world helm_client \<Rightarrow> headers \<Rightarrow> string \<Rightarrow> string \<Rightarrow> ('x, unit) handler" where
  "deploy_release_guard c h tenant release =
    bnd (svc_internal (hm_Get c release)) (\<lambda>got. case got of None \<Rightarrow> ret ()
    | Some cur \<Rightarrow> if \<not> writable (rl_creator cur) tenant
        then throw (CErr CodePermissionDenied ''release not writable by this tenant'')
        else if \<not> canWrite (rl_org cur) h
        then throw (CErr CodePermissionDenied ''release belongs to another namespace'') else ret ())"

definition HelmDeploy :: "'x service \<Rightarrow> 'x helm_env \<Rightarrow> headers \<Rightarrow> helm_req \<Rightarrow> ('x, helm_answer) handler" where
  "HelmDeploy S E h m =
    bnd (sandboxAuth S h) (\<lambda>tenant.
    with_helm E (throw no_helm) (\<lambda>c.
    let ref = (if hq_ref m = [] then MainBranch else hq_ref m) in
    if \<not> ValidComponent (hq_org m) \<or> \<not> ValidComponent (hq_repo m) then throw (bad_arg ''org/repo must be simple names'')
    else if \<not> ValidComponent ref then throw (bad_arg ''ref must be a simple name'')
    else if \<not> matches_helmReleaseRe (hq_release m) then throw (bad_arg ''release must be a DNS-1123 label'')
    else bnd (deploy_release_guard c h tenant (hq_release m)) (\<lambda>_.
    bnd (map_err bad_arg (helmChartDir S E (hq_org m) (hq_repo m) ref (hq_chart m))) (\<lambda>(chartDir, dir).
    removing (lift_fs (he_fs E)) dir
      (let opts = \<lparr>ro_release = hq_release m, ro_chart = hq_chart m, ro_values = hq_values m, ro_ref = ref,
                   ro_org = resolveNamespace h (hq_ns m)\<rparr> in
       if hq_dry m then
         bnd (svc_err CodeInvalidArgument (hm_Template c chartDir opts)) (\<lambda>(manifest, objects, cv, av).
           ret \<lparr>ha_release = None, ha_manifest = manifest, ha_objects = map object_label objects\<rparr>)
       else
         bnd (svc_internal (hm_Apply c chartDir opts tenant (sessionFromHeaders h))) (\<lambda>rel.
           ret \<lparr>ha_release = Some (toHelmReleaseInfo rel),
                ha_manifest = (if rl_history rel = [] then [] else hr_manifest (last (rl_history rel))),
                ha_objects = []\<rparr>))))))"

definition listHelmReleases :: "'x helm_env \<Rightarrow> headers \<Rightarrow> string \<Rightarrow> ('x, helm_info list) handler" where
  "listHelmReleases E h tenant =
    with_helm E (ret []) (\<lambda>c.
    bnd (svc_internal (hm_List c)) (\<lambda>all.
      ret (map (\<lambda>r. (toHelmReleaseInfo r)\<lparr>hi_operable := writable (rl_creator r) tenant \<and> canWrite (rl_org r) h\<rparr>)
        (filter (\<lambda>r. owned (rl_creator r) tenant) all))))"

definition HelmList :: "'x service \<Rightarrow> 'x helm_env \<Rightarrow> headers \<Rightarrow> ('x, helm_info list) handler" where
  "HelmList S E h = bnd (sandboxAuth S h) (\<lambda>tenant. listHelmReleases E h tenant)"

text \<open>The release and its revisions, each with the labels of its objects.\<close>

definition HelmHistory ::
  "'x service \<Rightarrow> 'x helm_env \<Rightarrow> headers \<Rightarrow> string \<Rightarrow> ('x, helm_info \<times> (hrevision \<times> string list) list) handler" where
  "HelmHistory S E h release =
    bnd (sandboxAuth S h) (\<lambda>tenant.
    with_helm E (throw no_helm) (\<lambda>c.
    bnd (svc_internal (hm_Get c release)) (\<lambda>got. case got of
      None \<Rightarrow> throw no_release_found
    | Some rel \<Rightarrow> if \<not> owned (rl_creator rel) tenant then throw no_release_found
        else ret (toHelmReleaseInfo rel, map (\<lambda>rv. (rv, map object_label (hr_objects rv))) (rl_history rel)))))"

text \<open>The guard of \<open>HelmRollback\<close> and \<open>HelmUninstall\<close>.\<close>

definition writable_release :: "'x world helm_client \<Rightarrow> headers \<Rightarrow> string \<Rightarrow> string \<Rightarrow> ('x, release) handler" where
  "writable_release c h tenant release =
    bnd (svc_internal (hm_Get c release)) (\<lambda>got. case got of
      None \<Rightarrow> throw no_release_found
    | Some cur \<Rightarrow> if \<not> writable (rl_creator cur) tenant then throw no_release_found
        else if \<not> canWrite (rl_org cur) h then throw no_release_found else ret cur)"

definition HelmRollback :: "'x service \<Rightarrow> 'x helm_env \<Rightarrow> headers \<Rightarrow> string \<Rightarrow> int \<Rightarrow> ('x, helm_info) handler" where
  "HelmRollback S E h release revision =
    bnd (sandboxAuth S h) (\<lambda>tenant.
    with_helm E (throw no_helm) (\<lambda>c.
    bnd (writable_release c h tenant release) (\<lambda>cur.
    bnd (svc_err CodeFailedPrecondition
      (hm_Rollback c release (if revision = 0 then rl_revision cur - 1 else revision))) (\<lambda>rel.
    ret (toHelmReleaseInfo rel)))))"

definition HelmUninstall :: "'x service \<Rightarrow> 'x helm_env \<Rightarrow> headers \<Rightarrow> string \<Rightarrow> ('x, bool) handler" where
  "HelmUninstall S E h release =
    bnd (sandboxAuth S h) (\<lambda>tenant.
    with_helm E (ret False) (\<lambda>c.
    bnd (writable_release c h tenant release) (\<lambda>_. svc_internal (hm_Uninstall c release))))"

definition ownedHelmRelease :: "'x world helm_client \<Rightarrow> string \<Rightarrow> string \<Rightarrow> ('x, unit) handler" where
  "ownedHelmRelease c tenant release =
    bnd (svc_internal (hm_Get c release)) (\<lambda>got. case got of
      None \<Rightarrow> throw no_release_found
    | Some rel \<Rightarrow> if \<not> owned (rl_creator rel) tenant then throw no_release_found else ret ())"

definition HelmObjects :: "'x service \<Rightarrow> 'x helm_env \<Rightarrow> headers \<Rightarrow> string \<Rightarrow> ('x, object_status list) handler" where
  "HelmObjects S E h release =
    bnd (sandboxAuth S h) (\<lambda>tenant.
    with_helm E (throw no_helm) (\<lambda>c.
    bnd (ownedHelmRelease c tenant release) (\<lambda>_.
    svc_internal (hm_Objects c (lift_status (he_status E)) release))))"

definition HelmObjectLogs ::
  "'x service \<Rightarrow> 'x helm_env \<Rightarrow> headers \<Rightarrow> string \<Rightarrow> string \<Rightarrow> string \<Rightarrow> int \<Rightarrow> bool \<Rightarrow> string \<Rightarrow>
   ('x, string list \<times> bool \<times> string) handler" where
  "HelmObjectLogs S E h release kind name tail previous container =
    bnd (sandboxAuth S h) (\<lambda>tenant.
    with_helm E (throw no_helm) (\<lambda>c.
    bnd (ownedHelmRelease c tenant release) (\<lambda>_.
    svc_internal (hm_ObjectLogs c (lift_status (he_status E)) release kind name tail previous container))))"

end
