(* ===== verification/HelmState.thy ===== *)
theory HelmState
  imports HelmMgr ServiceLaws
begin

text \<open>
  The release state of the Helm manager: what is stored after a revision has been recorded, how many
  revisions are kept, what a later read finds, and what a roll back records.  The ConfigMaps are viewed
  as a map from names; \<open>configs_ok\<close> states the documented behaviour of the API on it.
\<close>

subsection \<open>The laws\<close>

type_synonym configs = "string \<Rightarrow> config_obj option"

definition selects :: "(string \<times> string) list \<Rightarrow> config_obj \<Rightarrow> bool" where
  "selects sel ob = list_all (\<lambda>(k, v). mget (om_labels (co_meta ob)) k = Some v) sel"

definition configs_ok :: "('s \<Rightarrow> configs) \<Rightarrow> 's helm_client \<Rightarrow> bool" where
  "configs_ok view c =
    (store_ok view (\<lambda>V. V) (\<lambda>n x V. V(n := x)) co_meta same_config (hc_ns c) (hc_cms c) \<and>
     (\<forall>sel s os s'. k_list (ks_api (hc_cms c)) (hc_ns c) sel s = (Inr os, s') \<longrightarrow>
        set os = {ob. \<exists>n. view s n = Some ob \<and> selects sel ob}))"

lemma configs_store: "configs_ok view c \<Longrightarrow> store_ok view (\<lambda>V. V) (\<lambda>n x V. V(n := x)) co_meta same_config (hc_ns c) (hc_cms c)"
  by (simp add: configs_ok_def)

lemma find_listed:
  assumes "configs_ok view c" "kfind (hc_cms c) (hc_ns c) sel s = (Ok os, s')"
  shows "set os = {ob. \<exists>n. view s n = Some ob \<and> selects sel ob}" "view s' = view s"
  using assms kfind_view [OF configs_store [OF assms(1)] assms(2)]
  by (auto simp: configs_ok_def kfind_def of_sum_OkD)

subsection \<open>Writing\<close>

text \<open>After an upsert the object under its name is the one written, whatever was there.\<close>

lemma upsert_written:
  assumes ok: "configs_ok view c" and run: "upsert_config c cm s = (Ok u, s')"
  shows "\<exists>ob. same_config cm ob \<and> view s' = (view s)(om_name (co_meta cm) := Some ob)"
proof -
  note st = configs_store [OF ok]
  obtain r s1 where k: "kcreate (hc_cms c) (hc_ns c) cm s = (r, s1)" by fastforce
  show ?thesis
  proof (cases r)
    case (Ok x)
    with k run have "s' = s1" by (simp add: upsert_config_def bnd_cases attempt_cases act)
    with kcreate_Ok [OF st k [unfolded Ok]] show ?thesis by auto
  next
    case (Fail e)
    with k run obtain y s2 z s3 where g: "kread (hc_cms c) (hc_ns c) (om_name (co_meta cm)) s1 = (Ok y, s2)"
      and p: "kupdate (hc_cms c) (hc_ns c) cm s2 = (Ok z, s3)" and "s' = s3"
      by (auto simp: upsert_config_def bnd_cases attempt_cases act split: if_splits prod.splits res.splits)
    moreover have "view s1 = view s" by (rule kcreate_Fail [OF st k [unfolded Fail]])
    moreover have "view s2 = view s1" using kread_Ok [OF st g] by simp
    ultimately show ?thesis using kupdate_Ok [OF st p] by auto
  next
    case (Panic p)
    with k show ?thesis by (simp add: kcreate_def of_sum_Panic)
  qed
qed

lemma delete_config_written:
  assumes ok: "configs_ok view c" and run: "delete_config_ok c n s = (Ok u, s')"
  shows "view s' = (view s)(n := None)"
proof -
  note st = configs_store [OF ok]
  obtain r s1 where k: "kremove (hc_cms c) (hc_ns c) n s = (r, s1)" by fastforce
  show ?thesis
  proof (cases r)
    case (Ok x)
    with k run have "s' = s1" by (simp add: delete_config_ok_def bnd_cases attempt_cases act)
    with kremove_Ok [OF st k [unfolded Ok]] show ?thesis by simp
  next
    case (Fail e)
    with k run have "s' = s1" "IsNotFound e"
      by (auto simp: delete_config_ok_def bnd_cases attempt_cases act split: if_splits)
    with kremove_Fail [OF st k [unfolded Fail]] show ?thesis by auto
  next
    case (Panic p)
    with k show ?thesis by (simp add: kremove_def of_sum_Panic)
  qed
qed

subsection \<open>Pruning\<close>

definition revision_number :: "config_obj \<Rightarrow> int option" where
  "revision_number cm = Atoi (mstr (om_labels (co_meta cm)) revisionLabel)"

definition doomed :: "int list \<Rightarrow> config_obj \<Rightarrow> bool" where
  "doomed keep cm = (case revision_number cm of None \<Rightarrow> False | Some k \<Rightarrow> k \<notin> set keep)"

lemma prune_one_written:
  assumes "configs_ok view c" "prune_one c keep cm s = (Ok u, s')"
  shows "view s' = (if doomed keep cm then (view s)(om_name (co_meta cm) := None) else view s)"
  using assms(2) delete_config_written [OF assms(1)]
  by (auto simp: prune_one_def doomed_def revision_number_def ret_def split: option.splits if_splits)

lemma prune_all_written:
  assumes ok: "configs_ok view c"
  shows "each (prune_one c keep) xs s = (Ok u, s') \<Longrightarrow>
    view s' n = (if \<exists>cm\<in>set xs. doomed keep cm \<and> om_name (co_meta cm) = n then None else view s n)"
proof (induction xs arbitrary: s)
  case (Cons x xs)
  then obtain v s1 where "prune_one c keep x s = (Ok v, s1)" "each (prune_one c keep) xs s1 = (Ok u, s')"
    by (auto elim!: bnd_OkD)
  with Cons.IH [OF this(2)] prune_one_written [OF ok this(1)] show ?case by auto
qed (simp add: act)

text \<open>The numbers of the revisions stored for a release.\<close>

definition stored_numbers :: "configs \<Rightarrow> string \<Rightarrow> int set" where
  "stored_numbers V release =
    {k. \<exists>n ob. V n = Some ob \<and> selects (revision_selector release) ob \<and> revision_number ob = Some k}"

lemma pruned:
  assumes ok: "configs_ok view c" and run: "pruneHistory c r s = (Ok u, s')" and mx: "0 < hc_max c"
  defines "keep \<equiv> kept_revisions (hc_max c) (map hr_number (rl_history r))"
  shows "stored_numbers (view s') (rl_name r) \<subseteq> set keep"
    and "view s n = Some ob \<Longrightarrow> \<not> doomed keep ob \<Longrightarrow> view s' n = Some ob"
    and "view s' n = Some ob \<Longrightarrow> view s n = Some ob"
proof -
  from run mx obtain os s1 where f: "kfind (hc_cms c) (hc_ns c) (revision_selector (rl_name r)) s = (Ok os, s1)"
    and e: "each (prune_one c keep) os s1 = (Ok u, s')"
    by (auto simp: pruneHistory_def keep_def elim!: bnd_OkD)
  note l = find_listed [OF ok f]
  have v: "view s' n = (if \<exists>cm\<in>set os. doomed keep cm \<and> om_name (co_meta cm) = n then None else view s n)" for n
    using prune_all_written [OF ok e, of n] unfolding l(2) .
  have nm: "view s n = Some cm \<Longrightarrow> om_name (co_meta cm) = n" for n cm
    using name_of [OF configs_store [OF ok]] by blast
  show "stored_numbers (view s') (rl_name r) \<subseteq> set keep"
  proof
    fix k assume "k \<in> stored_numbers (view s') (rl_name r)"
    then obtain n ob where ob: "view s' n = Some ob" "selects (revision_selector (rl_name r)) ob" "revision_number ob = Some k"
      by (auto simp: stored_numbers_def)
    with v have live: "view s n = Some ob" by (auto split: if_splits)
    with ob(2) l(1) have "ob \<in> set os" by auto
    moreover have "om_name (co_meta ob) = n" by (rule nm [OF live])
    ultimately have "\<not> doomed keep ob" using v [of n] ob(1) by (auto split: if_splits)
    with ob(3) show "k \<in> set keep" by (simp add: doomed_def)
  qed
  show "view s' n = Some ob" if a: "view s n = Some ob" "\<not> doomed keep ob"
  proof -
    have "\<not> doomed keep cm" if "cm \<in> set os" "om_name (co_meta cm) = n" for cm
      using that l(1) nm a by auto
    with v a(1) show ?thesis by auto
  qed
  show "view s n = Some ob" if "view s' n = Some ob" using that v by (auto split: if_splits)
qed

lemma kept_length: "0 < hm \<Longrightarrow> length (kept_revisions hm nums) \<le> nat hm"
  by (simp add: kept_revisions_def)

lemma kept_newest:
  assumes "0 < hm" "n \<in> set nums" "\<forall>k\<in>set nums. k \<le> n"
  shows "n \<in> set (kept_revisions hm nums)"
proof -
  have ne: "sort nums \<noteq> []" using assms(2) by (metis empty_iff empty_set set_sort)
  have "last (sort nums) \<in> set (sort nums)" using ne by (rule last_in_set)
  then have "last (sort nums) \<in> set nums" by simp
  moreover have "n \<le> last (sort nums)"
  proof -
    have "n \<in> set (sort nums)" using assms(2) by simp
    then obtain i where i: "i < length (sort nums)" "sort nums ! i = n" unfolding in_set_conv_nth by blast
    then have "sort nums ! i \<le> sort nums ! (length (sort nums) - 1)"
      by (intro sorted_nth_mono [OF sorted_sort]) simp_all
    then show ?thesis using i(2) last_conv_nth [OF ne] by simp
  qed
  ultimately have l: "last (sort nums) = n" using assms(3) by force
  have "nat (int (length nums) - hm) < length (sort nums)" using assms(1) ne by (cases "length nums") auto
  then have "kept_revisions hm nums \<noteq> []" "last (kept_revisions hm nums) = n"
    using l by (simp_all add: kept_revisions_def last_drop)
  then show ?thesis by (metis last_in_set)
qed

subsection \<open>Recording a revision\<close>

lemma Atoi_int_str: "- (2 ^ 63) \<le> n \<Longrightarrow> n < 2 ^ 63 \<Longrightarrow> Atoi (int_str n) = Some n"
proof -
  assume n: "- (2 ^ 63) \<le> n" "n < 2 ^ 63"
  have digits: "list_all is_digit (nat_str k)" for k using nat_str_digits by (auto simp: list_all_iff)
  show ?thesis
  proof (cases "n < 0")
    case True
    with n digits str_nat_str show ?thesis by (simp add: Atoi_def int_str_nat)
  next
    case False
    obtain ch ds where c: "nat_str (nat n) = ch # ds" by (metis nat_str_nonempty neq_Nil_conv)
    then have "is_digit ch" using nat_str_digits [of ch "nat n"] by simp
    then have "ch \<noteq> CHR ''-''" "ch \<noteq> CHR ''+''" by (auto simp: is_digit_def)
    with False n c digits [of "nat n"] str_nat_str [of "nat n"] show ?thesis
      by (simp add: Atoi_def int_str_nat Let_def)
  qed
qed

definition head_fields :: "release \<Rightarrow> release" where "head_fields r = r\<lparr>rl_history := []\<rparr>"

text \<open>What a successful \<open>recordRevision\<close> leaves behind: the head, the newest body and no body that is
  not to be kept.\<close>

lemma names_differ: "cmName release \<noteq> revCMName release n"
proof
  assume "cmName release = revCMName release n"
  then have "length (cmName release) = length (revCMName release n)" by simp
  then show False by (simp add: cmName_def revCMName_def releaseCMName_def revisionCMName_def)
qed

lemma recorded:
  assumes ok: "configs_ok view c" and run: "recordRevision c r s = (Ok r', s')" and mx: "0 < hc_max c"
  defines "keep \<equiv> kept_revisions (hc_max c) (map hr_number (rl_history r))"
    and "new \<equiv> last (rl_history r)"
  assumes newest: "\<forall>rv\<in>set (rl_history r). hr_number rv \<le> hr_number new"
    and range: "- (2 ^ 63) \<le> hr_number new" "hr_number new < 2 ^ 63"
  shows "stored_numbers (view s') (rl_name r) \<subseteq> set keep"
    and "\<exists>ob. view s' (revCMName (rl_name r) (hr_number new)) = Some ob \<and> same_config (revision_config c (rl_name r) new) ob"
    and "\<exists>ob. view s' (cmName (rl_name r)) = Some ob \<and> same_config (head_config c r) ob"
proof -
  from run have ne: "rl_history r \<noteq> []" by (auto simp: recordRevision_def act)
  with run obtain u s1 v s2 z where p: "putRevision c (rl_name r) new s = (Ok u, s1)"
    and h: "putHead c r s1 = (Ok v, s2)" and q: "pruneHistory c r s2 = (Ok z, s')"
    by (auto simp: recordRevision_def put_release_def new_def ret_def elim!: bnd_OkD)
  obtain ob where ob: "same_config (revision_config c (rl_name r) new) ob"
      "view s1 = (view s)(revCMName (rl_name r) (hr_number new) := Some ob)"
    using upsert_written [OF ok p [unfolded putRevision_def]] by (auto simp: revision_config_def)
  obtain hd where hd: "same_config (head_config c r) hd" "view s2 = (view s1)(cmName (rl_name r) := Some hd)"
    using upsert_written [OF ok h [unfolded putHead_def]] by (auto simp: head_config_def)
  note pr = pruned [OF ok q mx, folded keep_def]
  show "stored_numbers (view s') (rl_name r) \<subseteq> set keep" by (rule pr(1))
  have "hr_number new \<in> set keep" unfolding keep_def
    using ne newest mx by (intro kept_newest) (auto simp: new_def)
  moreover have "revision_number ob = Some (hr_number new)"
    using ob(1) Atoi_int_str [OF range]
    by (simp add: same_config_def revision_config_def revision_number_def mstr_def mget_def releaseLabel_def
        recordKindLabel_def revisionLabel_def)
  ultimately have "\<not> doomed keep ob" by (simp add: doomed_def)
  moreover have "view s2 (revCMName (rl_name r) (hr_number new)) = Some ob"
    using ob(2) hd(2) names_differ [of "rl_name r" "hr_number new"] by simp
  ultimately show "\<exists>ob. view s' (revCMName (rl_name r) (hr_number new)) = Some ob \<and> same_config (revision_config c (rl_name r) new) ob"
    using pr(2) ob(1) by blast
  have "revision_number hd = None"
    using hd(1) by (simp add: same_config_def head_config_def revision_number_def mstr_def mget_def releaseLabel_def
        recordKindLabel_def revisionLabel_def Atoi_def)
  then have "\<not> doomed keep hd" by (simp add: doomed_def)
  then show "\<exists>ob. view s' (cmName (rl_name r)) = Some ob \<and> same_config (head_config c r) ob"
    using pr(2) [of "cmName (rl_name r)" hd] hd by auto
qed

text \<open>C35: The state of a release is bounded and keeps what matters: when a revision has been recorded, the
  bodies stored for the release carry at most \<^verbatim>\<open>historyMax\<close> different revision numbers, all among the
  newest of its history, and the newest one is there.\<close>

theorem history_bounded:
  assumes "configs_ok view c" "recordRevision c r s = (Ok r', s')" "0 < hc_max c"
    and "\<forall>rv\<in>set (rl_history r). hr_number rv \<le> hr_number (last (rl_history r))"
    and "0 \<le> hr_number (last (rl_history r))" "hr_number (last (rl_history r)) < 2 ^ 63"
  shows "card (stored_numbers (view s') (rl_name r)) \<le> nat (hc_max c) \<and>
    stored_numbers (view s') (rl_name r) \<subseteq> set (kept_revisions (hc_max c) (map hr_number (rl_history r))) \<and>
    hr_number (last (rl_history r)) \<in> stored_numbers (view s') (rl_name r)"
proof -
  have range: "- (2 ^ 63) \<le> hr_number (last (rl_history r))" using assms(5) by simp
  note rec = recorded [OF assms(1-4) range assms(6)]
  let ?keep = "kept_revisions (hc_max c) (map hr_number (rl_history r))"
  have "card (stored_numbers (view s') (rl_name r)) \<le> card (set ?keep)"
    using rec(1) by (simp add: card_mono)
  also have "\<dots> \<le> length ?keep" by (rule card_length)
  also have "\<dots> \<le> nat (hc_max c)" by (rule kept_length [OF assms(3)])
  finally have "card (stored_numbers (view s') (rl_name r)) \<le> nat (hc_max c)" .
  moreover from rec(2) obtain ob where "view s' (revCMName (rl_name r) (hr_number (last (rl_history r)))) = Some ob"
      "same_config (revision_config c (rl_name r) (last (rl_history r))) ob" by blast
  then have "hr_number (last (rl_history r)) \<in> stored_numbers (view s') (rl_name r)"
    using Atoi_int_str [OF range assms(6)]
    by (auto simp: stored_numbers_def same_config_def revision_config_def revision_number_def selects_def
        revision_selector_def mstr_def mget_def releaseLabel_def recordKindLabel_def recordRevision_kind_def revisionLabel_def
        intro!: exI)
  ultimately show ?thesis using rec(1) by blast
qed

subsection \<open>Reading back\<close>

text \<open>What \<^verbatim>\<open>encoding/json\<close> promises of what it has printed itself.\<close>

definition json_text_ok :: "'s helm_client \<Rightarrow> bool" where
  "json_text_ok c = (\<forall>j. hc_parse c (hc_print c j) = Inr j)"

lemma decoded_revisions_in:
  assumes "ob \<in> set os" "decode_with_json c json_revision (mstr (co_data ob) ''revision'') = Inr rv"
  shows "rv \<in> set (decoded_revisions c os)" "sorted (map hr_number (decoded_revisions c os))"
  using assms by (force simp: decoded_revisions_def)+


subsection \<open>A roll back\<close>

text \<open>A roll back makes a new revision out of an old one: the release it answers has the next revision
  number, keeps its owner, takes reference, chart and objects from the revision named, and its newest
  history entry has that revision's manifest and values.\<close>

lemma Rollback_repeats_revision:
  assumes "hm_Rollback c release n s = (Ok r', s')"
  shows "\<exists>cur t s1. hm_Get c release s = (Ok (Some cur), s1) \<and> t \<in> set (rl_history cur) \<and> hr_number t = n \<and>
    rl_revision r' = rl_revision cur + 1 \<and> rl_creator r' = rl_creator cur \<and> rl_ref r' = hr_ref t \<and>
    rl_chart r' = hr_chart t \<and> rl_objects r' = hr_objects t \<and> hr_number (last (rl_history r')) = rl_revision r' \<and>
    hr_manifest (last (rl_history r')) = hr_manifest t \<and> hr_values (last (rl_history r')) = hr_values t"
proof -
  from assms obtain cur t s1 s2 s3 now where g: "hm_Get c release s = (Ok (Some cur), s1)"
    and t: "find (\<lambda>rv. hr_number rv = n) (rl_history cur) = Some t"
    and r: "recordRevision c (next_revision cur now (hr_ref t) (hr_chart t) (hr_chart_version t) (hr_app_version t)
            (hr_values t) (hr_objects t) (hr_manifest t)) s2 = (Ok r', s3)"
    unfolding hm_Rollback_def by (auto elim!: bnd_OkD simp: throw_def split: option.splits)
  from r have "r' = next_revision cur now (hr_ref t) (hr_chart t) (hr_chart_version t) (hr_app_version t)
            (hr_values t) (hr_objects t) (hr_manifest t)"
    by (auto simp: recordRevision_def act elim!: bnd_OkD split: if_splits)
  moreover have "t \<in> set (rl_history cur)" "hr_number t = n" using t by (auto simp: find_Some_iff)
  ultimately show ?thesis using g
    by (intro exI [of _ cur] exI [of _ t] exI [of _ s1]) (simp add: next_revision_def Let_def)
qed

subsection \<open>Colliding names\<close>

text \<open>The names of the records collide: for every release \<open>r\<close> and revision \<open>n\<close> of it, the body of the
  revision has the name of the head of the release \<^verbatim>\<open>rev-r-vn\<close>, which is itself a valid name when short
  enough.  Whatever that head was, storing the revision replaces it, and the other release can no longer
  be read: its history, roll back and removal all fail.\<close>

theorem revision_destroys_release:
  assumes "configs_ok view c" "hc_parse c [] = Inl e"
    and "putRevision c release rv s = (Ok u, s')" "0 \<le> hr_number rv"
    and "validReleaseName release" "length (''rev-'' @ release @ ''-v'' @ int_str (hr_number rv)) \<le> 53"
  shows "validReleaseName (''rev-'' @ release @ ''-v'' @ int_str (hr_number rv)) \<and>
    \<not> is_ok (fst (hm_Get c (''rev-'' @ release @ ''-v'' @ int_str (hr_number rv)) s'))"
proof (intro conjI)
  let ?v = "''rev-'' @ release @ ''-v'' @ int_str (hr_number rv)"
  have num: "int_str (hr_number rv) = nat_str (nat (hr_number rv))" using assms(4) by (simp add: int_str_nat)
  have digits: "is_digit x" if "x \<in> set (nat_str (nat (hr_number rv)))" for x using that by (rule nat_str_digits)
  have ends: "last (nat_str (nat (hr_number rv))) \<noteq> CHR ''-''"
    using digits [OF last_in_set] by (auto simp: is_digit_def)
  have lets: "release_char CHR ''r''" "release_char CHR ''e''" "release_char CHR ''v''" "release_char CHR ''-''"
    by code_simp+
  show "validReleaseName ?v"
    using assms(5,6) digits ends lets unfolding num
    by (auto simp: validReleaseName_def list_all_iff release_char_def)
  have name: "cmName ?v = revCMName release (hr_number rv)"
    by (simp add: cmName_def revCMName_def releaseCMName_def revisionCMName_def)
  obtain ob where ob: "view s' (cmName ?v) = Some ob" "same_config (revision_config c release rv) ob"
  proof -
    have "om_name (co_meta (revision_config c release rv)) = cmName ?v" unfolding name by (simp add: revision_config_def)
    with upsert_written [OF assms(1) assms(3) [unfolded putRevision_def]] that show ?thesis by (metis fun_upd_same)
  qed
  have data: "mstr (co_data ob) ''release'' = []"
    using ob(2) by (simp add: same_config_def revision_config_def mstr_def mget_def)
  note st = configs_store [OF assms(1)]
  obtain q w where k: "kread (hc_cms c) (hc_ns c) (cmName ?v) s' = (q, w)" by fastforce
  show "\<not> is_ok (fst (hm_Get c ?v s'))"
  proof (cases q)
    case (Ok x)
    with kread_Ok [OF st k [unfolded Ok]] ob(1) have "x = ob" by simp
    with Ok k data assms(2) show ?thesis
      unfolding hm_Get_def by (simp add: bnd_cases attempt_cases act from_sum_def decode_with_json_def)
  next
    case (Fail x)
    with kread_Fail [OF st k [unfolded Fail]] ob(1) have "\<not> IsNotFound x" by simp
    with Fail k show ?thesis unfolding hm_Get_def by (simp add: bnd_cases attempt_cases act)
  next
    case (Panic p) with k show ?thesis by (simp add: kread_def of_sum_Panic)
  qed
qed

end
