(* ===== verification/HelmDemo.thy ===== *)
theory HelmDemo
  imports HelmHandlers HelmState HandlerProps
begin

text \<open>
  A cluster in memory for the Helm manager, a text form of JSON values that reads back, and two charts:
  an ordinary one, and one whose only object is a ConfigMap that passes for a revision record.
\<close>

subsection \<open>A text form of JSON\<close>

fun enc_str :: "string \<Rightarrow> string" where
  "enc_str [] = ''.''"
| "enc_str (ch # s) = CHR ''~'' # ch # enc_str s"

fun enc :: "json \<Rightarrow> string" where
  "enc JNull = ''n''"
| "enc (JBool b) = (if b then ''t'' else ''f'')"
| "enc (JNum i) = (if i < 0 then ''-'' else ''+'') @ replicate (nat \<bar>i\<bar>) CHR ''|'' @ ''.''"
| "enc (JStr s) = CHR ''s'' # enc_str s"
| "enc (JArr xs) = CHR ''a'' # concat (map (\<lambda>x. CHR '','' # enc x) xs) @ ''.''"
| "enc (JObj m) = CHR ''o'' # concat (map (\<lambda>p. CHR '','' # enc_str (fst p) @ enc (snd p)) m) @ ''.''"

fun dec_str :: "string \<Rightarrow> (string \<times> string) option" where
  "dec_str (x # s) = (if x = CHR ''.'' then Some ([], s) else
     (case s of [] \<Rightarrow> None | ch # s' \<Rightarrow> (case dec_str s' of None \<Rightarrow> None | Some (t, r) \<Rightarrow> Some (ch # t, r))))"
| "dec_str [] = None"

fun dec_bars :: "string \<Rightarrow> nat \<times> string" where
  "dec_bars [] = (0, [])"
| "dec_bars (x # s) = (if x = CHR ''|'' then (case dec_bars s of (n, r) \<Rightarrow> (Suc n, r)) else (0, s))"

fun dec :: "nat \<Rightarrow> string \<Rightarrow> (json \<times> string) option"
  and decs :: "nat \<Rightarrow> string \<Rightarrow> (json list \<times> string) option"
  and decm :: "nat \<Rightarrow> string \<Rightarrow> ((string \<times> json) list \<times> string) option" where
  "dec 0 s = None"
| "dec (Suc f) s = (case s of [] \<Rightarrow> None | x # r \<Rightarrow>
     if x = CHR ''n'' then Some (JNull, r) else if x = CHR ''t'' then Some (JBool True, r)
     else if x = CHR ''f'' then Some (JBool False, r)
     else if x = CHR ''+'' then (case dec_bars r of (n, q) \<Rightarrow> Some (JNum (int n), q))
     else if x = CHR ''-'' then (case dec_bars r of (n, q) \<Rightarrow> Some (JNum (- int n), q))
     else if x = CHR ''s'' then (case dec_str r of None \<Rightarrow> None | Some (t, q) \<Rightarrow> Some (JStr t, q))
     else if x = CHR ''a'' then (case decs f r of None \<Rightarrow> None | Some (xs, q) \<Rightarrow> Some (JArr xs, q))
     else if x = CHR ''o'' then (case decm f r of None \<Rightarrow> None | Some (m, q) \<Rightarrow> Some (JObj m, q))
     else None)"
| "decs 0 s = None"
| "decs (Suc f) s = (case s of [] \<Rightarrow> None | x # r \<Rightarrow> if x = CHR ''.'' then Some ([], r) else
     (case dec f r of None \<Rightarrow> None | Some (v, q) \<Rightarrow> (case decs f q of None \<Rightarrow> None | Some (vs, p) \<Rightarrow> Some (v # vs, p))))"
| "decm 0 s = None"
| "decm (Suc f) s = (case s of [] \<Rightarrow> None | x # r \<Rightarrow> if x = CHR ''.'' then Some ([], r) else
     (case dec_str r of None \<Rightarrow> None | Some (k, t) \<Rightarrow>
     (case dec f t of None \<Rightarrow> None | Some (v, q) \<Rightarrow> (case decm f q of None \<Rightarrow> None | Some (vs, p) \<Rightarrow> Some ((k, v) # vs, p)))))"

lemma dec_enc_str: "dec_str (enc_str s @ r) = Some (s, r)"
  by (induction s) simp_all

lemma dec_bars_replicate: "dec_bars (replicate n CHR ''|'' @ CHR ''.'' # r) = (n, r)"
  by (induction n) simp_all

lemma decs_encs:
  assumes "\<And>x f r. x \<in> set xs \<Longrightarrow> length (enc x) \<le> f \<Longrightarrow> dec f (enc x @ r) = Some (x, r)"
    and "length (concat (map (\<lambda>x. CHR '','' # enc x) xs)) < f"
  shows "decs f (concat (map (\<lambda>x. CHR '','' # enc x) xs) @ CHR ''.'' # r) = Some (xs, r)"
  using assms
proof (induction xs arbitrary: f)
  case (Cons x xs)
  then show ?case by (cases f) simp_all
qed (simp add: gr0_conv_Suc, auto simp: gr0_conv_Suc)

lemma decm_encs:
  assumes "\<And>p f r. p \<in> set m \<Longrightarrow> length (enc (snd p)) \<le> f \<Longrightarrow> dec f (enc (snd p) @ r) = Some (snd p, r)"
    and "length (concat (map (\<lambda>p. CHR '','' # enc_str (fst p) @ enc (snd p)) m)) < f"
  shows "decm f (concat (map (\<lambda>p. CHR '','' # enc_str (fst p) @ enc (snd p)) m) @ CHR ''.'' # r) = Some (m, r)"
  using assms
proof (induction m arbitrary: f)
  case (Cons p m)
  then obtain g where g: "f = Suc g" by (cases f) simp_all
  have "dec g (enc (snd p) @ q) = Some (snd p, q)" for q using Cons.prems g by simp
  then show ?case using Cons g by (cases p) (simp add: dec_enc_str)
qed (auto simp: gr0_conv_Suc)

lemma dec_enc: "length (enc j) \<le> f \<Longrightarrow> dec f (enc j @ r) = Some (j, r)"
proof (induction j arbitrary: f r)
  case (JArr xs)
  then obtain g where g: "f = Suc g" by (cases f) simp_all
  have "decs g (concat (map (\<lambda>x. CHR '','' # enc x) xs) @ CHR ''.'' # r) = Some (xs, r)"
    using JArr g by (intro decs_encs) simp_all
  then show ?case by (simp add: g)
next
  case (JObj m)
  then obtain g where g: "f = Suc g" by (cases f) simp_all
  have "decm g (concat (map (\<lambda>p. CHR '','' # enc_str (fst p) @ enc (snd p)) m) @ CHR ''.'' # r) = Some (m, r)"
    using JObj g by (intro decm_encs) (auto simp: snds.simps)
  then show ?case by (simp add: g)
next
  case (JNum i)
  then obtain g where g: "f = Suc g" by (cases f) simp_all
  show ?case using dec_bars_replicate by (simp add: g)
next
  case (JStr s)
  then obtain g where g: "f = Suc g" by (cases f) simp_all
  then show ?case by (simp add: dec_enc_str)
qed (auto simp: Suc_le_eq gr0_conv_Suc split: if_splits)

definition demo_parse :: "string \<Rightarrow> string + json" where
  "demo_parse s = (case dec (length s) s of Some (j, []) \<Rightarrow> Inr j | _ \<Rightarrow> Inl ''unexpected end of JSON input'')"

lemma demo_parse_enc: "demo_parse (enc j) = Inr j"
  using dec_enc [of j "length (enc j)" "[]"] by (simp add: demo_parse_def)

subsection \<open>The cluster\<close>

record hmem =
  hm_cms :: "config_obj list"
  hm_objs :: "((string \<times> string) \<times> json) list"
  hm_time :: int

text \<open>ConfigMaps sent as unstructured objects are the same objects as those of the typed client.\<close>

definition config_of_json :: "json \<Rightarrow> config_obj" where
  "config_of_json u =
    \<lparr>co_meta = \<lparr>om_name = u_name u, om_labels = u_labels u, om_annotations = []\<rparr>,
     co_data = (case nested u [''data''] of Some (JObj m) \<Rightarrow> map (\<lambda>(k, v). (k, jstr v)) m | _ \<Rightarrow> []), co_created = 0\<rparr>"

definition hm_store :: "(config_obj, hmem) kstore" where
  "hm_store = (let st = mem_store hm_cms hm_cms_update co_meta in st\<lparr>ks_api := (ks_api st)\<lparr>k_list := (\<lambda>ns sel m.
     (Inr (filter (\<lambda>ob. selects sel ob \<and> by_name co_meta (hm_cms m) (om_name (co_meta ob)) = Some ob) (hm_cms m)), m))\<rparr>\<rparr>)"

definition hm_dynamic :: "hmem dynamic" where
  "hm_dynamic =
    \<lparr>dy_get = (\<lambda>res ns n m. if res = ''configmaps''
        then (if by_name co_meta (hm_cms m) n = None then (Inl (KNotFound ''not found''), m) else (Inr (JObj []), m))
        else (case map_of (hm_objs m) (res, n) of None \<Rightarrow> (Inl (KNotFound ''not found''), m) | Some u \<Rightarrow> (Inr u, m))),
     dy_create = (\<lambda>res ns u m. if res = ''configmaps'' then (Inr u, m\<lparr>hm_cms := hm_cms m @ [config_of_json u]\<rparr>)
        else (Inr u, m\<lparr>hm_objs := ((res, u_name u), u) # hm_objs m\<rparr>)),
     dy_update = (\<lambda>res ns u m. if res = ''configmaps''
        then (Inr u, m\<lparr>hm_cms := drop_name co_meta (u_name u) (hm_cms m) @ [config_of_json u]\<rparr>)
        else (Inr u, m\<lparr>hm_objs := ((res, u_name u), u) # hm_objs m\<rparr>)),
     dy_delete = (\<lambda>res ns n m. (Inr (), m\<lparr>hm_objs := filter (\<lambda>x. fst x \<noteq> (res, n)) (hm_objs m)\<rparr>))\<rparr>"

subsection \<open>Two charts\<close>

definition spy_object :: json where
  "spy_object = JObj [(''apiVersion'', JStr ''apps/v1''), (''kind'', JStr ''DaemonSet''), (''metadata'', JObj [(''name'', JStr ''spy'')]),
     (''spec'', JObj [(''template'', JObj [(''spec'', JObj [(''containers'', JArr [JObj [
        (''name'', JStr ''c''), (''securityContext'', JObj [(''privileged'', JBool True)])]])])])])]"

definition web_object :: json where
  "web_object = JObj [(''apiVersion'', JStr ''apps/v1''), (''kind'', JStr ''Deployment''), (''metadata'', JObj [(''name'', JStr ''web'')])]"

definition spy_revision :: hrevision where
  "spy_revision = no_revision\<lparr>hr_number := 9, hr_manifest := ''SPY''\<rparr>"

definition planted_object :: json where
  "planted_object = JObj [(''apiVersion'', JStr ''v1''), (''kind'', JStr ''ConfigMap''),
     (''metadata'', JObj [(''name'', JStr ''notes''), (''labels'', JObj [(recordKindLabel, JStr recordRevision_kind)])]),
     (''data'', JObj [(''revision'', JStr (enc (revision_json spy_revision)))])]"

definition demo_doc :: "string \<Rightarrow> string + json" where
  "demo_doc d = (if d = ''SPY'' then Inr spy_object else if d = ''WEB'' then Inr web_object
     else if d = ''NOTES'' then Inr planted_object else Inl ''not a document'')"

definition demo_chart :: "string \<Rightarrow> chart" where
  "demo_chart text = \<lparr>ch_meta = Some (''1.0'', []), ch_values = (\<lambda>v r ns. Inr v), ch_render = (\<lambda>v. Inr [(''t.yaml'', text)])\<rparr>"

definition hmem_client :: "hmem helm_client" where
  "hmem_client =
    \<lparr>hc_cms = hm_store,
     hc_having = (\<lambda>ns l m. (Inr (filter (\<lambda>cm. mget (om_labels (co_meta cm)) l \<noteq> None) (hm_cms m)), m)),
     hc_dyn = hm_dynamic,
     hc_mapping = (\<lambda>api kind. if kind = ''ConfigMap'' then Inr (''configmaps'', False)
        else if kind = ''Deployment'' then Inr (''deployments'', False)
        else if kind = ''DaemonSet'' then Inr (''daemonsets'', False) else Inl (KOther ''no match'')),
     hc_gv = (\<lambda>a. None), hc_ns = ''worker'', hc_max = 10,
     hc_load = (\<lambda>d m. (if d = ''/tmp/c/web'' then Inr (demo_chart ''WEB'') else if d = ''/tmp/c/notes'' then Inr (demo_chart ''NOTES'')
        else if d = ''/tmp/c/spy'' then Inr (demo_chart ''SPY'') else Inl ''no Chart.yaml'', m)),
     hc_values = (\<lambda>t. Inr (JObj [])), hc_doc = demo_doc, hc_print = enc, hc_parse = demo_parse,
     hc_now = (\<lambda>m. (hm_time m, m\<lparr>hm_time := hm_time m + 1\<rparr>))\<rparr>"

definition hmem_view :: "hmem \<Rightarrow> configs" where
  "hmem_view m = by_name co_meta (hm_cms m)"

definition no_hmem :: hmem where "no_hmem = \<lparr>hm_cms = [], hm_objs = [], hm_time = 1\<rparr>"

lemma hmem_ok: "hc_cms c = hm_store \<Longrightarrow> configs_ok hmem_view c"
proof -
  have "store_ok hmem_view (\<lambda>V. V) (\<lambda>n x V. V(n := x)) co_meta same_config ns (mem_store hm_cms hm_cms_update co_meta)" for ns
    by (rule mem_store_ok) (simp_all add: hmem_view_def same_config_def)
  then have "store_ok hmem_view (\<lambda>V. V) (\<lambda>n x V. V(n := x)) co_meta same_config ns hm_store" for ns
    by (simp add: store_ok_def kind_ok_def hm_store_def Let_def)
  moreover assume "hc_cms c = hm_store"
  ultimately show ?thesis
    by (auto simp: configs_ok_def hm_store_def Let_def hmem_view_def by_name_def find_Some_iff)
qed

lemma hmem_json_ok: "hc_print c = enc \<Longrightarrow> hc_parse c = demo_parse \<Longrightarrow> json_text_ok c"
  by (simp add: json_text_ok_def demo_parse_enc)

subsection \<open>A gateway on it\<close>

definition hd_service :: "hmem service" where
  "hd_service = kd_service\<lparr>sv_git := \<lparr>fc_base = ''http://git'', fc_token = ''tok'', fc_http = (\<lambda>rq x. (Inr
     \<lparr>rs_status = 200, rs_total = [], rs_ctype = [], rs_gitsha = [], rs_body = ''archive'', rs_json = Inr JNull\<rparr>, x))\<rparr>\<rparr>"

definition hd_env :: "hmem helm_env" where
  "hd_env =
    \<lparr>he_helm = Some hmem_client,
     he_status = \<lparr>sa_pod = (\<lambda>ns n m. (Inl (KNotFound []), m)), sa_dep = (\<lambda>ns n m. (Inr (Some 1, 1), m)),
       sa_sts = (\<lambda>ns n m. (Inl (KNotFound []), m)), sa_ds = (\<lambda>ns n m. (Inl (KNotFound []), m)),
       sa_job = (\<lambda>ns n m. (Inl (KNotFound []), m)), sa_logs = (\<lambda>ns n ct pr tl m. (Inl (KNotFound []), m))\<rparr>,
     he_fs = \<lparr>bf_mktemp = (\<lambda>p m. (Inr ''/tmp/c'', m)), bf_rmall = (\<lambda>d m. m), bf_mkdirs = (\<lambda>p m. (Inr (), m)),
       bf_open = (\<lambda>p md m. (Inr (), m)), bf_write = (\<lambda>p d m. (Inr (), m)), bf_putfile = (\<lambda>p d m. (Inr (), m)),
       bf_stat = (\<lambda>p m. None), bf_readfile = (\<lambda>p m. Inl [])\<rparr>,
     he_tar = (\<lambda>b. Inr \<lparr>ts_entries = [], ts_error = None\<rparr>)\<rparr>"

definition hd_world :: "hmem world" where
  "hd_world = \<lparr>db = empty_store, trace = [], ext = no_hmem\<rparr>"

definition hd_req :: "string \<Rightarrow> string \<Rightarrow> helm_req" where
  "hd_req release chartPath = \<lparr>hq_org = ''acme'', hq_repo = ''web'', hq_ref = [], hq_release = release, hq_chart = chartPath,
     hq_values = [], hq_ns = [], hq_dry = False\<rparr>"

end
