(* ===== verification/HelmProps.thy ===== *)
theory HelmProps
  imports HelmHandlers
begin

text \<open>
  What a Helm deploy may do: the names it accepts, the directory the chart is read from, and the objects
  it sends to the cluster.
\<close>

subsection \<open>Release names\<close>

lemma release_char_iff: "release_char = (\<lambda>x. dns_char x \<or> x = CHR ''-'')"
  by (auto simp: release_char_def dns_char_def)

lemma dash_not_dns: "\<not> dns_char CHR ''-''"
  by code_simp

text \<open>The two checks of a release name, the pattern of the request handler and the function of the Helm
  manager, differ in the length only: the manager accepts exactly the names of the pattern that have at
  most 53 characters.  So a name of 54 passes the handler (and a dry run) and is then refused.\<close>

lemma release_name_checks:
  "validReleaseName s = (matches_helmReleaseRe s \<and> length s \<le> 53)"
proof (cases s)
  case (Cons c t)
  show ?thesis
  proof (cases t rule: rev_cases)
    case Nil
    then show ?thesis using dash_not_dns
      by (auto simp: Cons validReleaseName_def matches_helmReleaseRe_def release_char_iff)
  next
    case (snoc u d)
    then show ?thesis using dash_not_dns
      by (auto simp: Cons validReleaseName_def matches_helmReleaseRe_def release_char_iff)
  qed
qed (simp add: validReleaseName_def matches_helmReleaseRe_def)

subsection \<open>The chart's directory\<close>

lemma clean_chart_path_abs:
  "\<exists>qs. clean_chart_path p = join ''/'' qs \<and> list_all clean_seg qs"
proof -
  let ?q = "CHR ''/'' # (if p = [] then ''.'' else p)"
  have "path_clean ?q = abs_path (clean_parts True ?q)" by (rule path_clean_rooted) simp
  then have "clean_chart_path p = join ''/'' (clean_parts True ?q)"
    by (simp add: clean_chart_path_def abs_path_def trim_prefix_def)
  then show ?thesis using clean_parts_clean by blast
qed

lemma clean_join_slash:
  assumes "list_all clean_seg ps" "list_all clean_seg qs" "ps \<noteq> []" "qs \<noteq> []"
  shows "path_clean (abs_path ps @ ''/'' @ join ''/'' qs) = abs_path (ps @ qs)"
proof -
  have nosep: "list_all (\<lambda>p. CHR ''/'' \<notin> set p) ps" "list_all (\<lambda>p. CHR ''/'' \<notin> set p) qs"
    using assms(1,2) by (auto simp: list_all_iff clean_seg_def)
  have "split_at CHR ''/'' (abs_path ps @ CHR ''/'' # join ''/'' qs) = ([] # ps) @ qs"
    unfolding split_at_append_sep using nosep assms
    by (simp add: split_at_abs_path split_at_join)
  then have "clean_parts True (abs_path ps @ ''/'' @ join ''/'' qs) = ps @ qs"
    using assms by (simp add: clean_parts_def clean_steps_id) (simp add: clean_step_def clean_steps_id)
  then show ?thesis by (subst path_clean_rooted) (simp_all add: abs_path_def)
qed

text \<open>Wherever a request says its chart is, the chart is read from inside the unpacked repository: for
  every chart path, however many \<^verbatim>\<open>..\<close> it has, the directory is the unpacked one or lies under it.
  (So the handler's own check for an escape never fires.)\<close>

theorem chart_under_repository:
  assumes "clean_dir dir"
  shows "under dir (path_join dir (clean_chart_path chartPath))"
proof -
  from assms obtain ps where ps: "ps \<noteq> []" "dir = abs_path ps" "list_all clean_seg ps" by (auto simp: clean_dir_def)
  obtain qs where qs: "clean_chart_path chartPath = join ''/'' qs" "list_all clean_seg qs"
    using clean_chart_path_abs by blast
  have dne: "dir \<noteq> []" by (simp add: ps abs_path_def)
  show ?thesis
  proof (cases "qs = []")
    case True
    have "clean_parts True dir = ps"
      unfolding clean_parts_def ps(2) split_at_abs_path [OF ps(3,1)]
      using clean_steps_id [OF ps(3), of True "[]"] by (simp add: clean_step_def)
    then have "path_clean dir = dir" by (subst path_clean_rooted) (simp_all add: ps(2), simp add: abs_path_def)
    with True qs dne show ?thesis using under_refl [OF assms] by (simp add: path_join_def)
  next
    case False
    then have "join ''/'' qs \<noteq> []" using qs(2) by (cases qs; cases "tl qs") (auto simp: clean_seg_def)
    then have "path_join dir (clean_chart_path chartPath) = abs_path (ps @ qs)"
      using clean_join_slash [OF ps(3) qs(2) ps(1) False] dne by (simp add: path_join_def qs ps(2))
    then show ?thesis unfolding under_def using ps qs(2) by (intro exI [of _ ps] exI [of _ qs]) simp
  qed
qed

lemma chart_under_repository_witness: "under ''/tmp/x'' (path_join ''/tmp/x'' (clean_chart_path ''../../etc''))"
proof -
  have "clean_dir ''/tmp/x''" unfolding clean_dir_def
    by (intro exI [of _ "[''tmp'', ''x'']"]) (simp add: abs_path_def clean_seg_def)
  then show ?thesis by (rule chart_under_repository)
qed

subsection \<open>What stamping leaves alone\<close>

lemma nested_set_other: "q \<noteq> k \<Longrightarrow> nested (set_nested (k # ks) v j) (q # qs) = nested j (q # qs)"
  by (cases j) simp_all

lemma nested_del_other: "q \<noteq> k \<Longrightarrow> nested (del_nested (k # ks) j) (q # qs) = nested j (q # qs)"
proof (cases j)
  case (JObj m)
  assume "q \<noteq> k"
  moreover have "mget (filter (\<lambda>p. fst p \<noteq> k) m) q = mget m q" if "q \<noteq> k"
    using that by (induction m) (auto simp: mget_def)
  ultimately show ?thesis using JObj by (auto split: option.split)
qed simp_all

lemma nested_set_inner:
  "ks \<noteq> [] \<Longrightarrow> (\<And>m. nested (set_nested ks v (JObj m)) qs = nested (JObj m) qs) \<Longrightarrow> nested (JObj []) qs = None \<Longrightarrow>
   nested (set_nested (k # ks) v j) (k # qs) = nested j (k # qs)"
  by (cases j) (auto split: option.split json.split)

lemma nested_set_spec:
  "q \<noteq> ''clusterIP'' \<Longrightarrow> nested (set_nested [''spec'', ''clusterIP''] v j) (''spec'' # q # qs) = nested j (''spec'' # q # qs)"
  by (rule nested_set_inner, simp, rule nested_set_other, assumption, simp add: mget_def)

text \<open>The parts the filter and the API look at: the kind, the API version and everything under \<open>spec\<close>
  but the cluster address.\<close>

definition same_parts :: "json \<Rightarrow> json \<Rightarrow> bool" where
  "same_parts u v = (nested u [''kind''] = nested v [''kind''] \<and> nested u [''apiVersion''] = nested v [''apiVersion''] \<and>
     (\<forall>q qs. q \<noteq> ''clusterIP'' \<longrightarrow> nested u (''spec'' # q # qs) = nested v (''spec'' # q # qs)))"

lemma same_parts_trans: "same_parts u v \<Longrightarrow> same_parts v w \<Longrightarrow> same_parts u w"
  by (simp add: same_parts_def)

lemma same_parts_meta: "same_parts (set_nested (''metadata'' # ks) x u) u" "same_parts (del_nested (''metadata'' # ks) u) u"
  by (simp_all add: same_parts_def nested_set_other nested_del_other del: nested.simps set_nested.simps del_nested.simps)

lemma same_parts_set_meta: "same_parts (set_meta k x u) u"
  unfolding set_meta_def using same_parts_meta by simp

lemma same_parts_stamped: "same_parts (stamped c release u) u"
  unfolding stamped_def
  by (rule same_parts_trans [OF same_parts_set_meta]) (unfold set_labels_def, rule same_parts_meta)

lemma same_parts_cluster_ip: "same_parts (keep_cluster_ip cur u) u"
  unfolding keep_cluster_ip_def Let_def
  by (simp add: same_parts_def nested_set_other nested_set_spec del: nested.simps set_nested.simps)

lemma same_parts_kind: "same_parts u v \<Longrightarrow> u_kind u = u_kind v" "same_parts u v \<Longrightarrow> u_api u = u_api v"
  by (simp_all add: same_parts_def u_kind_def u_api_def nested_str_def)

lemma same_parts_filter:
  assumes "same_parts u v"
  shows "forbidDangerous u = forbidDangerous v"
proof -
  have s: "nested u (''spec'' # q # qs) = nested v (''spec'' # q # qs)" if "q \<noteq> ''clusterIP''" for q qs
    using assms that by (simp add: same_parts_def)
  show ?thesis
    unfolding forbidDangerous_def pod_bases_def nested_list_def append.simps
    using s [of "''template''"] s [of "''jobTemplate''"] by simp
qed

subsection \<open>What a deploy sends to the cluster\<close>

text \<open>An object the filter lets through.\<close>

definition admitted :: "'s helm_client \<Rightarrow> json \<Rightarrow> bool" where
  "admitted c u = (u_kind u \<in> set allowedKinds \<and> \<not> isClusterScoped c u \<and> forbidDangerous u = None)"

lemma admitted_parts: "same_parts u v \<Longrightarrow> admitted c u = admitted c v"
  by (simp add: admitted_def isClusterScoped_def same_parts_kind same_parts_filter)

lemma check_doc_admitted: "check_doc c u = Inr ob \<Longrightarrow> admitted c u"
  by (auto simp: check_doc_def admitted_def Let_def split: if_splits option.splits)

lemma check_docs_admitted:
  "check_docs c ds = Inr obs \<Longrightarrow> \<forall>d\<in>set ds. \<exists>u. hc_doc c d = Inr u \<and> (skipped_doc u \<or> admitted c u)"
  by (induction ds arbitrary: obs) (auto split: sum.splits if_splits dest: check_doc_admitted)

text \<open>Calls of a deploy: objects are read freely, created and updated when admitted, and never deleted.\<close>

definition deploy_call :: "'s helm_client \<Rightarrow> call \<Rightarrow> bool" where
  "deploy_call c cl = (case cl of CDynamic v res n u \<Rightarrow> v = VGet \<or> v \<in> {VCreate, VUpdate} \<and> admitted c u | _ \<Rightarrow> True)"

lemma deploy_call_simps [simp]:
  "deploy_call c (CDynamic v res n u) = (v = VGet \<or> v \<in> {VCreate, VUpdate} \<and> admitted c u)"
  "deploy_call c (CKube v kind n)" "deploy_call c (CHttp rq)" "deploy_call c CGetIdentity"
  by (simp_all add: deploy_call_def)

lemma lift_helm_sel:
  "hc_doc (lift_helm c) = hc_doc c" "hc_mapping (lift_helm c) = hc_mapping c" "hc_ns (lift_helm c) = hc_ns c"
  "hc_max (lift_helm c) = hc_max c" "hc_parse (lift_helm c) = hc_parse c" "hc_print (lift_helm c) = hc_print c"
  "hc_values (lift_helm c) = hc_values c" "hc_gv (lift_helm c) = hc_gv c"
  by (simp_all add: lift_helm_def)

lemma lifted_pure: "admitted (lift_helm c) = admitted c" "stamped (lift_helm c) = stamped c"
  "check_docs (lift_helm c) = check_docs c" "hm_validate (lift_helm c) = hm_validate c"
proof -
  have cl: "isClusterScoped (lift_helm c) = isClusterScoped c" by (simp add: isClusterScoped_def fun_eq_iff lift_helm_sel)
  then show "admitted (lift_helm c) = admitted c" by (simp add: admitted_def fun_eq_iff)
  show "stamped (lift_helm c) = stamped c" by (simp add: stamped_def fun_eq_iff lift_helm_sel)
  have "check_doc (lift_helm c) = check_doc c" by (intro ext) (unfold check_doc_def lift_helm_sel cl, rule refl)
  then have "check_docs (lift_helm c) ds = check_docs c ds" for ds
    by (induction ds) (simp, unfold check_docs.simps lift_helm_sel, simp only:)
  then show "check_docs (lift_helm c) = check_docs c" by auto
  then show "hm_validate (lift_helm c) = hm_validate c" by (simp add: hm_validate_def fun_eq_iff)
qed

lemma keeps_map: "keeps R (helm_mapping c a k)" if "preord R"
  using that by (auto simp: helm_mapping_def intro!: keeps split: sum.split)

lemma applyObject_calls:
  assumes "admitted c u"
  shows "keeps (traced_in (deploy_call c)) (applyObject (lift_helm c) u)"
proof -
  have "admitted c (keep_cluster_ip cur (set_meta k x u))" for cur k x
    using assms admitted_parts [OF same_parts_trans [OF same_parts_cluster_ip same_parts_set_meta]] by blast
  then show ?thesis unfolding applyObject_def
    by (auto simp: lift_helm_def lift_dynamic_def assms intro!: keeps keeps_map split: sum.split)
qed

lemma keeps_each_in: "preord R \<Longrightarrow> (\<And>x. x \<in> set xs \<Longrightarrow> keeps R (f x)) \<Longrightarrow> keeps R (each f xs)"
  by (induction xs) (auto intro!: keeps)

lemma applyManifest_calls:
  assumes "hm_validate c manifest = Inr obs"
  shows "keeps (traced_in (deploy_call c)) (applyManifest (lift_helm c) manifest release)"
proof -
  have ds: "\<forall>d\<in>set (manifest_docs manifest). \<exists>u. hc_doc c d = Inr u \<and> (skipped_doc u \<or> admitted c u)"
    using assms by (intro check_docs_admitted [of c _ obs]) (auto simp: hm_validate_def split: sum.splits list.splits)
  have "keeps (traced_in (deploy_call c)) (apply_doc (lift_helm c) release d)" if "d \<in> set (manifest_docs manifest)" for d
  proof -
    from ds that obtain u where u: "hc_doc c d = Inr u" "skipped_doc u \<or> admitted c u" by blast
    then show ?thesis
      using applyObject_calls [of c "stamped c release u"] admitted_parts [OF same_parts_stamped]
      by (auto simp: apply_doc_def lift_helm_sel lifted_pure intro!: keeps)
  qed
  then show ?thesis unfolding applyManifest_def by (intro keeps_each_in) auto
qed

subsection \<open>The whole deploy\<close>

lemma Template_result:
  assumes "hm_Template (lift_helm c) dir o' w = (Ok (manifest, obs, cv, av), w')"
  shows "hm_validate c manifest = Inr obs"
  using assms
  by (auto simp: hm_Template_def Let_def lifted_pure from_sum_def ret_def throw_def elim!: bnd_OkD split: sum.splits)

lemma from_sum_keeps [keeps]: "preord R \<Longrightarrow> keeps R (from_sum r)"
  by (auto simp: from_sum_def intro!: keeps split: sum.split)

lemma Template_calls: "keeps (traced_in P) (hm_Template (lift_helm c) dir o')"
  by (auto simp: hm_Template_def Let_def lift_helm_def intro!: keeps)

lemma config_calls:
  "keeps (traced_in (deploy_call c)) (kcreate (hc_cms (lift_helm d)) ns ob)"
  "keeps (traced_in (deploy_call c)) (kread (hc_cms (lift_helm d)) ns n)"
  "keeps (traced_in (deploy_call c)) (kremove (hc_cms (lift_helm d)) ns n)"
  "keeps (traced_in (deploy_call c)) (kfind (hc_cms (lift_helm d)) ns sel)"
  "keeps (traced_in (deploy_call c)) (kupdate (hc_cms (lift_helm d)) ns ob)"
  by (auto simp: kcreate_def kread_def kremove_def kfind_def kupdate_def lift_helm_def lift_kstore_def lift_kapi_def intro!: keeps)

lemma state_calls:
  "keeps (traced_in (deploy_call c)) (putHead (lift_helm d) r)"
  "keeps (traced_in (deploy_call c)) (putRevision (lift_helm d) n rv)"
  "keeps (traced_in (deploy_call c)) (pruneHistory (lift_helm d) r)"
  "keeps (traced_in (deploy_call c)) (put_release (lift_helm d) r)"
  "keeps (traced_in (deploy_call c)) (migrateLegacy (lift_helm d) r)"
  "keeps (traced_in (deploy_call c)) (loadRevisions (lift_helm d) n)"
  "keeps (traced_in (deploy_call c)) (recordRevision (lift_helm d) r)"
proof -
  have up: "keeps (traced_in (deploy_call c)) (upsert_config (lift_helm d) cm)" for cm
    by (auto simp: upsert_config_def intro!: keeps config_calls split: sum.split)
  have del: "keeps (traced_in (deploy_call c)) (delete_config_ok (lift_helm d) n)" for n
    by (auto simp: delete_config_ok_def intro!: keeps config_calls split: sum.split)
  show head: "keeps (traced_in (deploy_call c)) (putHead (lift_helm d) r)" for r by (simp add: putHead_def up)
  show rev: "keeps (traced_in (deploy_call c)) (putRevision (lift_helm d) n rv)" for n rv by (simp add: putRevision_def up)
  show prune: "keeps (traced_in (deploy_call c)) (pruneHistory (lift_helm d) r)" for r
    by (auto simp: pruneHistory_def prune_one_def intro!: keeps config_calls del split: option.split)
  show put: "keeps (traced_in (deploy_call c)) (put_release (lift_helm d) r)" for r
    by (auto simp: put_release_def intro!: keeps head prune)
  show "keeps (traced_in (deploy_call c)) (migrateLegacy (lift_helm d) r)"
    by (auto simp: migrateLegacy_def intro!: keeps rev put)
  show "keeps (traced_in (deploy_call c)) (loadRevisions (lift_helm d) n)"
    by (auto simp: loadRevisions_def intro!: keeps config_calls)
  show "keeps (traced_in (deploy_call c)) (recordRevision (lift_helm d) r)"
    by (auto simp: recordRevision_def intro!: keeps rev put)
qed

lemma Get_calls: "keeps (traced_in (deploy_call c)) (hm_Get (lift_helm d) release)"
  by (auto simp: hm_Get_def intro!: keeps config_calls state_calls split: sum.split)

lemma clock_calls: "keeps (traced_in P) (helm_clock (lift_helm c))"
  by (rule keepsI) (auto simp: helm_clock_def lift_helm_def traced_in_def dest: db_quiet split: prod.splits)

lemma Apply_calls: "keeps (traced_in (deploy_call c)) (hm_Apply (lift_helm c) dir o' creator session)"
proof -
  have then_apply: "keeps (traced_in (deploy_call c)) (case x of (manifest, objects, cv, av) \<Rightarrow>
      bnd (applyManifest (lift_helm c) manifest (ro_release o')) (k manifest objects cv av))"
    if "hm_Template (lift_helm c) dir o' s = (Ok x, s')"
      "\<And>manifest objects cv av u. keeps (traced_in (deploy_call c)) (k manifest objects cv av u)" for k x s s'
  proof (cases x)
    case (fields manifest objects cv av)
    show ?thesis unfolding fields prod.case
      using applyManifest_calls [OF Template_result [OF that(1) [unfolded fields]]] that(2) by (intro keeps_bnd) auto
  qed
  show ?thesis
    unfolding hm_Apply_def
    by (intro keeps_if keeps_throw preord_traced_in keeps_bnd_results Template_calls then_apply)
      (assumption | rule keeps Get_calls clock_calls state_calls preord_traced_in)+
qed

lemma ext_traced: "traced_in P w (w'\<lparr>ext := x\<rparr>) = traced_in P w w'"
  by (simp add: traced_in_def)

lemma ext_calls: "keeps (traced_in P) (modify (\<lambda>w. w\<lparr>ext := f w\<rparr>))"
  by (rule keepsI) (auto simp: modify_def ext_traced traced_in_def)

lemma removing_calls: "keeps (traced_in P) m \<Longrightarrow> keeps (traced_in P) (removing (lift_fs fs) dir m)"
  by (rule keepsI) (auto simp: removing_def lift_fs_def ext_traced split: prod.splits dest: keepsD)

lemma Extract_calls: "keeps (traced_in P) (Extract (lift_fs fs) t mx)"
proof -
  have clean: "keeps (traced_in P) (cleaning (lift_fs fs) dir m)" if m: "keeps (traced_in P) m" for dir and m :: "('a world, 'e, 'b) act"
    by (rule keepsI) (auto simp: cleaning_def lift_fs_def ext_traced split: prod.splits res.splits dest: keepsD [OF m])
  have entry: "keeps (traced_in P) (extract_entry (lift_fs fs) dir tp mx n e)" for dir tp mx n e
    by (auto simp: extract_entry_def lift_fs_def Let_def intro!: keeps split: tar_type.split option.split)
  have loop: "keeps (traced_in P) (extract_loop (lift_fs fs) dir tp mx n es err)" for dir tp mx n es err
    by (induction es arbitrary: n) (auto intro!: keeps entry split: option.split)
  have "keeps (traced_in P) (of_sum (bf_mktemp (lift_fs fs) p))" for p by (simp add: lift_fs_def keeps)
  then show ?thesis by (auto simp: Extract_def intro!: keeps clean loop split: sum.split)
qed

lemma chart_dir_calls: "keeps (traced_in (deploy_call c)) (helmChartDir S E org repo ref p)"
proof -
  have "keeps (traced_in (deploy_call c)) (git_ArchiveTarGz (git S) org repo ref)"
    by (rule keeps_http [OF git_http.reads(15), where M = "\<lambda>_. True"]) simp_all
  moreover have "keeps (traced_in (deploy_call c)) (modify (bf_rmall (lift_fs fs) dir))" for fs dir
    by (simp add: lift_fs_def ext_calls)
  ultimately show ?thesis
    by (auto simp: helmChartDir_def Let_def intro!: keeps Extract_calls)
qed

text \<open>C16: A deploy sends to the cluster only what the filter admits: in every run of \<^verbatim>\<open>HelmDeploy\<close>, every
  object created or updated through the dynamic client has a kind of the whitelist, is not
  cluster-scoped, and asks for no host network, host volume or privileged container in its pod
  template; and no object is deleted -- objects a new revision no longer contains stay.\<close>

theorem HelmDeploy_sends_admitted:
  assumes "he_helm E = Some c"
  shows "traced_in (deploy_call c) w (snd (HelmDeploy S E h m w))"
proof -
  have auth: "keeps (traced_in (deploy_call c)) (sandboxAuth S h)"
    by (auto simp: sandboxAuth_def resolveTenant_def intro!: keeps)
  have guard: "keeps (traced_in (deploy_call c)) (deploy_release_guard (lift_helm c) h tenant r)" for tenant r
    by (auto simp: deploy_release_guard_def svc_err_def intro!: keeps Get_calls)
  have "keeps (traced_in (deploy_call c)) (HelmDeploy S E h m)"
    unfolding HelmDeploy_def with_helm_def assms option.case Let_def
    by (auto simp: svc_err_def intro!: keeps auth guard chart_dir_calls removing_calls Template_calls Apply_calls)
  then show ?thesis by (rule keeps_snd)
qed

end
