(* ===== verification/HelmSafety.thy ===== *)
theory HelmSafety
  imports HelmDemo HelmProps
begin

text \<open>
  Who may change a release, what the filter does not see, and the Helm properties at concrete inputs.
\<close>

subsection \<open>The state properties at concrete inputs\<close>

definition two_kept :: "hmem helm_client" where "two_kept = hmem_client\<lparr>hc_max := 2\<rparr>"

definition app_release :: "nat \<Rightarrow> release" where
  "app_release n = no_release\<lparr>rl_name := ''app'', rl_creator := ''t1'', rl_revision := int n,
     rl_history := map (\<lambda>i. no_revision\<lparr>hr_number := int i, hr_manifest := ''WEB''\<rparr>) [1..<Suc n]\<rparr>"

primrec app_stored :: "nat \<Rightarrow> hmem" where
  "app_stored 0 = no_hmem"
| "app_stored (Suc n) = snd (recordRevision two_kept (app_release (Suc n)) (app_stored n))"

lemma app_ok: "configs_ok hmem_view two_kept" "json_text_ok two_kept"
  by (rule hmem_ok, simp add: two_kept_def hmem_client_def)
    (rule hmem_json_ok, simp_all add: two_kept_def hmem_client_def)

lemma app_recorded: "recordRevision two_kept (app_release 4) (app_stored 3) = (Ok (app_release 4), app_stored 4)"
proof -
  have "case fst (recordRevision two_kept (app_release 4) (app_stored 3)) of Ok r \<Rightarrow> True | _ \<Rightarrow> False" by code_simp
  moreover have "rl_history (app_release 4) \<noteq> []" by (simp add: app_release_def)
  ultimately have "fst (recordRevision two_kept (app_release 4) (app_stored 3)) = Ok (app_release 4)"
    by (auto simp: recordRevision_def bnd_cases act split: prod.splits res.splits)
  moreover have "Suc 3 = 4" by simp
  then have "snd (recordRevision two_kept (app_release 4) (app_stored 3)) = app_stored 4"
    using app_stored.simps(2) [of 3] by metis
  ultimately show ?thesis by (simp add: prod_eq_iff)
qed

lemma app_facts: "0 < hc_max two_kept" "rl_name (app_release 4) = ''app''"
  "\<forall>rv\<in>set (rl_history (app_release 4)). hr_number rv \<le> hr_number (last (rl_history (app_release 4)))"
  "hr_number (last (rl_history (app_release 4))) = 4"
  by (simp_all add: two_kept_def app_release_def upt_rec)

lemma history_bounded_witness:
  "card (stored_numbers (hmem_view (app_stored 4)) ''app'') \<le> 2 \<and> 4 \<in> stored_numbers (hmem_view (app_stored 4)) ''app''"
  using history_bounded [OF app_ok(1) app_recorded app_facts(1,3)] by (simp add: app_facts two_kept_def)


lemma Rollback_repeats_revision_witness:
  "\<exists>r'. fst (hm_Rollback two_kept ''app'' 3 (app_stored 4)) = Ok r' \<and> rl_revision r' = 5 \<and>
     hr_manifest (last (rl_history r')) = ''WEB''"
proof -
  have c: "case hm_Rollback two_kept ''app'' 3 (app_stored 4) of (Ok r, s) \<Rightarrow> True | _ \<Rightarrow> False"
    "case hm_Get two_kept ''app'' (app_stored 4) of (Ok (Some r), s) \<Rightarrow>
       rl_revision r = 4 \<and> list_all (\<lambda>rv. hr_manifest rv = ''WEB'') (rl_history r) | _ \<Rightarrow> False"
    by code_simp+
  from c(1) obtain r' s' where run: "hm_Rollback two_kept ''app'' 3 (app_stored 4) = (Ok r', s')"
    by (auto split: prod.splits res.splits)
  from Rollback_repeats_revision [OF run] c(2) run show ?thesis
    by (auto simp: list_all_iff)
qed

lemma revision_destroys_release_witness:
  "\<not> is_ok (fst (hm_Get hmem_client ''rev-app-v1''
     (snd (putRevision hmem_client ''app'' (no_revision\<lparr>hr_number := 1\<rparr>)
       (snd (recordRevision hmem_client ((app_release 1)\<lparr>rl_name := ''rev-app-v1''\<rparr>) no_hmem))))))"
proof -
  let ?s = "snd (recordRevision hmem_client ((app_release 1)\<lparr>rl_name := ''rev-app-v1''\<rparr>) no_hmem)"
  let ?rv = "no_revision\<lparr>hr_number := 1\<rparr>"
  have "case putRevision hmem_client ''app'' ?rv ?s of (Ok u, s) \<Rightarrow> True | _ \<Rightarrow> False" by code_simp
  then have run: "putRevision hmem_client ''app'' ?rv ?s = (Ok (), snd (putRevision hmem_client ''app'' ?rv ?s))"
    by (auto split: prod.splits res.splits)
  have p: "hc_parse hmem_client [] = Inl ''unexpected end of JSON input''" by code_simp
  have v: "validReleaseName ''app''" "int_str 1 = ''1''" by code_simp+
  have "configs_ok hmem_view hmem_client" by (rule hmem_ok) (simp add: hmem_client_def)
  from revision_destroys_release [OF this p run] show ?thesis by (simp add: v no_revision_def)
qed

subsection \<open>Who may change a release\<close>

text \<open>C20: Changing a release needs ownership: when the release read for the request has no creator or one
  other than the caller's tenant, a deploy, a roll back and a removal end with an error right after that
  read, and nothing is rendered, applied or deleted.\<close>

theorem release_writes_need_ownership:
  assumes "he_helm E = Some c" "sandboxAuth S h w = (Ok tenant, w0)"
    and "hm_Get (lift_helm c) release w0 = (Ok (Some cur), w1)"
    and "rl_creator cur = [] \<or> rl_creator cur \<noteq> tenant"
    and "hq_release m = release" "matches_helmReleaseRe release" "ValidComponent (hq_org m)" "ValidComponent (hq_repo m)"
    and "ValidComponent (hq_ref m)"
  shows "HelmDeploy S E h m w = (Fail (CErr CodePermissionDenied ''release not writable by this tenant''), w1) \<and>
    HelmRollback S E h release n w = (Fail no_release_found, w1) \<and>
    HelmUninstall S E h release w = (Fail no_release_found, w1)"
proof (intro conjI)
  have nw: "\<not> writable (rl_creator cur) tenant" using assms(4) by (simp add: writable_def)
  have got: "svc_internal (hm_Get (lift_helm c) release) w0 = (Ok (Some cur), w1)"
    using assms(3) by (simp add: svc_err_def map_err_cases)
  have g: "deploy_release_guard (lift_helm c) h tenant release w0 =
      (Fail (CErr CodePermissionDenied ''release not writable by this tenant''), w1)"
    unfolding deploy_release_guard_def by (simp add: bnd_cases got nw act)
  have "hq_ref m \<noteq> []" using assms(9) by (auto simp: ValidComponent_def matches_componentRe_def)
  then show "HelmDeploy S E h m w = (Fail (CErr CodePermissionDenied ''release not writable by this tenant''), w1)"
    using assms(5-9) by (simp add: HelmDeploy_def Let_def bnd_cases assms(1,2) with_helm_def g)
  have wr: "writable_release (lift_helm c) h tenant release w0 = (Fail no_release_found, w1)"
    unfolding writable_release_def by (simp add: bnd_cases got nw act)
  show "HelmRollback S E h release n w = (Fail no_release_found, w1)"
    by (simp add: HelmRollback_def bnd_cases assms(1,2) with_helm_def wr)
  show "HelmUninstall S E h release w = (Fail no_release_found, w1)"
    by (simp add: HelmUninstall_def bnd_cases assms(1,2) with_helm_def wr)
qed

text \<open>Tenant \<open>t2\<close> and a release of \<open>t1\<close>.\<close>

definition hd_deployed :: "hmem world" where
  "hd_deployed = snd (HelmDeploy hd_service hd_env (kd_hdr ''t1'' []) (hd_req ''app'' ''web'') hd_world)"

lemma release_writes_need_ownership_witness:
  "fst (HelmUninstall hd_service hd_env (kd_hdr ''t2'' []) ''app'' hd_deployed) = Fail no_release_found"
proof -
  let ?h = "kd_hdr ''t2'' []" let ?m = "(hd_req ''app'' ''web'')\<lparr>hq_ref := ''main''\<rparr>"
  have c: "case sandboxAuth hd_service ?h hd_deployed of (Ok t, w) \<Rightarrow> t = ''t2'' \<and>
      (case hm_Get (lift_helm hmem_client) ''app'' w of (Ok (Some r), w') \<Rightarrow> rl_creator r = ''t1'' | _ \<Rightarrow> False) | _ \<Rightarrow> False"
    by code_simp
  then obtain w0 r w1 where a: "sandboxAuth hd_service ?h hd_deployed = (Ok ''t2'', w0)"
    and g: "hm_Get (lift_helm hmem_client) ''app'' w0 = (Ok (Some r), w1)" and r: "rl_creator r = ''t1''"
    by (auto split: prod.splits res.splits option.splits)
  have e: "he_helm hd_env = Some hmem_client" by (simp add: hd_env_def)
  have v: "matches_helmReleaseRe ''app''" "ValidComponent ''acme''" "ValidComponent ''web''" "ValidComponent ''main''" by code_simp+
  show ?thesis
    using release_writes_need_ownership [OF e a g, of ?m] v by (simp add: r hd_req_def)
qed

subsection \<open>What the filter does not see\<close>

text \<open>A write of an object the filter would not let through.\<close>

definition unfiltered :: "'s helm_client \<Rightarrow> call \<Rightarrow> bool" where
  "unfiltered c cl = (case cl of CDynamic v res n u \<Rightarrow> v \<in> {VCreate, VUpdate} \<and> \<not> admitted c u | _ \<Rightarrow> False)"


subsection \<open>What a deploy does not look at\<close>

lemma oblivious_attempt: "oblivious m \<Longrightarrow> oblivious (attempt m)"
  by (rule obliviousI) (auto simp: attempt_def obliviousD split: prod.splits res.splits)

lemma oblivious_ignore: "oblivious m \<Longrightarrow> oblivious (ignore m)"
  by (auto simp: ignore_def intro!: oblivious oblivious_attempt)

lemma oblivious_each: "(\<And>x. oblivious (f x)) \<Longrightarrow> oblivious (each f xs)"
  by (induction xs) (auto intro!: oblivious)

lemma oblivious_removing: "oblivious m \<Longrightarrow> oblivious (removing (lift_fs fs) d m)"
  by (rule obliviousI) (auto simp: removing_def lift_fs_def obliviousD split: prod.splits)

lemma oblivious_rmall: "oblivious (modify (bf_rmall (lift_fs fs) d))"
  by (rule obliviousI) (auto simp: modify_def lift_fs_def)

lemma oblivious_from_sum: "oblivious (from_sum r)"
  by (auto simp: from_sum_def intro!: oblivious split: sum.split)

lemmas oblivious_flow = oblivious oblivious_attempt oblivious_ignore oblivious_each oblivious_removing oblivious_rmall oblivious_from_sum

lemma oblivious_configs:
  "oblivious (kcreate (hc_cms (lift_helm c)) ns ob)" "oblivious (kread (hc_cms (lift_helm c)) ns n)"
  "oblivious (kremove (hc_cms (lift_helm c)) ns n)" "oblivious (kfind (hc_cms (lift_helm c)) ns sel)"
  "oblivious (kupdate (hc_cms (lift_helm c)) ns ob)"
  by (auto simp: kcreate_def kread_def kremove_def kfind_def kupdate_def lift_helm_def lift_kstore_def lift_kapi_def intro!: oblivious)

lemma oblivious_state:
  "oblivious (upsert_config (lift_helm c) cm)" "oblivious (delete_config_ok (lift_helm c) n)"
  by (auto simp: upsert_config_def delete_config_ok_def intro!: oblivious_flow oblivious_configs split: sum.split)

lemma oblivious_release:
  "oblivious (put_release (lift_helm c) r)" "oblivious (hm_Get (lift_helm c) n)" "oblivious (recordRevision (lift_helm c) r)"
proof -
  show put: "oblivious (put_release (lift_helm c) r)" for r
    by (auto simp: put_release_def putHead_def pruneHistory_def prune_one_def
        intro!: oblivious_flow oblivious_configs oblivious_state split: option.split)
  show "oblivious (hm_Get (lift_helm c) n)"
    by (auto simp: hm_Get_def migrateLegacy_def putRevision_def loadRevisions_def
        intro!: oblivious_flow oblivious_configs oblivious_state put split: sum.split)
  show "oblivious (recordRevision (lift_helm c) r)"
    by (auto simp: recordRevision_def putRevision_def intro!: oblivious_flow oblivious_state put)
qed

lemma oblivious_apply:
  "oblivious (hm_Template (lift_helm c) dir o')" "oblivious (hm_Apply (lift_helm c) dir o' creator session)"
proof -
  show tmpl: "oblivious (hm_Template (lift_helm c) dir o')"
    by (auto simp: hm_Template_def Let_def lift_helm_def intro!: oblivious_flow)
  have "oblivious (applyObject (lift_helm c) u)" for u
    by (auto simp: applyObject_def helm_mapping_def lift_helm_def lift_dynamic_def intro!: oblivious_flow split: sum.split)
  then have man: "oblivious (applyManifest (lift_helm c) mf r)" for mf r
    by (auto simp: applyManifest_def apply_doc_def intro!: oblivious_flow split: sum.split)
  have now: "oblivious (helm_clock (lift_helm c))"
    by (rule obliviousI) (auto simp: helm_clock_def lift_helm_def quiet_def split: prod.split)
  show "oblivious (hm_Apply (lift_helm c) dir o' creator session)"
    by (auto simp: hm_Apply_def Let_def intro!: oblivious_flow tmpl man now oblivious_release)
qed

text \<open>Deploying a chart asks no one who owns the repository it comes from.  Whatever the ownership store
  holds, the answer -- on a dry run, the rendered manifest -- and all calls made are the same: any
  authenticated tenant reads and deploys the charts of every repository.\<close>

theorem HelmDeploy_ignores_ownership:
  "fst (HelmDeploy S E h m (w\<lparr>db := d\<rparr>)) = fst (HelmDeploy S E h m w) \<and>
   trace (snd (HelmDeploy S E h m (w\<lparr>db := d\<rparr>))) = trace (snd (HelmDeploy S E h m w))"
proof -
  have dir: "oblivious (helmChartDir S E org repo ref p)" for org repo ref p
    by (auto simp: helmChartDir_def Let_def intro!: oblivious_flow)
  have "oblivious (HelmDeploy S E h m)"
    by (auto simp: HelmDeploy_def with_helm_def deploy_release_guard_def svc_err_def Let_def
        intro!: oblivious_flow dir oblivious_release oblivious_apply split: option.split)
  from obliviousD [OF this, where w = w and d = d] show ?thesis by simp
qed

lemma HelmDeploy_sends_admitted_witness:
  "traced_in (deploy_call hmem_client) hd_world (snd (HelmDeploy hd_service hd_env (kd_hdr ''t1'' []) (hd_req ''app'' ''web'') hd_world))"
  by (rule HelmDeploy_sends_admitted) (simp add: hd_env_def)

end
