(* ===== verification/ForgejoFiles.thy ===== *)
theory ForgejoFiles
  imports ForgejoBrowse
begin

text \<open>
  Package \<^verbatim>\<open>internal/forgejo\<close>, the rest of its operations: files with their base64 content,
  comparisons, commits through the contents API, releases and their assets, container packages and
  the repository search.  A decoded struct has the fields the host names in its documentation.
\<close>

subsection \<open>Base64\<close>

text \<open>\<^verbatim>\<open>base64.StdEncoding\<close>: decoding skips line ends, wants padding at the very end, and ignores
  the unused bits of the last digit.\<close>

definition b64_alphabet :: string where
  "b64_alphabet = ''ABCDEFGHIJKLMNOPQRSTUVWXYZabcdefghijklmnopqrstuvwxyz0123456789+/''"

definition b64_digit :: "nat \<Rightarrow> char" where "b64_digit n = b64_alphabet ! n"

definition b64_value :: "char \<Rightarrow> nat option" where
  "b64_value c = map_of (zip b64_alphabet [0..<64]) c"

fun b64_bytes :: "nat list \<Rightarrow> string" where
  "b64_bytes [] = []"
| "b64_bytes [a] = [b64_digit (a div 4), b64_digit (a mod 4 * 16), CHR ''='', CHR ''='']"
| "b64_bytes [a, b] = [b64_digit (a div 4), b64_digit (a mod 4 * 16 + b div 16),
     b64_digit (b mod 16 * 4), CHR ''='']"
| "b64_bytes (a # b # c # r) = b64_digit (a div 4) # b64_digit (a mod 4 * 16 + b div 16) #
     b64_digit (b mod 16 * 4 + c div 64) # b64_digit (c mod 64) # b64_bytes r"

definition b64_encode :: "string \<Rightarrow> string" where "b64_encode s = b64_bytes (map of_char s)"

fun b64_quanta :: "string \<Rightarrow> nat list option" where
  "b64_quanta [] = Some []"
| "b64_quanta (p # q # r # s # t) = (case (b64_value p, b64_value q) of
     (Some a, Some b) \<Rightarrow> (case b64_value r of
         None \<Rightarrow> if r = CHR ''='' \<and> s = CHR ''='' \<and> t = [] then Some [a * 4 + b div 16] else None
       | Some c \<Rightarrow> (case b64_value s of
           None \<Rightarrow> if s = CHR ''='' \<and> t = [] then Some [a * 4 + b div 16, b mod 16 * 16 + c div 4] else None
         | Some d \<Rightarrow> map_option (\<lambda>x. (a * 4 + b div 16) # (b mod 16 * 16 + c div 4) # (c mod 4 * 64 + d) # x)
                      (b64_quanta t)))
   | _ \<Rightarrow> None)"
| "b64_quanta _ = None"

definition b64_decode :: "string \<Rightarrow> string option" where
  "b64_decode s = map_option (map char_of) (b64_quanta (filter (\<lambda>c. c \<notin> {CHR 0x0A, CHR 0x0D}) s))"

lemma b64_alphabet_facts: "distinct b64_alphabet" "length b64_alphabet = 64"
    "CHR ''='' \<notin> set b64_alphabet" "CHR 0x0A \<notin> set b64_alphabet" "CHR 0x0D \<notin> set b64_alphabet"
  by code_simp+

lemma b64_value_digit [simp]: "n < 64 \<Longrightarrow> b64_value (b64_digit n) = Some n"
  by (simp add: b64_value_def b64_digit_def b64_alphabet_facts map_of_zip_nth)

lemma b64_value_pad [simp]: "b64_value CHR ''='' = None"
  using b64_alphabet_facts(2,3)
  by (auto simp: b64_value_def map_of_eq_None_iff dest: set_zip_leftD)

lemma b64_quanta_bytes: "\<forall>n\<in>set ns. n < 256 \<Longrightarrow> b64_quanta (b64_bytes ns) = Some ns"
proof (induction ns rule: b64_bytes.induct)
  case (4 a b c r)
  then have "a div 4 < 64" "a mod 4 * 16 + b div 16 < 64" "b mod 16 * 4 + c div 64 < 64" "c mod 64 < 64"
    by (auto; linarith)+
  moreover have "(b mod 16 * 4 + c div 64) mod 4 * 64 + c mod 64 = c"
    using 4 by (auto; presburger)
  ultimately show ?case using 4 by (auto; presburger)
next
  case (3 a b)
  then have "a div 4 < 64" "a mod 4 * 16 + b div 16 < 64" "b mod 16 * 4 < 64" by (auto; linarith)+
  then show ?case using 3 by (auto; presburger)
next
  case (2 a)
  then have "a div 4 < 64" "a mod 4 * 16 < 64" by (auto; linarith)+
  then show ?case by auto
qed simp

lemma b64_digit_set: "n < 64 \<Longrightarrow> b64_digit n \<in> set b64_alphabet"
  by (simp add: b64_digit_def b64_alphabet_facts)

lemma b64_bytes_chars: "\<forall>n\<in>set ns. n < 256 \<Longrightarrow> set (b64_bytes ns) \<subseteq> insert CHR ''='' (set b64_alphabet)"
proof (induction ns rule: b64_bytes.induct)
  case (4 a b c r)
  have "a div 4 < 64" "a mod 4 * 16 + b div 16 < 64" "b mod 16 * 4 + c div 64 < 64" "c mod 64 < 64"
    using 4 by (auto; linarith)+
  then show ?case using 4 by (auto simp: b64_digit_set)
next
  case (3 a b)
  then have "a div 4 < 64" "a mod 4 * 16 + b div 16 < 64" "b mod 16 * 4 < 64" by (auto; linarith)+
  then show ?case by (auto simp: b64_digit_set)
next
  case (2 a)
  then have "a div 4 < 64" "a mod 4 * 16 < 64" by (auto; linarith)+
  then show ?case by (auto simp: b64_digit_set)
qed simp

lemma b64_decode_encode: "b64_decode (b64_encode s) = Some s"
proof -
  let ?ns = "map of_char s :: nat list"
  have lt: "\<forall>n\<in>set ?ns. n < 256" by auto
  have "filter (\<lambda>c. c \<notin> {CHR 0x0A, CHR 0x0D}) (b64_bytes ?ns) = b64_bytes ?ns"
    using b64_bytes_chars [OF lt] b64_alphabet_facts(4,5) by (intro filter_True) fastforce
  then show ?thesis
    by (simp add: b64_decode_def b64_encode_def b64_quanta_bytes [OF lt] comp_def)
qed

subsection \<open>Files\<close>

text \<open>\<open>decoded_content\<close>: a content marked base64 is decoded, and kept as it is when it is not.\<close>

definition decoded_content :: "json \<Rightarrow> string" where
  "decoded_content raw = (let content = jstr (jget raw ''content'') in
     if jstr (jget raw ''encoding'') = ''base64''
     then (case b64_decode content of Some b \<Rightarrow> b | None \<Rightarrow> content) else content)"

definition contents_path :: "string \<Rightarrow> string \<Rightarrow> string \<Rightarrow> string" where
  "contents_path org repo path = repo_path org repo @ ''/contents/'' @ encPath path"

definition ref_query :: "string \<Rightarrow> query" where
  "ref_query r = (if r \<noteq> [] then [(''ref'', r)] else [])"

definition git_ReadBlob ::
  "'s fclient \<Rightarrow> string \<Rightarrow> string \<Rightarrow> string \<Rightarrow> string \<Rightarrow> ('s, gerr, string \<times> string) act" where
  "git_ReadBlob c org repo r path =
     bnd (do_map c ''GET'' (contents_path org repo path) (ref_query r) None)
       (\<lambda>raw. ret (decoded_content raw, jstr (jget raw ''sha'')))"

record content_entry =
  ce_path :: string
  ce_name :: string
  ce_type :: string
  ce_size :: int
  ce_sha :: string

record contents_res =
  ct_dir :: bool
  ct_text :: string
  ct_sha :: string
  ct_size :: int
  ct_entries :: "content_entry list"

definition content_entry_of :: "json \<Rightarrow> content_entry" where
  "content_entry_of m =
     \<lparr>ce_path = jstr (jget m ''path''), ce_name = jstr (jget m ''name''), ce_type = jstr (jget m ''type''),
      ce_size = jnum (jget m ''size''), ce_sha = jstr (jget m ''sha'')\<rparr>"

definition contents_of :: "json \<Rightarrow> contents_res" where
  "contents_of raw = (case raw of
      JArr arr \<Rightarrow> \<lparr>ct_dir = True, ct_text = [], ct_sha = [], ct_size = 0, ct_entries = map content_entry_of arr\<rparr>
    | m \<Rightarrow> if jstr (jget m ''type'') = ''dir''
           then \<lparr>ct_dir = True, ct_text = [], ct_sha = [], ct_size = 0, ct_entries = []\<rparr>
           else \<lparr>ct_dir = False, ct_text = decoded_content m, ct_sha = jstr (jget m ''sha''),
                 ct_size = jnum (jget m ''size''), ct_entries = []\<rparr>)"

definition git_Contents ::
  "'s fclient \<Rightarrow> string \<Rightarrow> string \<Rightarrow> string \<Rightarrow> string \<Rightarrow> ('s, gerr, contents_res) act" where
  "git_Contents c org repo r path =
     bnd (do_any c ''GET'' (contents_path org repo path) (ref_query r) None) (\<lambda>raw. ret (contents_of raw))"

subsection \<open>Comparisons\<close>

text \<open>Decoding into a struct: a field of the wrong kind is an error, a missing one the zero value.\<close>

definition field_str :: "json \<Rightarrow> string \<Rightarrow> string + string" where
  "field_str m k = (case jget m k of JStr s \<Rightarrow> Inr s | JNull \<Rightarrow> Inr [] | _ \<Rightarrow> Inl unmarshal_error)"

definition field_int :: "json \<Rightarrow> string \<Rightarrow> string + int" where
  "field_int m k = (case jget m k of JNum n \<Rightarrow> Inr n | JNull \<Rightarrow> Inr 0 | _ \<Rightarrow> Inl unmarshal_error)"

record compare_patch =
  cf_path :: string
  cf_status :: string
  cf_add :: int
  cf_del :: int
  cf_patch :: string

definition as_patch :: "json \<Rightarrow> string + compare_patch" where
  "as_patch m = (case (field_str m ''filename'', field_str m ''status'', field_int m ''additions'',
      field_int m ''deletions'', field_str m ''patch'') of
     (Inr p, Inr st, Inr a, Inr d, Inr pt) \<Rightarrow>
        Inr \<lparr>cf_path = p, cf_status = st, cf_add = a, cf_del = d, cf_patch = pt\<rparr>
   | _ \<Rightarrow> Inl unmarshal_error)"

definition as_list :: "(json \<Rightarrow> string + 'a) \<Rightarrow> json \<Rightarrow> string + 'a list" where
  "as_list f j = (case as_rows j of Inl e \<Rightarrow> Inl e | Inr rows \<Rightarrow> all_right (map f rows))"

definition as_struct :: "string \<Rightarrow> (json \<Rightarrow> string + 'a) \<Rightarrow> json \<Rightarrow> string + 'a" where
  "as_struct k f j = (case as_map j of Inl e \<Rightarrow> Inl e | Inr m \<Rightarrow> f (jget m k))"

definition compare_path :: "string \<Rightarrow> string \<Rightarrow> string \<Rightarrow> string \<Rightarrow> string" where
  "compare_path org repo base head = repo_path org repo @ ''/compare/'' @ seg base @ ''...'' @ seg head"

definition git_Compare ::
  "'s fclient \<Rightarrow> string \<Rightarrow> string \<Rightarrow> string \<Rightarrow> string \<Rightarrow> ('s, gerr, compare_patch list) act" where
  "git_Compare c org repo base head =
     bnd (fg_do c ''GET'' (compare_path org repo base head) [] None)
       (decode_with (as_struct ''files'' (as_list as_patch)))"

definition git_CompareFiles ::
  "'s fclient \<Rightarrow> string \<Rightarrow> string \<Rightarrow> string \<Rightarrow> string \<Rightarrow> ('s, gerr, string list) act" where
  "git_CompareFiles c org repo base head =
     bnd (bnd (fg_do c ''GET'' (compare_path org repo base head) [] None)
            (decode_with (as_struct ''files'' (as_list (\<lambda>m. field_str m ''filename'')))))
       (\<lambda>names. ret (filter (\<lambda>n. n \<noteq> []) names))"

subsection \<open>Committing\<close>

text \<open>\<open>co_bytes\<close>: the byte content wins over the text when it is not nil.\<close>

record commit_op =
  co_path :: string
  co_op :: string
  co_content :: string
  co_bytes :: "string option"
  co_sha :: string
  co_from :: string

definition commit_bytes :: "commit_op \<Rightarrow> string" where
  "commit_bytes f = (case co_bytes f of Some b \<Rightarrow> b | None \<Rightarrow> co_content f)"

definition commit_body :: "commit_op \<Rightarrow> json" where
  "commit_body f = (let op = (if co_op f = [] then ''update'' else co_op f) in
     JObj ([(''operation'', JStr op), (''path'', JStr (co_path f))] @
           (if op \<noteq> ''delete'' then [(''content'', JStr (b64_encode (commit_bytes f)))] else []) @
           opt_field ''sha'' (co_sha f) @ opt_field ''from_path'' (co_from f)))"

definition git_CommitFiles ::
  "'s fclient \<Rightarrow> string \<Rightarrow> string \<Rightarrow> string \<Rightarrow> string \<Rightarrow> string \<Rightarrow> commit_op list \<Rightarrow> ('s, gerr, string) act" where
  "git_CommitFiles c org repo message r newBranch files =
     bnd (do_map c ''POST'' (repo_path org repo @ ''/contents'') []
            (Some (JObj ([(''message'', JStr message), (''files'', JArr (map commit_body files))] @
                         opt_field ''branch'' r @ opt_field ''new_branch'' newBranch))))
       (\<lambda>out. ret (case jget out ''commit'' of JObj kvs \<Rightarrow> jstr (jget (JObj kvs) ''sha'')
                 | _ \<Rightarrow> jstr (jget out ''commit_id'')))"

subsection \<open>Releases\<close>

record release_asset =
  ra_id :: int
  ra_name :: string
  ra_size :: int
  ra_count :: int

record fj_release =
  rel_id :: int
  rel_tag :: string
  rel_name :: string
  rel_body :: string
  rel_draft :: bool
  rel_pre :: bool
  rel_author :: string
  rel_created :: string
  rel_published :: string
  rel_url :: string
  rel_assets :: "release_asset list"

definition releaseFromJSON :: "json \<Rightarrow> fj_release" where
  "releaseFromJSON r =
    \<lparr>rel_id = jnum (jget r ''id''), rel_tag = jstr (jget r ''tag_name''), rel_name = jstr (jget r ''name''),
     rel_body = jstr (jget r ''body''), rel_draft = jbool (jget r ''draft''), rel_pre = jbool (jget r ''prerelease''),
     rel_author = jstr (jget (jget r ''author'') ''login''), rel_created = jstr (jget r ''created_at''),
     rel_published = jstr (jget r ''published_at''), rel_url = jstr (jget r ''html_url''),
     rel_assets = map (\<lambda>am. \<lparr>ra_id = jnum (jget am ''id''), ra_name = jstr (jget am ''name''),
         ra_size = jnum (jget am ''size''), ra_count = jnum (jget am ''download_count'')\<rparr>)
       (jarr (jget r ''assets''))\<rparr>"

definition git_ListReleases :: "'s fclient \<Rightarrow> string \<Rightarrow> string \<Rightarrow> ('s, gerr, fj_release list) act" where
  "git_ListReleases c org repo =
     bnd (do_rows c ''GET'' (repo_path org repo @ ''/releases'') [(''limit'', ''50'')] None)
       (\<lambda>rows. ret (map releaseFromJSON rows))"

definition git_GetReleaseAsset ::
  "'s fclient \<Rightarrow> string \<Rightarrow> string \<Rightarrow> int \<Rightarrow> int \<Rightarrow> ('s, gerr, string \<times> string \<times> string) act" where
  "git_GetReleaseAsset c org repo releaseID assetID =
     bnd (do_map c ''GET'' (repo_path org repo @ ''/releases/'' @ int_str releaseID @ ''/assets/'' @ int_str assetID) [] None)
       (\<lambda>meta. let name = jstr (jget meta ''name''); dl = jstr (jget meta ''browser_download_url'') in
         if dl = [] then throw (GOther (''release asset '' @ int_str assetID @ '' has no download url'')) else
         bnd (fetch c dl dl (failed (''asset download '' @ int_str assetID)))
           (\<lambda>rs. ret (rs_body rs, name, rs_ctype rs)))"

subsection \<open>Packages and repositories\<close>

record package =
  pk_owner :: string
  pk_name :: string
  pk_tag :: string

definition package_query :: "nat \<Rightarrow> query" where
  "package_query page = [(''type'', ''container''), (''limit'', nat_str 50), (''page'', nat_str page)]"

text \<open>The page loop: \<open>left\<close> of the hundred pages are still allowed.\<close>

fun package_pages ::
  "(nat \<Rightarrow> ('s, gerr, json list) act) \<Rightarrow> nat \<Rightarrow> nat \<Rightarrow> ('s, gerr, json list) act" where
  "package_pages get page 0 = ret []"
| "package_pages get page (Suc left) =
     bnd (get page) (\<lambda>rows. if length rows < 50 then ret rows
       else bnd (package_pages get (Suc page) left) (\<lambda>rest. ret (rows @ rest)))"

definition package_of :: "string \<Rightarrow> json \<Rightarrow> package" where
  "package_of owner r = \<lparr>pk_owner = owner, pk_name = jstr (jget r ''name''), pk_tag = jstr (jget r ''version'')\<rparr>"

definition git_ListContainerPackages ::
  "'s fclient \<Rightarrow> string \<Rightarrow> string \<Rightarrow> ('s, gerr, package list) act" where
  "git_ListContainerPackages c owner name =
     bnd (package_pages (\<lambda>page. do_rows c ''GET'' (''/packages/'' @ seg owner) (package_query page) None) 1 100)
       (\<lambda>rows. ret (filter (\<lambda>p. name = [] \<or> pk_name p = name) (map (package_of owner) rows)))"

definition git_ListRepos :: "'s fclient \<Rightarrow> ('s, gerr, repo_info list) act" where
  "git_ListRepos c =
     bnd (bnd (fg_do c ''GET'' ''/repos/search'' [(''limit'', ''50'')] None) (decode_with (as_struct ''data'' as_rows)))
       (\<lambda>rows. ret (map (\<lambda>r. \<lparr>ri_org = jstr (jget (jget r ''owner'') ''login''), ri_repo = jstr (jget r ''name''),
            ri_default = jstr (jget r ''default_branch''), ri_private = jbool (jget r ''private''), ri_empty = False\<rparr>) rows))"

end
