(* ===== verification/Registry.thy ===== *)
theory Registry
  imports ForgejoFiles
begin

text \<open>
  Package \<^verbatim>\<open>internal/registry\<close>: listing container images through the OCI distribution API.  The
  registry and \<^verbatim>\<open>url.Parse\<close> are parameters.  Both listings follow the registry's \<^verbatim>\<open>Link\<close> headers with
  no bound of their own, so they take fuel: \<open>fuel\<close> pages are fetched at most, and running out of it is
  a panic that no run of the code has.  A registry whose chain of pages is finite needs as much fuel
  as the chain is long.
\<close>

record rg_req =
  gq_url :: string
  gq_auth :: "(string \<times> string) option"

record rg_resp =
  gr_code :: int
  gr_status :: string
  gr_json :: "string + json"
  gr_link :: string

record 's registry =
  rg_host :: string
  rg_scheme :: string
  rg_user :: string
  rg_pass :: string
  rg_http :: "rg_req \<Rightarrow> 's \<Rightarrow> (string + rg_resp) \<times> 's"
  rg_parse :: "string \<Rightarrow> (string \<times> query) option"

record oci_image =
  oi_owner :: string
  oi_name :: string
  oi_tag :: string

definition rg_effective_scheme :: "'s registry \<Rightarrow> string" where
  "rg_effective_scheme r = (if rg_scheme r \<noteq> [] then rg_scheme r else ''https'')"

definition trim_set :: "char list \<Rightarrow> string \<Rightarrow> string" where
  "trim_set cs s = trim_right_when (\<lambda>c. c \<in> set cs) (trim_left_when (\<lambda>c. c \<in> set cs) s)"

definition rg_request :: "'s registry \<Rightarrow> string \<Rightarrow> query \<Rightarrow> rg_req" where
  "rg_request r path q =
    \<lparr>gq_url = rg_effective_scheme r @ ''://'' @ trim_right_when (\<lambda>c. c = CHR ''/'') (rg_host r) @ path @
        (if q \<noteq> [] then ''?'' @ encode_query q else []),
     gq_auth = (if rg_user r \<noteq> [] \<or> rg_pass r \<noteq> [] then Some (rg_user r, rg_pass r) else None)\<rparr>"

definition rg_get ::
  "'s registry \<Rightarrow> (json \<Rightarrow> string + 'a) \<Rightarrow> string \<Rightarrow> query \<Rightarrow> ('s, string, 'a \<times> string) act" where
  "rg_get r dec path q =
     bnd (of_sum (rg_http r (rg_request r path q))) (\<lambda>rs.
       if gr_code rs \<noteq> 200 then throw (''registry GET '' @ path @ '': '' @ gr_status rs)
       else case gr_json rs of Inl e \<Rightarrow> throw e
         | Inr j \<Rightarrow> (case dec j of Inl e \<Rightarrow> throw e | Inr x \<Rightarrow> ret (x, gr_link rs)))"

text \<open>The \<^verbatim>\<open>rel="next"\<close> address of a \<^verbatim>\<open>Link\<close> header.\<close>

definition rel_next :: string where
  "rel_next = ''rel='' @ [CHR 0x22] @ ''next'' @ [CHR 0x22]"

fun next_of :: "string list \<Rightarrow> string" where
  "next_of [] = []"
| "next_of (part # parts) = (case split_at CHR '';'' part of
     a # b # _ \<Rightarrow> if contains b rel_next then trim_set ''<>'' (trim_space a) else next_of parts
   | _ \<Rightarrow> next_of parts)"

definition nextLink :: "string \<Rightarrow> string" where
  "nextLink header = next_of (split_at CHR '','' header)"

definition splitRelative :: "'s registry \<Rightarrow> string \<Rightarrow> string \<times> query" where
  "splitRelative r ref = (case rg_parse r ref of Some (p, q) \<Rightarrow> (p, q) | None \<Rightarrow> (ref, []))"

definition as_strings :: "json \<Rightarrow> string + string list" where
  "as_strings j = (case j of JNull \<Rightarrow> Inr []
     | JArr xs \<Rightarrow> all_right (map (\<lambda>x. case x of JStr s \<Rightarrow> Inr s | JNull \<Rightarrow> Inr [] | _ \<Rightarrow> Inl unmarshal_error) xs)
     | _ \<Rightarrow> Inl unmarshal_error)"

fun rg_pages ::
  "'s registry \<Rightarrow> string \<Rightarrow> nat \<Rightarrow> string \<times> query \<Rightarrow> ('s, string, string list) act" where
  "rg_pages r field 0 at = panic ''out of fuel''"
| "rg_pages r field (Suc fuel) at =
     bnd (rg_get r (as_struct field as_strings) (fst at) (snd at)) (\<lambda>(xs, link).
       let next = nextLink link in
       if next = [] then ret xs
       else bnd (rg_pages r field fuel (splitRelative r next)) (\<lambda>rest. ret (xs @ rest)))"

definition rg_catalog :: "'s registry \<Rightarrow> nat \<Rightarrow> ('s, string, string list) act" where
  "rg_catalog r fuel = rg_pages r ''repositories'' fuel (''/v2/_catalog'', [(''n'', ''1000'')])"

definition rg_tags :: "'s registry \<Rightarrow> nat \<Rightarrow> string \<Rightarrow> ('s, string, string list) act" where
  "rg_tags r fuel repo =
     rg_pages r ''tags'' fuel (''/v2/'' @ trim_set ''/'' repo @ ''/tags/list'', [(''n'', ''1000'')])"

definition image_name :: "string \<Rightarrow> string \<Rightarrow> string \<Rightarrow> string option" where
  "image_name owner name full =
    (let prefix' = trim_set ''/'' owner @ ''/'' in
     if \<not> has_prefix full prefix' then None else
     let img = trim_prefix full prefix' in
     if img = [] \<or> (name \<noteq> [] \<and> img \<noteq> name) then None else Some img)"

definition repo_images ::
  "'s registry \<Rightarrow> nat \<Rightarrow> string \<Rightarrow> string \<Rightarrow> string \<Rightarrow> ('s, string, oci_image list) act" where
  "repo_images r fuel owner name full = (case image_name owner name full of None \<Rightarrow> ret []
     | Some img \<Rightarrow> bnd (rg_tags r fuel full) (\<lambda>ts.
         ret (map (\<lambda>t. \<lparr>oi_owner = owner, oi_name = img, oi_tag = t\<rparr>)
                (filter (\<lambda>t. \<not> has_prefix t ''sha256:'') ts))))"

definition rg_ListImages ::
  "'s registry \<Rightarrow> nat \<Rightarrow> string \<Rightarrow> string \<Rightarrow> ('s, string, oci_image list) act" where
  "rg_ListImages r fuel owner name =
     bnd (rg_catalog r fuel) (\<lambda>repos.
     bnd (collect (repo_images r fuel owner name) repos) (\<lambda>imgs.
       ret (sort_by oi_name (sort_by oi_tag (concat imgs)))))"

subsection \<open>A registry that serves its pages\<close>

text \<open>\<open>chain r field at xs n\<close>: asked at \<open>at\<close>, the registry serves the list \<open>xs\<close> in \<open>n\<close> pages, the last
  one without a link to another.\<close>

definition page_of :: "string \<Rightarrow> string list \<Rightarrow> json" where
  "page_of field xs = JObj [(field, JArr (map JStr xs))]"

inductive chain :: "'s registry \<Rightarrow> string \<Rightarrow> string \<times> query \<Rightarrow> string list \<Rightarrow> nat \<Rightarrow> bool" where
  last: "(\<And>s. rg_http r (rg_request r (fst at) (snd at)) s = (Inr rs, s)) \<Longrightarrow> gr_code rs = 200 \<Longrightarrow>
     gr_json rs = Inr (page_of field xs) \<Longrightarrow> nextLink (gr_link rs) = [] \<Longrightarrow> chain r field at xs 1"
| more: "(\<And>s. rg_http r (rg_request r (fst at) (snd at)) s = (Inr rs, s)) \<Longrightarrow> gr_code rs = 200 \<Longrightarrow>
     gr_json rs = Inr (page_of field xs) \<Longrightarrow> nextLink (gr_link rs) = nx \<Longrightarrow> nx \<noteq> [] \<Longrightarrow>
     chain r field (splitRelative r nx) ys n \<Longrightarrow> chain r field at (xs @ ys) (Suc n)"

lemma as_strings_page: "as_struct field as_strings (page_of field xs) = Inr xs"
proof -
  have "all_right (map ((\<lambda>x. case x of JStr s \<Rightarrow> Inr s | JNull \<Rightarrow> Inr [] | _ \<Rightarrow> Inl unmarshal_error) \<circ> JStr) xs) = Inr xs"
    by (induction xs) auto
  then show ?thesis
    by (simp add: as_struct_def page_of_def as_map_def jget_def as_strings_def)
qed

lemma rg_get_page:
  assumes "rg_http r (rg_request r (fst at) (snd at)) s = (Inr rs, s)" "gr_code rs = 200"
    "gr_json rs = Inr (page_of field xs)"
  shows "rg_get r (as_struct field as_strings) (fst at) (snd at) s = (Ok (xs, gr_link rs), s)"
  using assms by (simp add: rg_get_def bnd_cases of_sum_def as_strings_page act)

lemma rg_pages_chain: "chain r field at xs n \<Longrightarrow> n \<le> fuel \<Longrightarrow> rg_pages r field fuel at s = (Ok xs, s)"
proof (induction arbitrary: fuel s rule: chain.induct)
  case (last r at rs field xs)
  then obtain f where f: "fuel = Suc f" by (cases fuel) auto
  moreover have "rg_get r (as_struct field as_strings) (fst at) (snd at) s = (Ok (xs, gr_link rs), s)"
    by (rule rg_get_page [OF last.hyps(1-3)])
  ultimately show ?case
    using last.hyps(4) by (simp add: bnd_cases act)
next
  case (more r at rs field xs nx ys n)
  from more.prems obtain f where f: "fuel = Suc f" "n \<le> f" by (cases fuel) auto
  have rest: "rg_pages r field f (splitRelative r nx) s = (Ok ys, s)" by (rule more.IH [OF f(2)])
  moreover have "rg_get r (as_struct field as_strings) (fst at) (snd at) s = (Ok (xs, gr_link rs), s)"
    by (rule rg_get_page [OF more.hyps(1-3)])
  ultimately show ?case
    using f(1) more.hyps(4,5) by (simp add: bnd_cases act)
qed

text \<open>What the registry holds: the repositories of the catalog and the tags of each.\<close>

definition registry_serves :: "'s registry \<Rightarrow> nat \<Rightarrow> string list \<Rightarrow> (string \<Rightarrow> string list) \<Rightarrow> bool" where
  "registry_serves r fuel repos tags =
     ((\<exists>n\<le>fuel. chain r ''repositories'' (''/v2/_catalog'', [(''n'', ''1000'')]) repos n) \<and>
      (\<forall>full\<in>set repos. \<exists>n\<le>fuel. chain r ''tags'' (''/v2/'' @ trim_set ''/'' full @ ''/tags/list'', [(''n'', ''1000'')])
         (tags full) n))"

definition image_key :: "oci_image \<Rightarrow> string \<times> string" where "image_key i = (oi_name i, oi_tag i)"

lemma ListImages_serves:
  assumes "registry_serves r fuel repos tags"
  shows "rg_ListImages r fuel owner name s =
    (Ok (sort_by oi_name (sort_by oi_tag (concat (map (\<lambda>full. case image_name owner name full of None \<Rightarrow> []
        | Some img \<Rightarrow> map (\<lambda>t. \<lparr>oi_owner = owner, oi_name = img, oi_tag = t\<rparr>)
            (filter (\<lambda>t. \<not> has_prefix t ''sha256:'') (tags full))) repos)))), s)"
proof -
  have cat: "rg_catalog r fuel s = (Ok repos, s)" for s
    using assms rg_pages_chain [of r "''repositories''" _ repos _ fuel s]
    by (auto simp: registry_serves_def rg_catalog_def)
  have tags: "rg_tags r fuel full s = (Ok (tags full), s)" if "full \<in> set repos" for full s
    using assms that rg_pages_chain [of r "''tags''" _ "tags full" _ fuel s]
    by (auto simp: registry_serves_def rg_tags_def)
  let ?g = "\<lambda>full. case image_name owner name full of None \<Rightarrow> []
      | Some img \<Rightarrow> map (\<lambda>t. \<lparr>oi_owner = owner, oi_name = img, oi_tag = t\<rparr>)
          (filter (\<lambda>t. \<not> has_prefix t ''sha256:'') (tags full))"
  have one: "repo_images r fuel owner name full s = (Ok (?g full), s)" if "full \<in> set repos" for full s
    using tags [OF that, of s] by (cases "image_name owner name full") (auto simp: repo_images_def bnd_cases act)
  have all: "collect (repo_images r fuel owner name) repos s = (Ok (map ?g repos), s)"
    by (rule collect_pure) (rule one)
  show ?thesis
    by (simp add: rg_ListImages_def bnd_cases cat all act)
qed

end
