(* ===== verification/GitImport.thy ===== *)
theory GitImport
  imports GitCommit
begin

text \<open>
  Package \<^verbatim>\<open>internal/gitimport\<close>: copying one ref of an external repository to \<^verbatim>\<open>main\<close> of a repository
  of the git host.  The go-git library and the directory below the bare clone are a parameter
  (\<open>importer\<close>); a fetch or push that finds everything up to date counts as a success, as in the code.
\<close>

record remote_ref =
  rf_name :: string
  rf_target :: "string option"

text \<open>\<open>rf_target\<close>: the target of a symbolic reference.\<close>

record import_opts =
  im_source :: string
  im_dest :: string
  im_user :: string
  im_token :: string
  im_suser :: string
  im_stoken :: string
  im_ref :: string

record import_result =
  is_default :: string
  is_branches :: "string list"
  is_source :: string
  is_bytes :: int

type_synonym git_auth = "(string \<times> string) option"

record 's importer =
  ig_newdir :: "'s \<Rightarrow> (string + string) \<times> 's"
  ig_rmall :: "string \<Rightarrow> 's \<Rightarrow> 's"
  ig_init :: "string \<Rightarrow> 's \<Rightarrow> (string + unit) \<times> 's"
  ig_remote :: "string \<Rightarrow> string \<Rightarrow> string \<Rightarrow> 's \<Rightarrow> (string + unit) \<times> 's"
  ig_list :: "string \<Rightarrow> string \<Rightarrow> git_auth \<Rightarrow> 's \<Rightarrow> (string + remote_ref list) \<times> 's"
  ig_fetch :: "string \<Rightarrow> string \<Rightarrow> string list \<Rightarrow> git_auth \<Rightarrow> 's \<Rightarrow> (string + unit) \<times> 's"
  ig_resolve :: "string \<Rightarrow> string \<Rightarrow> 's \<Rightarrow> string option"
  ig_push :: "string \<Rightarrow> string \<Rightarrow> string \<Rightarrow> git_auth \<Rightarrow> 's \<Rightarrow> (string + unit) \<times> 's"
  ig_size :: "string \<Rightarrow> 's \<Rightarrow> int option"

text \<open>The directory, the name or address of a remote, then the arguments.  \<open>ig_size\<close> is the size
  \<^verbatim>\<open>os.Stat\<close> reports for the directory itself.\<close>

definition sourceAuth :: "string \<Rightarrow> string \<Rightarrow> git_auth" where
  "sourceAuth user token = (if token = [] then None else Some (if user = [] then ''git'' else user, token))"

definition head_of :: "remote_ref list \<Rightarrow> string" where
  "head_of refs = (case find (\<lambda>r. rf_name r = ''HEAD'' \<and> rf_target r \<noteq> None) refs of
      Some r \<Rightarrow> trim_prefix (the (rf_target r)) ''refs/heads/'' | None \<Rightarrow> [])"

definition remoteHead :: "'s importer \<Rightarrow> string \<Rightarrow> string \<Rightarrow> git_auth \<Rightarrow> ('s, string, string) act" where
  "remoteHead g dir url auth = bnd (of_sum (ig_list g dir url auth)) (\<lambda>refs. ret (head_of refs))"

definition resolveSourceRef ::
  "'s importer \<Rightarrow> string \<Rightarrow> string \<Rightarrow> string \<Rightarrow> ('s, string, string \<times> string) act" where
  "resolveSourceRef g dir headBranch ref0 =
    (let ref = (if ref0 = [] then headBranch else ref0) in
     if ref = [] then throw ''source repository has no branches'' else
     (\<lambda>s. case ig_resolve g dir (''refs/heads/'' @ ref) s of Some c \<Rightarrow> (Ok (ref, c), s)
        | None \<Rightarrow> (case ig_resolve g dir (''refs/tags/'' @ ref) s of Some c \<Rightarrow> (Ok (ref, c), s)
        | None \<Rightarrow> (case ig_resolve g dir ref s of Some c \<Rightarrow> (Ok (ref, c), s)
        | None \<Rightarrow> (Fail (''ref '' @ go_quote ref @ '' not found in the source repository''), s)))))"

definition mainBranch :: string where "mainBranch = ''main''"

definition import_refspecs :: "string list" where
  "import_refspecs = [''+refs/heads/*:refs/heads/*'', ''+refs/tags/*:refs/tags/*'']"

definition import_push_spec :: "string \<Rightarrow> string" where
  "import_push_spec commit = ''+'' @ commit @ '':refs/heads/'' @ mainBranch"

definition wrapped :: "string \<Rightarrow> ('s, string, 'a) act \<Rightarrow> ('s, string, 'a) act" where
  "wrapped what m = map_err (\<lambda>e. what @ '': '' @ e) m"

definition Import :: "'s importer \<Rightarrow> import_opts \<Rightarrow> ('s, string, import_result) act" where
  "Import g opt =
    (if im_source opt = [] then throw ''source url is required''
     else if im_dest opt = [] then throw ''destination url is required'' else
     let auth = sourceAuth (im_suser opt) (im_stoken opt) in
     bnd (of_sum (ig_newdir g)) (\<lambda>dir. deferring (ig_rmall g dir)
      (bnd (wrapped ''init bare clone'' (of_sum (ig_init g dir))) (\<lambda>_.
       bnd (wrapped ''add source remote'' (of_sum (ig_remote g dir ''src'' (im_source opt)))) (\<lambda>_.
       bnd (wrapped ''read source HEAD'' (remoteHead g dir (im_source opt) auth)) (\<lambda>defaultBranch.
       bnd (wrapped (''fetch '' @ im_source opt) (of_sum (ig_fetch g dir (im_source opt) import_refspecs auth))) (\<lambda>_.
       bnd (resolveSourceRef g dir defaultBranch (im_ref opt)) (\<lambda>(sourceRef, commit).
       bnd (wrapped ''add dest remote'' (of_sum (ig_remote g dir ''dst'' (im_dest opt)))) (\<lambda>_.
       bnd (wrapped ''push to destination''
              (of_sum (ig_push g dir (im_dest opt) (import_push_spec commit) (Some (im_user opt, im_token opt))))) (\<lambda>_.
       bnd (pure_of (\<lambda>s. case ig_size g dir s of Some n \<Rightarrow> n | None \<Rightarrow> 0)) (\<lambda>size.
       ret \<lparr>is_default = mainBranch, is_branches = [mainBranch], is_source = sourceRef, is_bytes = size\<rparr>)))))))))))"

subsection \<open>Properties\<close>

text \<open>What a run that succeeds has done, step by step.\<close>

lemma bnd_Ok_iff: "bnd m k s = (Ok y, s') \<longleftrightarrow> (\<exists>x s1. m s = (Ok x, s1) \<and> k x s1 = (Ok y, s'))"
  by (auto simp: bnd_def split: prod.splits res.splits)
lemma of_sum_Ok: "of_sum f s = (Ok x, s') \<longleftrightarrow> f s = (Inr x, s')"
  by (auto simp: of_sum_def split: prod.splits sum.splits)
lemma map_err_Ok: "map_err f m s = (Ok x, s') \<longleftrightarrow> m s = (Ok x, s')"
  by (auto simp: map_err_def split: prod.splits res.splits)
lemma deferring_Ok: "deferring f m s = (Ok x, s') \<longleftrightarrow> (\<exists>s1. m s = (Ok x, s1) \<and> s' = f s1)"
  by (auto simp: deferring_def split: prod.splits)
lemma ret_Ok: "ret x s = (Ok y, s') \<longleftrightarrow> y = x \<and> s' = s" by (auto simp: act)
lemma throw_Ok: "throw e s = (Ok y, s') \<longleftrightarrow> False" by (simp add: act)
lemma panic_Ok: "panic e s = (Ok y, s') \<longleftrightarrow> False" by (simp add: act)
lemma pure_of_Ok: "pure_of f s = (Ok y, s') \<longleftrightarrow> y = f s \<and> s' = s" by (auto simp: act)

lemmas ok_iffs = bnd_Ok_iff of_sum_Ok map_err_Ok deferring_Ok ret_Ok throw_Ok panic_Ok pure_of_Ok

lemma resolveSourceRef_Ok:
  assumes "resolveSourceRef g dir hb ref s = (Ok (src, c), s')"
  shows "src = (if ref = [] then hb else ref) \<and> src \<noteq> []"
  using assms by (simp add: resolveSourceRef_def Let_def act split: option.splits if_splits)

text \<open>An import that succeeds pushed one commit to \<^verbatim>\<open>main\<close> of the destination with the destination's
  credentials; a named ref is imported under its own name.\<close>

lemma Import_lands_on_main:
  assumes "Import g opt s = (Ok res, s')"
  shows "is_default res = ''main'' \<and> is_branches res = [''main''] \<and> is_source res \<noteq> [] \<and>
    (im_ref opt \<noteq> [] \<longrightarrow> is_source res = im_ref opt) \<and>
    (\<exists>dir commit s1 s2. ig_push g dir (im_dest opt) (import_push_spec commit) (Some (im_user opt, im_token opt)) s1 = (Inr (), s2))"
proof -
  let ?auth = "sourceAuth (im_suser opt) (im_stoken opt)"
  from assms obtain dir hb src commit s1 s2 s3 s4 where
    "resolveSourceRef g dir hb (im_ref opt) s1 = (Ok (src, commit), s2)"
    "ig_push g dir (im_dest opt) (import_push_spec commit) (Some (im_user opt, im_token opt)) s3 = (Inr (), s4)"
    "is_default res = ''main''" "is_branches res = [''main'']" "is_source res = src"
    by (auto simp: Import_def Let_def wrapped_def ok_iffs mainBranch_def split: if_splits)
  with resolveSourceRef_Ok [of g dir hb "im_ref opt" s1 src commit s2] show ?thesis by auto
qed

end
