(* ===== verification/GitDiff.thy ===== *)
theory GitDiff
  imports GitCommit
begin

text \<open>
  Package \<^verbatim>\<open>internal/gitcommit\<close>, its readers: the paths, patches and line counts between two refs, the
  patch of one file, and who wrote each line.  Each clones the repository into a fresh directory
  that is removed on every way out.  go-git below the clone is a parameter (\<open>git_reader\<close>): commits and
  trees are named by their hashes, a tree diff is the list of its changes with the patch of each.
\<close>

datatype chunk_kind = ChEqual | ChAdd | ChDelete

type_synonym chunk = "chunk_kind \<times> string"

record git_change =
  gc_from :: string
  gc_to :: string
  gc_patch :: "string + string \<times> chunk list list"

text \<open>\<open>gc_patch\<close>: the text of the patch and the chunks of its file patches, or why it cannot be made.\<close>

record blame_line =
  bn_line :: int
  bn_sha :: string
  bn_author :: string
  bn_email :: string
  bn_date :: string
  bn_content :: string

text \<open>\<open>rd_revision\<close>, \<open>rd_branch\<close>, \<open>rd_remote\<close> resolve a revision, a name under \<^verbatim>\<open>refs/heads\<close> and one under
  \<^verbatim>\<open>refs/remotes/origin\<close>.\<close>

record 's git_reader =
  rd_newdir :: "string \<Rightarrow> 's \<Rightarrow> (string + string) \<times> 's"
  rd_rmall :: "string \<Rightarrow> 's \<Rightarrow> 's"
  rd_clone :: "string \<Rightarrow> string \<Rightarrow> string \<Rightarrow> string \<Rightarrow> 's \<Rightarrow> (string + unit) \<times> 's"
  rd_revision :: "string \<Rightarrow> string \<Rightarrow> 's \<Rightarrow> string option"
  rd_branch :: "string \<Rightarrow> string \<Rightarrow> 's \<Rightarrow> string option"
  rd_remote :: "string \<Rightarrow> string \<Rightarrow> 's \<Rightarrow> string option"
  rd_commit :: "string \<Rightarrow> string \<Rightarrow> 's \<Rightarrow> string + unit"
  rd_tree :: "string \<Rightarrow> string \<Rightarrow> 's \<Rightarrow> string + string"
  rd_diff :: "string \<Rightarrow> string \<Rightarrow> string \<Rightarrow> 's \<Rightarrow> string + git_change list"
  rd_blame :: "string \<Rightarrow> string \<Rightarrow> string \<Rightarrow> 's \<Rightarrow> string + blame_line list"

definition ask :: "('s \<Rightarrow> string + 'a) \<Rightarrow> ('s, string, 'a) act" where
  "ask f = (\<lambda>s. case f s of Inl e \<Rightarrow> (Fail e, s) | Inr x \<Rightarrow> (Ok x, s))"

fun first_some :: "('a \<Rightarrow> 'b option) list \<Rightarrow> 'a \<Rightarrow> 'b option" where
  "first_some [] s = None"
| "first_some (f # fs) s = (case f s of Some x \<Rightarrow> Some x | None \<Rightarrow> first_some fs s)"

definition resolveCommit :: "'s git_reader \<Rightarrow> string \<Rightarrow> string \<Rightarrow> ('s, string, string) act" where
  "resolveCommit g dir ref = ask (\<lambda>s.
     case first_some [rd_revision g dir ref, rd_branch g dir ref, rd_remote g dir ref,
                      rd_branch g dir (''origin/'' @ ref), rd_remote g dir (''origin/'' @ ref)] s of
       Some h \<Rightarrow> Inr h | None \<Rightarrow> Inl (''unknown ref '' @ go_quote ref))"

definition resolve_at :: "'s git_reader \<Rightarrow> string \<Rightarrow> string \<Rightarrow> ('s, string, string) act" where
  "resolve_at g dir ref = map_err (\<lambda>e. ''resolve '' @ ref @ '': '' @ e) (resolveCommit g dir ref)"

text \<open>A fresh clone for the duration of \<open>k\<close>.\<close>

definition in_clone ::
  "'s git_reader \<Rightarrow> string \<Rightarrow> string \<Rightarrow> string \<Rightarrow> string \<Rightarrow> (string \<Rightarrow> ('s, string, 'a) act) \<Rightarrow> ('s, string, 'a) act" where
  "in_clone g pattern url user token k =
     bnd (of_sum (rd_newdir g pattern)) (\<lambda>dir. deferring (rd_rmall g dir)
       (bnd (of_sum (rd_clone g dir url user token)) (\<lambda>_. k dir)))"

definition tree_changes ::
  "'s git_reader \<Rightarrow> string \<Rightarrow> string \<Rightarrow> string \<Rightarrow> ('s, string, git_change list) act" where
  "tree_changes g dir base head =
     bnd (resolve_at g dir base) (\<lambda>bh.
     bnd (resolve_at g dir head) (\<lambda>hh.
     bnd (ask (rd_commit g dir bh)) (\<lambda>_.
     bnd (ask (rd_commit g dir hh)) (\<lambda>_.
     bnd (ask (rd_tree g dir bh)) (\<lambda>bt.
     bnd (ask (rd_tree g dir hh)) (\<lambda>ht.
     ask (rd_diff g dir bt ht)))))))"

definition gd_ChangedPaths ::
  "'s git_reader \<Rightarrow> string \<Rightarrow> string \<Rightarrow> string \<Rightarrow> string \<Rightarrow> string \<Rightarrow> ('s, string, string list) act" where
  "gd_ChangedPaths g url user token base head =
     in_clone g ''gitdiff-'' url user token (\<lambda>dir.
       bnd (tree_changes g dir base head) (\<lambda>changes.
       ret (sort (remdups (filter (\<lambda>n. n \<noteq> []) (concat (map (\<lambda>ch. [gc_from ch, gc_to ch]) changes)))))))"

record file_change =
  fx_path :: string
  fx_status :: string
  fx_add :: int
  fx_del :: int
  fx_patch :: string

definition changePath :: "git_change \<Rightarrow> string" where
  "changePath ch = (if gc_to ch \<noteq> [] then gc_to ch else gc_from ch)"

definition changeStatus :: "git_change \<Rightarrow> string" where
  "changeStatus ch =
    (if gc_from ch = [] then ''added'' else if gc_to ch = [] then ''deleted''
     else if gc_from ch \<noteq> gc_to ch then ''renamed'' else ''modified'')"

definition line_count :: "string \<Rightarrow> nat" where
  "line_count s = (let n = length (filter (\<lambda>c. c = CHR 0x0A) s) in
     if \<not> has_suffix s [CHR 0x0A] \<and> s \<noteq> [] then n + 1 else n)"

definition patchStats :: "chunk list \<Rightarrow> nat \<times> nat" where
  "patchStats chunks = foldl (\<lambda>(add, del) (k, content). case k of
      ChAdd \<Rightarrow> (add + line_count content, del) | ChDelete \<Rightarrow> (add, del + line_count content)
    | ChEqual \<Rightarrow> (add, del)) (0, 0) chunks"

definition change_row :: "git_change \<Rightarrow> string + file_change" where
  "change_row ch = (case gc_patch ch of Inl e \<Rightarrow> Inl e
    | Inr (ptext, fps) \<Rightarrow> Inr \<lparr>fx_path = changePath ch, fx_status = changeStatus ch,
        fx_add = int (sum_list (map (fst \<circ> patchStats) fps)), fx_del = int (sum_list (map (snd \<circ> patchStats) fps)),
        fx_patch = ptext\<rparr>)"

definition gd_Compare ::
  "'s git_reader \<Rightarrow> string \<Rightarrow> string \<Rightarrow> string \<Rightarrow> string \<Rightarrow> string \<Rightarrow> ('s, string, file_change list) act" where
  "gd_Compare g url user token base head =
     in_clone g ''gitcompare-'' url user token (\<lambda>dir.
       bnd (tree_changes g dir base head) (\<lambda>changes.
       bnd (collect (\<lambda>ch. ask (\<lambda>_. change_row ch)) changes) (\<lambda>rows. ret (sort_by fx_path rows))))"

definition gd_FileDiff ::
  "'s git_reader \<Rightarrow> string \<Rightarrow> string \<Rightarrow> string \<Rightarrow> string \<Rightarrow> string \<Rightarrow> string \<Rightarrow> ('s, string, string) act" where
  "gd_FileDiff g url user token base head path =
    (if path = [] then throw ''path is required'' else
     in_clone g ''gitfilediff-'' url user token (\<lambda>dir.
       bnd (tree_changes g dir base head) (\<lambda>changes.
       case find (\<lambda>ch. \<not> (gc_from ch \<noteq> path \<and> gc_to ch \<noteq> path)) changes of
         None \<Rightarrow> ret []
       | Some ch \<Rightarrow> ask (\<lambda>_. map_sum id fst (gc_patch ch)))))"

text \<open>The date of a line is the one \<open>rd_blame\<close> gives, in UTC and RFC 3339; lines are numbered from 1.\<close>

definition gd_Blame ::
  "'s git_reader \<Rightarrow> string \<Rightarrow> string \<Rightarrow> string \<Rightarrow> string \<Rightarrow> string \<Rightarrow> ('s, string, blame_line list) act" where
  "gd_Blame g url user token ref path =
    (if path = [] then throw ''path is required'' else
     in_clone g ''gitblame-'' url user token (\<lambda>dir.
       bnd (resolve_at g dir ref) (\<lambda>h.
       bnd (ask (rd_commit g dir h)) (\<lambda>_.
       bnd (ask (rd_blame g dir h path)) (\<lambda>ls.
       ret (map (\<lambda>(i, l). l\<lparr>bn_line := int i + 1\<rparr>) (zip [0..<length ls] ls)))))))"

subsection \<open>Line counts\<close>

text \<open>The count of a chunk is the number of its lines: those it has between line ends, where a last
  line need not be ended.\<close>

definition chunk_lines :: "string \<Rightarrow> string list" where
  "chunk_lines s = (let ls = split_at CHR 0x0A s in if last ls = [] then butlast ls else ls)"

lemma split_at_length: "length (split_at c s) = Suc (length (filter (\<lambda>x. x = c) s))"
proof (induction s rule: split_at.induct)
  case (2 c x s)
  then show ?case by (cases "split_at c s") auto
qed simp

lemma last_split_at: "last (split_at c s) = [] \<longleftrightarrow> s = [] \<or> has_suffix s [c]"
proof -
  have "has_suffix s [c] \<longleftrightarrow> s \<noteq> [] \<and> last s = c" for s :: string
    by (auto simp: has_suffix_iff) (metis append_butlast_last_id)
  moreover have "last (split_at c s) = [] \<longleftrightarrow> s = [] \<or> last s = c"
  proof (induction s)
    case (Cons x s)
    obtain p ps where p: "split_at c s = p # ps" by (cases "split_at c s") auto
    have "last s \<noteq> c" if "ps = []" "s \<noteq> []"
      using split_at_length [of c s] p that by (auto simp: filter_empty_conv)
    with Cons p show ?case by auto
  qed simp
  ultimately show ?thesis by auto
qed

lemma line_count_lines: "line_count s = length (chunk_lines s)"
proof (cases "s = [] \<or> has_suffix s [CHR 0x0A]")
  case True
  then show ?thesis
    using last_split_at [of "CHR 0x0A" s]
    by (auto simp: line_count_def chunk_lines_def Let_def split_at_length)
next
  case False
  then show ?thesis
    using last_split_at [of "CHR 0x0A" s]
    by (auto simp: line_count_def chunk_lines_def Let_def split_at_length)
qed

lemma patchStats_lines:
  "patchStats chunks = (length (concat (map (chunk_lines \<circ> snd) (filter (\<lambda>c. fst c = ChAdd) chunks))),
     length (concat (map (chunk_lines \<circ> snd) (filter (\<lambda>c. fst c = ChDelete) chunks))))"
proof -
  have "foldl (\<lambda>(add, del) (k, content). case k of
      ChAdd \<Rightarrow> (add + line_count content, del) | ChDelete \<Rightarrow> (add, del + line_count content)
    | ChEqual \<Rightarrow> (add, del)) (a, d) chunks =
    (a + length (concat (map (chunk_lines \<circ> snd) (filter (\<lambda>c. fst c = ChAdd) chunks))),
     d + length (concat (map (chunk_lines \<circ> snd) (filter (\<lambda>c. fst c = ChDelete) chunks))))" for a d
    by (induction chunks arbitrary: a d) (auto simp: line_count_lines split: chunk_kind.split)
  from this [of 0 0] show ?thesis by (simp add: patchStats_def)
qed

subsection \<open>One diff, two views\<close>

text \<open>A reader whose directories and clones succeed and in whose clones the two refs differ by \<open>changes\<close>.\<close>

definition diff_served ::
  "'s git_reader \<Rightarrow> string \<Rightarrow> string \<Rightarrow> string \<Rightarrow> string \<Rightarrow> string \<Rightarrow> git_change list \<Rightarrow> bool" where
  "diff_served g url user token base head changes =
    ((\<forall>p s. \<exists>dir s'. rd_newdir g p s = (Inr dir, s')) \<and>
     (\<forall>dir s. \<exists>s'. rd_clone g dir url user token s = (Inr (), s')) \<and>
     (\<forall>dir s. tree_changes g dir base head s = (Ok changes, s)))"

text \<open>The names of a change; a tree diff names every path in one change at most.\<close>

definition change_names :: "git_change \<Rightarrow> string set" where
  "change_names ch = {gc_from ch, gc_to ch} - {[]}"

definition one_change_per_path :: "git_change list \<Rightarrow> bool" where
  "one_change_per_path changes =
    ((\<forall>ch\<in>set changes. change_names ch \<noteq> {}) \<and>
     (\<forall>i<length changes. \<forall>j<length changes. i \<noteq> j \<longrightarrow> change_names (changes ! i) \<inter> change_names (changes ! j) = {}))"

lemma changePath_name: "change_names ch \<noteq> {} \<Longrightarrow> changePath ch \<in> change_names ch"
  by (auto simp: change_names_def changePath_def)

lemma in_clone_served:
  assumes "diff_served g url user token base head changes"
  shows "\<exists>dir s1 s2. in_clone g p url user token k s = (fst (k dir s1), s2)"
proof -
  from assms obtain dir s1 s2 where
    "rd_newdir g p s = (Inr dir, s1)" "rd_clone g dir url user token s1 = (Inr (), s2)"
    unfolding diff_served_def by metis
  then have "in_clone g p url user token k s = (fst (k dir s2), rd_rmall g dir (snd (k dir s2)))"
    by (simp add: in_clone_def bnd_cases of_sum_def deferring_def split: prod.split)
  then show ?thesis by blast
qed

lemma collect_ask:
  "collect (\<lambda>x. ask (\<lambda>_. f x)) xs s = (Ok ys, s') \<Longrightarrow> list_all2 (\<lambda>x y. f x = Inr y) xs ys"
  by (induction xs arbitrary: ys s s')
     (auto simp: act ask_def elim!: bnd_OkD split: sum.splits)

lemma find_change:
  assumes "one_change_per_path changes" "ch \<in> set changes" "path \<in> change_names ch"
  shows "find (\<lambda>c. \<not> (gc_from c \<noteq> path \<and> gc_to c \<noteq> path)) changes = Some ch"
proof -
  let ?P = "\<lambda>c. \<not> (gc_from c \<noteq> path \<and> gc_to c \<noteq> path)"
  obtain i where i: "i < length changes" "changes ! i = ch"
    using assms(2) by (auto simp: in_set_conv_nth)
  have P: "?P ch" using assms(3) by (auto simp: change_names_def)
  have other: "\<not> ?P (changes ! j)" if "j < i" for j
  proof
    assume "?P (changes ! j)"
    then have "path \<in> change_names (changes ! j)" using assms(3) by (auto simp: change_names_def)
    moreover have "change_names (changes ! j) \<inter> change_names (changes ! i) = {}"
      using assms(1) that i(1) by (auto simp: one_change_per_path_def)
    ultimately show False using assms(3) i(2) by auto
  qed
  show ?thesis
    unfolding find_Some_iff using i P other by blast
qed

text \<open>C40: The two views agree: when the comparison of two refs succeeds, the diff of each file it lists
  is the patch it lists for the file, and a path that no change names has an empty diff.\<close>

theorem FileDiff_agrees_with_Compare:
  assumes "diff_served g url user token base head changes" "one_change_per_path changes"
    and "fst (gd_Compare g url user token base head s) = Ok files"
  shows "(\<forall>f\<in>set files. fst (gd_FileDiff g url user token base head (fx_path f) s') = Ok (fx_patch f)) \<and>
    (path \<noteq> [] \<and> path \<notin> \<Union> (change_names ` set changes) \<longrightarrow>
       fst (gd_FileDiff g url user token base head path s') = Ok [])"
proof -
  have tree: "tree_changes g dir base head s1 = (Ok changes, s1)" for dir s1
    using assms(1) by (simp add: diff_served_def)
  define diff_of where "diff_of = (\<lambda>path. case find (\<lambda>ch. \<not> (gc_from ch \<noteq> path \<and> gc_to ch \<noteq> path)) changes of
      None \<Rightarrow> Ok [] | Some ch \<Rightarrow> (case gc_patch ch of Inl e \<Rightarrow> Fail e | Inr (t, _) \<Rightarrow> Ok t))"
  have diff: "fst (gd_FileDiff g url user token base head path s') = diff_of path" if "path \<noteq> []" for path
  proof -
    let ?k = "\<lambda>dir. bnd (tree_changes g dir base head) (\<lambda>changes.
       case find (\<lambda>ch. \<not> (gc_from ch \<noteq> path \<and> gc_to ch \<noteq> path)) changes of
         None \<Rightarrow> ret [] | Some ch \<Rightarrow> ask (\<lambda>_. map_sum id fst (gc_patch ch)))"
    obtain dir s1 s2 where "in_clone g ''gitfilediff-'' url user token ?k s' = (fst (?k dir s1), s2)"
      using in_clone_served [OF assms(1), where k = ?k] by blast
    then show ?thesis
      using that by (auto simp: gd_FileDiff_def diff_of_def bnd_cases tree act ask_def
          split: option.splits sum.splits)
  qed
  let ?k = "\<lambda>dir. bnd (tree_changes g dir base head) (\<lambda>changes.
       bnd (collect (\<lambda>ch. ask (\<lambda>_. change_row ch)) changes) (\<lambda>rows. ret (sort_by fx_path rows)))"
  obtain dir s1 s2 where "in_clone g ''gitcompare-'' url user token ?k s = (fst (?k dir s1), s2)"
    using in_clone_served [OF assms(1), where k = ?k] by blast
  with assms(3) obtain rows s3 where "collect (\<lambda>ch. ask (\<lambda>_. change_row ch)) changes s1 = (Ok rows, s3)" and sorted: "files = sort_by fx_path rows"
    by (auto simp: gd_Compare_def bnd_cases tree act split: prod.splits res.splits)
  then have rows: "list_all2 (\<lambda>ch f. change_row ch = Inr f) changes rows" "set files = set rows"
    by (auto intro: collect_ask simp: sorted)
  have "diff_of (fx_path f) = Ok (fx_patch f) \<and> fx_path f \<noteq> []" if f: "f \<in> set files" for f
  proof -
    obtain ch where ch: "ch \<in> set changes" "change_row ch = Inr f"
      using f rows unfolding list_all2_conv_all_nth by (metis in_set_conv_nth)
    then have names: "fx_path f \<in> change_names ch"
      using assms(2) changePath_name [of ch]
      by (auto simp: one_change_per_path_def change_row_def split: sum.splits)
    with find_change [OF assms(2) ch(1) names] ch(2) show ?thesis
      by (auto simp: diff_of_def change_row_def change_names_def split: sum.splits)
  qed
  moreover have "diff_of path = Ok []" if "path \<noteq> []" "path \<notin> \<Union> (change_names ` set changes)"
  proof -
    have "find (\<lambda>ch. \<not> (gc_from ch \<noteq> path \<and> gc_to ch \<noteq> path)) changes = None"
      using that by (auto simp: find_None_iff change_names_def)
    then show ?thesis by (simp add: diff_of_def)
  qed
  ultimately show ?thesis by (auto simp: diff)
qed

definition demo_reader :: "unit git_reader" where
  "demo_reader =
    \<lparr>rd_newdir = (\<lambda>p s. (Inr ''/tmp/d'', s)), rd_rmall = (\<lambda>d s. s), rd_clone = (\<lambda>d u n t s. (Inr (), s)),
     rd_revision = (\<lambda>d r s. Some r), rd_branch = (\<lambda>d r s. None), rd_remote = (\<lambda>d r s. None),
     rd_commit = (\<lambda>d h s. Inr ()), rd_tree = (\<lambda>d h s. Inr h),
     rd_diff = (\<lambda>d a b s. Inr [\<lparr>gc_from = ''b.txt'', gc_to = ''b.txt'', gc_patch = Inr (''@@ b'', [[(ChAdd, ''x'')]])\<rparr>,
                              \<lparr>gc_from = [], gc_to = ''a.txt'', gc_patch = Inr (''@@ a'', [])\<rparr>]),
     rd_blame = (\<lambda>d h p s. Inr [])\<rparr>"

lemma FileDiff_agrees_with_Compare_witness:
  "map fx_path (case fst (gd_Compare demo_reader ''u'' ''root'' ''t'' ''main'' ''dev'' ()) of Ok fs \<Rightarrow> fs | _ \<Rightarrow> []) = [''a.txt'', ''b.txt''] \<and>
   fst (gd_FileDiff demo_reader ''u'' ''root'' ''t'' ''main'' ''dev'' ''b.txt'' ()) = Ok ''@@ b''"
proof -
  let ?chs = "[\<lparr>gc_from = ''b.txt'', gc_to = ''b.txt'', gc_patch = Inr (''@@ b'', [[(ChAdd, ''x'')]])\<rparr>,
               \<lparr>gc_from = [], gc_to = ''a.txt'', gc_patch = Inr (''@@ a'', [])\<rparr>]"
  let ?files = "[\<lparr>fx_path = ''a.txt'', fx_status = ''added'', fx_add = 0, fx_del = 0, fx_patch = ''@@ a''\<rparr>,
                 \<lparr>fx_path = ''b.txt'', fx_status = ''modified'', fx_add = 1, fx_del = 0, fx_patch = ''@@ b''\<rparr>]"
  have served: "diff_served demo_reader ''u'' ''root'' ''t'' ''main'' ''dev'' ?chs"
    by (simp add: diff_served_def demo_reader_def tree_changes_def resolve_at_def resolveCommit_def ask_def
        bnd_cases map_err_cases act)
  have one: "one_change_per_path ?chs"
    by (auto simp: one_change_per_path_def change_names_def nth_Cons' less_Suc_eq)
  have files: "fst (gd_Compare demo_reader ''u'' ''root'' ''t'' ''main'' ''dev'' ()) = Ok ?files"
    by code_simp
  show ?thesis
    using FileDiff_agrees_with_Compare [OF served one files, of "()"] files by simp
qed

end
