(* ===== verification/RepoHandlers.thy ===== *)
theory RepoHandlers
  imports ChangeRequests ServiceHandlers Builds Registry GitImport GitDiff
begin

text \<open>
  More handlers of \<^verbatim>\<open>internal/workspacesvc/service.go\<close>: deleting and importing repositories, files and
  releases, push mirrors, and the images of the registry.  \<open>repo_env\<close> holds the fields of the Go
  service they use beside those of \<open>service\<close> and \<open>svc_env\<close>, and the functions of the standard library
  they call (\<^verbatim>\<open>url.Parse\<close>, reduced to scheme and host, and \<^verbatim>\<open>time.ParseDuration\<close>).
\<close>

record 'x repo_env =
  re_import :: "'x importer"
  re_url :: "string \<Rightarrow> (string \<times> string) option"
  re_duration :: "string \<Rightarrow> int option"
  re_registry :: "'x registry option"
  re_fuel :: nat
  re_toolchain :: string
  re_builder :: "builder option"
  re_docker :: docker_env
  re_run :: "'x process"
  re_fs :: "'x build_fs"
  re_tar :: "string \<Rightarrow> tarball"
  re_refuses :: "tar_entry \<Rightarrow> string option"
  re_reader :: "'x git_reader"

definition lift_import :: "'x importer \<Rightarrow> 'x world importer" where
  "lift_import g =
    \<lparr>ig_newdir = quiet (ig_newdir g), ig_rmall = (\<lambda>d w. w\<lparr>ext := ig_rmall g d (ext w)\<rparr>),
     ig_init = (\<lambda>d. quiet (ig_init g d)), ig_remote = (\<lambda>d n u. quiet (ig_remote g d n u)),
     ig_list = (\<lambda>d u a. logged (CGitFetch u) (ig_list g d u a)),
     ig_fetch = (\<lambda>d u rs a. logged (CGitFetch u) (ig_fetch g d u rs a)),
     ig_resolve = (\<lambda>d rev w. ig_resolve g d rev (ext w)),
     ig_push = (\<lambda>d u rs a. logged (CImportPush u rs) (ig_push g d u rs a)),
     ig_size = (\<lambda>d w. ig_size g d (ext w))\<rparr>"

definition lift_registry :: "'x registry \<Rightarrow> 'x world registry" where
  "lift_registry r =
    \<lparr>rg_host = rg_host r, rg_scheme = rg_scheme r, rg_user = rg_user r, rg_pass = rg_pass r,
     rg_http = (\<lambda>rq. logged (CRegistry (gq_url rq)) (rg_http r rq)), rg_parse = rg_parse r\<rparr>"

definition lift_process :: "'x process \<Rightarrow> 'x world process" where
  "lift_process run = (\<lambda>cmd env timeout w. case run cmd env timeout (ext w) of
      (out, x) \<Rightarrow> (out, w\<lparr>trace := trace w @ [CBuildctl (snd cmd)], ext := x\<rparr>))"

definition lift_reader :: "'x git_reader \<Rightarrow> 'x world git_reader" where
  "lift_reader g =
    \<lparr>rd_newdir = (\<lambda>p. quiet (rd_newdir g p)), rd_rmall = (\<lambda>d w. w\<lparr>ext := rd_rmall g d (ext w)\<rparr>),
     rd_clone = (\<lambda>d u n t. logged (CGitFetch u) (rd_clone g d u n t)),
     rd_revision = (\<lambda>d r w. rd_revision g d r (ext w)), rd_branch = (\<lambda>d r w. rd_branch g d r (ext w)),
     rd_remote = (\<lambda>d r w. rd_remote g d r (ext w)), rd_commit = (\<lambda>d c w. rd_commit g d c (ext w)),
     rd_tree = (\<lambda>d c w. rd_tree g d c (ext w)), rd_diff = (\<lambda>d a b w. rd_diff g d a b (ext w)),
     rd_blame = (\<lambda>d c p w. rd_blame g d c p (ext w))\<rparr>"

subsection \<open>Deleting a repository\<close>

definition delete_services :: "string \<Rightarrow> 'x world svc_client \<Rightarrow> ('x, unit) handler" where
  "delete_services pre c =
     bnd (attempt (svc_List c)) (\<lambda>r. case r of Inl _ \<Rightarrow> ret ()
       | Inr vs \<Rightarrow> each (\<lambda>v. if has_prefix (sw_session v) pre then ignore (svc_Delete c (sw_name v)) else ret ()) vs)"

definition DeleteRepo :: "'x service \<Rightarrow> 'x svc_env \<Rightarrow> headers \<Rightarrow> string \<Rightarrow> string \<Rightarrow> ('x, bool) handler" where
  "DeleteRepo S E h org repo =
     bnd (resolveTenant S h) (\<lambda>tenant.
     if \<not> ValidComponent org \<or> \<not> ValidComponent repo
     then throw (bad_request ''org/repo must be simple names'') else
     bnd (or_internal (OwnsRepo S tenant org repo)) (\<lambda>owned.
     if \<not> owned then throw (not_found ''repository not found'') else
     let pre = org @ '':'' @ repo @ '':'' in
     bnd (attempt (agent_call CListSessions (ag_list (sv_agent S) h))) (\<lambda>r.
     bnd (case r of Inl _ \<Rightarrow> ret ()
          | Inr names \<Rightarrow> each (\<lambda>n. if has_prefix n pre then deleteSessionCascade S h tenant n else ret ()) names) (\<lambda>_.
     bnd (with_svc E (ret ()) (delete_services pre)) (\<lambda>_.
     bnd (git_internal (git_DeleteRepo (git S) org repo)) (\<lambda>_.
     bnd (or_internal (RemoveRepo S tenant org repo)) (\<lambda>_. ret True)))))))"

subsection \<open>Importing a repository\<close>

record import_rpc =
  iq_org :: string
  iq_url :: string
  iq_repo :: string
  iq_ref :: string
  iq_description :: string
  iq_user :: string
  iq_token :: string

text \<open>The last segment of a git URL; \<^verbatim>\<open>strings.LastIndexAny\<close> with a slash or a colon.\<close>

definition deriveRepoName :: "string \<Rightarrow> string" where
  "deriveRepoName raw = (let s = trim_suffix (trim_right_when (\<lambda>c. c = CHR ''/'') raw) ''.git'' in
     rev (takeWhile (\<lambda>c. c \<notin> {CHR ''/'', CHR '':''}) (rev s)))"

text \<open>\<^verbatim>\<open>cleanup\<close>: the repository that was just created is deleted again.\<close>

definition cleanup_import :: "'x service \<Rightarrow> string \<Rightarrow> string \<Rightarrow> string \<Rightarrow> ('x, 'a) handler" where
  "cleanup_import S org repo cause =
     bnd (ignore (git_DeleteRepo (git S) org repo)) (\<lambda>_. throw (internal cause))"

definition or_cleanup ::
  "'x service \<Rightarrow> string \<Rightarrow> string \<Rightarrow> ('e \<Rightarrow> string) \<Rightarrow> ('x world, 'e, 'a) act \<Rightarrow> ('a \<Rightarrow> ('x, 'b) handler) \<Rightarrow> ('x, 'b) handler" where
  "or_cleanup S org repo what m k =
     bnd (attempt m) (\<lambda>r. case r of Inl e \<Rightarrow> cleanup_import S org repo (what e) | Inr x \<Rightarrow> k x)"

definition import_opts_of :: "'x service \<Rightarrow> string \<Rightarrow> string \<Rightarrow> import_rpc \<Rightarrow> import_opts" where
  "import_opts_of S org repo m =
    \<lparr>im_source = iq_url m, im_dest = GitURL (git S) org repo, im_user = ''root'', im_token = fc_token (git S),
     im_suser = iq_user m, im_stoken = iq_token m, im_ref = iq_ref m\<rparr>"

text \<open>From the push on: the default branch, the ownership row, branch protection, the session.\<close>

definition finish_import ::
  "'x service \<Rightarrow> headers \<Rightarrow> string \<Rightarrow> string \<Rightarrow> string \<Rightarrow> string \<Rightarrow> ('x, repo_row) handler" where
  "finish_import S h tenant org repo branch =
     or_cleanup S org repo (\<lambda>e. ''set default branch: '' @ gerr_text e) (git_SetDefaultBranch (git S) org repo branch) (\<lambda>_.
     bnd (or_internal (AddRepo S tenant org repo)) (\<lambda>_.
     bnd (if branch = MainBranch then ignore (git_ProtectMain (git S) org repo) else ret ()) (\<lambda>_.
     let session = SessionName org repo branch in
     bnd (sessionExists S h session) (\<lambda>present.
     bnd (if present then ret () else ignore (createSession S h session (PresetFor (RoleForBranch branch)) [] [])) (\<lambda>_.
       ret \<lparr>rr_org = org, rr_repo = repo, rr_default = branch, rr_private = False\<rparr>)))))"

definition ImportRepo :: "'x service \<Rightarrow> 'x repo_env \<Rightarrow> headers \<Rightarrow> import_rpc \<Rightarrow> ('x, repo_row) handler" where
  "ImportRepo S R h m =
     bnd (resolveTenant S h) (\<lambda>tenant.
     let org = iq_org m in
     if \<not> ValidComponent org then throw (bad_request ''org must be a simple name'')
     else if iq_url m = [] then throw (bad_request ''url is required'') else
     let repo = (if iq_repo m = [] then deriveRepoName (iq_url m) else iq_repo m) in
     if \<not> ValidComponent repo then throw (bad_request ''repo must be a simple name'') else
     bnd (claimOrg S tenant org) (\<lambda>_.
     bnd (git_internal (git_RepoExists (git S) org repo)) (\<lambda>present.
     if present then throw (CErr CodeAlreadyExists ''repository already exists'') else
     bnd (git_wrapped ''create repo'' (git_CreateEmptyRepo (git S) org repo (iq_description m))) (\<lambda>_.
     or_cleanup S org repo (\<lambda>e. ''import: '' @ e) (Import (lift_import (re_import R)) (import_opts_of S org repo m)) (\<lambda>res.
       finish_import S h tenant org repo (if is_default res = [] then MainBranch else is_default res))))))"

subsection \<open>Files, releases, archives\<close>

definition ReadBlob :: "'x service \<Rightarrow> headers \<Rightarrow> string \<Rightarrow> string \<Rightarrow> string \<Rightarrow> string \<Rightarrow> ('x, string \<times> string) handler" where
  "ReadBlob S h org repo r path =
     bnd (ensureVisible S h org repo) (\<lambda>_. git_internal (git_ReadBlob (git S) org repo r path))"

definition Contents :: "'x service \<Rightarrow> headers \<Rightarrow> string \<Rightarrow> string \<Rightarrow> string \<Rightarrow> string \<Rightarrow> ('x, contents_res) handler" where
  "Contents S h org repo r path =
     bnd (ensureVisible S h org repo) (\<lambda>_. or_mrError (git_Contents (git S) org repo r path))"

definition ListReleases :: "'x service \<Rightarrow> headers \<Rightarrow> string \<Rightarrow> string \<Rightarrow> ('x, fj_release list) handler" where
  "ListReleases S h org repo =
     bnd (ensureVisible S h org repo) (\<lambda>_. git_internal (git_ListReleases (git S) org repo))"

definition GetReleaseAsset ::
  "'x service \<Rightarrow> headers \<Rightarrow> string \<Rightarrow> string \<Rightarrow> int \<Rightarrow> int \<Rightarrow> ('x, string \<times> string \<times> string) handler" where
  "GetReleaseAsset S h org repo releaseID assetID =
     bnd (ensureVisible S h org repo) (\<lambda>_. git_not_found (git_GetReleaseAsset (git S) org repo releaseID assetID))"

text \<open>The archive as the gzip and tar readers see it.\<close>

definition Archive :: "'x service \<Rightarrow> 'x repo_env \<Rightarrow> headers \<Rightarrow> string \<Rightarrow> string \<Rightarrow> string \<Rightarrow> ('x, tarball) handler" where
  "Archive S R h org repo r =
     bnd (ensureVisible S h org repo) (\<lambda>_.
     bnd (or_mrError (git_ArchiveTarGz (git S) org repo r)) (\<lambda>data.
       case StripTop (re_refuses R) (re_tar R data) of Inl e \<Rightarrow> throw (internal e) | Inr t \<Rightarrow> ret t))"

text \<open>Comparisons are made in a clone of the gateway, with its own credentials.\<close>

abbreviation in_repo :: "'x service \<Rightarrow> 'x repo_env \<Rightarrow> string \<Rightarrow> string \<Rightarrow>
    ('x world git_reader \<Rightarrow> string \<Rightarrow> string \<Rightarrow> string \<Rightarrow> ('x world, string, 'a) act) \<Rightarrow> ('x, 'a) handler" where
  "in_repo S R org repo f \<equiv>
     map_err internal (f (lift_reader (re_reader R)) (GitURL (git S) org repo) ''root'' (fc_token (git S)))"

definition Compare ::
  "'x service \<Rightarrow> 'x repo_env \<Rightarrow> headers \<Rightarrow> string \<Rightarrow> string \<Rightarrow> string \<Rightarrow> string \<Rightarrow> ('x, file_change list) handler" where
  "Compare S R h org repo base head =
     bnd (ensureVisible S h org repo) (\<lambda>_. in_repo S R org repo (\<lambda>g u n t. gd_Compare g u n t base head))"

definition Blame ::
  "'x service \<Rightarrow> 'x repo_env \<Rightarrow> headers \<Rightarrow> string \<Rightarrow> string \<Rightarrow> string \<Rightarrow> string \<Rightarrow> ('x, blame_line list) handler" where
  "Blame S R h org repo ref0 path =
     bnd (ensureVisible S h org repo) (\<lambda>_.
     if path = [] then throw (bad_request ''path is required'') else
     let ref = (if ref0 = [] then MainBranch else ref0) in
     in_repo S R org repo (\<lambda>g u n t. gd_Blame g u n t ref path))"

definition FileDiff ::
  "'x service \<Rightarrow> 'x repo_env \<Rightarrow> headers \<Rightarrow> string \<Rightarrow> string \<Rightarrow> string \<Rightarrow> string \<Rightarrow> string \<Rightarrow> ('x, string) handler" where
  "FileDiff S R h org repo base head path =
     bnd (ensureVisible S h org repo) (\<lambda>_.
     if path = [] then throw (bad_request ''path is required'') else
     in_repo S R org repo (\<lambda>g u n t. gd_FileDiff g u n t base head path))"

subsection \<open>Push mirrors\<close>

definition validPushMirrorAddress :: "'x repo_env \<Rightarrow> string \<Rightarrow> bool" where
  "validPushMirrorAddress R s =
    (if s = [] \<or> list_ex (\<lambda>c. c \<in> {CHR '' '', CHR 0x09, CHR 0x0A}) s then False
     else case re_url R s of None \<Rightarrow> False
       | Some (scheme, host) \<Rightarrow> (scheme = ''http'' \<or> scheme = ''https'') \<and> host \<noteq> [])"

definition validInterval :: "'x repo_env \<Rightarrow> string \<Rightarrow> bool" where
  "validInterval R s = (case re_duration R s of Some d \<Rightarrow> d > 0 | None \<Rightarrow> False)"

definition SetPushMirror ::
  "'x service \<Rightarrow> 'x repo_env \<Rightarrow> headers \<Rightarrow> string \<Rightarrow> string \<Rightarrow> mirror_opts \<Rightarrow> ('x, push_mirror) handler" where
  "SetPushMirror S R h org repo m =
     bnd (ensureVisible S h org repo) (\<lambda>_.
     let addr = trim_space (mo_address m); iv = trim_space (mo_interval m) in
     if \<not> validPushMirrorAddress R addr then throw (bad_request ''remote_address must be an http(s) git URL'')
     else if iv \<noteq> [] \<and> \<not> validInterval R iv then throw (bad_request ''interval must be a duration like 8h or 30m'')
     else bnd (git_internal (git_SetPushMirror (git S) org repo
                (m\<lparr>mo_address := addr, mo_interval := iv, mo_filter := trim_space (mo_filter m)\<rparr>)))
            (\<lambda>pm. ret (toPushMirrorInfo pm)))"

subsection \<open>Images\<close>

record oci_row =
  ow_owner :: string
  ow_name :: string
  ow_tag :: string
  ow_ref :: string

definition oci_row_of :: "string \<Rightarrow> string \<Rightarrow> string \<Rightarrow> string \<Rightarrow> oci_row" where
  "oci_row_of host ownr name tag =
    \<lparr>ow_owner = ownr, ow_name = name, ow_tag = tag, ow_ref = host @ ''/'' @ ownr @ ''/'' @ name @ '':'' @ tag\<rparr>"

definition namespace_visible :: "'x service \<Rightarrow> 'x repo_env \<Rightarrow> string \<Rightarrow> string \<Rightarrow> ('x, unit) handler" where
  "namespace_visible S R tenant ownr =
    (if ownr \<noteq> re_toolchain R \<and> ownr \<noteq> sv_sandboxOrg S \<and> ownr \<noteq> ''root'' then
       bnd (or_internal (OwnsOrg S tenant ownr)) (\<lambda>owned.
         if \<not> owned then throw (not_found ''namespace not found'') else ret ())
     else ret ())"

definition ListOCIImages ::
  "'x service \<Rightarrow> 'x repo_env \<Rightarrow> headers \<Rightarrow> string \<Rightarrow> string \<Rightarrow> ('x, oci_row list) handler" where
  "ListOCIImages S R h owner0 name =
     bnd (sandboxAuth S h) (\<lambda>tenant.
     let ownr = (if owner0 = [] then re_toolchain R else owner0) in
     if \<not> ValidComponent ownr then throw (bad_request ''owner must be a simple name'') else
     bnd (namespace_visible S R tenant ownr) (\<lambda>_.
     let host = (case re_builder R of Some b \<Rightarrow> bd_host b | None \<Rightarrow> []) in
     case re_registry R of
       Some r \<Rightarrow> bnd (map_err internal (rg_ListImages (lift_registry r) (re_fuel R) ownr name))
         (\<lambda>imgs. ret (map (\<lambda>i. oci_row_of host (oi_owner i) (oi_name i) (oi_tag i)) imgs))
     | None \<Rightarrow> bnd (git_internal (git_ListContainerPackages (git S) ownr name))
         (\<lambda>pkgs. ret (map (\<lambda>p. oci_row_of host (pk_owner p) (pk_name p) (pk_tag p)) pkgs))))"

record image_rpc =
  mq_org :: string
  mq_name :: string
  mq_tag :: string
  mq_source :: string
  mq_user :: string
  mq_token :: string

definition ImportImage ::
  "'x service \<Rightarrow> 'x repo_env \<Rightarrow> headers \<Rightarrow> image_rpc \<Rightarrow> ('x, string \<times> string) handler" where
  "ImportImage S R h m =
     bnd (sandboxAuth S h) (\<lambda>tenant.
     if \<not> ValidComponent (mq_org m) then throw (bad_request ''org must be a simple name'')
     else if \<not> matches_imageNameRe (mq_name m) then throw (bad_request ''name must be a single simple name'')
     else if \<not> ValidComponent (mq_tag m) then throw (bad_request ''tag must be a simple name'')
     else if mq_source m = [] \<or> list_ex (\<lambda>c. c \<in> {CHR '' '', CHR 0x09, CHR 0x0A}) (mq_source m)
     then throw (bad_request ''source must be an image ref'') else
     case re_builder R of None \<Rightarrow> throw (CErr CodeUnavailable ''image builder not configured'')
     | Some b \<Rightarrow> bnd (claimOrg S tenant (mq_org m)) (\<lambda>_.
         map_err internal (bd_Import b (re_docker R) (lift_fs (re_fs R)) (lift_process (re_run R))
           \<lparr>ir_source = mq_source m, ir_repo = mq_org m @ ''/'' @ mq_name m, ir_tag = mq_tag m,
            ir_user = mq_user m, ir_token = mq_token m\<rparr>)))"

end
