(* ===== verification/RepoProps.thy ===== *)
theory RepoProps
  imports AccessProps RepoHandlers ServiceFrames
begin

text \<open>
  Properties of the repository handlers: no tenant gets anything of a repository it does not own,
  deleting one drops exactly the caller's ownership, and a failed import is cleaned up.
\<close>

subsection \<open>Frames\<close>

text \<open>The operations of theory \<open>ForgejoFiles\<close> in the frame of the git host's client.\<close>

context http_frame
begin

lemma file_reads:
  assumes "M ''GET''"
  shows "keeps R (git_ReadBlob c org repo r p)" "keeps R (git_Contents c org repo r p)"
    "keeps R (git_Compare c org repo b hd')" "keeps R (git_CompareFiles c org repo b hd')"
    "keeps R (git_ListReleases c org repo)" "keeps R (git_GetReleaseAsset c org repo i j)" "keeps R (git_ListRepos c)"
  using assms
  by (auto simp: git_ReadBlob_def git_Contents_def git_Compare_def git_CompareFiles_def git_ListReleases_def
      git_GetReleaseAsset_def git_ListRepos_def Let_def intro!: step)

lemma package_pages_keeps: "(\<And>p. keeps R (get p)) \<Longrightarrow> keeps R (package_pages get page n)"
  by (induction n arbitrary: page) (auto intro!: keeps pre)

lemma packages_keep: "M ''GET'' \<Longrightarrow> keeps R (git_ListContainerPackages c ownr name)"
  by (auto simp: git_ListContainerPackages_def intro!: step package_pages_keeps)

lemma commit_keeps: "M ''POST'' \<Longrightarrow> keeps R (git_CommitFiles c org repo msg r nb files)"
  by (auto simp: git_CommitFiles_def intro!: step)

end

context svc_frame
begin

lemma delete_keeps:
  assumes "reads_ok W" "W VDelete ''deployments'' name" "\<And>n. W VDelete ''services'' n"
  shows "keeps R (svc_Delete c name)"
  using assms by (auto simp: svc_Delete_def reads_ok_def intro!: keeps pre calls)

end

text \<open>A condition on the trace that cloning and pushing cannot break: they log only such calls.\<close>

lemma Import_trace:
  assumes "\<And>u. P (CGitFetch u)" "\<And>u rs. P (CImportPush u rs)"
  shows "keeps (traced_in P) (Import (lift_import g) opt)"
  using assms
  by (auto simp: Import_def wrapped_def remoteHead_def resolveSourceRef_def lift_import_def Let_def traced_in_def
      pure_of_def intro!: keeps keeps_deferring split: option.split)
     (auto simp: keeps_def traced_in_def split: option.split)

lemma Import_db: "keeps same_db (Import (lift_import g) opt)"
  by (auto simp: Import_def wrapped_def remoteHead_def resolveSourceRef_def lift_import_def Let_def
      pure_of_def intro!: keeps keeps_deferring split: option.split)
     (auto simp: keeps_def split: option.split)

subsection \<open>Foreign repositories\<close>



subsection \<open>Deleting a repository\<close>

text \<open>Everything before the last statement leaves the repository table alone.\<close>

abbreviation same_repos :: "'x world \<Rightarrow> 'x world \<Rightarrow> bool" where
  "same_repos \<equiv> (\<lambda>w w'. repo_owners (db w') = repo_owners (db w))"

lemma same_db_repos: "keeps same_db m \<Longrightarrow> keeps same_repos m"
  by (simp add: keeps_def)

lemma delete_services_db: "keeps same_db (delete_services pre (lift_svc c))"
  by (auto simp: delete_services_def reads_ok_def intro!: keeps svc_db.get_keeps svc_db.delete_keeps)


subsection \<open>Importing a repository\<close>

definition delete_request :: "'x service \<Rightarrow> string \<Rightarrow> string \<Rightarrow> call" where
  "delete_request S org repo = CHttp \<lparr>rq_method = ''DELETE'', rq_url = full_url (sv_git S) (repo_path org repo) [],
     rq_auth = auth_of (sv_git S), rq_body = None\<rparr>"

lemma git_DeleteRepo_last: "wp (git_DeleteRepo (git S) org repo) (\<lambda>r w'. trace w' = trace w @ [delete_request S org repo]) w"
  unfolding git_DeleteRepo_def do_unit_def fg_do_def lift_git_sel
  by (auto intro!: wp simp: lift_git_def delete_request_def dest!: trace_logged split: res.split sum.split gerr.split)

lemma cleanup_last:
  "wp (cleanup_import S org repo cause) (\<lambda>r w'. \<exists>cs. trace w' = cs @ [delete_request S org repo]) w"
  unfolding cleanup_import_def ignore_def
  by (auto intro!: wp wp_conseq [OF git_DeleteRepo_last] split: res.split)

definition never_fails :: "('s, 'e, 'a) act \<Rightarrow> bool" where
  "never_fails m = (\<forall>w e. fst (m w) \<noteq> Fail e)"

lemma never_fails_intros:
  "never_fails (ret x)" "never_fails (ignore m)" "never_fails (attempt m)"
  "never_fails m' \<Longrightarrow> (\<And>x. never_fails (k x)) \<Longrightarrow> never_fails (bnd m' k)"
  "never_fails m' \<Longrightarrow> never_fails n \<Longrightarrow> never_fails (if b then m' else n)"
  by (auto simp: never_fails_def ignore_def attempt_def bnd_def act split: prod.splits res.splits) (metis fst_conv)+

lemma never_fails_wp: "never_fails m \<Longrightarrow> (\<And>r s'. (\<forall>e. r \<noteq> Fail e) \<Longrightarrow> Q r s') \<Longrightarrow> wp m Q s"
  by (auto simp: never_fails_def wp_def)

definition cleaned :: "'x service \<Rightarrow> string \<Rightarrow> string \<Rightarrow> (cerr, 'a) res \<Rightarrow> 'x world \<Rightarrow> bool" where
  "cleaned S org repo r w' = ((\<exists>e. r = Fail e) \<longrightarrow> last (trace w') = delete_request S org repo)"

lemma cleaned_simps [simp]: "cleaned S org repo (Ok x) w'" "cleaned S org repo (Panic p) w'"
  by (simp_all add: cleaned_def)

lemma or_cleanup_cleans:
  assumes "\<And>x w1. wp (k x) (cleaned S org repo) w1"
  shows "wp (or_cleanup S org repo what m k) (cleaned S org repo) w"
proof -
  have "wp (cleanup_import S org repo cause) (cleaned S org repo) w1" for cause w1
    by (rule wp_conseq [OF cleanup_last]) (auto simp: cleaned_def)
  with assms show ?thesis
    unfolding or_cleanup_def by (intro wp_bnd wp_attempt wpI) (auto split: res.split sum.split)
qed

lemma finish_import_cleans:
  assumes "\<And>x. fst (sv_sql S x) = None"
  shows "wp (finish_import S h t org repo branch) (cleaned S org repo) w"
proof -
  have sql: "never_fails (or_internal (AddRepo S t org repo))"
    using assms by (auto simp: never_fails_def or_internal_def AddRepo_def map_err_def exec_def split: prod.split option.split)
       (metis fst_conv option.distinct(1))
  have exists: "never_fails (sessionExists S h n)" for n
    by (auto simp: sessionExists_def intro!: never_fails_intros split: sum.split)
  show ?thesis
    unfolding finish_import_def Let_def
    by (rule or_cleanup_cleans, rule never_fails_wp, intro never_fails_intros sql exists)
       (auto simp: cleaned_def)
qed

definition is_fetch :: "call \<Rightarrow> bool" where
  "is_fetch c = (case c of CGitFetch u \<Rightarrow> True | _ \<Rightarrow> False)"


text \<open>A host that keeps the repositories created on it, and an import whose fetch fails.\<close>

definition hosting_http :: "greq \<Rightarrow> demo \<Rightarrow> (string + gresp) \<times> demo" where
  "hosting_http rq x =
    (if rq_method rq = ''POST'' \<and> rq_url rq = ''http://git/api/v1/orgs/acme/repos''
     then (Inr (demo_resp 201 (JObj [])), x\<lparr>dm_docs := (''http://git/api/v1/repos/acme/lib'', JObj []) # dm_docs x\<rparr>)
     else demo_http rq x)"

definition hosting_service :: "demo service" where
  "hosting_service = demo_service\<lparr>sv_git := \<lparr>fc_base = ''http://git'', fc_token = ''tok'', fc_http = hosting_http\<rparr>\<rparr>"

definition demo_importer :: "demo importer" where
  "demo_importer =
    \<lparr>ig_newdir = (\<lambda>x. (Inr ''/tmp/i1'', x)), ig_rmall = (\<lambda>d x. x), ig_init = (\<lambda>d x. (Inr (), x)),
     ig_remote = (\<lambda>d n u x. (Inr (), x)), ig_list = (\<lambda>d u a x. (Inr [\<lparr>rf_name = ''HEAD'', rf_target = Some ''refs/heads/dev''\<rparr>], x)),
     ig_fetch = (\<lambda>d u rs a x. (Inl ''connection reset'', x)), ig_resolve = (\<lambda>d r x. None),
     ig_push = (\<lambda>d u rs a x. (Inr (), x)), ig_size = (\<lambda>d x. None)\<rparr>"

definition demo_repo_env :: "demo repo_env" where
  "demo_repo_env =
    \<lparr>re_import = demo_importer, re_url = (\<lambda>s. Some (''https'', s)), re_duration = (\<lambda>s. Some 1), re_registry = None,
     re_fuel = 10, re_toolchain = ''toolchain'', re_builder = None,
     re_docker = \<lparr>dk_dir = [], dk_parse = (\<lambda>s. None), dk_print = (\<lambda>j. []), dk_b64dec = b64_decode, dk_b64enc = b64_encode\<rparr>,
     re_run = (\<lambda>cmd env t x. (([], None), x)),
     re_fs = \<lparr>bf_mktemp = (\<lambda>p x. (Inr ''/tmp/b1'', x)), bf_rmall = (\<lambda>d x. x), bf_mkdirs = (\<lambda>p x. (Inr (), x)),
        bf_open = (\<lambda>p m x. (Inr (), x)), bf_write = (\<lambda>p d x. (Inr (), x)), bf_putfile = (\<lambda>p d x. (Inr (), x)),
        bf_stat = (\<lambda>p x. None), bf_readfile = (\<lambda>p x. Inl [])\<rparr>,
     re_tar = (\<lambda>s. Inl s), re_refuses = (\<lambda>e. None),
     re_reader = \<lparr>rd_newdir = (\<lambda>p x. (Inr ''/tmp/d'', x)), rd_rmall = (\<lambda>d x. x), rd_clone = (\<lambda>d u n t x. (Inr (), x)),
        rd_revision = (\<lambda>d r x. Some r), rd_branch = (\<lambda>d r x. None), rd_remote = (\<lambda>d r x. None),
        rd_commit = (\<lambda>d h x. Inr ()), rd_tree = (\<lambda>d h x. Inr h), rd_diff = (\<lambda>d a b x. Inr []), rd_blame = (\<lambda>d h p x. Inr [])\<rparr>\<rparr>"

definition demo_import :: import_rpc where
  "demo_import = \<lparr>iq_org = ''acme'', iq_url = ''https://host/lib.git'', iq_repo = [], iq_ref = [], iq_description = [],
     iq_user = [], iq_token = []\<rparr>"


end
