(* ===== verification/RegistryProps.thy ===== *)
theory RegistryProps
  imports Registry Demo
begin

text \<open>What reading a committed file and listing the images of a registry return.\<close>

subsection \<open>Contents\<close>



subsection \<open>The images of a registry\<close>

lemma sorted_insort:
  fixes f :: "'a \<Rightarrow> 'k::linorder" and g :: "'a \<Rightarrow> 'l::linorder"
  assumes "sorted_wrt (\<lambda>a b. f a < f b \<or> f a = f b \<and> g a \<le> g b) ys" "\<forall>y\<in>set ys. g x \<le> g y"
  shows "sorted_wrt (\<lambda>a b. f a < f b \<or> f a = f b \<and> g a \<le> g b) (insort_key f x ys)"
  using assms by (induction ys) (auto simp: set_insort_key)

lemma sorted_sort_sort:
  fixes f :: "'a \<Rightarrow> 'k::linorder" and g :: "'a \<Rightarrow> 'l::linorder"
  shows "sorted_wrt (\<lambda>a b. f a < f b \<or> f a = f b \<and> g a \<le> g b) (sort_by f (sort_by g xs))"
proof -
  have "sorted_wrt (\<lambda>a b. g a \<le> g b) ys \<Longrightarrow>
      sorted_wrt (\<lambda>a b. f a < f b \<or> f a = f b \<and> g a \<le> g b) (sort_by f ys)" for ys
    by (induction ys) (auto intro!: sorted_insort)
  moreover have "sorted_wrt (\<lambda>a b. g a \<le> g b) (sort_by g xs)"
    using sorted_sort_key [of g xs] by (simp add: sorted_map sorted_wrt_map)
  ultimately show ?thesis by blast
qed

text \<open>C38: Against a registry that serves its catalog and tags in finitely many pages, listing the images of
  an owner ends within the fuel, as an answer, and gives exactly the tags of the repositories
  under the owner (of the one repository named, if any) that are not digests, ordered by name and
  then by tag.\<close>

theorem ListImages_exact:
  assumes "registry_serves r fuel repos tags"
  shows "\<exists>imgs. rg_ListImages r fuel ownr name s = (Ok imgs, s) \<and>
    sorted_wrt (\<lambda>a b. oi_name a < oi_name b \<or> oi_name a = oi_name b \<and> oi_tag a \<le> oi_tag b) imgs \<and>
    set imgs = {img. oi_owner img = ownr \<and> (\<exists>full\<in>set repos. image_name ownr name full = Some (oi_name img) \<and>
       oi_tag img \<in> set (tags full) \<and> \<not> has_prefix (oi_tag img) ''sha256:'')}"
proof -
  let ?l = "concat (map (\<lambda>full. case image_name ownr name full of None \<Rightarrow> []
        | Some img \<Rightarrow> map (\<lambda>t. \<lparr>oi_owner = ownr, oi_name = img, oi_tag = t\<rparr>)
            (filter (\<lambda>t. \<not> has_prefix t ''sha256:'') (tags full))) repos)"
  have "set ?l = {img. oi_owner img = ownr \<and> (\<exists>full\<in>set repos. image_name ownr name full = Some (oi_name img) \<and>
       oi_tag img \<in> set (tags full) \<and> \<not> has_prefix (oi_tag img) ''sha256:'')}" (is "_ = ?S")
  proof (intro equalityI subsetI)
    fix img assume "img \<in> ?S"
    then obtain full where "full \<in> set repos" "image_name ownr name full = Some (oi_name img)"
      "oi_tag img \<in> set (tags full)" "\<not> has_prefix (oi_tag img) ''sha256:''" "oi_owner img = ownr" by auto
    moreover from this have "img = \<lparr>oi_owner = ownr, oi_name = oi_name img, oi_tag = oi_tag img\<rparr>" by simp
    ultimately show "img \<in> set ?l" by (auto intro!: bexI [of _ full] image_eqI [of _ _ "oi_tag img"])
  qed (auto split: option.splits)
  then show ?thesis
    using ListImages_serves [OF assms, of ownr name s] sorted_sort_sort [of oi_name oi_tag ?l] by auto
qed

definition demo_registry :: "unit registry" where
  "demo_registry =
    \<lparr>rg_host = ''registry/'', rg_scheme = ''http'', rg_user = [], rg_pass = [],
     rg_http = (\<lambda>rq s. (Inr (let pg = (\<lambda>f xs l. \<lparr>gr_code = 200, gr_status = ''200 OK'', gr_json = Inr (page_of f xs), gr_link = l\<rparr>) in
        if gq_url rq = ''http://registry/v2/_catalog?n=1000''
        then pg ''repositories'' [''acme/web'', ''other/x''] (''</v2/_catalog?last=x>; '' @ rel_next)
        else if gq_url rq = ''http://registry/v2/_catalog?last=x'' then pg ''repositories'' [''acme/api''] []
        else pg ''tags'' [''2'', ''sha256:00'', ''1''] []), s)),
     rg_parse = (\<lambda>u. Some (''/v2/_catalog'', [(''last'', ''x'')]))\<rparr>"

abbreviation demo_page :: "string \<Rightarrow> string list \<Rightarrow> string \<Rightarrow> rg_resp" where
  "demo_page f xs l \<equiv> \<lparr>gr_code = 200, gr_status = ''200 OK'', gr_json = Inr (page_of f xs), gr_link = l\<rparr>"

lemma demo_registry_serves:
  "registry_serves demo_registry 2 [''acme/web'', ''other/x'', ''acme/api''] (\<lambda>_. [''2'', ''sha256:00'', ''1''])"
proof -
  let ?first = "''</v2/_catalog?last=x>; '' @ rel_next"
  have cat2: "chain demo_registry ''repositories'' (''/v2/_catalog'', [(''last'', ''x'')]) [''acme/api''] 1"
  proof (rule chain.last)
    have "gq_url (rg_request demo_registry ''/v2/_catalog'' [(''last'', ''x'')]) = ''http://registry/v2/_catalog?last=x''"
      by code_simp
    then show "rg_http demo_registry (rg_request demo_registry (fst (''/v2/_catalog'', [(''last'', ''x'')])) (snd (''/v2/_catalog'', [(''last'', ''x'')]))) s =
        (Inr (demo_page ''repositories'' [''acme/api''] []), s)" for s
      by (subst demo_registry_def) simp
  qed (simp_all, code_simp)
  have cat: "chain demo_registry ''repositories'' (''/v2/_catalog'', [(''n'', ''1000'')]) ([''acme/web'', ''other/x''] @ [''acme/api'']) (Suc 1)"
  proof (rule chain.more)
    have "gq_url (rg_request demo_registry ''/v2/_catalog'' [(''n'', ''1000'')]) = ''http://registry/v2/_catalog?n=1000''"
      by code_simp
    then show "rg_http demo_registry (rg_request demo_registry (fst (''/v2/_catalog'', [(''n'', ''1000'')])) (snd (''/v2/_catalog'', [(''n'', ''1000'')]))) s =
        (Inr (demo_page ''repositories'' [''acme/web'', ''other/x''] ?first), s)" for s
      by (subst demo_registry_def) simp
    have "splitRelative demo_registry (nextLink ?first) = (''/v2/_catalog'', [(''last'', ''x'')])" by code_simp
    then show "chain demo_registry ''repositories'' (splitRelative demo_registry (nextLink ?first)) [''acme/api''] 1"
      using cat2 by simp
    show "nextLink ?first \<noteq> []" by code_simp
  qed simp_all
  have tags: "chain demo_registry ''tags'' (''/v2/'' @ trim_set ''/'' full @ ''/tags/list'', [(''n'', ''1000'')]) [''2'', ''sha256:00'', ''1''] 1"
    if "full \<in> {''acme/web'', ''other/x'', ''acme/api''}" for full
  proof (rule chain.last)
    have "gq_url (rg_request demo_registry (''/v2/'' @ trim_set ''/'' ''acme/web'' @ ''/tags/list'') [(''n'', ''1000'')]) = ''http://registry/v2/acme/web/tags/list?n=1000''"
      "gq_url (rg_request demo_registry (''/v2/'' @ trim_set ''/'' ''other/x'' @ ''/tags/list'') [(''n'', ''1000'')]) = ''http://registry/v2/other/x/tags/list?n=1000''"
      "gq_url (rg_request demo_registry (''/v2/'' @ trim_set ''/'' ''acme/api'' @ ''/tags/list'') [(''n'', ''1000'')]) = ''http://registry/v2/acme/api/tags/list?n=1000''"
      by code_simp+
    with that show "rg_http demo_registry (rg_request demo_registry
          (fst (''/v2/'' @ trim_set ''/'' full @ ''/tags/list'', [(''n'', ''1000'')])) (snd (''/v2/'' @ trim_set ''/'' full @ ''/tags/list'', [(''n'', ''1000'')]))) s =
        (Inr (demo_page ''tags'' [''2'', ''sha256:00'', ''1''] []), s)" for s
      by (subst demo_registry_def) (auto simp: demo_registry_def)
  qed (simp_all, code_simp)
  have "\<exists>n\<le>2. chain demo_registry ''repositories'' (''/v2/_catalog'', [(''n'', ''1000'')]) [''acme/web'', ''other/x'', ''acme/api''] n"
    using cat by (intro exI [of _ "Suc 1"]) (simp only: append.simps, simp)
  moreover have "\<exists>n\<le>2. chain demo_registry ''tags'' (''/v2/'' @ trim_set ''/'' full @ ''/tags/list'', [(''n'', ''1000'')]) [''2'', ''sha256:00'', ''1''] n"
    if "full \<in> set [''acme/web'', ''other/x'', ''acme/api'']" for full
    using tags [of full] that by (intro exI [of _ 1]) (simp only: list.set, simp)
  ultimately show ?thesis unfolding registry_serves_def by blast
qed

lemma ListImages_exact_witness:
  "\<exists>imgs. rg_ListImages demo_registry 2 ''acme'' [] () = (Ok imgs, ()) \<and> length imgs = 4 \<and> oi_name (hd imgs) = ''api''"
proof -
  obtain imgs where imgs: "rg_ListImages demo_registry 2 ''acme'' [] () = (Ok imgs, ())"
    using ListImages_exact [OF demo_registry_serves, of "''acme''" "[]" "()"] by blast
  have "(case rg_ListImages demo_registry 2 ''acme'' [] () of (Ok xs, _) \<Rightarrow> length xs = 4 \<and> oi_name (hd xs) = ''api'' | _ \<Rightarrow> False)"
    by code_simp
  with imgs show ?thesis by simp
qed

end
