(* ===== verification/Gateway.thy ===== *)
theory Gateway
  imports RepoProps Systems
begin

text \<open>
  The gateway as a whole: the transition system whose steps are the handlers that write to the
  ownership store, beside anything that leaves it alone.  The store refines an abstract table of
  rights (\<open>rights\<close>, the abstraction function \<open>rights_of\<close>), whose transitions \<open>rights_step\<close> say what the
  code's grants and revocations mean; and every store that can be reached is well formed.
  A handler is one step here: how the statements of concurrent handlers interleave is not modelled
  in this theory (each single statement keeps the invariant, see \<open>evolves_store\<close>).
\<close>

subsection \<open>The abstract table of rights\<close>

text \<open>Who owns what, which free sessions exist with which role, and which change requests are on
  record, with base, head and origin.\<close>

record rights =
  rt_orgs :: "(string \<times> string) set"
  rt_repos :: "(string \<times> string \<times> string) set"
  rt_free :: "string \<times> string \<Rightarrow> role option"
  rt_requests :: "string \<times> string \<times> string \<times> int \<Rightarrow> (string \<times> string \<times> string) option"

definition rights_of :: "store \<Rightarrow> rights" where
  "rights_of st =
    \<lparr>rt_orgs = {(t, o'). ownsOrg t o' st}, rt_repos = {(t, o', r). ownsRepo t o' r st},
     rt_free = (\<lambda>(t, s). freeRole t s st),
     rt_requests = (\<lambda>(t, o', r, i). map_option (\<lambda>m. (mr_base m, mr_head_ref m, mr_origin m)) (mrSubmission t o' r i st))\<rparr>"

inductive rights_step :: "rights \<Rightarrow> rights \<Rightarrow> bool" where
  grant_org: "ValidComponent org \<Longrightarrow> rights_step a (a\<lparr>rt_orgs := insert (t, org) (rt_orgs a)\<rparr>)"
| grant_repo: "ValidComponent org \<Longrightarrow> ValidComponent repo \<Longrightarrow>
    rights_step a (a\<lparr>rt_repos := insert (t, org, repo) (rt_repos a)\<rparr>)"
| revoke_repo: "rights_step a (a\<lparr>rt_repos := rt_repos a - {(t, org, repo)}\<rparr>)"
| add_free: "ro \<in> {Admin, Explorer} \<Longrightarrow> ValidComponent s \<Longrightarrow>
    rights_step a (a\<lparr>rt_free := (rt_free a)((t, s) \<mapsto> ro)\<rparr>)"
| del_free: "rights_step a (a\<lparr>rt_free := (rt_free a)((t, s) := None)\<rparr>)"
| add_request: "\<exists>t'. (t', org, repo) \<in> rt_repos a \<Longrightarrow> ValidComponent base \<Longrightarrow> \<not> isMRBranch base \<Longrightarrow>
    isMRBranch head \<Longrightarrow>
    rights_step a (a\<lparr>rt_requests := (rt_requests a)((t, org, repo, i) \<mapsto> (base, head, origin))\<rparr>)"
| del_request: "rights_step a (a\<lparr>rt_requests := (rt_requests a)((t, org, repo, i) := None)\<rparr>)"

text \<open>Each statement of the store is the abstract operation of the same name.\<close>

lemma rights_of_statements:
  "rights_of (addOrg t org st) = (rights_of st)\<lparr>rt_orgs := insert (t, org) (rt_orgs (rights_of st))\<rparr>"
  "rights_of (addRepo t org repo st) = (rights_of st)\<lparr>rt_repos := insert (t, org, repo) (rt_repos (rights_of st))\<rparr>"
  "rights_of (removeRepo t org repo st) = (rights_of st)\<lparr>rt_repos := rt_repos (rights_of st) - {(t, org, repo)}\<rparr>"
  "rights_of (addFreeSession t s ro st) = (rights_of st)\<lparr>rt_free := (rt_free (rights_of st))((t, s) \<mapsto> ro)\<rparr>"
  "rights_of (deleteFreeSession t s st) = (rights_of st)\<lparr>rt_free := (rt_free (rights_of st))((t, s) := None)\<rparr>"
  "rights_of (addMRSubmission now t org repo i base head origin st) =
     (rights_of st)\<lparr>rt_requests := (rt_requests (rights_of st))((t, org, repo, i) \<mapsto> (base, head, origin))\<rparr>"
  "rights_of (deleteMRSubmission t org repo i st) =
     (rights_of st)\<lparr>rt_requests := (rt_requests (rights_of st))((t, org, repo, i) := None)\<rparr>"
proof -
  have requests: "mrSubmission t' o' r' j st' = mrSubmission t' o' r' j st"
    if "mr_submissions st' = mr_submissions st" for t' o' r' j st'
    using that by (simp add: mrSubmission_def)
  have frame: "mr_submissions (addOrg t org st) = mr_submissions st"
    "mr_submissions (addRepo t org repo st) = mr_submissions st"
    "mr_submissions (removeRepo t org repo st) = mr_submissions st"
    "mr_submissions (addFreeSession t s ro st) = mr_submissions st"
    "mr_submissions (deleteFreeSession t s st) = mr_submissions st"
    by (simp_all add: addOrg_def addRepo_def removeRepo_def addFreeSession_def deleteFreeSession_def)
  show "rights_of (addOrg t org st) = (rights_of st)\<lparr>rt_orgs := insert (t, org) (rt_orgs (rights_of st))\<rparr>"
    "rights_of (addRepo t org repo st) = (rights_of st)\<lparr>rt_repos := insert (t, org, repo) (rt_repos (rights_of st))\<rparr>"
    "rights_of (removeRepo t org repo st) = (rights_of st)\<lparr>rt_repos := rt_repos (rights_of st) - {(t, org, repo)}\<rparr>"
    "rights_of (addFreeSession t s ro st) = (rights_of st)\<lparr>rt_free := (rt_free (rights_of st))((t, s) \<mapsto> ro)\<rparr>"
    "rights_of (deleteFreeSession t s st) = (rights_of st)\<lparr>rt_free := (rt_free (rights_of st))((t, s) := None)\<rparr>"
    "rights_of (addMRSubmission now t org repo i base head origin st) =
     (rights_of st)\<lparr>rt_requests := (rt_requests (rights_of st))((t, org, repo, i) \<mapsto> (base, head, origin))\<rparr>"
    "rights_of (deleteMRSubmission t org repo i st) =
     (rights_of st)\<lparr>rt_requests := (rt_requests (rights_of st))((t, org, repo, i) := None)\<rparr>"
    by (auto simp: rights_of_def store_laws requests [OF frame(1)] requests [OF frame(2)]
        requests [OF frame(3)] requests [OF frame(4)] requests [OF frame(5)] fun_eq_iff)
qed

subsection \<open>Well-formed stores\<close>

definition request_ok :: "mr_row \<Rightarrow> bool" where
  "request_ok m = (ValidComponent (mr_org m) \<and> ValidComponent (mr_repo m) \<and> ValidComponent (mr_base m) \<and>
     \<not> isMRBranch (mr_base m) \<and> isMRBranch (mr_head_ref m))"

text \<open>Every name is a valid component, a free session has one of the two roles that are not bound to
  a branch, a recorded change request goes from a change-request branch into an ordinary one, and no
  key occurs twice.\<close>

definition well_formed :: "store \<Rightarrow> bool" where
  "well_formed st =
    (list_all (\<lambda>(t, org). ValidComponent org) (org_owners st) \<and>
     list_all (\<lambda>(t, org, repo). ValidComponent org \<and> ValidComponent repo) (repo_owners st) \<and>
     list_all (\<lambda>(t, s, ro). ValidComponent s \<and> ro \<in> {Admin, Explorer}) (free_sessions st) \<and>
     list_all request_ok (mr_submissions st) \<and>
     distinct (org_owners st) \<and> distinct (repo_owners st) \<and>
     distinct (map fs_key (free_sessions st)) \<and> distinct (map mr_key (mr_submissions st)))"

lemma well_formed_empty: "well_formed empty_store"
  by (simp add: well_formed_def empty_store_def)

lemma well_formed_statements:
  "well_formed st \<Longrightarrow> ValidComponent org \<Longrightarrow> well_formed (addOrg t org st)"
  "well_formed st \<Longrightarrow> ValidComponent org \<Longrightarrow> ValidComponent repo \<Longrightarrow> well_formed (addRepo t org repo st)"
  "well_formed st \<Longrightarrow> well_formed (removeRepo t org repo st)"
  "well_formed st \<Longrightarrow> ro \<in> {Admin, Explorer} \<Longrightarrow> ValidComponent s \<Longrightarrow> well_formed (addFreeSession t s ro st)"
  "well_formed st \<Longrightarrow> well_formed (deleteFreeSession t s st)"
  "well_formed st \<Longrightarrow> ownsRepo t' org repo st \<Longrightarrow> ValidComponent base \<Longrightarrow> \<not> isMRBranch base \<Longrightarrow> isMRBranch head \<Longrightarrow>
     well_formed (addMRSubmission now t org repo i base head origin st)"
  "well_formed st \<Longrightarrow> well_formed (deleteMRSubmission t org repo i st)"
  by (auto simp: well_formed_def addOrg_def addRepo_def removeRepo_def addFreeSession_def deleteFreeSession_def
      addMRSubmission_def deleteMRSubmission_def list_all_iff request_ok_def ownsRepo_iff
      intro: distinct_map_filter)
    (auto simp: fs_key_def mr_key_def)

subsection \<open>How the store evolves\<close>

text \<open>The frame of this theory: the store stays well formed, and its rights change by abstract steps.\<close>

definition evolves :: "'x world \<Rightarrow> 'x world \<Rightarrow> bool" where
  "evolves w w' = ((well_formed (db w) \<longrightarrow> well_formed (db w')) \<and>
     rights_step\<^sup>*\<^sup>* (rights_of (db w)) (rights_of (db w')))"

lemma preord_evolves [simp, intro]: "preord evolves"
  by (auto simp: preord_def reflp_def transp_def evolves_def)

lemma evolves_same: "db w' = db w \<Longrightarrow> evolves w w'"
  by (simp add: evolves_def)

lemma evolves_keep: "keeps same_db m \<Longrightarrow> keeps evolves m"
  by (auto simp: keeps_def intro: evolves_same)

lemma evolves_store:
  "ValidComponent org \<Longrightarrow> keeps evolves (AddOrg S t org)"
  "ValidComponent org \<Longrightarrow> ValidComponent repo \<Longrightarrow> keeps evolves (AddRepo S t org repo)"
  "keeps evolves (RemoveRepo S t org repo)"
  "ro \<in> {Admin, Explorer} \<Longrightarrow> ValidComponent s \<Longrightarrow> keeps evolves (AddFreeSession S t s ro)"
  "keeps evolves (DeleteFreeSession S t s)"
  "keeps evolves (DeleteMRSubmission S t org repo i)"
  unfolding AddOrg_def AddRepo_def RemoveRepo_def AddFreeSession_def DeleteFreeSession_def DeleteMRSubmission_def
  by (auto simp: evolves_def rights_of_statements well_formed_statements
      intro!: keeps_exec r_into_rtranclp intro: rights_step.intros)

subsection \<open>The handlers\<close>

lemma claims_evolve:
  "ValidComponent org \<Longrightarrow> keeps evolves (claimOrg S t org)"
  "ValidComponent org \<Longrightarrow> ValidComponent repo \<Longrightarrow> keeps evolves (claimRepo S t org repo)"
  by (auto simp: claimOrg_def claimRepo_def or_internal_def git_wrapped_def git_internal_def
      intro!: keeps evolves_store evolves_keep [OF store_reads_keep(1)] evolves_keep [OF store_reads_keep(2)]
        evolves_keep [OF store_reads_keep(3)] evolves_keep [OF git_db.ensures(1)] evolves_keep [OF git_db.ensures(2)]
        evolves_keep [OF git_db.reads(2)])

lemma parts_evolve:
  "keeps evolves (resolveTenant S h)" "keeps evolves (tenantOf S h)" "keeps evolves (sandboxAuth S h)"
  "keeps evolves (sessionExists S h s)" "keeps evolves (createSession S h s p m l)" "keeps evolves (sandboxFields S s)"
  "keeps evolves (OwnsRepo S t org repo)" "keeps evolves (free_role S t s)" "keeps evolves (ensureVisible S h org repo)"
  "keeps evolves (owns_quietly S t org repo)"
  by (auto simp: sandboxAuth_def ensureVisible_def owns_quietly_def or_internal_def
      intro!: keeps evolves_keep [OF resolveTenant_keeps(1)] evolves_keep [OF tenantOf_keeps(1)]
        evolves_keep [OF agent_parts_keep(1)] evolves_keep [OF agent_parts_keep(3)] evolves_keep [OF agent_parts_keep(5)]
        evolves_keep [OF store_reads_keep(1)] evolves_keep [OF free_role_keeps(1)] split: option.split)

lemma cascade_evolves: "keeps evolves (deleteSessionCascade S h t s)"
  by (auto simp: deleteSessionCascade_def cascade_sandboxes_def
      intro!: keeps evolves_store evolves_keep [OF sbx_db.sbx_keeps(1)] evolves_keep [OF sbx_db.sbx_keeps(3)]
        evolves_keep [OF keeps_agent_call(1)] split: option.split)

lemmas host_evolves =
  evolves_keep [OF git_db.reads(2) [OF TrueI]] evolves_keep [OF git_db.reads(3) [OF TrueI]]
  evolves_keep [OF git_db.reads(8) [OF TrueI]]
  evolves_keep [OF git_db.posts(1) [OF TrueI]] evolves_keep [OF git_db.posts(5) [OF TrueI]] evolves_keep [OF git_db.posts(7) [OF TrueI]]
  evolves_keep [OF git_db.patches(1) [OF TrueI]] evolves_keep [OF git_db.patches(2) [OF TrueI]]
  evolves_keep [OF git_db.deletes(1) [OF TrueI]] evolves_keep [OF git_db.deletes(2) [OF TrueI]]
  evolves_keep [OF git_db.ensures(2) [OF TrueI TrueI]] evolves_keep [OF git_db.ensures(3) [OF TrueI TrueI]]

lemma sessions_evolve:
  "keeps evolves (EnsureBranchSession S h org repo branch model locale)"
  "keeps evolves (CreateFreeSession S h ro name model locale)"
  "keeps evolves (DeleteBranchSession S h session)"
  "keeps evolves (DeleteBranch S h org repo branch)"
  "keeps evolves (CreateOrg S h org)"
  "keeps evolves (EnsureRepo S h org repo)"
  unfolding EnsureBranchSession_def CreateFreeSession_def DeleteBranchSession_def DeleteBranch_def CreateOrg_def
    requireAdmin_def EnsureRepo_def ensureMainSession_def or_internal_def git_internal_def Let_def
  by (auto intro!: keeps evolves_store claims_evolve parts_evolve cascade_evolves host_evolves split: option.split)

lemma requests_evolve:
  "keeps evolves (MergeMR S h org repo index)" "keeps evolves (CloseMR S h org repo index)"
  unfolding MergeMR_def CloseMR_def or_mrError_def authorizeMRTarget_def Let_def
  by (auto intro!: keeps evolves_store parts_evolve host_evolves)

subsection \<open>Submitting a change request\<close>

text \<open>A change request is recorded for a repository that had an owner when it was checked, and still has.\<close>

definition evolves_owned :: "string \<Rightarrow> string \<Rightarrow> 'x world \<Rightarrow> 'x world \<Rightarrow> bool" where
  "evolves_owned org repo w w' = ((\<exists>t. ownsRepo t org repo (db w)) \<longrightarrow>
     (\<exists>t. ownsRepo t org repo (db w')) \<and> evolves w w')"

lemma preord_evolves_owned [simp, intro]: "preord (evolves_owned org repo)"
  unfolding preord_def reflp_def transp_def evolves_owned_def
  by (metis preord_evolves preord_refl preord_trans)

lemma evolves_owned_keep: "keeps same_db m \<Longrightarrow> keeps (evolves_owned org repo) m"
  by (auto simp: keeps_def evolves_owned_def intro: evolves_same)

lemma quiet_read_db: "keeps same_db (\<lambda>w. case quiet f w of (x, w') \<Rightarrow> (Ok x, w'))"
  by (rule keepsI) (auto split: prod.splits dest: db_quiet)

lemma mrBranchName_db: "keeps same_db (mrBranchName S origin)"
  by (rule keepsI) (auto simp: mrBranchName_def split: prod.splits dest: db_quiet)

lemma evolves_owned_store:
  "ValidComponent o1 \<Longrightarrow> keeps (evolves_owned org repo) (AddOrg S t o1)"
  "ValidComponent o1 \<Longrightarrow> ValidComponent r1 \<Longrightarrow> keeps (evolves_owned org repo) (AddRepo S t o1 r1)"
  "ValidComponent base \<Longrightarrow> \<not> isMRBranch base \<Longrightarrow> isMRBranch head \<Longrightarrow>
     keeps (evolves_owned org repo) (AddMRSubmission S t org repo i base head origin)"
proof -
  show "ValidComponent o1 \<Longrightarrow> keeps (evolves_owned org repo) (AddOrg S t o1)"
    "ValidComponent o1 \<Longrightarrow> ValidComponent r1 \<Longrightarrow> keeps (evolves_owned org repo) (AddRepo S t o1 r1)"
    unfolding AddOrg_def AddRepo_def
    by (auto simp: evolves_owned_def evolves_def rights_of_statements well_formed_statements store_laws
        intro!: keeps_exec r_into_rtranclp intro: rights_step.intros)
  show "ValidComponent base \<Longrightarrow> \<not> isMRBranch base \<Longrightarrow> isMRBranch head \<Longrightarrow>
     keeps (evolves_owned org repo) (AddMRSubmission S t org repo i base head origin)"
    unfolding AddMRSubmission_def
    by (intro keeps_bnd evolves_owned_keep [OF quiet_read_db] preord_evolves_owned keeps_exec)
       (auto simp: evolves_owned_def evolves_def rights_of_statements well_formed_statements store_laws
        intro!: r_into_rtranclp rights_step.add_request, auto simp: rights_of_def)
qed

lemma notify_evolves: "keeps (evolves_owned org repo) (notifyMRSubmitted S h t o1 r1 base i title url)"
proof -
  note keep = evolves_owned_keep [where org = org and repo = repo]
  have claim: "keeps (evolves_owned org repo) (claimRepo S t o1 r1)" if "ValidComponent o1" "ValidComponent r1" for t
    using that
    by (auto simp: claimRepo_def or_internal_def git_wrapped_def git_internal_def
        intro!: keeps evolves_owned_store keep [OF store_reads_keep(1)] keep [OF git_db.ensures(2)] keep [OF git_db.reads(2)])
  have "keeps (evolves_owned org repo) (EnsureBranchSession S h o1 r1 b m l)" for b m l
    unfolding EnsureBranchSession_def Let_def
    by (auto intro!: keeps claim keep [OF resolveTenant_keeps(1)] keep [OF agent_parts_keep(1)] keep [OF agent_parts_keep(3)]
        keep [OF agent_parts_keep(5)])
  then show ?thesis
    unfolding notifyMRSubmitted_def Let_def
    by (auto intro!: keeps keep [OF keeps_db_logged] split: option.split)
qed

lemma Submit_db: "keeps same_db (Submit (lift_gogit g) opt base head msg ops)"
proof -
  have one: "keeps same_db (applyFile (lift_gogit g) dir ig op)" for dir ig op
    unfolding applyFile_def Let_def
    by (auto simp: lift_gogit_def intro!: keeps keeps_gg quiet_read_db)
  show ?thesis
    unfolding Submit_def
    by (auto intro!: keeps keeps_gg keeps_deferring one) (auto simp: lift_gogit_def intro!: keeps)
qed

lemma ensureVisible_owned:
  "ensureVisible S h org repo w = (Ok x, w') \<Longrightarrow> db w' = db w \<and> (\<exists>t. ownsRepo t org repo (db w))"
proof -
  have "wp (ensureVisible S h org repo) (\<lambda>r w'. db w' = db w \<and> (is_ok r \<longrightarrow> (\<exists>t. ownsRepo t org repo (db w)))) w"
    unfolding ensureVisible_def or_internal_def OwnsRepo_def
    by (rule wp_bnd, rule wp_keeps [OF resolveTenant_keeps(1)])
       (auto intro!: wp_bnd wp_map_err wp_query wp_throw wp_ret split: res.split)
  then show "ensureVisible S h org repo w = (Ok x, w') \<Longrightarrow> db w' = db w \<and> (\<exists>t. ownsRepo t org repo (db w))"
    by (auto simp: wp_def)
qed

lemma after_visible:
  assumes "keeps (evolves_owned org repo) k"
  shows "keeps evolves (bnd (ensureVisible S h org repo) (\<lambda>_. k))"
proof (rule keepsI)
  fix w r w' assume run: "bnd (ensureVisible S h org repo) (\<lambda>_. k) w = (r, w')"
  obtain r1 w1 where first: "ensureVisible S h org repo w = (r1, w1)" by (cases "ensureVisible S h org repo w")
  have "evolves w w1" by (rule keepsD [OF parts_evolve(9) first])
  moreover have "evolves w w'" if "r1 = Ok x" for x
  proof -
    have "db w1 = db w" "\<exists>t. ownsRepo t org repo (db w)"
      using ensureVisible_owned first that by blast+
    moreover have "evolves_owned org repo w1 w'"
      using keepsD [OF assms] run first that by (auto simp: bnd_cases)
    ultimately show ?thesis by (simp add: evolves_owned_def evolves_def)
  qed
  ultimately show "evolves w w'"
    using run first by (cases r1) (auto simp: bnd_cases)
qed

lemma SubmitMR_evolves: "keeps evolves (SubmitMR S h org repo base title0 body files)"
proof -
  note keep = evolves_owned_keep [where org = org and repo = repo]
  show ?thesis
    unfolding SubmitMR_def git_internal_def Let_def
    by (rule after_visible)
       (auto intro!: keeps(1-5) keeps keep [OF git_db.reads(3) [OF TrueI]] keep [OF git_db.posts(5) [OF TrueI]]
          keep [OF git_db.deletes(2) [OF TrueI]] keep [OF Submit_db] keep [OF tenantOf_keeps(1)] keep [OF mrBranchName_db]
          evolves_owned_store notify_evolves keeps_bnd_results [where m = "mrBranchName S _"] split: sum.split dest: mrBranchName_MR)
qed

subsection \<open>Repositories and images\<close>

lemma keeps_removing: "preord R \<Longrightarrow> (\<And>s. R s (bf_rmall fs dir s)) \<Longrightarrow> keeps R m \<Longrightarrow> keeps R (ImageBuild.removing fs dir m)"
  by (rule keepsI) (auto simp: ImageBuild.removing_def split: prod.splits dest: keepsD intro: preord_trans)

lemma Import_image_db: "keeps same_db (bd_Import b d (lift_fs fs) (lift_process run) req)"
proof -
  have proc: "keeps same_db (run_process (lift_process run) cmd env t)" for cmd env t
    by (auto simp: keeps_def run_process_def lift_process_def split: prod.splits)
  have pure: "keeps same_db (pure_of f)" for f :: "'a world \<Rightarrow> 'c"
    by (simp add: keeps_def pure_of_def)
  have fs: "keeps same_db (of_sum (bf_mktemp (lift_fs fs) p))" "keeps same_db (of_sum (bf_putfile (lift_fs fs) p q))"
    "same_db w (bf_rmall (lift_fs fs) p w)" for p q w
    by (simp_all add: lift_fs_def keeps)
  have clean: "keeps same_db (cleaning (lift_fs fs) dir m)" if "keeps same_db m" for dir and m :: "('a world, 'e, 'c) act"
    using that fs(3) by (auto simp: cleaning_def keeps_def split: prod.splits res.splits) (metis snd_conv)+
  show ?thesis
    unfolding bd_Import_def runEnv_def mergeDockerConfig_def Let_def
    by (auto intro!: keeps keeps_removing proc pure fs clean)
qed

lemma or_cleanup_evolves:
  assumes "keeps evolves m" "\<And>x. keeps evolves (k x)"
  shows "keeps evolves (or_cleanup S org repo what m k)"
proof -
  have "keeps evolves (cleanup_import S org repo cause)" for cause
    unfolding cleanup_import_def by (intro keeps host_evolves preord_evolves)
  with assms show ?thesis
    unfolding or_cleanup_def by (auto intro!: keeps split: sum.split)
qed

lemma repositories_evolve:
  "keeps evolves (DeleteRepo S E h org repo)"
  "keeps evolves (ImportRepo S R h m)"
  "keeps evolves (ImportImage S R h q)"
proof -
  have services: "keeps evolves (with_svc E (ret ()) (delete_services pre) :: ('a, unit) handler)" for pre
    by (auto simp: with_svc_def intro!: keeps evolves_keep [OF delete_services_db] split: option.split)
  show "keeps evolves (DeleteRepo S E h org repo)"
    unfolding DeleteRepo_def or_internal_def git_internal_def Let_def
    by (auto intro!: keeps evolves_store parts_evolve cascade_evolves host_evolves services evolves_keep [OF keeps_agent_call(1)]
        split: sum.split)
  show "keeps evolves (ImportRepo S R h m)"
    unfolding ImportRepo_def finish_import_def git_internal_def git_wrapped_def or_internal_def Let_def
    by (auto intro!: keeps or_cleanup_evolves evolves_store claims_evolve parts_evolve host_evolves evolves_keep [OF Import_db])
  show "keeps evolves (ImportImage S R h q)"
    unfolding ImportImage_def
    by (auto intro!: keeps claims_evolve parts_evolve evolves_keep [OF Import_image_db] split: option.split)
qed

subsection \<open>The transition system\<close>

text \<open>\<open>elsewhere\<close> is any step that leaves the store as it is: the other handlers, the agent, the host and
  the cluster moving by themselves.\<close>

inductive gateway_step :: "'x service \<Rightarrow> 'x svc_env \<Rightarrow> 'x repo_env \<Rightarrow> 'x world \<Rightarrow> 'x world \<Rightarrow> bool"
  for S E R where
  ensure_session: "gateway_step S E R w (snd (EnsureBranchSession S h org repo branch model locale w))"
| free_session: "gateway_step S E R w (snd (CreateFreeSession S h ro name model locale w))"
| delete_session: "gateway_step S E R w (snd (DeleteBranchSession S h session w))"
| delete_branch: "gateway_step S E R w (snd (DeleteBranch S h org repo branch w))"
| create_org: "gateway_step S E R w (snd (CreateOrg S h org w))"
| ensure_repo: "gateway_step S E R w (snd (EnsureRepo S h org repo w))"
| submit: "gateway_step S E R w (snd (SubmitMR S h org repo base title body files w))"
| merge: "gateway_step S E R w (snd (MergeMR S h org repo index w))"
| close: "gateway_step S E R w (snd (CloseMR S h org repo index w))"
| delete_repo: "gateway_step S E R w (snd (DeleteRepo S E h org repo w))"
| import_repo: "gateway_step S E R w (snd (ImportRepo S R h m w))"
| import_image: "gateway_step S E R w (snd (ImportImage S R h q w))"
| elsewhere: "db w' = db w \<Longrightarrow> gateway_step S E R w w'"

lemma step_evolves: "gateway_step S E R w w' \<Longrightarrow> evolves w w'"
  by (erule gateway_step.cases)
     (simp_all add: sessions_evolve [THEN keeps_snd] requests_evolve [THEN keeps_snd] SubmitMR_evolves [THEN keeps_snd]
        repositories_evolve [THEN keeps_snd] evolves_same)

interpretation gateway: transition_system "\<lambda>w. db w = empty_store" "gateway_step S E R" "\<lambda>w. well_formed (db w)" for S E R
  by unfold_locales (auto simp: well_formed_empty dest: step_evolves simp: evolves_def)

interpretation gateway: simulation "gateway_step S E R" "\<lambda>w. rights_of (db w)" rights_step for S E R
  by unfold_locales (auto dest: step_evolves simp: evolves_def)

text \<open>The other handlers on sessions, repositories, change requests and images are steps of that kind.\<close>

lemma reader_parts:
  "keeps same_db (ensureVisible S h org repo)" "keeps same_db (resolveTenant S h)" "keeps same_db (sandboxAuth S h)"
  "keeps same_db (list_row S t all n)"
  by (auto simp: ensureVisible_def sandboxAuth_def list_row_def or_internal_def Let_def
      intro!: keeps resolveTenant_keeps(1) store_reads_keep free_role_keeps split: option.split)

lemma readers_keep_store:
  "keeps same_db (ForkBranchSession S h parent branch mid)" "keeps same_db (ListBranchSessions S h)"
  "keeps same_db (GetBranchSession S h session)" "keeps same_db (ListRepos S h)" "keeps same_db (ListOrgs S h)"
  "keeps same_db (Tree S h org repo ref path)" "keeps same_db (Log S h org repo ref path limit offset)"
  "keeps same_db (Branches S h org repo)" "keeps same_db (Tags S h org repo)" "keeps same_db (ReadRaw S h org repo ref path)"
  "keeps same_db (GetCommit S h org repo sha)" "keeps same_db (CommitDiff S h org repo sha)"
  "keeps same_db (RepoMeta S h org repo)" "keeps same_db (ListMRs S h org repo state)" "keeps same_db (GetMR S h org repo index)"
  "keeps same_db (MRDiff S h org repo index)" "keeps same_db (ListMRComments S h org repo index)"
  "keeps same_db (CommentMR S h org repo index body)" "keeps same_db (CreateTag S h org repo name target)"
  "keeps same_db (CreateBranch S h org repo name base)" "keeps same_db (ListPushMirrors S h org repo)"
  "keeps same_db (DeletePushMirror S h org repo name)" "keeps same_db (SetPushMirror S R h org repo opts)"
  "keeps same_db (ReadBlob S h org repo ref path)" "keeps same_db (Contents S h org repo ref path)"
  "keeps same_db (ListReleases S h org repo)" "keeps same_db (GetReleaseAsset S h org repo i j)"
  "keeps same_db (Archive S R h org repo ref)"
  unfolding ForkBranchSession_def ListBranchSessions_def GetBranchSession_def ListRepos_def ListOrgs_def
    Tree_def Log_def Branches_def Tags_def ReadRaw_def GetCommit_def CommitDiff_def RepoMeta_def
    ListMRs_def GetMR_def MRDiff_def ListMRComments_def CommentMR_def CreateTag_def CreateBranch_def
    ListPushMirrors_def DeletePushMirror_def SetPushMirror_def ReadBlob_def Contents_def ListReleases_def
    GetReleaseAsset_def Archive_def ListOrgsOf_def
    or_internal_def git_internal_def git_wrapped_def or_mrError_def git_not_found_def Let_def
  by (auto intro!: keeps reader_parts tenantOf_keeps(1) store_reads_keep free_role_keeps agent_parts_keep with_sbx_keeps
      sbx_db.sbx_keeps git_db.reads git_db.tree_keeps git_db.log_keeps git_db.posts git_db.patches git_db.deletes
      git_db.ensures git_db.file_reads split: option.split sum.split)

text \<open>A gateway without a service backend, for the runs below.\<close>

definition demo_env :: "demo svc_env" where
  "demo_env =
    \<lparr>en_svc = None,
     en_yaml = \<lparr>ya_dep = (\<lambda>d. Inr ''d''), ya_svc = (\<lambda>v. Inr ''v''), ya_kind = (\<lambda>t. Inl ''no yaml''),
       ya_read_dep = (\<lambda>t. Inl ''no yaml''), ya_read_svc = (\<lambda>t. Inl ''no yaml'')\<rparr>,
     en_domain = ''example.org'', en_ns = ''worker'', en_pvc_class = ''local-path'', en_pvc_size = ''1Gi'',
     en_runtime = DefaultSettings, en_is_ip = (\<lambda>h. False), en_golden_pvc = [], en_golden_size = [],
     en_vm_proxy = [], en_vm_tag = [], en_bootstrap = None\<rparr>"

text \<open>C4: Every store the gateway can reach from an empty one is well formed: whatever requests arrive in
  whatever order, every owned organisation and repository has a valid name, every free session is an
  admin or an explorer, every recorded change request goes from an mr/ branch into an ordinary
  branch, and no primary key occurs twice.\<close>

theorem reachable_store_well_formed:
  assumes "db w = empty_store" "(gateway_step S E R)\<^sup>*\<^sup>* w w'"
  shows "well_formed (db w')"
  by (rule gateway.reached_inv [OF assms(2,1)])

lemma reachable_store_well_formed_witness:
  "let w = demo_world\<lparr>db := empty_store\<rparr>;
       w1 = snd (EnsureRepo demo_service (demo_hdr ''t2'' []) ''acme'' ''web'' w);
       w2 = snd (CreateFreeSession demo_service (demo_hdr ''t2'' []) Explorer ''scout'' [] [] w1) in
   well_formed (db w2) \<and> ownsRepo ''t2'' ''acme'' ''web'' (db w2) \<and> freeRole ''t2'' ''scout'' (db w2) = Some Explorer"
proof -
  let ?w = "demo_world\<lparr>db := empty_store\<rparr>"
  let ?w1 = "snd (EnsureRepo demo_service (demo_hdr ''t2'' []) ''acme'' ''web'' ?w)"
  let ?w2 = "snd (CreateFreeSession demo_service (demo_hdr ''t2'' []) Explorer ''scout'' [] [] ?w1)"
  have "(gateway_step demo_service demo_env demo_repo_env)\<^sup>*\<^sup>* ?w ?w2"
    by (rule rtranclp.rtrancl_into_rtrancl [OF r_into_rtranclp]) (rule ensure_repo free_session)+
  from reachable_store_well_formed [OF _ this] have "well_formed (db ?w2)" by simp
  moreover have "ownsRepo ''t2'' ''acme'' ''web'' (db ?w2)" "freeRole ''t2'' ''scout'' (db ?w2) = Some Explorer"
    by code_simp+
  ultimately show ?thesis by (simp add: Let_def)
qed



end
