(* ===== verification/BuildRuns.thy ===== *)
theory BuildRuns
  imports Builds
begin

text \<open>
  Infinite runs of the background builds: under the assumption that the goroutine of a build ends
  (\<^verbatim>\<open>buildctl\<close> runs with a time limit), every build that was started is settled at some moment and
  keeps its final record for ever.
\<close>

definition is_run :: "(nat \<Rightarrow> builds) \<Rightarrow> bool" where
  "is_run r = (reachable (r 0) \<and> (\<forall>n. build_step (r n) (r (Suc n))))"

text \<open>Whenever the goroutine of build \<open>i\<close> is at work, it ends at that moment or later.\<close>

definition goroutine_ends :: "string \<Rightarrow> (nat \<Rightarrow> builds) \<Rightarrow> bool" where
  "goroutine_ends i r = (\<forall>n. i \<in> set (bw_live (r n)) \<longrightarrow>
     (\<exists>m\<ge>n. \<exists>res. i \<in> set (bw_live (r m)) \<and> r (Suc m) = build_finish i res (r m)))"

text \<open>A settled build: its goroutine has ended and its state is final.\<close>

definition settled :: "string \<Rightarrow> build \<Rightarrow> builds \<Rightarrow> bool" where
  "settled i b w = (i \<notin> set (bw_live w) \<and> mget (bw_map w) i = Some b \<and> bl_state b \<in> {''done'', ''failed''})"

lemma run_reachable: "is_run r \<Longrightarrow> reachable (r n)"
  by (induction n) (auto simp: is_run_def intro: reachable.step)

lemma settled_step: "build_step w w' \<Longrightarrow> settled i b w \<Longrightarrow> settled i b w'"
  by (erule build_step.cases) (auto simp: settled_def build_ops split: option.splits if_splits sum.splits)

text \<open>Once settled, settled for ever.\<close>

interpretation settled: transition_system "settled i b" build_step "settled i b" for i b
  by unfold_locales (blast intro: settled_step)+

lemma settled_ever: "is_run r \<Longrightarrow> settled i b (r n) \<Longrightarrow> n \<le> k \<Longrightarrow> settled i b (r k)"
  by (rule settled.run_inv) (simp_all add: is_run_def)

lemma finish_settles:
  assumes "builds_ok w" "i \<in> set (bw_live w)"
  shows "\<exists>b. settled i b (build_finish i res w)"
proof -
  obtain b where "mget (bw_map w) i = Some b" using assms by (auto simp: builds_ok_def)
  with assms show ?thesis
    by (cases res) (auto simp: settled_def build_finish_def builds_ok_def)
qed

text \<open>C13: Every build that is started settles.  In any infinite run in which the goroutine of a build,
  whenever it works, ends some time, a build whose goroutine works now is done or failed from some
  moment on, with a record (state, image, log) that no later request or goroutine changes.\<close>

theorem builds_settle:
  assumes "is_run r" "goroutine_ends i r" "i \<in> set (bw_live (r n))"
  shows "\<exists>m b. n \<le> m \<and> bl_state b \<in> {''done'', ''failed''} \<and>
    (\<forall>k\<ge>m. mget (bw_map (r k)) i = Some b \<and> i \<notin> set (bw_live (r k)))"
proof -
  obtain m res where m: "n \<le> m" "i \<in> set (bw_live (r m))" "r (Suc m) = build_finish i res (r m)"
    using assms(2,3) by (auto simp: goroutine_ends_def)
  have "builds_ok (r m)" by (rule reachable_builds [OF run_reachable [OF assms(1)]])
  from finish_settles [OF this m(2)] m(3) obtain b where b: "settled i b (r (Suc m))" by metis
  have "settled i b (r k)" if "Suc m \<le> k" for k
    by (rule settled_ever [OF assms(1) b that])
  with m(1) b show ?thesis
    by (intro exI [of _ "Suc m"] exI [of _ b]) (auto simp: settled_def)
qed

definition demo_run :: "nat \<Rightarrow> builds" where
  "demo_run n = (case n of 0 \<Rightarrow> demo_armed | Suc 0 \<Rightarrow> build_chunk ''b1'' ''step 1'' demo_armed | _ \<Rightarrow> demo_builds)"

lemma builds_settle_witness:
  "\<exists>m b. 0 \<le> m \<and> bl_state b \<in> {''done'', ''failed''} \<and>
    (\<forall>k\<ge>m. mget (bw_map (demo_run k)) ''b1'' = Some b \<and> ''b1'' \<notin> set (bw_live (demo_run k)))"
proof (rule builds_settle)
  have stay: "build_step demo_builds demo_builds"
    by (rule build_step.cancel [where i = "''b1''"]) (simp add: demo_builds_def demo_armed_def build_ops no_builds_def mget_def)
  show "is_run demo_run"
    unfolding is_run_def demo_run_def
    using demo_armed_reachable demo_chunk demo_finish stay by (auto split: nat.split)
  have live: "''b1'' \<in> set (bw_live demo_armed)" "''b1'' \<in> set (bw_live (build_chunk ''b1'' ''step 1'' demo_armed))"
    "''b1'' \<notin> set (bw_live demo_builds)"
    by (simp_all add: demo_builds_def demo_armed_def build_ops no_builds_def mget_def)
  have "\<exists>m\<ge>n. \<exists>res. ''b1'' \<in> set (bw_live (demo_run m)) \<and> demo_run (Suc m) = build_finish ''b1'' res (demo_run m)"
    if "''b1'' \<in> set (bw_live (demo_run n))" for n
  proof -
    have "n \<le> 1" using that live(3) by (auto simp: demo_run_def split: nat.splits)
    moreover have "demo_run 2 = build_finish ''b1'' (Inr ''git.local/acme/x:1'') (demo_run 1)"
      by (simp add: demo_run_def demo_builds_def numeral_2_eq_2)
    ultimately show ?thesis
      using live(2) by (intro exI [of _ 1]) (auto simp: demo_run_def numeral_2_eq_2)
  qed
  then show "goroutine_ends ''b1'' demo_run" by (simp add: goroutine_ends_def)
  show "''b1'' \<in> set (bw_live (demo_run 0))" using live(1) by (simp add: demo_run_def)
qed

end
