(* ===== verification/AgentClient.thy ===== *)
theory AgentClient
  imports Demo
begin

text \<open>
  Package \<^verbatim>\<open>internal/agentclient\<close>: the credentials under which the gateway calls the agent.  The
  transport \<open>RoundTrip\<close> replaces the service token of the workspace extension by a token minted for
  the tenant the request names, from a cache with a lifetime (\<open>br_token\<close>), and tries once more when
  the agent has revoked it.  The HTTP transport below, the agent's token endpoint and the clock are
  parameters; every request handed to the transport below is recorded.  The mutex of the cache is
  not modelled: requests run one after the other.
\<close>

subsection \<open>Requests and the client\<close>

text \<open>Header names are canonical; \<open>aq_getbody\<close> is \<^verbatim>\<open>GetBody\<close>, \<open>None\<close> when it is nil.\<close>

record areq =
  aq_url :: string
  aq_headers :: "string list gomap"
  aq_body :: string
  aq_getbody :: "(string + string) option"

record aresp =
  ap_status :: int
  ap_data :: string

record 's agent_client =
  ac_service :: string
  ac_admin :: string
  ac_ttl :: int
  ac_issue :: "string \<Rightarrow> string \<Rightarrow> string \<Rightarrow> 's \<Rightarrow> (string + string) \<times> 's"
  ac_trip :: "areq \<Rightarrow> 's \<Rightarrow> (string + aresp) \<times> 's"
  ac_now :: "'s \<Rightarrow> int \<times> 's"

text \<open>The cache of tokens with their expiry, the requests sent, and the outside.\<close>

record 's agent_net =
  an_tokens :: "(string \<times> int) gomap"
  an_sent :: "areq list"
  an_ext :: 's

definition aq_get :: "areq \<Rightarrow> string \<Rightarrow> string" where
  "aq_get rq name = hdr_get (Some (aq_headers rq)) name"

subsection \<open>Forwarding the caller's headers\<close>

definition forwardedHeaders :: "string list" where
  "forwardedHeaders = [''Authorization'', ''X-Abc-Tenant'', ''X-Session-Name'', ''X-Forwarded-Host'', ''Host'']"

text \<open>The headers of an outbound call: of the inbound ones only these, and of each the first value.\<close>

definition withForwardedHeaders :: "headers \<Rightarrow> string list gomap" where
  "withForwardedHeaders h =
     foldl (\<lambda>out name. let v = hdr_get h name in if v \<noteq> [] then mput name [v] out else out) [] forwardedHeaders"

subsection \<open>The token broker\<close>

definition minute :: int where "minute = 60 * 1000000000"

definition outside :: "('s \<Rightarrow> 'r \<times> 's) \<Rightarrow> 's agent_net \<Rightarrow> 'r \<times> 's agent_net" where
  "outside f w = (case f (an_ext w) of (r, x) \<Rightarrow> (r, w\<lparr>an_ext := x\<rparr>))"

definition br_now :: "'s agent_client \<Rightarrow> ('s agent_net, 'e, int) act" where
  "br_now C = (\<lambda>w. case outside (ac_now C) w of (n, w') \<Rightarrow> (Ok n, w'))"

definition br_mint :: "'s agent_client \<Rightarrow> string \<Rightarrow> int \<Rightarrow> ('s agent_net, string, string) act" where
  "br_mint C tenant until =
     bnd (of_sum (outside (ac_issue C (''Bearer '' @ ac_admin C) tenant ''workspace-gateway''))) (\<lambda>tok.
       if tok = [] then throw ''agentclient: agent returned an empty tenant token''
       else bnd (modify (\<lambda>w. w\<lparr>an_tokens := mput tenant (tok, until) (an_tokens w)\<rparr>)) (\<lambda>_. ret tok))"

definition br_token :: "'s agent_client \<Rightarrow> string \<Rightarrow> ('s agent_net, string, string) act" where
  "br_token C tenant =
     (if ac_admin C = []
      then throw ''agentclient: GATEWAY_SERVICE_TOKEN is set but AGENT_ADMIN_TOKEN is empty; cannot mint a tenant token''
      else bnd (br_now C) (\<lambda>now.
        let ttl = (if ac_ttl C \<le> 0 then 10 * minute else ac_ttl C) in
        bnd (pure_of (\<lambda>w. mget (an_tokens w) tenant)) (\<lambda>entry. case entry of
            Some (tok, until) \<Rightarrow> if now < until then ret tok else br_mint C tenant (now + ttl)
          | None \<Rightarrow> br_mint C tenant (now + ttl))))"

definition br_invalidate :: "string \<Rightarrow> ('s agent_net, 'e, unit) act" where
  "br_invalidate tenant = modify (\<lambda>w. w\<lparr>an_tokens := filter (\<lambda>e. fst e \<noteq> tenant) (an_tokens w)\<rparr>)"

subsection \<open>The transport\<close>

definition at_tenant :: "'s agent_client \<Rightarrow> areq \<Rightarrow> string option" where
  "at_tenant C rq =
     (if ac_service C = [] then None
      else if aq_get rq ''Authorization'' \<noteq> ''Bearer '' @ ac_service C then None
      else let t = aq_get rq ''X-Abc-Tenant'' in if validTenantID t then Some t else None)"

definition withCredential :: "areq \<Rightarrow> string \<Rightarrow> areq" where
  "withCredential rq tok = rq\<lparr>aq_headers := filter (\<lambda>e. fst e \<noteq> ''X-Abc-Tenant'')
     (mput ''Authorization'' [''Bearer '' @ tok] (aq_headers rq))\<rparr>"

definition send :: "'s agent_client \<Rightarrow> areq \<Rightarrow> ('s agent_net, string, aresp) act" where
  "send C rq = of_sum (\<lambda>w. outside (ac_trip C rq) (w\<lparr>an_sent := an_sent w @ [rq]\<rparr>))"

definition RoundTrip :: "'s agent_client \<Rightarrow> areq \<Rightarrow> ('s agent_net, string, aresp) act" where
  "RoundTrip C rq = (case at_tenant C rq of
      None \<Rightarrow> send C rq
    | Some tenant \<Rightarrow>
        bnd (br_token C tenant) (\<lambda>tok.
        bnd (send C (withCredential rq tok)) (\<lambda>res.
          case aq_getbody rq of
            Some again \<Rightarrow>
              if ap_status res \<noteq> 401 then ret res else
              bnd (br_invalidate tenant) (\<lambda>_.
              case again of Inl e \<Rightarrow> throw e
              | Inr body \<Rightarrow>
                  bnd (br_token C tenant) (\<lambda>tok2. send C ((withCredential rq tok2)\<lparr>aq_body := body\<rparr>)))
          | None \<Rightarrow> ret res)))"

subsection \<open>Tokens belong to their tenant\<close>

text \<open>\<open>issued t tok\<close>: the agent issued the token for the tenant.\<close>

definition honest_issuer :: "(string \<Rightarrow> string \<Rightarrow> bool) \<Rightarrow> 's agent_client \<Rightarrow> bool" where
  "honest_issuer issued C = (\<forall>bearer t label x tok x'. ac_issue C bearer t label x = (Inr tok, x') \<longrightarrow> issued t tok)"

definition cache_ok :: "(string \<Rightarrow> string \<Rightarrow> bool) \<Rightarrow> (string \<times> int) gomap \<Rightarrow> bool" where
  "cache_ok issued toks = (\<forall>t tok until. mget toks t = Some (tok, until) \<longrightarrow> issued t tok)"

lemma outside_keeps: "outside f w = (r, w') \<Longrightarrow> an_tokens w' = an_tokens w \<and> an_sent w' = an_sent w"
  by (auto simp: outside_def split: prod.splits)

lemma wp_br_now: "(\<And>n w'. an_tokens w' = an_tokens w \<Longrightarrow> an_sent w' = an_sent w \<Longrightarrow> Q (Ok n) w') \<Longrightarrow> wp (br_now C) Q w"
  by (auto simp: wp_def br_now_def split: prod.splits dest: outside_keeps)

lemma wp_send:
  "(\<And>r w'. an_tokens w' = an_tokens w \<Longrightarrow> an_sent w' = an_sent w @ [rq] \<Longrightarrow> Q r w') \<Longrightarrow> wp (send C rq) Q w"
  unfolding send_def by (rule wp_of_sum) (auto dest!: outside_keeps)

lemma map_of_filter_keys: "map_of (filter (\<lambda>e. fst e \<noteq> k) m) k' = (if k' = k then None else map_of m k')"
  by (induction m) auto

lemma cache_ok_put: "cache_ok issued toks \<Longrightarrow> issued t tok \<Longrightarrow> cache_ok issued (mput t (tok, until) toks)"
  by (auto simp: cache_ok_def split: if_splits)

lemma cache_ok_get: "cache_ok issued toks \<Longrightarrow> mget toks t = Some (tok, until) \<Longrightarrow> issued t tok"
  by (auto simp: cache_ok_def)

lemma cache_ok_drop: "cache_ok issued toks \<Longrightarrow> cache_ok issued (filter (\<lambda>e. fst e \<noteq> t) toks)"
  unfolding cache_ok_def mget_def by (auto simp: map_of_filter_keys)

text \<open>What the broker guarantees from a state with the same cache and the same requests sent as \<open>w\<close>.\<close>

definition token_post :: "(string \<Rightarrow> string \<Rightarrow> bool) \<Rightarrow> 's agent_net \<Rightarrow> string \<Rightarrow> (string, string) res \<Rightarrow> 's agent_net \<Rightarrow> bool" where
  "token_post issued w t r w' = (cache_ok issued (an_tokens w') \<and> an_sent w' = an_sent w \<and> (\<forall>tok. r = Ok tok \<longrightarrow> issued t tok))"

lemma br_mint_post:
  assumes "honest_issuer issued C" "cache_ok issued (an_tokens w)" "an_sent w = an_sent u"
  shows "wp (br_mint C t until) (token_post issued u t) w"
  unfolding br_mint_def
proof (rule wp_bnd, rule wp_of_sum)
  fix tok w1 assume "outside (ac_issue C (''Bearer '' @ ac_admin C) t ''workspace-gateway'') w = (Inr tok, w1)"
  then have "issued t tok" "an_tokens w1 = an_tokens w" "an_sent w1 = an_sent w"
    using assms(1) outside_keeps by (fastforce simp: outside_def honest_issuer_def split: prod.splits)+
  with assms(2,3) show "case Ok tok of Ok x \<Rightarrow> wp (if x = [] then throw ''agentclient: agent returned an empty tenant token''
       else bnd (modify (\<lambda>w. w\<lparr>an_tokens := mput t (x, until) (an_tokens w)\<rparr>)) (\<lambda>_. ret x)) (token_post issued u t) w1
    | Fail e \<Rightarrow> token_post issued u t (Fail e) w1 | Panic p \<Rightarrow> token_post issued u t (Panic p) w1"
    by (auto intro!: wp_throw wp_bnd wp_modify wp_ret simp: token_post_def cache_ok_put)
next
  fix e w1 assume "outside (ac_issue C (''Bearer '' @ ac_admin C) t ''workspace-gateway'') w = (Inl e, w1)"
  from outside_keeps [OF this] assms(2,3) show "case Fail e of Ok x \<Rightarrow> wp (if x = [] then throw ''agentclient: agent returned an empty tenant token''
       else bnd (modify (\<lambda>w. w\<lparr>an_tokens := mput t (x, until) (an_tokens w)\<rparr>)) (\<lambda>_. ret x)) (token_post issued u t) w1
    | Fail e \<Rightarrow> token_post issued u t (Fail e) w1 | Panic p \<Rightarrow> token_post issued u t (Panic p) w1"
    by (simp add: token_post_def)
qed

lemma br_token_post:
  assumes "honest_issuer issued C" "cache_ok issued (an_tokens w)" "an_sent w = an_sent u"
  shows "wp (br_token C t) (token_post issued u t) w"
proof -
  have mint: "wp (br_mint C t until) (token_post issued u t) w1" if "an_tokens w1 = an_tokens w" "an_sent w1 = an_sent w" for w1 until
    by (rule br_mint_post [OF assms(1)]) (use assms(2,3) that in \<open>auto\<close>)
  have hit: "issued t tok" if "mget (an_tokens w) t = Some (tok, until)" for tok until
    using assms(2) that by (rule cache_ok_get)
  show ?thesis
    unfolding br_token_def Let_def
    using assms(2,3) hit
    by (auto intro!: wp_throw wp_bnd wp_br_now wp_pure wp_ret mint simp: token_post_def split: option.split)
qed

text \<open>A request under a token of the tenant, without the gateway's own header.\<close>

definition acts_for :: "(string \<Rightarrow> string \<Rightarrow> bool) \<Rightarrow> string \<Rightarrow> areq \<Rightarrow> areq \<Rightarrow> bool" where
  "acts_for issued t rq r = (aq_url r = aq_url rq \<and> hdr_values (Some (aq_headers r)) ''X-Abc-Tenant'' = [] \<and>
     (\<exists>tok. issued t tok \<and> hdr_values (Some (aq_headers r)) ''Authorization'' = [''Bearer '' @ tok]))"

lemma hdr_filter: "hdr_values (Some (filter (\<lambda>e. fst e \<noteq> n) hs)) m = (if m = n then [] else hdr_values (Some hs) m)"
  by (simp add: hdr_values_def map_of_filter_keys)

lemma hdr_mput: "hdr_values (Some (mput n vs hs)) m = (if m = n then vs else hdr_values (Some hs) m)"
  using mget_mput [of n vs hs m] by (simp add: hdr_values_def mget_def split: option.splits)

lemma acts_for_credential:
  "issued t tok \<Longrightarrow> acts_for issued t rq (withCredential rq tok)"
  "issued t tok \<Longrightarrow> acts_for issued t rq ((withCredential rq tok)\<lparr>aq_body := body\<rparr>)"
  by (auto simp: acts_for_def withCredential_def hdr_filter hdr_mput)

text \<open>The requests sent since \<open>w\<close>.\<close>

definition sends :: "(areq list \<Rightarrow> bool) \<Rightarrow> 's agent_net \<Rightarrow> 's agent_net \<Rightarrow> bool" where
  "sends P w w' = (\<exists>rs. an_sent w' = an_sent w @ rs \<and> P rs)"

text \<open>C8: A request that carries the service token and names a tenant reaches the agent, at most twice,
  only under a token that the agent issued for that very tenant, and without the internal tenant
  header; every other request is handed on exactly once and untouched.  The cache stays such that
  each tenant's token was issued for it, also when a revoked token is dropped and minted again.\<close>

theorem RoundTrip_acts_for_named_tenant:
  assumes "honest_issuer issued C" "cache_ok issued (an_tokens w)"
  shows "let w' = snd (RoundTrip C rq w) in cache_ok issued (an_tokens w') \<and>
    (case at_tenant C rq of
       None \<Rightarrow> an_sent w' = an_sent w @ [rq]
     | Some t \<Rightarrow> sends (\<lambda>rs. length rs \<le> 2 \<and> list_all (acts_for issued t rq) rs) w w')"
proof (cases "at_tenant C rq")
  case None
  have "wp (send C rq) (\<lambda>r w'. cache_ok issued (an_tokens w') \<and> an_sent w' = an_sent w @ [rq]) w"
    using assms(2) by (auto intro!: wp_send)
  then show ?thesis by (simp add: RoundTrip_def None wp_def Let_def)
next
  case (Some t)
  define Q where "Q = (\<lambda>(r :: (string, aresp) res) w'. cache_ok issued (an_tokens w') \<and>
      sends (\<lambda>rs. length rs \<le> 2 \<and> list_all (acts_for issued t rq) rs) w w')"
  have Q0: "Q r w1" if "token_post issued w t q w1" for r w1 q
    using that by (auto simp: Q_def token_post_def sends_def)
  have Q1: "Q r w2" if "cache_ok issued (an_tokens w2)" "an_sent w2 = an_sent w @ [withCredential rq tok]" "issued t tok" for r w2 tok
    using that by (auto simp: Q_def sends_def acts_for_credential)
  have again: "wp (bnd (br_token C t) (\<lambda>tok2. send C ((withCredential rq tok2)\<lparr>aq_body := body\<rparr>))) Q w2"
    if "cache_ok issued (an_tokens w2)" "an_sent w2 = an_sent w @ [withCredential rq tok]" "issued t tok" for w2 tok body
    using that
    by (intro wp_bnd wp_conseq [OF br_token_post [OF assms(1) that(1) refl]])
       (auto simp: Q1 token_post_def split: res.split intro!: wp_send,
        auto simp: Q_def sends_def acts_for_credential)
  define rest where "rest = (\<lambda>res. case aq_getbody rq of
            Some g \<Rightarrow>
              if ap_status res \<noteq> 401 then ret res else
              bnd (br_invalidate t) (\<lambda>_.
              case g of Inl e \<Rightarrow> throw e
              | Inr body \<Rightarrow>
                  bnd (br_token C t) (\<lambda>tok2. send C ((withCredential rq tok2)\<lparr>aq_body := body\<rparr>)))
          | None \<Rightarrow> ret res)"
  have rest: "wp (rest res) Q w2"
    if w2: "cache_ok issued (an_tokens w2)" "an_sent w2 = an_sent w @ [withCredential rq tok]" "issued t tok" for w2 tok res
  proof -
    let ?w3 = "w2\<lparr>an_tokens := filter (\<lambda>e. fst e \<noteq> t) (an_tokens w2)\<rparr>"
    have w3: "cache_ok issued (an_tokens ?w3)" "an_sent ?w3 = an_sent w @ [withCredential rq tok]"
      using w2 by (simp_all add: cache_ok_drop)
    show ?thesis
      unfolding rest_def br_invalidate_def
      using again [OF w3 w2(3)] Q1 [OF w3 w2(3)] Q1 [OF w2]
      by (auto intro!: wp_bnd wp_modify wp_ret wp_throw split: option.split sum.split)
  qed
  have "wp (bnd (br_token C t) (\<lambda>tok. bnd (send C (withCredential rq tok)) rest)) Q w"
  proof (rule wp_bnd, rule wp_conseq [OF br_token_post [OF assms(1,2) refl]])
    fix r w1 assume w1: "token_post issued w t r w1"
    have "wp (bnd (send C (withCredential rq tok)) rest) Q w1" if "r = Ok tok" for tok
    proof (rule wp_bnd, rule wp_send)
      fix q and w2 :: "'a agent_net"
      assume "an_tokens w2 = an_tokens w1" "an_sent w2 = an_sent w1 @ [withCredential rq tok]"
      with w1 that have w2: "cache_ok issued (an_tokens w2)" "an_sent w2 = an_sent w @ [withCredential rq tok]" "issued t tok"
        by (simp_all add: token_post_def)
      show "case q of Ok x \<Rightarrow> wp (rest x) Q w2 | Fail e \<Rightarrow> Q (Fail e) w2 | Panic p \<Rightarrow> Q (Panic p) w2"
        using rest [OF w2] Q1 [OF w2] by (simp split: res.split)
    qed
    with Q0 [OF w1] show "case r of Ok x \<Rightarrow> wp (bnd (send C (withCredential rq x)) rest) Q w1
        | Fail e \<Rightarrow> Q (Fail e) w1 | Panic p \<Rightarrow> Q (Panic p) w1"
      by (simp split: res.split)
  qed
  then show ?thesis by (simp add: RoundTrip_def Some wp_def Q_def Let_def rest_def cong: option.case_cong)
qed

text \<open>An agent that issues tokens, and answers 401 to the first of them.\<close>

definition demo_agent_client :: "nat agent_client" where
  "demo_agent_client =
    \<lparr>ac_service = ''svc'', ac_admin = ''adm'', ac_ttl = 0,
     ac_issue = (\<lambda>b t l n. (Inr (t @ ''-'' @ nat_str n), Suc n)),
     ac_trip = (\<lambda>rq n. (Inr \<lparr>ap_status = (if aq_get rq ''Authorization'' = ''Bearer acme-0'' then 401 else 200), ap_data = []\<rparr>, n)),
     ac_now = (\<lambda>n. (0, n))\<rparr>"

definition demo_request :: areq where
  "demo_request = \<lparr>aq_url = ''http://agent/Fork'',
     aq_headers = [(''Authorization'', [''Bearer svc'']), (''X-Abc-Tenant'', [''acme''])], aq_body = ''x'', aq_getbody = Some (Inr ''x'')\<rparr>"

lemma RoundTrip_acts_for_named_tenant_witness:
  "let w' = snd (RoundTrip demo_agent_client demo_request \<lparr>an_tokens = [], an_sent = [], an_ext = 0\<rparr>) in
   at_tenant demo_agent_client demo_request = Some ''acme'' \<and>
   list_all (acts_for (\<lambda>t tok. has_prefix tok (t @ ''-'')) ''acme'' demo_request) (an_sent w') \<and>
   map (\<lambda>r. aq_get r ''Authorization'') (an_sent w') = [''Bearer acme-0'', ''Bearer acme-1'']"
proof -
  let ?P = "\<lambda>t tok. has_prefix tok (t @ ''-'')" and ?w = "\<lparr>an_tokens = [], an_sent = [], an_ext = 0\<rparr> :: nat agent_net"
  have "honest_issuer ?P demo_agent_client"
    by (auto simp: honest_issuer_def demo_agent_client_def has_prefix_iff)
  moreover have "cache_ok ?P (an_tokens ?w)" by (simp add: cache_ok_def mget_def)
  moreover have t: "at_tenant demo_agent_client demo_request = Some ''acme''" by code_simp
  ultimately have "sends (\<lambda>rs. length rs \<le> 2 \<and> list_all (acts_for ?P ''acme'' demo_request) rs) ?w
      (snd (RoundTrip demo_agent_client demo_request ?w))"
    using RoundTrip_acts_for_named_tenant [of ?P demo_agent_client ?w demo_request] by (simp add: Let_def)
  then have "list_all (acts_for ?P ''acme'' demo_request) (an_sent (snd (RoundTrip demo_agent_client demo_request ?w)))"
    by (auto simp: sends_def)
  moreover have "map (\<lambda>r. aq_get r ''Authorization'') (an_sent (snd (RoundTrip demo_agent_client demo_request ?w))) =
      [''Bearer acme-0'', ''Bearer acme-1'']" by code_simp
  ultimately show ?thesis using t by (simp add: Let_def)
qed

subsection \<open>The tenant of the handlers and the tenant of the credential\<close>

lemma forwarded_get: "hdr_get (Some (withForwardedHeaders h)) n = (if n \<in> set forwardedHeaders then hdr_get h n else [])"
proof -
  have "hdr_get (Some (foldl (\<lambda>out name. let v = hdr_get h name in if v \<noteq> [] then mput name [v] out else out) out names)) n =
      (if n \<in> set names \<and> hdr_get h n \<noteq> [] then hdr_get h n else hdr_get (Some out) n)" for names out
    by (induction names arbitrary: out) (auto simp: Let_def hdr_get_def hdr_mput)
  from this [of "[]" forwardedHeaders] show ?thesis
    by (simp add: withForwardedHeaders_def hdr_get_def hdr_values_def)
qed

lemma bearer_first:
  assumes "hdr_get h ''Authorization'' = ''Bearer '' @ tok" "trim_space tok = tok"
  shows "bearerToken h = tok"
proof -
  obtain vs where "hdr_values h ''Authorization'' = (''Bearer '' @ tok) # vs"
    using assms(1) by (auto simp: hdr_get_def split: list.splits)
  moreover have "has_prefix (''Bearer '' @ tok) ''Bearer ''" by (rule has_prefix_append)
  moreover have "trim_prefix (''Bearer '' @ tok) ''Bearer '' = tok" by (rule trim_prefix_append)
  ultimately show ?thesis using assms(2) unfolding bearerToken_def by (simp only: find.simps if_True option.case)
qed

lemma valid_tenant_trimmed: "validTenantID t \<Longrightarrow> trim_space t = t"
  by (rule trim_space_id) (auto simp: validTenantID_def list_all_iff is_space_def is_alnum_def is_upper_def is_lower_def is_digit_def less_eq_char_def)

text \<open>The outbound call of a handler that runs for the headers \<open>h\<close>.\<close>

definition outbound :: "headers \<Rightarrow> string \<Rightarrow> string \<Rightarrow> areq" where
  "outbound h url body = \<lparr>aq_url = url, aq_headers = withForwardedHeaders h, aq_body = body, aq_getbody = Some (Inr body)\<rparr>"

text \<open>C9: The credential and the handler agree: when the transport replaces the service token of a call that
  a handler makes, it acts for the tenant whose rows in the ownership store the handler uses.\<close>

theorem credential_matches_tenant:
  assumes "ac_service C = sv_token S" "trim_space (sv_token S) = sv_token S"
    and "at_tenant C (outbound h url body) = Some t"
  shows "serviceTenant S h = Some t"
proof -
  have get: "aq_get (outbound h url body) n = (if n \<in> set forwardedHeaders then hdr_get h n else [])" for n
    by (simp add: aq_get_def outbound_def forwarded_get)
  have t: "sv_token S \<noteq> []" "hdr_get h ''Authorization'' = ''Bearer '' @ sv_token S" "hdr_get h ''X-Abc-Tenant'' = t"
    "validTenantID t"
    using assms(1,3) by (auto simp: at_tenant_def get forwardedHeaders_def Let_def split: if_splits)
  then show ?thesis
    using bearer_first [OF t(2) assms(2)] valid_tenant_trimmed [OF t(4)]
    by (simp add: serviceTenant_def headerValue_def)
qed

definition demo_extension :: "demo service" where
  "demo_extension = demo_service\<lparr>sv_token := ''svc'', sv_tenant := ''system''\<rparr>"

lemma demo_extension_token: "ac_service demo_agent_client = sv_token demo_extension"
  "trim_space (sv_token demo_extension) = sv_token demo_extension" "sv_token demo_extension = ''svc''"
  by (simp_all add: demo_agent_client_def demo_extension_def) code_simp

lemma credential_matches_tenant_witness:
  "serviceTenant demo_extension (Some [(''Authorization'', [''Bearer svc'']), (''X-Abc-Tenant'', [''acme''])]) = Some ''acme''"
proof (rule credential_matches_tenant [OF demo_extension_token(1,2)])
  show "at_tenant demo_agent_client (outbound (Some [(''Authorization'', [''Bearer svc'']), (''X-Abc-Tenant'', [''acme''])])
      ''http://agent/Fork'' ''x'') = Some ''acme''"
    by code_simp
qed

text \<open>A service call that names no tenant: the handler acts for the deployment's own tenant, but the call
  to the agent goes out as it came, with the shared service token in it.\<close>

theorem unnamed_service_call_leaks_token:
  assumes "ac_service C = sv_token S" "trim_space (sv_token S) = sv_token S" "sv_token S \<noteq> []"
    and "hdr_get h ''Authorization'' = ''Bearer '' @ sv_token S" "hdr_get h ''X-Abc-Tenant'' = []"
  shows "serviceTenant S h = Some (sv_tenant S) \<and>
    an_sent (snd (RoundTrip C (outbound h url body) w)) = an_sent w @ [outbound h url body] \<and>
    aq_get (outbound h url body) ''Authorization'' = ''Bearer '' @ sv_token S"
proof -
  have get: "aq_get (outbound h url body) n = (if n \<in> set forwardedHeaders then hdr_get h n else [])" for n
    by (simp add: aq_get_def outbound_def forwarded_get)
  have none: "at_tenant C (outbound h url body) = None"
    using assms by (simp add: at_tenant_def get forwardedHeaders_def validTenantID_def)
  have "wp (send C (outbound h url body)) (\<lambda>r w'. an_sent w' = an_sent w @ [outbound h url body]) w"
    by (rule wp_send) simp
  then show ?thesis
    using bearer_first [OF assms(4,2)] assms(3-5)
    by (simp add: RoundTrip_def none wp_def get forwardedHeaders_def serviceTenant_def headerValue_def validTenantID_def
        trim_space_id)
qed

lemma unnamed_service_call_leaks_token_witness:
  "let h = Some [(''Authorization'', [''Bearer svc''])];
       w' = snd (RoundTrip demo_agent_client (outbound h ''http://agent/Fork'' ''x'') \<lparr>an_tokens = [], an_sent = [], an_ext = 0\<rparr>)
   in serviceTenant demo_extension h = Some ''system'' \<and>
      map (\<lambda>r. aq_get r ''Authorization'') (an_sent w') = [''Bearer svc'']"
proof -
  let ?h = "Some [(''Authorization'', [''Bearer svc''])]"
  have "hdr_get ?h ''Authorization'' = ''Bearer '' @ sv_token demo_extension" "hdr_get ?h ''X-Abc-Tenant'' = []"
    by (simp_all add: demo_extension_token(3) hdr_get_def hdr_values_def)
  from unnamed_service_call_leaks_token [OF demo_extension_token(1,2) _ this,
      of "''http://agent/Fork''" "''x''" "\<lparr>an_tokens = [], an_sent = [], an_ext = 0\<rparr>"]
  show ?thesis by (simp add: Let_def demo_extension_token(3) demo_extension_def)
qed

end
