(* ===== verification/GitStage.thy ===== *)
theory GitStage
  imports GitDiff
begin

text \<open>
  Package \<^verbatim>\<open>internal/gitcommit\<close>, the staging workflow of a branch and the cache of clones it works in:
  a write opens a placeholder commit or amends it, \<open>Commit\<close> gives it a message, \<open>ResetTo\<close> moves the
  branch.  go-git below a clone is a parameter as in theories \<open>GitCommit\<close> and \<open>GitDiff\<close>; that a fetch
  or a push finds nothing to do counts as a success, as in the code.  The mutex of the cache is not
  modelled: operations run one after the other.
\<close>

subsection \<open>Clones, commits and the manager\<close>

record clone =
  cd_dir :: string
  cd_branch :: string
  cd_user :: string
  cd_token :: string
  cd_last :: int

record commit_obj =
  co_hash :: string
  co_message :: string
  co_parents :: "string list"

text \<open>A tree is its hash and its number of entries; an amending commit that would change nothing may be
  refused as empty.\<close>

datatype commit_out = Committed string | EmptyCommit | CommitFailed string

record 's stage_git =
  st_git :: "'s gogit"
  st_reader :: "'s git_reader"
  st_mkdirs :: "string \<Rightarrow> 's \<Rightarrow> (string + unit) \<times> 's"
  st_mktemp :: "string \<Rightarrow> string \<Rightarrow> 's \<Rightarrow> (string + string) \<times> 's"
  st_fetch :: "string \<Rightarrow> string \<Rightarrow> string \<Rightarrow> string \<Rightarrow> 's \<Rightarrow> (string + unit) \<times> 's"
  st_remote_ref :: "string \<Rightarrow> string \<Rightarrow> 's \<Rightarrow> string + string"
  st_worktree :: "string \<Rightarrow> 's \<Rightarrow> string + unit"
  st_reset :: "string \<Rightarrow> string \<Rightarrow> 's \<Rightarrow> (string + unit) \<times> 's"
  st_head :: "string \<Rightarrow> 's \<Rightarrow> string + string"
  st_commit :: "string \<Rightarrow> string \<Rightarrow> 's \<Rightarrow> string + commit_obj"
  st_tree :: "string \<Rightarrow> string \<Rightarrow> 's \<Rightarrow> string + string \<times> nat"
  st_record :: "string \<Rightarrow> string \<Rightarrow> bool \<Rightarrow> bool \<Rightarrow> 's \<Rightarrow> commit_out \<times> 's"
  st_now :: "'s \<Rightarrow> int \<times> 's"

text \<open>\<open>st_record dir message amend allow_empty\<close> is \<^verbatim>\<open>Worktree.Commit\<close>.\<close>

record 's manager =
  mg_git :: "'s stage_git"
  mg_base :: string
  mg_caps :: nat

definition NewManager :: "'s stage_git \<Rightarrow> 's manager" where
  "NewManager g = \<lparr>mg_git = g, mg_base = [], mg_caps = 8\<rparr>"

definition SetBaseDir :: "string \<Rightarrow> 's manager \<Rightarrow> 's manager" where
  "SetBaseDir dir M = M\<lparr>mg_base := dir\<rparr>"

record 's stage =
  sg_cache :: "clone gomap"
  sg_out :: 's

definition PlaceholderPrefix :: string where "PlaceholderPrefix = ''ABCP_XXX''"

text \<open>The dash of the message is the UTF-8 character \<^verbatim>\<open>U+2014\<close>.\<close>

definition PlaceholderMessage :: string where
  "PlaceholderMessage = PlaceholderPrefix @ '' (workspace staging '' @ [CHR 0xE2, CHR 0x80, CHR 0x94] @
     '' amend before opening a change request)''"

definition IsPlaceholder :: "string \<Rightarrow> bool" where
  "IsPlaceholder msg = has_prefix msg PlaceholderPrefix"

definition cache_key :: "git_opts \<Rightarrow> string" where
  "cache_key opt = go_url opt @ [CHR 0x00] @ go_branch opt"

text \<open>An action below the cache.\<close>

definition below :: "('s, 'e, 'a) act \<Rightarrow> ('s stage, 'e, 'a) act" where
  "below m = (\<lambda>w. case m (sg_out w) of (r, x) \<Rightarrow> (r, w\<lparr>sg_out := x\<rparr>))"

definition git_do :: "('s \<Rightarrow> (string + 'a) \<times> 's) \<Rightarrow> ('s stage, submit_err, 'a) act" where
  "git_do f = below (gg f)"

definition git_ask :: "('s \<Rightarrow> string + 'a) \<Rightarrow> ('s stage, submit_err, 'a) act" where
  "git_ask f = below (map_err sub_other (ask f))"

definition stage_now :: "'s stage_git \<Rightarrow> ('s stage, 'e, int) act" where
  "stage_now g = below (\<lambda>x. case st_now g x of (t, x') \<Rightarrow> (Ok t, x'))"

definition drop_dir :: "'s stage_git \<Rightarrow> string \<Rightarrow> 's stage \<Rightarrow> 's stage" where
  "drop_dir g dir w = w\<lparr>sg_out := gg_rmall (st_git g) dir (sg_out w)\<rparr>"

subsection \<open>The cache\<close>

definition newDir :: "'s manager \<Rightarrow> ('s stage, submit_err, string) act" where
  "newDir M = (let g = mg_git M in
     if mg_base M = [] then git_do (st_mktemp g [] ''gitcommit-'')
     else bnd (git_do (st_mkdirs g (mg_base M))) (\<lambda>_. git_do (st_mktemp g (mg_base M) ''gitcommit-'')))"

text \<open>The first clone, in the order the map is iterated, that was used least recently.\<close>

fun oldest :: "clone gomap \<Rightarrow> (string \<times> clone) option" where
  "oldest [] = None"
| "oldest (e # m) = (case oldest m of None \<Rightarrow> Some e
     | Some e' \<Rightarrow> Some (if cd_last (snd e') < cd_last (snd e) then e' else e))"

lemma oldest_in: "oldest m = Some e \<Longrightarrow> e \<in> set m"
  by (induction m arbitrary: e) (auto split: option.splits if_splits)

function evict :: "nat \<Rightarrow> 's stage_git \<Rightarrow> 's stage \<Rightarrow> 's stage" where
  "evict caps g w =
     (if length (sg_cache w) < caps then w
      else case oldest (sg_cache w) of None \<Rightarrow> w
        | Some (k, c) \<Rightarrow> evict caps g ((drop_dir g (cd_dir c) w)\<lparr>sg_cache := filter (\<lambda>e. fst e \<noteq> k) (sg_cache w)\<rparr>))"
  by auto
termination
proof (relation "measure (\<lambda>(caps, g, w). length (sg_cache w))")
  fix caps :: nat and g :: "'s stage_git" and w :: "'s stage" and e k c
  assume "oldest (sg_cache w) = Some e" "(k, c) = e"
  then have "(k, c) \<in> set (sg_cache w)" by (simp add: oldest_in)
  then have "length (filter (\<lambda>e. fst e \<noteq> k) (sg_cache w)) < length (sg_cache w)"
    by (intro length_filter_less [of "(k, c)"]) auto
  then show "((caps, g, (drop_dir g (cd_dir c) w)\<lparr>sg_cache := filter (\<lambda>e. fst e \<noteq> k) (sg_cache w)\<rparr>), caps, g, w)
      \<in> measure (\<lambda>(caps, g, w). length (sg_cache w))"
    by simp
qed simp

declare evict.simps [simp del]

definition fetch_refspec :: "string \<Rightarrow> string" where
  "fetch_refspec branch = ''+refs/heads/'' @ branch @ '':refs/remotes/origin/'' @ branch"

definition refresh :: "'s stage_git \<Rightarrow> clone \<Rightarrow> ('s stage, submit_err, unit) act" where
  "refresh g c =
     bnd (git_do (st_fetch g (cd_dir c) (fetch_refspec (cd_branch c)) (cd_user c) (cd_token c))) (\<lambda>_.
     bnd (git_ask (st_remote_ref g (cd_dir c) (cd_branch c))) (\<lambda>hash.
     bnd (git_ask (st_worktree g (cd_dir c))) (\<lambda>_.
     bnd (git_do (st_reset g (cd_dir c) hash)) (\<lambda>_.
       git_do (gg_setref (st_git g) (cd_dir c) (cd_branch c) hash)))))"

text \<open>The clone in the cache, refreshed; one that cannot be refreshed is dropped.\<close>

definition cached_clone :: "'s manager \<Rightarrow> git_opts \<Rightarrow> ('s stage, submit_err, clone option) act" where
  "cached_clone M opt = (let g = mg_git M; key = cache_key opt in
     bnd (pure_of (\<lambda>w. mget (sg_cache w) key)) (\<lambda>hit. case hit of None \<Rightarrow> ret None
       | Some c \<Rightarrow> bnd (attempt (refresh g c)) (\<lambda>r. case r of
             Inr _ \<Rightarrow> bnd (stage_now g) (\<lambda>t. let c' = c\<lparr>cd_last := t\<rparr> in
               bnd (modify (\<lambda>w. w\<lparr>sg_cache := mput key c' (sg_cache w)\<rparr>)) (\<lambda>_. ret (Some c')))
           | Inl _ \<Rightarrow> bnd (modify (\<lambda>w. (drop_dir g (cd_dir c) w)\<lparr>sg_cache := filter (\<lambda>e. fst e \<noteq> key) (sg_cache w)\<rparr>)) (\<lambda>_.
               ret None))))"

definition fresh_clone :: "'s manager \<Rightarrow> git_opts \<Rightarrow> ('s stage, submit_err, clone) act" where
  "fresh_clone M opt = (let g = mg_git M; key = cache_key opt in
     bnd (newDir M) (\<lambda>dir.
     bnd (attempt (git_do (gg_clone (st_git g) dir (go_url opt) (go_user opt) (go_token opt) (go_branch opt)))) (\<lambda>r. case r of
         Inl e \<Rightarrow> bnd (modify (drop_dir g dir)) (\<lambda>_. throw (sub_wrap (''clone '' @ go_branch opt) e))
       | Inr _ \<Rightarrow>
         bnd (stage_now g) (\<lambda>t.
         let c = \<lparr>cd_dir = dir, cd_branch = go_branch opt, cd_user = go_user opt, cd_token = go_token opt, cd_last = t\<rparr> in
         bnd (modify (\<lambda>w. let w' = evict (mg_caps M) g w in w'\<lparr>sg_cache := mput key c (sg_cache w')\<rparr>)) (\<lambda>_. ret c)))))"

definition get_clone :: "'s manager \<Rightarrow> git_opts \<Rightarrow> ('s stage, submit_err, clone) act" where
  "get_clone M opt = bnd (cached_clone M opt) (\<lambda>found. case found of Some c \<Rightarrow> ret c | None \<Rightarrow> fresh_clone M opt)"

definition forget :: "'s manager \<Rightarrow> git_opts \<Rightarrow> ('s stage, 'e, unit) act" where
  "forget M opt = modify (\<lambda>w. case mget (sg_cache w) (cache_key opt) of None \<Rightarrow> w
     | Some c \<Rightarrow> (drop_dir (mg_git M) (cd_dir c) w)\<lparr>sg_cache := filter (\<lambda>e. fst e \<noteq> cache_key opt) (sg_cache w)\<rparr>)"

subsection \<open>Reading and rewriting the branch\<close>

definition stage_head :: "'s stage_git \<Rightarrow> clone \<Rightarrow> ('s stage, submit_err, commit_obj \<times> bool) act" where
  "stage_head g c =
     bnd (git_ask (st_head g (cd_dir c))) (\<lambda>hash.
     bnd (git_ask (st_commit g (cd_dir c) hash)) (\<lambda>cm. ret (cm, IsPlaceholder (co_message cm))))"

definition commitIsEmpty :: "'s stage_git \<Rightarrow> clone \<Rightarrow> commit_obj \<Rightarrow> ('s stage, submit_err, bool) act" where
  "commitIsEmpty g c cm =
     bnd (git_ask (st_tree g (cd_dir c) (co_hash cm))) (\<lambda>(tree, entries).
     case co_parents cm of [] \<Rightarrow> ret (entries = 0)
     | p # _ \<Rightarrow>
       bnd (git_ask (st_commit g (cd_dir c) p)) (\<lambda>parent.
       bnd (git_ask (st_tree g (cd_dir c) (co_hash parent))) (\<lambda>(ptree, _). ret (tree = ptree))))"

definition push_branch :: "'s stage_git \<Rightarrow> clone \<Rightarrow> ('s stage, submit_err, unit) act" where
  "push_branch g c = map_err (sub_wrap ''push'') (git_do
     (gg_push (st_git g) (cd_dir c) (''+'' @ push_refspec (cd_branch c)) True (cd_user c) (cd_token c)))"

definition ResetTo :: "'s manager \<Rightarrow> git_opts \<Rightarrow> string \<Rightarrow> ('s stage, submit_err, unit) act" where
  "ResetTo M opt sha = (let g = mg_git M in
     bnd (get_clone M opt) (\<lambda>c.
     bnd (below (map_err sub_other (resolveCommit (st_reader g) (cd_dir c) sha))) (\<lambda>h.
     bnd (git_do (gg_setref (st_git g) (cd_dir c) (go_branch opt) h)) (\<lambda>_.
     bnd (git_ask (st_worktree g (cd_dir c))) (\<lambda>_.
     bnd (git_do (st_reset g (cd_dir c) h)) (\<lambda>_.
     bnd (push_branch g c) (\<lambda>_.
       forget M opt)))))))"

record status =
  su_placeholder :: bool
  su_staged :: bool
  su_tip :: string
  su_merge_tip :: string

definition Status :: "'s manager \<Rightarrow> git_opts \<Rightarrow> ('s stage, submit_err, status) act" where
  "Status M opt = (let g = mg_git M in
     bnd (get_clone M opt) (\<lambda>c.
     bnd (stage_head g c) (\<lambda>(cm, place).
     let st = \<lparr>su_placeholder = place, su_staged = False, su_tip = co_hash cm, su_merge_tip = co_hash cm\<rparr> in
     if \<not> place then ret st else
     bnd (commitIsEmpty g c cm) (\<lambda>empty.
     let st' = st\<lparr>su_staged := \<not> empty\<rparr> in
     case co_parents cm of [] \<Rightarrow> ret st'
     | p # _ \<Rightarrow> bnd (attempt (git_ask (st_commit g (cd_dir c) p))) (\<lambda>r. case r of
           Inl _ \<Rightarrow> ret st' | Inr parent \<Rightarrow> ret (st'\<lparr>su_merge_tip := co_hash parent\<rparr>))))))"

definition stage_record :: "'s stage_git \<Rightarrow> clone \<Rightarrow> string \<Rightarrow> bool \<Rightarrow> bool \<Rightarrow> ('s stage, 'e, commit_out) act" where
  "stage_record g c message amend allow_empty =
     below (\<lambda>x. case st_record g (cd_dir c) message amend allow_empty x of (r, x') \<Rightarrow> (Ok r, x'))"

definition ApplyFiles :: "'s manager \<Rightarrow> git_opts \<Rightarrow> file_op list \<Rightarrow> ('s stage, submit_err, string) act" where
  "ApplyFiles M opt ops = (let g = mg_git M; gi = st_git g in
     if ops = [] then throw (sub_other ''no file operations given'') else
     bnd (get_clone M opt) (\<lambda>c.
     bnd (git_ask (st_worktree g (cd_dir c))) (\<lambda>_.
     bnd (below (gg_at ''read .gitignore'' (gg_ignore gi (cd_dir c)))) (\<lambda>ignored.
     bnd (each (\<lambda>op. below (map_err (sub_wrap (''apply '' @ fo_path op)) (applyFile gi (cd_dir c) ignored op))) ops) (\<lambda>_.
     bnd (below (gg_at ''stage'' (gg_addall gi (cd_dir c)))) (\<lambda>_.
     bnd (stage_head g c) (\<lambda>(_, place).
     bnd (below (gg_at ''status'' (gg_clean gi (cd_dir c)))) (\<lambda>clean.
     if clean then throw ErrNoChanges else
     bnd (stage_record g c PlaceholderMessage place place) (\<lambda>out.
     case out of EmptyCommit \<Rightarrow> throw ErrNoChanges
     | CommitFailed e \<Rightarrow> throw (sub_other (''commit: '' @ e))
     | Committed hash \<Rightarrow> bnd (push_branch g c) (\<lambda>_. ret hash))))))))))"

text \<open>The hash that \<^verbatim>\<open>Commit\<close> returns beside \<^verbatim>\<open>ErrEmptyCommit\<close> is the zero hash.\<close>

definition zero_hash :: string where "zero_hash = replicate 40 CHR ''0''"

definition Commit :: "'s manager \<Rightarrow> git_opts \<Rightarrow> string \<Rightarrow> ('s stage, submit_err, string) act" where
  "Commit M opt message = (let g = mg_git M in
     if trim_space message = [] then throw (sub_other ''message is required'') else
     bnd (get_clone M opt) (\<lambda>c.
     bnd (stage_head g c) (\<lambda>(cm, place).
     if \<not> place then throw (sub_other ''nothing to commit (no open staging area)'') else
     bnd (commitIsEmpty g c cm) (\<lambda>empty.
     if empty then throw (sub_other ''nothing to commit (staging area is empty)'') else
     bnd (git_ask (st_worktree g (cd_dir c))) (\<lambda>_.
     bnd (stage_record g c message True True) (\<lambda>out.
     case out of CommitFailed e \<Rightarrow> throw (sub_other (''commit: '' @ e))
     | Committed hash \<Rightarrow> bnd (push_branch g c) (\<lambda>_. ret hash)
     | EmptyCommit \<Rightarrow> bnd (push_branch g c) (\<lambda>_. ret zero_hash)))))))"

subsection \<open>The cache is bounded, and drops the least recently used clone\<close>

definition clones_ok :: "nat \<Rightarrow> 's stage \<Rightarrow> bool" where
  "clones_ok caps w = (distinct (map fst (sg_cache w)) \<and> length (sg_cache w) \<le> caps)"

lemma oldest_None: "oldest m = None \<longleftrightarrow> m = []"
  by (cases m) (auto split: option.splits)

lemma oldest_least: "oldest m = Some e \<Longrightarrow> e' \<in> set m \<Longrightarrow> cd_last (snd e) \<le> cd_last (snd e')"
  by (induction m arbitrary: e) (fastforce split: option.splits if_splits simp: oldest_None)+

lemma filter_key_length:
  "distinct (map fst m) \<Longrightarrow> (k, c) \<in> set m \<Longrightarrow> length (filter (\<lambda>e. fst e \<noteq> k) m) = length m - 1"
proof (induction m)
  case (Cons e m)
  then show ?case
  proof (cases "fst e = k")
    case True
    with Cons.prems have "k \<notin> fst ` set m" by simp
    then have "filter (\<lambda>e. fst e \<noteq> k) m = m" by (intro filter_True) force
    with True show ?thesis by simp
  next
    case False
    with Cons.prems have m: "(k, c) \<in> set m" by auto
    with Cons False have "length (filter (\<lambda>e. fst e \<noteq> k) m) = length m - 1" by simp
    moreover have "length m > 0" using m by (auto simp: length_pos_if_in_set)
    ultimately show ?thesis using False by simp
  qed
qed simp

text \<open>What remains and what goes, in one invariant of the loop.\<close>

definition evicted :: "nat \<Rightarrow> clone gomap \<Rightarrow> clone gomap \<Rightarrow> bool" where
  "evicted caps m m' = (distinct (map fst m') \<and> set m' \<subseteq> set m \<and> length m' = min (length m) (caps - 1) \<and>
     (\<forall>e\<in>set m - set m'. \<forall>e'\<in>set m'. cd_last (snd e) \<le> cd_last (snd e')))"

lemma evict_evicted:
  "distinct (map fst (sg_cache w)) \<Longrightarrow> 0 < caps \<Longrightarrow> evicted caps (sg_cache w) (sg_cache (evict caps g w))"
proof (induction caps g w rule: evict.induct)
  case (1 caps g w)
  show ?case
  proof (cases "length (sg_cache w) < caps")
    case True
    with "1.prems" show ?thesis by (auto simp: evict.simps [of caps g w] evicted_def)
  next
    case False
    with "1.prems" have "sg_cache w \<noteq> []" by auto
    then obtain k c where kc: "oldest (sg_cache w) = Some (k, c)" using oldest_None by (metis option.exhaust surj_pair)
    let ?w = "(drop_dir g (cd_dir c) w)\<lparr>sg_cache := filter (\<lambda>e. fst e \<noteq> k) (sg_cache w)\<rparr>"
    have step: "evict caps g w = evict caps g ?w" using False kc by (simp add: evict.simps [of caps g w])
    have IH: "evicted caps (sg_cache ?w) (sg_cache (evict caps g ?w))"
      using "1.IH" [OF False kc refl] "1.prems" by (simp add: distinct_map_filter)
    have len: "length (sg_cache ?w) = length (sg_cache w) - 1"
      using filter_key_length [OF "1.prems"(1) oldest_in [OF kc]] by simp
    have "(k, c') \<in> set (sg_cache w) \<Longrightarrow> c' = c" for c'
      using "1.prems"(1) oldest_in [OF kc] by (auto dest: eq_key_imp_eq_value)
    then have gone: "e = (k, c)" if "e \<in> set (sg_cache w) - set (sg_cache ?w)" for e
      using that by (cases e) auto
    have least: "cd_last c \<le> cd_last (snd e')" if "e' \<in> set (sg_cache w)" for e'
      using oldest_least [OF kc that] by simp
    show ?thesis
      unfolding step evicted_def
    proof (intro conjI ballI)
      show "distinct (map fst (sg_cache (evict caps g ?w)))" "set (sg_cache (evict caps g ?w)) \<subseteq> set (sg_cache w)"
        using IH by (auto simp: evicted_def)
      show "length (sg_cache (evict caps g ?w)) = min (length (sg_cache w)) (caps - 1)"
        using IH len False "1.prems"(2) by (auto simp: evicted_def min_def)
      fix e e' assume e: "e \<in> set (sg_cache w) - set (sg_cache (evict caps g ?w))" "e' \<in> set (sg_cache (evict caps g ?w))"
      show "cd_last (snd e) \<le> cd_last (snd e')"
      proof (cases "e \<in> set (sg_cache ?w)")
        case True
        then show ?thesis using IH e unfolding evicted_def by blast
      next
        case False
        then have "e = (k, c)" using gone e(1) by blast
        moreover have "e' \<in> set (sg_cache w)" using IH e(2) by (auto simp: evicted_def)
        ultimately show ?thesis using least by simp
      qed
    qed
  qed
qed

lemma keeps_below: "keeps (preserving (clones_ok caps)) (below m)"
  by (rule keepsI) (auto simp: below_def clones_ok_def split: prod.splits)

lemma cache_of_drop [simp]: "sg_cache (drop_dir g dir w) = sg_cache w"
  by (simp add: drop_dir_def)

lemma cache_basic:
  "keeps (preserving (clones_ok caps)) (git_do f)" "keeps (preserving (clones_ok caps)) (git_ask q)"
  "keeps (preserving (clones_ok caps)) (stage_now g)" "keeps (preserving (clones_ok caps)) (stage_record g c m a e)"
  by (simp_all add: git_do_def git_ask_def stage_now_def stage_record_def keeps_below)

lemma cache_forget: "keeps (preserving (clones_ok caps)) (forget M opt)"
  by (auto simp: forget_def keeps_def act clones_ok_def distinct_map_filter split: option.splits
      intro: order_trans [OF length_filter_le])

lemma cache_parts:
  "keeps (preserving (clones_ok caps)) (newDir M)" "keeps (preserving (clones_ok caps)) (refresh g c)"
  "keeps (preserving (clones_ok caps)) (stage_head g c)" "keeps (preserving (clones_ok caps)) (commitIsEmpty g c cm)"
  "keeps (preserving (clones_ok caps)) (push_branch g c)"
  by (auto simp: newDir_def refresh_def stage_head_def commitIsEmpty_def push_branch_def Let_def
      intro!: keeps cache_basic split: list.split)

lemma same_cache_below: "keeps (\<lambda>w w'. sg_cache w' = sg_cache w) (below m)"
  by (rule keepsI) (auto simp: below_def split: prod.splits)

lemma same_cache_basic:
  "keeps (\<lambda>w w'. sg_cache w' = sg_cache w) (refresh g c)" "keeps (\<lambda>w w'. sg_cache w' = sg_cache w) (stage_now g)"
  by (auto simp: refresh_def git_do_def git_ask_def stage_now_def intro!: keeps same_cache_below)

text \<open>Taking a clone: what is inserted after an eviction fits.\<close>

lemma length_mput: "length (mput k c m) = (if k \<in> fst ` set m then length m else Suc (length m))"
  by (induction k c m rule: mput.induct) auto

lemma insert_cache:
  assumes "clones_ok caps w" "caps > 0"
  shows "clones_ok caps ((evict caps g w)\<lparr>sg_cache := mput k c (sg_cache (evict caps g w))\<rparr>)"
proof -
  have "evicted caps (sg_cache w) (sg_cache (evict caps g w))"
    using assms by (intro evict_evicted) (simp_all add: clones_ok_def)
  then show ?thesis using assms(2) by (auto simp: clones_ok_def evicted_def length_mput distinct_mput)
qed

lemma drop_cache:
  "clones_ok caps w \<Longrightarrow> clones_ok caps ((drop_dir g d w)\<lparr>sg_cache := filter (\<lambda>e. fst e \<noteq> k) (sg_cache w)\<rparr>)"
  by (auto simp: clones_ok_def distinct_map_filter intro: order_trans [OF length_filter_le])

lemma touch_cache:
  assumes "clones_ok caps w" "mget (sg_cache w) k = Some c0" "sg_cache u = sg_cache w"
  shows "clones_ok caps (u\<lparr>sg_cache := mput k c (sg_cache u)\<rparr>)"
proof -
  have "k \<in> fst ` set (sg_cache w)" using map_of_SomeD [of "sg_cache w" k c0] assms(2) by (force simp: mget_def)
  with assms show ?thesis by (simp add: clones_ok_def length_mput distinct_mput)
qed

lemma cached_clone_cache: "keeps (preserving (clones_ok caps)) (cached_clone M opt)"
proof (rule keepsI, rule impI)
  fix w r w' assume run: "cached_clone M opt w = (r, w')" and ok: "clones_ok caps w"
  have "wp (cached_clone M opt) (\<lambda>r w'. clones_ok caps w') w"
  proof (cases "mget (sg_cache w) (cache_key opt)")
    case None
    then show ?thesis using ok by (simp add: cached_clone_def Let_def wp_def act bnd_pure_of)
  next
    case (Some c)
    have same: "clones_ok caps u" if "sg_cache u = sg_cache w" for u
      using ok that by (simp add: clones_ok_def)
    have refreshed: "wp (bnd (attempt (refresh (mg_git M) c)) k) (\<lambda>r w'. clones_ok caps w') w"
      if "\<And>x u. sg_cache u = sg_cache w \<Longrightarrow> wp (k x) (\<lambda>r w'. clones_ok caps w') u"
      for k :: "submit_err + unit \<Rightarrow> ('a stage, submit_err, clone option) act"
      by (rule wp_bnd, rule wp_keeps [OF keeps_attempt [OF same_cache_basic(1)]])
         (auto split: res.split intro: that same)
    have put: "clones_ok caps (v\<lparr>sg_cache := mput (cache_key opt) c' (sg_cache w)\<rparr>)" for v :: "'a stage" and c'
      using touch_cache [OF ok Some refl, of c'] by (simp add: clones_ok_def)
    have touched: "wp (bnd (stage_now (mg_git M)) (\<lambda>t. bnd (modify (\<lambda>w. w\<lparr>sg_cache := mput (cache_key opt)
        (c\<lparr>cd_last := t\<rparr>) (sg_cache w)\<rparr>)) (\<lambda>_. ret (Some (c\<lparr>cd_last := t\<rparr>))))) (\<lambda>r w'. clones_ok caps w') u"
      if "sg_cache u = sg_cache w" for u
      by (rule wp_bnd, rule wp_keeps [OF same_cache_basic(2)])
         (auto split: res.split intro!: wp_bnd wp_modify wp_ret put simp: that, simp_all add: same that)
    have dropped: "wp (bnd (modify (\<lambda>w. (drop_dir (mg_git M) (cd_dir c) w)\<lparr>sg_cache := filter (\<lambda>e. fst e \<noteq> cache_key opt)
        (sg_cache w)\<rparr>)) (\<lambda>_. ret None)) (\<lambda>r w'. clones_ok caps w') u" if "sg_cache u = sg_cache w" for u
      by (intro wp_bnd wp_modify) (simp add: wp_ret drop_cache same [OF that])
    have "wp ((case Some c of None \<Rightarrow> ret None
       | Some c \<Rightarrow> bnd (attempt (refresh (mg_git M) c)) (\<lambda>r. case r of
             Inr _ \<Rightarrow> bnd (stage_now (mg_git M)) (\<lambda>t. bnd (modify (\<lambda>w. w\<lparr>sg_cache := mput (cache_key opt)
                 (c\<lparr>cd_last := t\<rparr>) (sg_cache w)\<rparr>)) (\<lambda>_. ret (Some (c\<lparr>cd_last := t\<rparr>))))
           | Inl _ \<Rightarrow> bnd (modify (\<lambda>w. (drop_dir (mg_git M) (cd_dir c) w)\<lparr>sg_cache := filter (\<lambda>e. fst e \<noteq> cache_key opt)
                 (sg_cache w)\<rparr>)) (\<lambda>_. ret None))) :: ('a stage, submit_err, clone option) act) (\<lambda>r w'. clones_ok caps w') w"
      unfolding option.case by (rule refreshed) (simp add: touched dropped split: sum.split)
    then show ?thesis
      unfolding cached_clone_def Let_def by (intro wp_bnd wp_pure) (simp add: Some)
  qed
  with run show "clones_ok caps w'" by (simp add: wp_def)
qed

lemma get_clone_cache:
  assumes "mg_caps M > 0"
  shows "keeps (preserving (clones_ok (mg_caps M))) (get_clone M opt)"
proof -
  have drop: "keeps (preserving (clones_ok (mg_caps M))) (modify (drop_dir g d))" for g :: "'a stage_git" and d
    by (auto simp: keeps_def act clones_ok_def)
  have insert: "keeps (preserving (clones_ok (mg_caps M)))
      (modify (\<lambda>w. let w' = evict (mg_caps M) g w in w'\<lparr>sg_cache := mput k c (sg_cache w')\<rparr>))" for g :: "'a stage_git" and k c
    using insert_cache [OF _ assms] by (auto simp: keeps_def act Let_def)
  show ?thesis
    unfolding get_clone_def fresh_clone_def Let_def
    by (intro keeps cached_clone_cache cache_parts cache_basic drop insert [unfolded Let_def] preord_preserving)
qed

text \<open>C24: However the operations on branches follow one another, the cache of clones holds each branch at
  most once and never more clones than its capacity.\<close>

theorem clones_bounded:
  assumes "clones_ok (mg_caps M) w" "0 < mg_caps M"
  shows "clones_ok (mg_caps M) (snd (ApplyFiles M opt ops w)) \<and> clones_ok (mg_caps M) (snd (Commit M opt message w)) \<and>
    clones_ok (mg_caps M) (snd (Status M opt w)) \<and> clones_ok (mg_caps M) (snd (ResetTo M opt sha w))"
proof -
  note parts = get_clone_cache [OF assms(2)] cache_parts cache_basic cache_forget keeps_below
  have "keeps (preserving (clones_ok (mg_caps M))) (ApplyFiles M opt ops)"
    "keeps (preserving (clones_ok (mg_caps M))) (Commit M opt message)"
    "keeps (preserving (clones_ok (mg_caps M))) (Status M opt)" "keeps (preserving (clones_ok (mg_caps M))) (ResetTo M opt sha)"
    unfolding ApplyFiles_def Commit_def Status_def ResetTo_def Let_def
    by (auto intro!: keeps parts split: commit_out.split list.split sum.split)
  then show ?thesis using assms(1) by (auto dest: keeps_snd)
qed

text \<open>Making room drops the clones that were used least recently: what goes was last used no later
  than anything that stays, as much stays as fits beside the new clone, and a cache with room is
  left alone.\<close>

theorem evict_least_recently_used:
  assumes "distinct (map fst (sg_cache w))" "0 < caps"
  shows "evicted caps (sg_cache w) (sg_cache (evict caps g w))"
  by (rule evict_evicted [OF assms])

subsection \<open>What is refused, and what a refusal leaves behind\<close>

lemma git_ask_same: "git_ask f w = (case f (sg_out w) of Inl e \<Rightarrow> (Fail (sub_other e), w) | Inr x \<Rightarrow> (Ok x, w))"
  by (simp add: git_ask_def below_def map_err_cases ask_def split: sum.split)

lemma reads_same:
  "snd (stage_head g c w) = w" "snd (commitIsEmpty g c cm w) = w"
  by (auto simp: stage_head_def commitIsEmpty_def bnd_cases git_ask_same act split: sum.splits list.splits prod.splits)

text \<open>C23: Closing the staging area is refused, and nothing is recorded or pushed, when the branch is not at a
  placeholder commit or the placeholder has the tree of its parent: an empty commit is never made.\<close>

theorem Commit_refuses_unstaged:
  assumes "trim_space message \<noteq> []" "get_clone M opt w = (Ok c, w1)"
    and "fst (stage_head (mg_git M) c w1) = Ok (cm, place)"
    and "\<not> place \<or> fst (commitIsEmpty (mg_git M) c cm w1) = Ok True"
  shows "\<exists>e. Commit M opt message w = (Fail e, w1)"
proof -
  have head: "stage_head (mg_git M) c w1 = (Ok (cm, place), w1)"
    using assms(3) reads_same(1) [of "mg_git M" c w1] by (metis prod.collapse)
  have empty: "commitIsEmpty (mg_git M) c cm w1 = (Ok True, w1)" if place
    using assms(4) that reads_same(2) [of "mg_git M" c cm w1] by (metis prod.collapse)
  show ?thesis
    using assms(1) by (auto simp: Commit_def Let_def bnd_cases assms(2) head empty act)
qed

text \<open>A refused file leaves the files before it behind.  When one operation of a write is refused after
  another has been carried out, the write fails, but the clone stays in the cache with the file
  that was written: nothing undoes it before the clone is used again.\<close>

theorem refused_file_keeps_earlier_writes:
  assumes "get_clone M opt w = (Ok c, w1)" "st_worktree (mg_git M) (cd_dir c) (sg_out w1) = Inr ()"
    and "gg_ignore (st_git (mg_git M)) (cd_dir c) (sg_out w1) = (Inr ign, x2)"
    and "applyFile (st_git (mg_git M)) (cd_dir c) ign op1 x2 = (Ok (), x3)"
    and "illegal_path (trim_space (fo_path op2))"
  shows "\<exists>e. ApplyFiles M opt [op1, op2] w = (Fail e, w1\<lparr>sg_out := x3\<rparr>)"
  using assms
  by (auto simp: ApplyFiles_def Let_def bnd_cases git_ask_same below_def gg_at_def map_err_cases of_sum_def act
      applyFile_def [of _ _ _ op2])

text \<open>A manager with room for two clones over a repository whose branch is at an ordinary commit; the
  outside is the list of paths written.\<close>

definition demo_stage :: "string list manager" where
  "demo_stage =
    \<lparr>mg_git =
      \<lparr>st_git = \<lparr>gg_newdir = (\<lambda>x. (Inr ''/tmp/c'', x)), gg_rmall = (\<lambda>d x. x),
         gg_clone = (\<lambda>d u n t b x. (Inr (), x)), gg_ignore = (\<lambda>d x. (Inr None, x)),
         gg_stat = (\<lambda>d p x. (True, x)), gg_remove = (\<lambda>d p x. (Inr (), x)), gg_mkdirs = (\<lambda>d p x. (Inr (), x)),
         gg_write = (\<lambda>d p c x. (Inr (), x @ [p])), gg_addall = (\<lambda>d x. (Inr (), x)), gg_clean = (\<lambda>d x. (Inr False, x)),
         gg_commit = (\<lambda>d m x. (Inr ''abc123'', x)), gg_setref = (\<lambda>d b s x. (Inr (), x)),
         gg_push = (\<lambda>d rs f u t x. (Inr (), x))\<rparr>,
       st_reader = \<lparr>rd_newdir = (\<lambda>p x. (Inr ''/tmp/r'', x)), rd_rmall = (\<lambda>d x. x), rd_clone = (\<lambda>d u n t x. (Inr (), x)),
         rd_revision = (\<lambda>d r x. Some ''abc''), rd_branch = (\<lambda>d r x. None), rd_remote = (\<lambda>d r x. None),
         rd_commit = (\<lambda>d h x. Inr ()), rd_tree = (\<lambda>d h x. Inr ''t''), rd_diff = (\<lambda>d a b x. Inr []),
         rd_blame = (\<lambda>d h p x. Inr [])\<rparr>,
       st_mkdirs = (\<lambda>d x. (Inr (), x)), st_mktemp = (\<lambda>d p x. (Inr ''/tmp/c'', x)),
       st_fetch = (\<lambda>d rs u t x. (Inr (), x)), st_remote_ref = (\<lambda>d b x. Inr ''abc''), st_worktree = (\<lambda>d x. Inr ()),
       st_reset = (\<lambda>d h x. (Inr (), x)), st_head = (\<lambda>d x. Inr ''abc''),
       st_commit = (\<lambda>d h x. Inr \<lparr>co_hash = h, co_message = ''initial'', co_parents = []\<rparr>),
       st_tree = (\<lambda>d h x. Inr (''t'', 1)), st_record = (\<lambda>d m a e x. (Committed ''def'', x)), st_now = (\<lambda>x. (int (length x), x))\<rparr>,
     mg_base = [], mg_caps = 2\<rparr>"

definition demo_branch :: "string \<Rightarrow> git_opts" where
  "demo_branch b = \<lparr>go_url = ''http://git/acme/web.git'', go_branch = b, go_user = ''root'', go_token = ''tok''\<rparr>"

definition demo_edit :: "string \<Rightarrow> file_op" where
  "demo_edit p = \<lparr>fo_path = p, fo_op = ''update'', fo_content = ''x''\<rparr>"

definition no_clones :: "string list stage" where
  "no_clones = \<lparr>sg_cache = [], sg_out = []\<rparr>"

text \<open>Three writes to three branches: the clone of the first has gone.\<close>

definition demo_clones :: "string list stage" where
  "demo_clones = snd (ApplyFiles demo_stage (demo_branch ''b2'') [demo_edit ''g'']
     (snd (ApplyFiles demo_stage (demo_branch ''b1'') [demo_edit ''f''] no_clones)))"

lemma clones_bounded_witness:
  "clones_ok 2 (snd (ApplyFiles demo_stage (demo_branch ''b3'') [demo_edit ''h''] demo_clones)) \<and>
   map (cd_branch \<circ> snd) (sg_cache (snd (ApplyFiles demo_stage (demo_branch ''b3'') [demo_edit ''h''] demo_clones))) =
     [''b2'', ''b3'']"
proof -
  have "clones_ok (mg_caps demo_stage) demo_clones" by code_simp
  moreover have caps: "mg_caps demo_stage = 2" by (simp add: demo_stage_def)
  ultimately have "clones_ok 2 (snd (ApplyFiles demo_stage (demo_branch ''b3'') [demo_edit ''h''] demo_clones))"
    using clones_bounded [of demo_stage demo_clones "demo_branch ''b3''" "[demo_edit ''h'']"] by simp
  moreover have "map (cd_branch \<circ> snd) (sg_cache (snd (ApplyFiles demo_stage (demo_branch ''b3'') [demo_edit ''h''] demo_clones))) =
     [''b2'', ''b3'']" by code_simp
  ultimately show ?thesis by simp
qed

lemma evict_least_recently_used_witness:
  "evicted 2 (sg_cache demo_clones) (sg_cache (evict 2 (mg_git demo_stage) demo_clones)) \<and>
   map (cd_branch \<circ> snd) (sg_cache (evict 2 (mg_git demo_stage) demo_clones)) = [''b2'']"
proof -
  have "distinct (map fst (sg_cache demo_clones))" by code_simp
  moreover have "map (cd_branch \<circ> snd) (sg_cache (evict 2 (mg_git demo_stage) demo_clones)) = [''b2'']" by code_simp
  ultimately show ?thesis
    using evict_least_recently_used [of demo_clones 2 "mg_git demo_stage"] by simp
qed

lemma Commit_refuses_unstaged_witness:
  "\<exists>e w1. Commit demo_stage (demo_branch ''b1'') ''done'' no_clones = (Fail e, w1)"
proof -
  obtain c w1 where c: "get_clone demo_stage (demo_branch ''b1'') no_clones = (Ok c, w1)"
  proof -
    have "is_ok (fst (get_clone demo_stage (demo_branch ''b1'') no_clones))" by code_simp
    then show ?thesis using that by (metis is_ok_iff prod.collapse)
  qed
  have initial: "\<not> IsPlaceholder ''initial''" by code_simp
  have head: "fst (stage_head (mg_git demo_stage) c w1) = Ok (\<lparr>co_hash = ''abc'', co_message = ''initial'', co_parents = []\<rparr>, False)"
    using initial by (simp add: stage_head_def bnd_cases git_ask_same demo_stage_def act)
  have "trim_space ''done'' \<noteq> []" by code_simp
  from Commit_refuses_unstaged [OF this c head] show ?thesis by blast
qed

lemma refused_file_keeps_earlier_writes_witness:
  "\<exists>e w'. ApplyFiles demo_stage (demo_branch ''b1'') [demo_edit ''f'', demo_edit ''../g''] no_clones = (Fail e, w') \<and>
     sg_out w' = [''f'']"
proof -
  let ?c = "\<lparr>cd_dir = ''/tmp/c'', cd_branch = ''b1'', cd_user = ''root'', cd_token = ''tok'', cd_last = 0\<rparr>"
  let ?w = "\<lparr>sg_cache = [(cache_key (demo_branch ''b1''), ?c)], sg_out = []\<rparr>"
  have c: "get_clone demo_stage (demo_branch ''b1'') no_clones = (Ok ?c, ?w)"
    by (simp add: get_clone_def cached_clone_def fresh_clone_def newDir_def git_do_def below_def gg_def of_sum_def
        map_err_cases attempt_cases stage_now_def evict.simps bnd_cases act Let_def demo_stage_def demo_branch_def
        no_clones_def cache_key_def mget_def)
  have f: "trim_space ''f'' = ''f''" "\<not> illegal_path ''f''" "path_dir ''f'' = ''.''" by code_simp+
  have bad: "illegal_path (trim_space (fo_path (demo_edit ''../g'')))" by code_simp
  have "\<exists>e. ApplyFiles demo_stage (demo_branch ''b1'') [demo_edit ''f'', demo_edit ''../g''] no_clones = (Fail e, ?w\<lparr>sg_out := [''f'']\<rparr>)"
    by (rule refused_file_keeps_earlier_writes [OF c _ _ _ bad, of None "[]"])
       (simp_all add: demo_stage_def demo_edit_def applyFile_def Let_def f gg_def of_sum_def map_err_cases)
  then show ?thesis by fastforce
qed

end
