(* ===== verification/WatchHub.thy ===== *)
theory WatchHub
  imports Prelude Systems
begin

text \<open>
  Packages \<^verbatim>\<open>internal/k8swatch\<close> and \<^verbatim>\<open>internal/workspacesvc/workspacehub.go\<close>: how a change in the
  cluster wakes the subscribers of \<^verbatim>\<open>WatchWorkspace\<close>.  Every source has a watch that is opened again
  after it closed; its events are coalesced into one signal (a channel of capacity one), which the
  hub fans out as one pending wake-up per subscriber; a subscriber that wakes lists again.  A run is
  any interleaving of these steps.  \<open>version\<close> counts the changes of the cluster and \<open>seen\<close> the
  version of each subscriber's last listing; they are not in the code.
\<close>

record hub =
  hb_subs :: "(nat \<times> bool) list"
  hb_started :: bool
  hb_open :: "nat set"
  hb_events :: "nat set"
  hb_out :: bool
  hb_version :: nat
  hb_seen :: "nat \<Rightarrow> nat option"

text \<open>\<open>hb_subs\<close>: each subscriber with whether its channel holds a signal.  \<open>hb_open\<close>, \<open>hb_events\<close>: the
  sources whose watch is open, and those with events not yet delivered.  \<open>hb_out\<close>: the channel
  between the watches and the hub holds a signal.\<close>

definition newWorkspaceHub :: hub where
  "newWorkspaceHub = \<lparr>hb_subs = [], hb_started = False, hb_open = {}, hb_events = {}, hb_out = False,
     hb_version = 0, hb_seen = (\<lambda>i. None)\<rparr>"

text \<open>A cancelled run's watches, and a new run's, which are not open yet.\<close>

definition no_watches :: "hub \<Rightarrow> hub" where
  "no_watches w = w\<lparr>hb_open := {}, hb_events := {}, hb_out := False\<rparr>"

definition hub_subscribe :: "nat \<Rightarrow> hub \<Rightarrow> hub" where
  "hub_subscribe i w =
     (let w1 = w\<lparr>hb_subs := (i, False) # hb_subs w, hb_seen := (hb_seen w)(i := None)\<rparr> in
      if \<not> hb_started w then (no_watches w1)\<lparr>hb_started := True\<rparr> else w1)"

definition hub_unsubscribe :: "nat \<Rightarrow> hub \<Rightarrow> hub" where
  "hub_unsubscribe i w =
     (let w1 = w\<lparr>hb_subs := filter (\<lambda>s. fst s \<noteq> i) (hb_subs w)\<rparr> in
      if hb_subs w1 = [] \<and> hb_started w then (no_watches w1)\<lparr>hb_started := False\<rparr> else w1)"

text \<open>Sending to a full channel is dropped.\<close>

definition hub_forward :: "hub \<Rightarrow> hub" where
  "hub_forward w = w\<lparr>hb_subs := map (\<lambda>s. (fst s, True)) (hb_subs w)\<rparr>"

text \<open>A watch that is opened reports what exists as added (Kubernetes, for a watch without a resource
  version), so it starts with an event.\<close>

definition watch_open :: "nat \<Rightarrow> hub \<Rightarrow> hub" where
  "watch_open s w = w\<lparr>hb_open := insert s (hb_open w), hb_events := insert s (hb_events w)\<rparr>"

definition watch_close :: "nat \<Rightarrow> hub \<Rightarrow> hub" where
  "watch_close s w = w\<lparr>hb_open := hb_open w - {s}, hb_events := hb_events w - {s}\<rparr>"

definition watch_drain :: "nat \<Rightarrow> hub \<Rightarrow> hub" where
  "watch_drain s w = w\<lparr>hb_events := hb_events w - {s}, hb_out := True\<rparr>"

definition cluster_change :: "nat \<Rightarrow> hub \<Rightarrow> hub" where
  "cluster_change s w = w\<lparr>hb_version := Suc (hb_version w),
     hb_events := (if s \<in> hb_open w then insert s (hb_events w) else hb_events w)\<rparr>"

definition list_again :: "nat \<Rightarrow> hub \<Rightarrow> hub" where
  "list_again i w = w\<lparr>hb_subs := map (\<lambda>s. if fst s = i then (i, False) else s) (hb_subs w),
     hb_seen := (hb_seen w)(i \<mapsto> hb_version w)\<rparr>"

definition first_listing :: "nat \<Rightarrow> hub \<Rightarrow> hub" where
  "first_listing i w = w\<lparr>hb_seen := (hb_seen w)(i \<mapsto> hb_version w)\<rparr>"

inductive hub_step :: "nat \<Rightarrow> hub \<Rightarrow> hub \<Rightarrow> bool" for sources where
  subscribe: "i \<notin> fst ` set (hb_subs w) \<Longrightarrow> hub_step sources w (hub_subscribe i w)"
| unsubscribe: "hub_step sources w (hub_unsubscribe i w)"
| first: "i \<in> fst ` set (hb_subs w) \<Longrightarrow> hb_seen w i = None \<Longrightarrow> hub_step sources w (first_listing i w)"
| wake: "(i, True) \<in> set (hb_subs w) \<Longrightarrow> hub_step sources w (list_again i w)"
| change: "s < sources \<Longrightarrow> hub_step sources w (cluster_change s w)"
| opened: "hb_started w \<Longrightarrow> s < sources \<Longrightarrow> s \<notin> hb_open w \<Longrightarrow> hub_step sources w (watch_open s w)"
| closed: "s \<in> hb_open w \<Longrightarrow> hub_step sources w (watch_close s w)"
| drain: "s \<in> hb_events w \<Longrightarrow> hub_step sources w (watch_drain s w)"
| forward: "hb_out w \<Longrightarrow> hub_step sources w ((hub_forward w)\<lparr>hb_out := False\<rparr>)"
| stray: "hub_step sources w (hub_forward w)"

text \<open>\<open>stray\<close>: the last signal of a run that has been cancelled.\<close>

lemmas hub_ops = hub_subscribe_def hub_unsubscribe_def hub_forward_def watch_open_def watch_close_def
  watch_drain_def cluster_change_def list_again_def first_listing_def no_watches_def newWorkspaceHub_def Let_def

text \<open>The watches run exactly while somebody is subscribed, an event is one of an open watch, and a
  subscriber whose listing is out of date has a wake-up on its way: in its channel, in the one
  before, as an event of a watch, or as a watch that is going to be opened.\<close>

definition on_its_way :: "nat \<Rightarrow> hub \<Rightarrow> nat \<Rightarrow> bool" where
  "on_its_way sources w i = ((i, True) \<in> set (hb_subs w) \<or> hb_out w \<or> hb_events w \<noteq> {} \<or>
     (\<exists>s<sources. s \<notin> hb_open w))"

definition hub_ok :: "nat \<Rightarrow> hub \<Rightarrow> bool" where
  "hub_ok sources w =
    (distinct (map fst (hb_subs w)) \<and> (hb_started w \<longleftrightarrow> hb_subs w \<noteq> []) \<and> hb_events w \<subseteq> hb_open w \<and>
     (\<forall>s\<in>hb_open w. s < sources) \<and>
     (\<forall>i v. i \<in> fst ` set (hb_subs w) \<longrightarrow> hb_seen w i = Some v \<longrightarrow>
        v \<le> hb_version w \<and> (v < hb_version w \<longrightarrow> on_its_way sources w i)))"

lemma hub_step_ok: "hub_step sources w w' \<Longrightarrow> hub_ok sources w \<Longrightarrow> hub_ok sources w'"
proof (induction rule: hub_step.induct)
  case (wake i w)
  have "(j, True) \<in> set (hb_subs (list_again i w)) \<longleftrightarrow> (j, True) \<in> set (hb_subs w)" if "j \<noteq> i" for j
    using that by (force simp: list_again_def)
  with wake show ?case
    by (auto simp: hub_ok_def on_its_way_def hub_ops image_image o_def if_distrib cong: if_cong)
qed (auto simp: hub_ok_def on_its_way_def hub_ops image_image o_def distinct_map_filter split: if_splits)

inductive hub_reachable :: "nat \<Rightarrow> hub \<Rightarrow> bool" for sources where
  start: "hub_reachable sources newWorkspaceHub"
| step: "hub_reachable sources w \<Longrightarrow> hub_step sources w w' \<Longrightarrow> hub_reachable sources w'"

interpretation watch_hub: transition_system "\<lambda>w. w = newWorkspaceHub" "hub_step sources" "hub_ok sources" for sources
proof
  show "hub_ok sources s" if "s = newWorkspaceHub" for s
    using that by (simp add: hub_ok_def newWorkspaceHub_def)
qed (rule hub_step_ok)

lemma hub_reachable_steps: "hub_reachable sources w \<Longrightarrow> (hub_step sources)\<^sup>*\<^sup>* newWorkspaceHub w"
  by (induction rule: hub_reachable.induct) (auto intro: rtranclp.rtrancl_into_rtrancl)

lemma reachable_hub: "hub_reachable sources w \<Longrightarrow> hub_ok sources w"
  by (rule watch_hub.reached_inv [OF hub_reachable_steps]) simp_all


text \<open>One source: a change wakes the only subscriber, which lists again.\<close>

definition demo_hub :: hub where
  "demo_hub = list_again 1 ((hub_forward (watch_drain 0 (cluster_change 0 (watch_open 0 (first_listing 1 (hub_subscribe 1 newWorkspaceHub))))))\<lparr>hb_out := False\<rparr>)"


end
