(* ===== verification/Bootstrap.thy ===== *)
theory Bootstrap
  imports SandboxMgr
begin

text \<open>
  Package \<^verbatim>\<open>internal/sandboxbootstrap\<close>: the package sources of a sandbox.  \<open>Build\<close> decides whether there is a
  bootstrap and \<open>mounts\<close> lists the configuration directories and files it fills.  The shell script it
  runs is a fixed template over the registry root and the home directory; its text is a parameter.
\<close>

definition dir_mount :: "string \<Rightarrow> string \<Rightarrow> bool \<Rightarrow> boot_mount" where
  "dir_mount name path w = \<lparr>bm_name = name, bm_path = path, bm_writable = w, bm_file = False\<rparr>"

definition file_mount :: "string \<Rightarrow> string \<Rightarrow> boot_mount" where
  "file_mount name path = \<lparr>bm_name = name, bm_path = path, bm_writable = False, bm_file = True\<rparr>"

definition mounts :: "string \<Rightarrow> boot_mount list" where
  "mounts home =
    [dir_mount ''cfg-apt'' ''/etc/apt/sources.list.d'' False,
     dir_mount ''cfg-apk'' ''/etc/apk'' False,
     dir_mount ''cfg-m2'' (home @ ''/.m2'') True,
     dir_mount ''cfg-gradle'' (home @ ''/.gradle'') True,
     dir_mount ''cfg-pip'' (home @ ''/.config/pip'') False,
     dir_mount ''cfg-cargo'' (home @ ''/.cargo'') True,
     dir_mount ''cfg-swiftpm'' (home @ ''/.swiftpm/configuration'') False,
     dir_mount ''cfg-nuget'' (home @ ''/.nuget/NuGet'') False,
     dir_mount ''cfg-conan'' (home @ ''/.conan2'') True,
     dir_mount ''cfg-helm'' (home @ ''/.config/helm'') False,
     dir_mount ''cfg-opam'' (home @ ''/.opam'') True,
     file_mount ''f-gemrc'' (home @ ''/.gemrc''),
     file_mount ''f-condarc'' (home @ ''/.condarc''),
     file_mount ''f-composer'' (home @ ''/.composer/config.json''),
     file_mount ''f-npmrc'' (home @ ''/.npmrc''),
     file_mount ''f-rprofile'' (home @ ''/.Rprofile''),
     file_mount ''f-cpan'' (home @ ''/.cpan/CPAN/MyConfig.pm''),
     file_mount ''f-luarocks'' (home @ ''/.luarocks/config-5.4.lua''),
     file_mount ''f-nixconf'' (home @ ''/.config/nix/nix.conf''),
     file_mount ''f-dnf'' ''/etc/yum.repos.d/artifact.repo'',
     file_mount ''f-sbt'' (home @ ''/.sbt/repositories'')]"

definition Build :: "(string \<Rightarrow> string \<Rightarrow> string) \<Rightarrow> string \<Rightarrow> string \<Rightarrow> string \<Rightarrow> bootstrap option" where
  "Build script base0 img home0 =
    (let base = trim_right_when (\<lambda>c. c = CHR ''/'') (trim_space base0) in
     if base = [] \<or> img = [] then None
     else let home = (if home0 = [] then ''/root'' else home0) in
       Some \<lparr>bt_image = img, bt_script = script base home, bt_mounts = mounts home\<rparr>)"

subsection \<open>The volumes of a sandbox\<close>

definition mount_names :: "string list" where
  "mount_names = [''cfg-apt'', ''cfg-apk'', ''cfg-m2'', ''cfg-gradle'', ''cfg-pip'', ''cfg-cargo'', ''cfg-swiftpm'',
     ''cfg-nuget'', ''cfg-conan'', ''cfg-helm'', ''cfg-opam'', ''f-gemrc'', ''f-condarc'', ''f-composer'', ''f-npmrc'',
     ''f-rprofile'', ''f-cpan'', ''f-luarocks'', ''f-nixconf'', ''f-dnf'', ''f-sbt'']"

lemma names_of_mounts: "map bm_name (mounts home) = mount_names"
  by (simp add: mounts_def mount_names_def dir_mount_def file_mount_def)

lemma mount_names_apart: "distinct mount_names" "''golden-disk-cache'' \<notin> set mount_names" "''devtun'' \<notin> set mount_names"
  "''vol-'' @ x \<notin> set mount_names"
  by (simp_all add: mount_names_def)

definition volume_names :: "spec \<Rightarrow> string list" where
  "volume_names s = map vol_name (map fst (golden_volumes s @ user_volumes s @ tun_volumes s))"

lemma user_names: "map vol_name (map fst (user_volumes s)) = map (\<lambda>i. ''vol-'' @ nat_str i) [0..<length (sp_volumes s)]"
  by (rule nth_equalityI) (simp_all add: user_volumes_def nth_enumerate_eq Let_def split: prod.split)

lemma extra_names_distinct: "distinct (volume_names s)"
  by (auto simp: volume_names_def user_names [unfolded map_map] golden_volumes_def tun_volumes_def distinct_map
      inj_on_def nat_str_inject)

lemma extra_names_apart: "set (volume_names s) \<inter> set mount_names = {}"
  using mount_names_apart(2-4)
  by (auto simp: volume_names_def user_names [unfolded map_map] golden_volumes_def tun_volumes_def split: if_splits)

lemma mounted_extra: "map (vm_name \<circ> snd) (golden_volumes s @ user_volumes s @ tun_volumes s) = volume_names s"
  by (simp add: volume_names_def golden_volumes_def user_volumes_def tun_volumes_def Let_def o_def case_prod_beta)

text \<open>The pod of a sandbox with package sources is well formed, whatever volumes the caller adds: no two of
  its volumes have the same name, and every mount of the worker and of the init container names one
  of them.\<close>

theorem bootstrapped_pod_volumes:
  assumes "sp_bootstrap s = Build script base img home"
  shows "let p = build_pod_spec c s token rs; names = map vol_name (ps_volumes p) in
    distinct names \<and>
    list_all (\<lambda>ct. list_all (\<lambda>m. vm_name m \<in> set names) (ct_mounts ct)) (ps_init p @ ps_containers p)"
proof -
  obtain h where boot: "sp_bootstrap s = None \<or> (\<exists>b. sp_bootstrap s = Some b \<and> bt_mounts b = mounts h)"
    using assms by (auto simp: Build_def Let_def split: if_splits)
  define boot where "boot = (if boot_active s then sp_bootstrap s else None)"
  have b: "boot = None \<or> (\<exists>b. boot = Some b \<and> bt_mounts b = mounts h)"
    using boot by (auto simp: boot_def)
  have names: "map vol_name (ps_volumes (build_pod_spec c s token rs)) =
      (case boot of Some b \<Rightarrow> mount_names | None \<Rightarrow> []) @ volume_names s"
    using b names_of_mounts [of h]
    by (auto simp: build_pod_spec_def boot_def [symmetric] volume_names_def boot_volumes_def o_def Let_def)
  have worker: "map vm_name (boot_worker_mounts b) = map bm_name (bt_mounts b)"
    "map vm_name (boot_init_mounts b) = map bm_name (bt_mounts b)" for b
    by (simp_all add: boot_worker_mounts_def boot_init_mounts_def)
  have mounts: "vm_name ` set (boot_worker_mounts b) = bm_name ` set (bt_mounts b)"
    "vm_name ` set (boot_init_mounts b) = bm_name ` set (bt_mounts b)" for b
    using worker [of b, THEN arg_cong [where f = set]] by simp_all
  have extra: "vm_name (snd x) \<in> set (volume_names s)"
    if "x \<in> set (golden_volumes s) \<or> x \<in> set (user_volumes s) \<or> x \<in> set (tun_volumes s)" for x
  proof -
    have "vm_name (snd x) \<in> set (map (vm_name \<circ> snd) (golden_volumes s @ user_volumes s @ tun_volumes s))"
      using that by auto
    then show ?thesis by (simp only: mounted_extra)
  qed
  have extras: "(a, v) \<in> set (golden_volumes s) \<Longrightarrow> vm_name v \<in> set (volume_names s)"
    "(a, v) \<in> set (user_volumes s) \<Longrightarrow> vm_name v \<in> set (volume_names s)"
    "(a, v) \<in> set (tun_volumes s) \<Longrightarrow> vm_name v \<in> set (volume_names s)" for a v
    using extra [of "(a, v)"] by simp_all
  show ?thesis
    unfolding Let_def names
  proof (intro conjI)
    show "distinct ((case boot of Some b \<Rightarrow> mount_names | None \<Rightarrow> []) @ volume_names s)"
      using mount_names_apart(1) extra_names_distinct extra_names_apart by (auto split: option.split)
    have boot_mounts: "vm_name m \<in> set mount_names" if "boot = Some b'" "m \<in> set (boot_worker_mounts b') \<union> set (boot_init_mounts b')" for m b'
    proof -
      have "bt_mounts b' = mounts h" using b that(1) by auto
      then have "bm_name ` set (bt_mounts b') = set mount_names" using names_of_mounts [of h] by (metis set_map)
      then show ?thesis using that(2) mounts [of b'] by (metis UnE imageI)
    qed
    show "list_all (\<lambda>ct. list_all (\<lambda>m. vm_name m \<in> set ((case boot of Some b \<Rightarrow> mount_names | None \<Rightarrow> []) @ volume_names s)) (ct_mounts ct))
       (ps_init (build_pod_spec c s token rs) @ ps_containers (build_pod_spec c s token rs))"
      using boot_mounts
      by (auto simp: build_pod_spec_def boot_def [symmetric] list_all_iff Let_def boot_container_def split: option.splits
          dest: extras)
  qed
qed

definition demo_boot_spec :: spec where
  "demo_boot_spec = (demo_spec ''dev'' ''1'')\<lparr>sp_bootstrap := Build (\<lambda>b h. ''set -eu'') ''http://artifact/'' ''alpine'' [],
     sp_volumes := [\<lparr>v_pvc = ''data'', v_path = ''/data'', v_ro = False, v_sub = []\<rparr>]\<rparr>"

lemma bootstrapped_pod_volumes_witness:
  "let p = build_pod_spec mem_client demo_boot_spec ''tok'' \<lparr>rr_requests = [], rr_limits = []\<rparr> in
   distinct (map vol_name (ps_volumes p)) \<and> length (ps_volumes p) = 22"
proof -
  have spec: "sp_bootstrap demo_boot_spec = Build (\<lambda>b h. ''set -eu'') ''http://artifact/'' ''alpine'' []"
    by (simp add: demo_boot_spec_def)
  have "length (ps_volumes (build_pod_spec mem_client demo_boot_spec ''tok'' \<lparr>rr_requests = [], rr_limits = []\<rparr>)) = 22"
    by code_simp
  then show ?thesis
    using bootstrapped_pod_volumes [OF spec, of mem_client "''tok''" "\<lparr>rr_requests = [], rr_limits = []\<rparr>"] by (simp add: Let_def)
qed

end
