(* ===== verification/Provision.thy ===== *)
theory Provision
  imports Effects
begin

text \<open>
  Package \<^verbatim>\<open>internal/provision\<close>: bringing the agent of a fresh deployment to the expected state, tenant by
  tenant: providers are registered, retired ones deleted, extension settings forced, retired system
  presets removed from the key-value store.  The agent's services and the store are parameters; the
  writes sent to the agent are recorded.  The time limits and the connection are not modelled.
\<close>

subsection \<open>Configuration\<close>

record model =
  md_id :: string
  md_name :: string
  md_context :: int

record provider =
  pv_id :: string
  pv_capability :: string
  pv_models :: "model list"

record profile =
  pf_base :: string
  pf_key :: string
  pf_providers :: "provider list"

record calibration =
  ca_tenant :: string
  ca_ext :: string
  ca_name :: string
  ca_value :: string

record preset_cleanup =
  pc_nats :: string
  pc_tenant :: string
  pc_presets :: "string list"

record config =
  pg_url :: string
  pg_admin :: string
  pg_profiles :: "profile gomap"
  pg_overrides :: "string gomap"
  pg_default :: string
  pg_calibrations :: "calibration list"
  pg_cleanup :: preset_cleanup
  pg_retired :: "string list"

record prov_result =
  po_tenants :: "string list"
  po_providers :: nat
  po_removed :: nat
  po_calibrations :: nat
  po_presets :: nat
  po_warnings :: "string list"

definition no_result :: prov_result where
  "no_result = \<lparr>po_tenants = [], po_providers = 0, po_removed = 0, po_calibrations = 0, po_presets = 0, po_warnings = []\<rparr>"

definition textCtx :: int where "textCtx = 1000000"
definition apiType :: string where "apiType = ''vercel-compatible-gateway''"

definition sharedProviders :: "provider list" where
  "sharedProviders =
    [\<lparr>pv_id = ''gateway-text'', pv_capability = ''text'', pv_models =
       [\<lparr>md_id = ''tal-coding/deepseek-v4.1-flash'', md_name = ''DeepSeek V4.1 Flash'', md_context = textCtx\<rparr>,
        \<lparr>md_id = ''tal-coding/glm-5.3'', md_name = ''GLM 5.3'', md_context = textCtx\<rparr>,
        \<lparr>md_id = ''tal-coding/glm-5.3-flash'', md_name = ''GLM 5.3 Flash'', md_context = textCtx\<rparr>]\<rparr>,
     \<lparr>pv_id = ''gateway-image'', pv_capability = ''image'', pv_models =
       [\<lparr>md_id = ''tal-coding-gptimage/gpt-image-2'', md_name = ''GPT Image 2'', md_context = 0\<rparr>,
        \<lparr>md_id = ''tal-coding-gptimage/gpt-image-2.5-flare'', md_name = ''GPT Image 2.5 Flare'', md_context = 0\<rparr>,
        \<lparr>md_id = ''tal-coding-gptimage/gpt-image-2.5-sunburst'', md_name = ''GPT Image 2.5 Sunburst'', md_context = 0\<rparr>]\<rparr>,
     \<lparr>pv_id = ''gateway-speech'', pv_capability = ''speech'', pv_models =
       [\<lparr>md_id = ''mlops-tts-customvoice/qwen3-tts-customvoice'', md_name = ''Qwen3 TTS CustomVoice'', md_context = 0\<rparr>,
        \<lparr>md_id = ''mlops-tts-base/qwen3-tts-base'', md_name = ''Qwen3 TTS Base'', md_context = 0\<rparr>]\<rparr>,
     \<lparr>pv_id = ''gateway-transcription'', pv_capability = ''transcription'', pv_models =
       [\<lparr>md_id = ''mlops-asr/qwen3-asr'', md_name = ''Qwen3 ASR'', md_context = 0\<rparr>]\<rparr>,
     \<lparr>pv_id = ''gateway-embedding'', pv_capability = ''embedding'', pv_models =
       [\<lparr>md_id = ''mlops-embed/gte-multilingual-base'', md_name = ''GTE Multilingual'', md_context = 0\<rparr>]\<rparr>,
     \<lparr>pv_id = ''gateway-rerank'', pv_capability = ''rerank'', pv_models =
       [\<lparr>md_id = ''mlops-rerank/gte-multilingual-reranker-base'', md_name = ''GTE Reranker'', md_context = 0\<rparr>]\<rparr>,
     \<lparr>pv_id = ''gateway-realtime'', pv_capability = ''realtime'', pv_models =
       [\<lparr>md_id = ''mlops-voxtral/voxtral-realtime'', md_name = ''Voxtral Realtime'', md_context = 0\<rparr>]\<rparr>]"

text \<open>The key of the deployment is not repeated here.\<close>

definition BuiltinProfiles :: "string \<Rightarrow> profile gomap" where
  "BuiltinProfiles key = [(''std'', \<lparr>pf_base = ''https://api-gray.xueersi.com/ai-multimodal-gateway/v4/ai'', pf_key = key,
     pf_providers = sharedProviders\<rparr>)]"

subsection \<open>The agent and the run\<close>

record model_row =
  mo_id :: string
  mo_name :: string
  mo_context :: int
  mo_type :: string

record provider_row =
  pw_id :: string
  pw_api :: string
  pw_base :: string
  pw_key :: string
  pw_models :: "model_row list"
  pw_capability :: string

text \<open>Every operation takes the \<^verbatim>\<open>Authorization\<close> header it is called with.\<close>

record 's prov_agent =
  pa_tenants :: "string \<Rightarrow> 's \<Rightarrow> (string + (string \<times> bool) list) \<times> 's"
  pa_issue :: "string \<Rightarrow> string \<Rightarrow> string \<Rightarrow> 's \<Rightarrow> (string + string) \<times> 's"
  pa_register :: "string \<Rightarrow> provider_row \<Rightarrow> 's \<Rightarrow> (string + unit) \<times> 's"
  pa_delete :: "string \<Rightarrow> string \<Rightarrow> 's \<Rightarrow> (string + unit) \<times> 's"
  pa_config :: "string \<Rightarrow> string \<Rightarrow> string \<Rightarrow> string \<Rightarrow> 's \<Rightarrow> (string + unit) \<times> 's"
  pa_connect :: "string \<Rightarrow> 's \<Rightarrow> (string + unit) \<times> 's"
  pa_kvdelete :: "string \<Rightarrow> string \<Rightarrow> 's \<Rightarrow> (string + unit) \<times> 's"
  pa_kvget :: "string \<Rightarrow> string \<Rightarrow> 's \<Rightarrow> (string + string) \<times> 's"
  pa_kvput :: "string \<Rightarrow> string \<Rightarrow> string \<Rightarrow> 's \<Rightarrow> (string + unit) \<times> 's"
  pa_parse :: "string \<Rightarrow> string list option"
  pa_print :: "string list \<Rightarrow> string"

datatype prov_call = PRegister string provider_row | PDelete string string | PConfig string string string string

record 's prov =
  pr_result :: prov_result
  pr_calls :: "prov_call list"
  pr_ext :: 's

definition out_there :: "('s \<Rightarrow> (string + 'a) \<times> 's) \<Rightarrow> ('s prov, string, 'a) act" where
  "out_there f = of_sum (\<lambda>w. case f (pr_ext w) of (r, x) \<Rightarrow> (r, w\<lparr>pr_ext := x\<rparr>))"

definition sent_to_agent :: "prov_call \<Rightarrow> ('s \<Rightarrow> (string + 'a) \<times> 's) \<Rightarrow> ('s prov, string, 'a) act" where
  "sent_to_agent c f = of_sum (\<lambda>w. case f (pr_ext w) of (r, x) \<Rightarrow> (r, w\<lparr>pr_ext := x, pr_calls := pr_calls w @ [c]\<rparr>))"

definition noting :: "(prov_result \<Rightarrow> prov_result) \<Rightarrow> ('s prov, string, unit) act" where
  "noting f = modify (\<lambda>w. w\<lparr>pr_result := f (pr_result w)\<rparr>)"

definition warn :: "string \<Rightarrow> ('s prov, string, unit) act" where
  "warn m = noting (\<lambda>r. r\<lparr>po_warnings := po_warnings r @ [m]\<rparr>)"

text \<open>\<^verbatim>\<open>if err != nil { warn; continue }\<close>\<close>

definition or_warn :: "string \<Rightarrow> ('s prov, string, 'a) act \<Rightarrow> ('a \<Rightarrow> ('s prov, string, unit) act) \<Rightarrow> ('s prov, string, unit) act" where
  "or_warn what m k = bnd (attempt m) (\<lambda>r. case r of Inl e \<Rightarrow> warn (what @ '': '' @ e) | Inr x \<Rightarrow> k x)"

definition resolveTenants :: "string \<Rightarrow> string list \<Rightarrow> string list" where
  "resolveTenants tenant known = (if tenant = ''*'' then known else [tenant])"

definition mintToken :: "'s prov_agent \<Rightarrow> string \<Rightarrow> string \<Rightarrow> ('s prov, string, string) act" where
  "mintToken A admin tenant =
     bnd (out_there (pa_issue A (''Bearer '' @ admin) tenant ''provision'')) (\<lambda>tok.
       if tok = [] then throw ''empty tenant token'' else ret tok)"

definition provider_row_of :: "profile \<Rightarrow> provider \<Rightarrow> provider_row" where
  "provider_row_of pf p =
    \<lparr>pw_id = pv_id p, pw_api = apiType, pw_base = pf_base pf, pw_key = pf_key pf,
     pw_models = map (\<lambda>m. \<lparr>mo_id = md_id m, mo_name = md_name m, mo_context = md_context m, mo_type = pv_capability p\<rparr>) (pv_models p),
     pw_capability = pv_capability p\<rparr>"

definition registerProvider :: "'s prov_agent \<Rightarrow> string \<Rightarrow> profile \<Rightarrow> provider \<Rightarrow> ('s prov, string, unit) act" where
  "registerProvider A tok pf p = (let auth = ''Bearer '' @ tok; row = provider_row_of pf p in
     sent_to_agent (PRegister auth row) (pa_register A auth row))"

definition deleteProvider :: "'s prov_agent \<Rightarrow> string \<Rightarrow> string \<Rightarrow> ('s prov, string, unit) act" where
  "deleteProvider A tok pid = (let auth = ''Bearer '' @ tok in sent_to_agent (PDelete auth pid) (pa_delete A auth pid))"

definition setConfig :: "'s prov_agent \<Rightarrow> string \<Rightarrow> calibration \<Rightarrow> ('s prov, string, unit) act" where
  "setConfig A tok cal = (let auth = ''Bearer '' @ tok in
     sent_to_agent (PConfig auth (ca_ext cal) (ca_name cal) (ca_value cal)) (pa_config A auth (ca_ext cal) (ca_name cal) (ca_value cal)))"

text \<open>The profile of a tenant: its override when that is known, with a warning else the default.\<close>

definition profile_name :: "config \<Rightarrow> string \<Rightarrow> string" where
  "profile_name cfg tenant = (case mget (pg_overrides cfg) tenant of Some p \<Rightarrow> p | None \<Rightarrow> pg_default cfg)"

definition profile_of :: "config \<Rightarrow> string \<Rightarrow> profile option" where
  "profile_of cfg tenant = (case mget (pg_profiles cfg) (profile_name cfg tenant) of
      Some p \<Rightarrow> Some p | None \<Rightarrow> mget (pg_profiles cfg) (pg_default cfg))"

definition find_profile :: "config \<Rightarrow> string \<Rightarrow> ('s prov, string, profile option) act" where
  "find_profile cfg tenant =
    (let name = profile_name cfg tenant in
     case mget (pg_profiles cfg) name of Some p \<Rightarrow> ret (Some p)
     | None \<Rightarrow> bnd (warn (''tenant '' @ tenant @ '': unknown profile '' @ go_quote name @ ''; using '' @ go_quote (pg_default cfg))) (\<lambda>_.
       case mget (pg_profiles cfg) (pg_default cfg) of Some p \<Rightarrow> ret (Some p)
       | None \<Rightarrow> bnd (warn (''tenant '' @ tenant @ '': unknown default profile '' @ go_quote (pg_default cfg))) (\<lambda>_. ret None)))"

definition tenant_at :: "string \<Rightarrow> string" where
  "tenant_at tenant = ''tenant '' @ tenant @ '': ''"

definition register_all :: "'s prov_agent \<Rightarrow> string \<Rightarrow> string \<Rightarrow> profile \<Rightarrow> ('s prov, string, unit) act" where
  "register_all A tenant tok pf =
     each (\<lambda>p. or_warn (tenant_at tenant @ ''register '' @ pv_id p) (registerProvider A tok pf p)
            (\<lambda>_. noting (\<lambda>r. r\<lparr>po_providers := Suc (po_providers r)\<rparr>))) (pf_providers pf)"

definition delete_retired :: "'s prov_agent \<Rightarrow> config \<Rightarrow> string \<Rightarrow> string \<Rightarrow> ('s prov, string, unit) act" where
  "delete_retired A cfg tenant tok =
     each (\<lambda>pid. or_warn (tenant_at tenant @ ''delete retired provider '' @ pid) (deleteProvider A tok pid)
            (\<lambda>_. noting (\<lambda>r. r\<lparr>po_removed := Suc (po_removed r)\<rparr>))) (pg_retired cfg)"

definition provision_with :: "'s prov_agent \<Rightarrow> config \<Rightarrow> string \<Rightarrow> string \<Rightarrow> ('s prov, string, unit) act" where
  "provision_with A cfg tenant tok =
     bnd (find_profile cfg tenant) (\<lambda>found. case found of None \<Rightarrow> ret ()
     | Some pf \<Rightarrow> bnd (register_all A tenant tok pf) (\<lambda>_. delete_retired A cfg tenant tok))"

definition provision_tenant :: "'s prov_agent \<Rightarrow> config \<Rightarrow> string \<times> bool \<Rightarrow> ('s prov, string, unit) act" where
  "provision_tenant A cfg t = (let tenant = fst t; disabled = snd t in
     if tenant = [] \<or> disabled then ret () else
     bnd (noting (\<lambda>r. r\<lparr>po_tenants := po_tenants r @ [tenant]\<rparr>)) (\<lambda>_.
     or_warn (tenant_at tenant @ ''mint token'') (mintToken A (pg_admin cfg) tenant) (provision_with A cfg tenant)))"

definition calibrate :: "'s prov_agent \<Rightarrow> config \<Rightarrow> calibration \<Rightarrow> string \<Rightarrow> ('s prov, string, unit) act" where
  "calibrate A cfg cal tenant =
     or_warn (''calibrate '' @ tenant @ ''/'' @ ca_ext cal @ ''.'' @ ca_name cal @ '': mint token'') (mintToken A (pg_admin cfg) tenant) (\<lambda>tok.
     or_warn (''calibrate '' @ tenant @ ''.'' @ ca_ext cal @ ''.'' @ ca_name cal) (setConfig A tok cal) (\<lambda>_.
       noting (\<lambda>r. r\<lparr>po_calibrations := Suc (po_calibrations r)\<rparr>)))"

subsection \<open>Retired presets\<close>

definition presetsBucket :: string where "presetsBucket = ''abc-presets''"
definition presetIndexKey :: string where "presetIndexKey = ''__ids__''"

definition preset_key :: "string \<Rightarrow> string \<Rightarrow> string" where
  "preset_key tenant i = ''t.'' @ tenant @ ''.'' @ i"

definition pruneIndex :: "'s prov_agent \<Rightarrow> string \<Rightarrow> string list \<Rightarrow> ('s prov, string, unit) act" where
  "pruneIndex A tenant dropped = (let key = preset_key tenant presetIndexKey in
     bnd (attempt (out_there (pa_kvget A presetsBucket key))) (\<lambda>r. case r of
       Inl _ \<Rightarrow> ret ()
     | Inr raw \<Rightarrow> if raw = [] then ret () else (case pa_parse A raw of None \<Rightarrow> ret ()
       | Some ids \<Rightarrow>
           let kept = filter (\<lambda>i. i \<notin> set dropped) ids in
           if length kept = length ids then ret ()
           else out_there (pa_kvput A presetsBucket key (pa_print A kept)))))"

text \<open>The number removed and the warnings, collected as the code does.\<close>

definition remove_preset :: "'s prov_agent \<Rightarrow> string \<Rightarrow> string \<Rightarrow> ('s prov, string, nat \<times> string list) act" where
  "remove_preset A tenant i =
     bnd (attempt (out_there (pa_kvdelete A presetsBucket (preset_key tenant i)))) (\<lambda>r. case r of
       Inl e \<Rightarrow> ret (0, [''preset cleanup '' @ tenant @ ''/'' @ i @ '': '' @ e]) | Inr _ \<Rightarrow> ret (1, []))"

definition clean_tenant :: "'s prov_agent \<Rightarrow> string list \<Rightarrow> string \<Rightarrow> ('s prov, string, nat \<times> string list) act" where
  "clean_tenant A presets tenant =
     bnd (collect (remove_preset A tenant) presets) (\<lambda>rs.
     bnd (attempt (pruneIndex A tenant presets)) (\<lambda>r.
       ret (sum_list (map fst rs), concat (map snd rs) @
         (case r of Inl e \<Rightarrow> [''preset index '' @ tenant @ '': '' @ e] | Inr _ \<Rightarrow> []))))"

definition PresetCleanup_Run :: "'s prov_agent \<Rightarrow> preset_cleanup \<Rightarrow> string list \<Rightarrow> ('s prov, string, nat \<times> string list) act" where
  "PresetCleanup_Run A c known =
    (if pc_nats c = [] \<or> pc_presets c = [] then ret (0, []) else
     bnd (map_err (\<lambda>e. ''nats connect: '' @ e) (out_there (pa_connect A (pc_nats c)))) (\<lambda>_.
     bnd (collect (clean_tenant A (pc_presets c)) (resolveTenants (pc_tenant c) known)) (\<lambda>rs.
       ret (sum_list (map fst rs), concat (map snd rs)))))"

subsection \<open>The run\<close>

definition with_defaults :: "string \<Rightarrow> config \<Rightarrow> config" where
  "with_defaults key cfg = (let cfg1 = (if pg_profiles cfg = [] then cfg\<lparr>pg_profiles := BuiltinProfiles key\<rparr> else cfg) in
     if pg_default cfg1 = [] then cfg1\<lparr>pg_default := ''std''\<rparr> else cfg1)"

text \<open>The run after the tenants are listed.\<close>

definition Run_tenants :: "'s prov_agent \<Rightarrow> config \<Rightarrow> (string \<times> bool) list \<Rightarrow> ('s prov, string, unit) act" where
  "Run_tenants A cfg tenants =
     bnd (each (provision_tenant A cfg) tenants) (\<lambda>_.
     bnd (pure_of (\<lambda>w. po_tenants (pr_result w))) (\<lambda>known.
     bnd (each (\<lambda>cal. each (calibrate A cfg cal) (resolveTenants (ca_tenant cal) known)) (pg_calibrations cfg)) (\<lambda>_.
     bnd (attempt (PresetCleanup_Run A (pg_cleanup cfg) known)) (\<lambda>r. case r of
       Inl e \<Rightarrow> warn (''preset cleanup: '' @ e)
     | Inr (n, warns) \<Rightarrow> noting (\<lambda>r. r\<lparr>po_presets := n, po_warnings := po_warnings r @ warns\<rparr>)))))"

definition Run :: "string \<Rightarrow> 's prov_agent \<Rightarrow> config \<Rightarrow> ('s prov, string, unit) act" where
  "Run key A cfg0 =
    (if pg_url cfg0 = [] then throw ''agent url is required''
     else if pg_admin cfg0 = [] then throw ''admin token is required'' else
     let cfg = with_defaults key cfg0 in
     bnd (map_err (\<lambda>e. ''ListTenants: '' @ e) (out_there (pa_tenants A (''Bearer '' @ pg_admin cfg)))) (Run_tenants A cfg))"

subsection \<open>What a run sends\<close>

text \<open>\<open>writes cs ts m\<close>: whatever the agent answers, \<open>m\<close> ends normally, sends the agent \<open>cs\<close> and adds the
  tenants \<open>ts\<close> to the result.\<close>

definition writes :: "prov_call list \<Rightarrow> string list \<Rightarrow> ('s prov, string, unit) act \<Rightarrow> bool" where
  "writes cs ts m = (\<forall>w. fst (m w) = Ok () \<and> pr_calls (snd (m w)) = pr_calls w @ cs \<and>
     po_tenants (pr_result (snd (m w))) = po_tenants (pr_result w) @ ts)"

lemma writesD:
  assumes "writes cs ts m"
  obtains w' where "m w = (Ok (), w')" "pr_calls w' = pr_calls w @ cs" "po_tenants (pr_result w') = po_tenants (pr_result w) @ ts"
  using assms unfolding writes_def by (metis prod.collapse)

lemma writesI:
  assumes "\<And>w. \<exists>w'. m w = (Ok (), w') \<and> pr_calls w' = pr_calls w @ cs \<and> po_tenants (pr_result w') = po_tenants (pr_result w) @ ts"
  shows "writes cs ts m"
  unfolding writes_def using assms by (metis fst_conv snd_conv)

lemma writes_ret: "writes [] [] (ret ())"
  by (simp add: writes_def act)

lemma writes_bnd:
  assumes "writes cs ts m" "writes cs' ts' n"
  shows "writes (cs @ cs') (ts @ ts') (bnd m (\<lambda>_. n))"
proof (rule writesI)
  fix w
  obtain w1 where 1: "m w = (Ok (), w1)" "pr_calls w1 = pr_calls w @ cs" "po_tenants (pr_result w1) = po_tenants (pr_result w) @ ts"
    by (rule writesD [OF assms(1)])
  obtain w2 where "n w1 = (Ok (), w2)" "pr_calls w2 = pr_calls w1 @ cs'" "po_tenants (pr_result w2) = po_tenants (pr_result w1) @ ts'"
    by (rule writesD [OF assms(2)])
  with 1 show "\<exists>w'. bnd m (\<lambda>_. n) w = (Ok (), w') \<and> pr_calls w' = pr_calls w @ cs @ cs' \<and>
      po_tenants (pr_result w') = po_tenants (pr_result w) @ ts @ ts'"
    by (simp add: bnd_cases)
qed

lemma writes_each:
  "(\<And>x. x \<in> set xs \<Longrightarrow> writes (c x) (t x) (f x)) \<Longrightarrow> writes (concat (map c xs)) (concat (map t xs)) (each f xs)"
  by (induction xs) (auto intro: writes_ret writes_bnd)

lemma writes_map: "(\<And>x. writes [c x] [] (f x)) \<Longrightarrow> writes (map c xs) [] (each f xs)"
proof (induction xs)
  case (Cons x xs)
  from writes_bnd [OF Cons.prems [of x] Cons.IH [OF Cons.prems]] show ?case by simp
qed (simp add: writes_ret)

lemma writes_noting: "(\<And>r. po_tenants (g r) = po_tenants r @ ts) \<Longrightarrow> writes [] ts (noting g)"
  by (simp add: writes_def noting_def act)

lemma writes_warn: "writes [] [] (warn m)"
  unfolding warn_def by (rule writes_noting) simp

text \<open>After an action whose outcome is known, the rest writes what it writes.\<close>

lemma writes_or_warn:
  assumes "m w = (case r of Inl e \<Rightarrow> Fail e | Inr x \<Rightarrow> Ok x, w1)" "pr_calls w1 = pr_calls w @ c" "pr_result w1 = pr_result w"
    and "\<And>x. r = Inr x \<Longrightarrow> writes cs ts (k x)" "\<And>e. r = Inl e \<Longrightarrow> cs = [] \<and> ts = []"
  shows "\<exists>w'. or_warn what m k w = (Ok (), w') \<and> pr_calls w' = pr_calls w @ c @ cs \<and>
    po_tenants (pr_result w') = po_tenants (pr_result w) @ ts"
proof (cases r)
  case (Inl e)
  obtain w' where "warn (what @ '': '' @ e) w1 = (Ok (), w')" "pr_calls w' = pr_calls w1 @ []"
      "po_tenants (pr_result w') = po_tenants (pr_result w1) @ []"
    by (rule writesD [OF writes_warn])
  with Inl assms show ?thesis by (simp add: or_warn_def bnd_cases attempt_cases)
next
  case (Inr x)
  obtain w' where "k x w1 = (Ok (), w')" "pr_calls w' = pr_calls w1 @ cs" "po_tenants (pr_result w') = po_tenants (pr_result w1) @ ts"
    by (rule writesD [OF assms(4) [OF Inr]])
  with Inr assms show ?thesis by (simp add: or_warn_def bnd_cases attempt_cases)
qed

lemma writes_sent:
  assumes "\<And>r. po_tenants (g r) = po_tenants r"
  shows "writes [c] [] (or_warn what (sent_to_agent c f) (\<lambda>_. noting g))"
proof (rule writesI)
  fix w :: "'a prov"
  obtain r x where f: "f (pr_ext w) = (r, x)" by (cases "f (pr_ext w)")
  let ?w1 = "w\<lparr>pr_ext := x, pr_calls := pr_calls w @ [c]\<rparr>"
  have m: "sent_to_agent c f w = (case r of Inl e \<Rightarrow> Fail e | Inr x \<Rightarrow> Ok x, ?w1)"
    by (simp add: sent_to_agent_def of_sum_def f split: sum.split)
  have "writes [] [] (noting g)" by (rule writes_noting) (simp add: assms)
  with writes_or_warn [where m = "sent_to_agent c f" and w = w and r = r and ?w1.0 = ?w1, OF m, of "[c]" "[]" "[]" "\<lambda>_. noting g" what]
  show "\<exists>w'. or_warn what (sent_to_agent c f) (\<lambda>_. noting g) w = (Ok (), w') \<and> pr_calls w' = pr_calls w @ [c] \<and>
      po_tenants (pr_result w') = po_tenants (pr_result w) @ []" by simp
qed

text \<open>The agent issues a token for every tenant.\<close>

definition issues :: "'s prov_agent \<Rightarrow> string \<Rightarrow> (string \<Rightarrow> string) \<Rightarrow> bool" where
  "issues A admin tok = (\<forall>t x. tok t \<noteq> [] \<and> fst (pa_issue A (''Bearer '' @ admin) t ''provision'' x) = Inr (tok t))"

lemma writes_minted:
  assumes "issues A admin tok" "writes cs ts (k (tok t))"
  shows "writes cs ts (or_warn what (mintToken A admin t) k)"
proof (rule writesI)
  fix w :: "'a prov"
  obtain x where x: "pa_issue A (''Bearer '' @ admin) t ''provision'' (pr_ext w) = (Inr (tok t), x)"
    using assms(1) unfolding issues_def by (cases "pa_issue A (''Bearer '' @ admin) t ''provision'' (pr_ext w)") (metis fst_conv)
  have "tok t \<noteq> []" using assms(1) unfolding issues_def by blast
  then have "mintToken A admin t w = (Ok (tok t), w\<lparr>pr_ext := x\<rparr>)"
    by (simp add: mintToken_def out_there_def of_sum_def bnd_cases act x del: append_Cons)
  then show "\<exists>w'. or_warn what (mintToken A admin t) k w = (Ok (), w') \<and> pr_calls w' = pr_calls w @ cs \<and>
      po_tenants (pr_result w') = po_tenants (pr_result w) @ ts"
    using writes_or_warn [of "mintToken A admin t" w "Inr (tok t)" "w\<lparr>pr_ext := x\<rparr>" "[]" cs ts k what] assms(2) by simp
qed

lemma writes_found:
  assumes "\<And>pf. profile_of cfg t = Some pf \<Longrightarrow> writes (c pf) [] (k (Some pf))" "writes [] [] (k None)"
  shows "writes (case profile_of cfg t of None \<Rightarrow> [] | Some pf \<Rightarrow> c pf) [] (bnd (find_profile cfg t) k)"
proof -
  have warned: "writes cs [] (bnd (warn m) (\<lambda>_. n))" if "writes cs [] n" for cs m and n :: "('a prov, string, unit) act"
    using writes_bnd [OF writes_warn that] by simp
  show ?thesis
    using assms by (auto simp: find_profile_def profile_of_def Let_def bnd_assoc intro!: warned split: option.splits)
qed

definition tenant_calls :: "config \<Rightarrow> (string \<Rightarrow> string) \<Rightarrow> string \<Rightarrow> prov_call list" where
  "tenant_calls cfg tok t = (case profile_of cfg t of None \<Rightarrow> []
     | Some pf \<Rightarrow> map (\<lambda>p. PRegister (''Bearer '' @ tok t) (provider_row_of pf p)) (pf_providers pf) @
         map (PDelete (''Bearer '' @ tok t)) (pg_retired cfg))"

definition enabled :: "string \<times> bool \<Rightarrow> bool" where
  "enabled t = (fst t \<noteq> [] \<and> \<not> snd t)"

lemma provision_with_writes: "writes (tenant_calls cfg tok t) [] (provision_with A cfg t (tok t))"
  unfolding tenant_calls_def provision_with_def
proof (rule writes_found)
  fix pf
  have "writes (map (\<lambda>p. PRegister (''Bearer '' @ tok t) (provider_row_of pf p)) (pf_providers pf)) [] (register_all A t (tok t) pf)"
    unfolding register_all_def by (rule writes_map) (simp add: registerProvider_def Let_def writes_sent)
  moreover have "writes (map (PDelete (''Bearer '' @ tok t)) (pg_retired cfg)) [] (delete_retired A cfg t (tok t))"
    unfolding delete_retired_def by (rule writes_map) (simp add: deleteProvider_def Let_def writes_sent)
  ultimately show "writes (map (\<lambda>p. PRegister (''Bearer '' @ tok t) (provider_row_of pf p)) (pf_providers pf) @
        map (PDelete (''Bearer '' @ tok t)) (pg_retired cfg)) []
      (case Some pf of None \<Rightarrow> ret () | Some pf \<Rightarrow> bnd (register_all A t (tok t) pf) (\<lambda>_. delete_retired A cfg t (tok t)))"
    by (auto dest: writes_bnd)
qed (simp add: writes_ret)

lemma provision_tenant_writes:
  assumes "issues A (pg_admin cfg) tok"
  shows "writes (if enabled t then tenant_calls cfg tok (fst t) else []) (if enabled t then [fst t] else []) (provision_tenant A cfg t)"
proof (cases "enabled t")
  case False
  then show ?thesis by (auto simp: provision_tenant_def enabled_def writes_ret)
next
  case True
  have "writes [] [fst t] (noting (\<lambda>r. r\<lparr>po_tenants := po_tenants r @ [fst t]\<rparr>))"
    by (rule writes_noting) simp
  moreover have "writes (tenant_calls cfg tok (fst t)) []
      (or_warn (tenant_at (fst t) @ ''mint token'') (mintToken A (pg_admin cfg) (fst t)) (provision_with A cfg (fst t)))"
    by (rule writes_minted [where k = "provision_with A cfg (fst t)" and t = "fst t" and tok = tok and cs = "tenant_calls cfg tok (fst t)", OF assms provision_with_writes])
  ultimately show ?thesis
    using True by (auto simp: provision_tenant_def enabled_def Let_def dest: writes_bnd)
qed

lemma calibrate_writes:
  assumes "issues A (pg_admin cfg) tok"
  shows "writes [PConfig (''Bearer '' @ tok t) (ca_ext cal) (ca_name cal) (ca_value cal)] [] (calibrate A cfg cal t)"
  unfolding calibrate_def by (rule writes_minted [OF assms]) (simp add: setConfig_def Let_def writes_sent)

definition calibration_calls :: "config \<Rightarrow> (string \<Rightarrow> string) \<Rightarrow> string list \<Rightarrow> prov_call list" where
  "calibration_calls cfg tok known = concat (map (\<lambda>cal.
      map (\<lambda>t. PConfig (''Bearer '' @ tok t) (ca_ext cal) (ca_name cal) (ca_value cal)) (resolveTenants (ca_tenant cal) known))
    (pg_calibrations cfg))"

lemma concat_unit: "concat (map (\<lambda>x. if P x then [f x] else []) xs) = map f (filter P xs)"
  by (induction xs) simp_all

lemma concat_filtered: "concat (map (\<lambda>x. if P x then f x else []) xs) = concat (map f (filter P xs))"
  by (induction xs) simp_all

lemma tenants_write:
  assumes "issues A (pg_admin cfg) tok"
  shows "writes (concat (map (tenant_calls cfg tok) (map fst (filter enabled ts)))) (map fst (filter enabled ts))
    (each (provision_tenant A cfg) ts)"
proof -
  have "writes (concat (map (\<lambda>t. if enabled t then tenant_calls cfg tok (fst t) else []) ts))
      (concat (map (\<lambda>t. if enabled t then [fst t] else []) ts)) (each (provision_tenant A cfg) ts)"
    by (rule writes_each) (rule provision_tenant_writes [OF assms])
  then show ?thesis by (simp add: concat_unit concat_filtered o_def)
qed

lemma calibrations_write:
  assumes "issues A (pg_admin cfg) tok"
  shows "writes (calibration_calls cfg tok known) []
    (each (\<lambda>cal. each (calibrate A cfg cal) (resolveTenants (ca_tenant cal) known)) (pg_calibrations cfg))"
proof -
  have nil: "concat (map (\<lambda>_. []) xs) = ([] :: string list)" for xs :: "calibration list" by (induction xs) simp_all
  have "writes (calibration_calls cfg tok known) (concat (map (\<lambda>_. []) (pg_calibrations cfg)))
      (each (\<lambda>cal. each (calibrate A cfg cal) (resolveTenants (ca_tenant cal) known)) (pg_calibrations cfg))"
    unfolding calibration_calls_def by (rule writes_each) (rule writes_map, rule calibrate_writes [OF assms])
  then show ?thesis by (simp only: nil)
qed

subsection \<open>The clean-up of presets sends the agent nothing\<close>

definition aside :: "('s prov, string, 'a) act \<Rightarrow> bool" where
  "aside m = (\<forall>w. (\<forall>p. fst (m w) \<noteq> Panic p) \<and> pr_calls (snd (m w)) = pr_calls w \<and> pr_result (snd (m w)) = pr_result w)"

lemma asideD:
  assumes "aside m"
  obtains x w' where "m w = (Ok x, w')" "pr_calls w' = pr_calls w" "pr_result w' = pr_result w"
  | e w' where "m w = (Fail e, w')" "pr_calls w' = pr_calls w" "pr_result w' = pr_result w"
proof (cases "fst (m w)")
  case (Ok x)
  show ?thesis by (rule that(1) [of x "snd (m w)"]) (use assms Ok in \<open>auto simp: aside_def prod_eq_iff\<close>)
next
  case (Fail e)
  show ?thesis by (rule that(2) [of e "snd (m w)"]) (use assms Fail in \<open>auto simp: aside_def prod_eq_iff\<close>)
qed (use assms in \<open>auto simp: aside_def\<close>)

lemma aside_ret: "aside (ret x)" by (simp add: aside_def act)

lemma aside_bnd:
  assumes "aside m" "\<And>x. aside (k x)"
  shows "aside (bnd m k)"
  unfolding aside_def
proof (rule allI)
  fix w
  show "(\<forall>p. fst (bnd m k w) \<noteq> Panic p) \<and> pr_calls (snd (bnd m k w)) = pr_calls w \<and> pr_result (snd (bnd m k w)) = pr_result w"
  proof (rule asideD [OF assms(1), of w])
    fix x w' assume m: "m w = (Ok x, w')" "pr_calls w' = pr_calls w" "pr_result w' = pr_result w"
    with assms(2) [of x] show ?thesis by (simp add: bnd_cases aside_def)
  qed (simp add: bnd_cases)
qed

lemma aside_attempt: "aside m \<Longrightarrow> aside (attempt m)"
  unfolding aside_def attempt_cases by (auto split: prod.split res.split) (metis fst_conv snd_conv)+

lemma aside_map_err: "aside m \<Longrightarrow> aside (map_err f m)"
  unfolding aside_def map_err_cases by (auto split: prod.split res.split) (metis fst_conv snd_conv)+

lemma aside_out: "aside (out_there f)"
  by (simp add: aside_def out_there_def of_sum_def split: prod.split sum.split)

lemma aside_collect: "(\<And>x. aside (f x)) \<Longrightarrow> aside (collect f xs)"
  by (induction xs) (auto intro!: aside_ret aside_bnd)

lemmas aside_intros = aside_ret aside_bnd aside_attempt aside_map_err aside_out aside_collect

lemma cleanup_aside: "aside (PresetCleanup_Run A c known)"
proof -
  have "aside (pruneIndex A t ps)" for t ps
    unfolding pruneIndex_def Let_def by (auto intro!: aside_intros split: sum.split option.split)
  then have "aside (clean_tenant A ps t)" for ps t
    unfolding clean_tenant_def by (intro aside_intros) (auto simp: remove_preset_def intro!: aside_intros split: sum.split)
  then show ?thesis unfolding PresetCleanup_Run_def by (auto intro!: aside_intros)
qed

subsection \<open>What provisioning sends\<close>

lemma cleanup_writes:
  "writes [] [] (bnd (attempt (PresetCleanup_Run A c known)) (\<lambda>r. case r of
       Inl e \<Rightarrow> warn (''preset cleanup: '' @ e)
     | Inr (n, warns) \<Rightarrow> noting (\<lambda>r. r\<lparr>po_presets := n, po_warnings := po_warnings r @ warns\<rparr>)))"
    (is "writes [] [] (bnd _ ?k)")
proof (rule writesI)
  fix w
  have k: "writes [] [] (?k r)" for r
    by (cases r) (auto intro: writes_warn writes_noting split: prod.split)
  show "\<exists>w'. bnd (attempt (PresetCleanup_Run A c known)) ?k w = (Ok (), w') \<and> pr_calls w' = pr_calls w @ [] \<and>
      po_tenants (pr_result w') = po_tenants (pr_result w) @ []"
  proof (rule asideD [OF cleanup_aside, of A c known w])
    fix x w1 assume m: "PresetCleanup_Run A c known w = (Ok x, w1)" "pr_calls w1 = pr_calls w" "pr_result w1 = pr_result w"
    obtain w' where "?k (Inr x) w1 = (Ok (), w')" "pr_calls w' = pr_calls w1 @ []" "po_tenants (pr_result w') = po_tenants (pr_result w1) @ []"
      by (rule writesD [OF k [of "Inr x"]])
    with m show ?thesis by (simp add: bnd_cases attempt_cases)
  next
    fix e w1 assume m: "PresetCleanup_Run A c known w = (Fail e, w1)" "pr_calls w1 = pr_calls w" "pr_result w1 = pr_result w"
    obtain w' where "?k (Inl e) w1 = (Ok (), w')" "pr_calls w' = pr_calls w1 @ []" "po_tenants (pr_result w') = po_tenants (pr_result w1) @ []"
      by (rule writesD [OF k [of "Inl e"]])
    with m show ?thesis by (simp add: bnd_cases attempt_cases)
  qed
qed

lemma Run_tenants_writes:
  assumes "issues A (pg_admin cfg) tok" "po_tenants (pr_result w) = []" and known_def: "known = map fst (filter enabled ts)"
  shows "\<exists>w'. Run_tenants A cfg ts w = (Ok (), w') \<and>
    pr_calls w' = pr_calls w @ concat (map (tenant_calls cfg tok) known) @ calibration_calls cfg tok known \<and>
    po_tenants (pr_result w') = known"
proof -
  obtain w1 where 1: "each (provision_tenant A cfg) ts w = (Ok (), w1)"
      "pr_calls w1 = pr_calls w @ concat (map (tenant_calls cfg tok) known)" "po_tenants (pr_result w1) = po_tenants (pr_result w) @ known"
    unfolding known_def by (rule writesD [OF tenants_write [OF assms(1)]])
  with assms(2) have k: "po_tenants (pr_result w1) = known" by simp
  obtain w2 where "bnd (each (\<lambda>cal. each (calibrate A cfg cal) (resolveTenants (ca_tenant cal) known)) (pg_calibrations cfg)) (\<lambda>_.
     bnd (attempt (PresetCleanup_Run A (pg_cleanup cfg) known)) (\<lambda>r. case r of
       Inl e \<Rightarrow> warn (''preset cleanup: '' @ e)
     | Inr (n, warns) \<Rightarrow> noting (\<lambda>r. r\<lparr>po_presets := n, po_warnings := po_warnings r @ warns\<rparr>))) w1 = (Ok (), w2)"
      "pr_calls w2 = pr_calls w1 @ (calibration_calls cfg tok known @ [])" "po_tenants (pr_result w2) = po_tenants (pr_result w1) @ [] @ []"
    by (rule writesD [OF writes_bnd [OF calibrations_write [OF assms(1)] cleanup_writes]])
  with 1 k show ?thesis by (simp add: Run_tenants_def bnd_cases [of "each (provision_tenant A cfg) ts"] bnd_pure_of k)
qed


text \<open>An agent with three tenants, one of them disabled, that refuses every registration.\<close>

definition demo_prov_agent :: "unit prov_agent" where
  "demo_prov_agent = \<lparr>pa_tenants = \<lambda>_ x. (Inr [(''a'', False), (''b'', True), (''c'', False)], x),
     pa_issue = \<lambda>_ t _ x. (Inr (''tok-'' @ t), x),
     pa_register = \<lambda>_ _ x. (Inl ''refused'', x), pa_delete = \<lambda>_ _ x. (Inr (), x),
     pa_config = \<lambda>_ _ _ _ x. (Inr (), x), pa_connect = \<lambda>_ x. (Inr (), x), pa_kvdelete = \<lambda>_ _ x. (Inr (), x),
     pa_kvget = \<lambda>_ _ x. (Inr [], x), pa_kvput = \<lambda>_ _ _ x. (Inr (), x), pa_parse = \<lambda>_. None, pa_print = \<lambda>_. []\<rparr>"

definition demo_config :: config where
  "demo_config = \<lparr>pg_url = ''http://agent'', pg_admin = ''root'',
     pg_profiles = [(''one'', \<lparr>pf_base = ''u'', pf_key = ''k'', pf_providers = [\<lparr>pv_id = ''p'', pv_capability = ''text'', pv_models = []\<rparr>]\<rparr>)],
     pg_overrides = [(''c'', ''gone'')], pg_default = ''one'',
     pg_calibrations = [\<lparr>ca_tenant = ''*'', ca_ext = ''git'', ca_name = ''url'', ca_value = ''v''\<rparr>],
     pg_cleanup = \<lparr>pc_nats = [], pc_tenant = ''*'', pc_presets = []\<rparr>, pg_retired = [''old'']\<rparr>"


end
