(* ===== verification/Presets.thy ===== *)
theory Presets
  imports Roles
begin

text \<open>
  Package \<^verbatim>\<open>internal/presets\<close>: the system presets of the agent, one per role.  The prompt texts are
  constants of the package whose wording is left open here (\<open>prompts\<close>), and so is the JSON text of a map;
  modelled is how the prompts are put together and which tools each preset has.
\<close>

record prompts =
  px_base :: string
  px_base_zh :: string
  px_exec :: string
  px_exec_zh :: string
  px_browser :: string
  px_browser_zh :: string
  px_computer :: string
  px_computer_zh :: string
  px_admin :: string
  px_admin_zh :: string
  px_developer :: string
  px_developer_zh :: string
  px_explorer :: string
  px_explorer_zh :: string
  px_json :: "(string \<times> string) list \<Rightarrow> string"

record preset_entry =
  pe_id :: string
  pe_prompt :: string
  pe_i18n :: string
  pe_tools :: "string list"
  pe_turns :: int

definition i18n :: "prompts \<Rightarrow> string \<Rightarrow> string \<Rightarrow> string" where
  "i18n P en zh = px_json P [(''en'', en), (''zh'', zh)]"

definition paragraphs :: "string list \<Rightarrow> string" where
  "paragraphs = join [CHR 0x0A, CHR 0x0A]"

definition execEN :: "prompts \<Rightarrow> string list" where
  "execEN P = [px_base P, px_exec P, px_browser P, px_computer P]"

definition execZH :: "prompts \<Rightarrow> string list" where
  "execZH P = [px_base_zh P, px_exec_zh P, px_browser_zh P, px_computer_zh P]"

definition preset_for :: "prompts \<Rightarrow> string \<Rightarrow> role \<Rightarrow> string \<Rightarrow> string \<Rightarrow> preset_entry" where
  "preset_for P i ro en zh =
     (let prompt = paragraphs (execEN P @ [en]) in
      \<lparr>pe_id = i, pe_prompt = prompt, pe_i18n = i18n P prompt (paragraphs (execZH P @ [zh])),
       pe_tools = ToolsFor ro, pe_turns = 0\<rparr>)"

definition All :: "prompts \<Rightarrow> preset_entry list" where
  "All P =
    [preset_for P ''admin'' Admin (px_admin P) (px_admin_zh P),
     preset_for P ''developer'' Developer (px_developer P) (px_developer_zh P),
     preset_for P ''explorer'' Explorer (px_explorer P) (px_explorer_zh P)]"

text \<open>Every role a session can have finds its preset, under the name the handlers ask the agent for, with
  exactly the tools of the role; no two presets have the same name.\<close>

lemma presets_cover_roles:
  "map (\<lambda>e. (pe_id e, pe_tools e)) (All P) = map (\<lambda>ro. (PresetFor ro, ToolsFor ro)) [Admin, Developer, Explorer]"
  "ValidRole ro \<longleftrightarrow> ro \<in> set [Admin, Developer, Explorer]" "distinct (map pe_id (All P))"
proof -
  show "map (\<lambda>e. (pe_id e, pe_tools e)) (All P) = map (\<lambda>ro. (PresetFor ro, ToolsFor ro)) [Admin, Developer, Explorer]"
    by (simp add: All_def preset_for_def Let_def PresetFor_def) (simp add: Admin_def Developer_def Explorer_def)
  show "ValidRole ro \<longleftrightarrow> ro \<in> set [Admin, Developer, Explorer]" by (simp add: ValidRole_def)
  show "distinct (map pe_id (All P))" by (simp add: All_def preset_for_def Let_def)
qed

end
