(* ===== verification/Reconcile.thy ===== *)
theory Reconcile
  imports Gateway
begin

text \<open>
  \<^verbatim>\<open>cmd/reconcile-sessions\<close>: the migration that gives every branch of the tenant's repositories its session.
  It calls the gateway's handlers one after the other with one token; that the calls travel over Connect is
  not modelled.  It counts the sessions ensured and the calls that failed, and exits with the status of
  \<open>exit_status\<close>.
\<close>

type_synonym tally = "nat \<times> nat"

definition reconcile_branch :: "'x service \<Rightarrow> headers \<Rightarrow> repo_row \<Rightarrow> tally \<Rightarrow> branch_info \<Rightarrow> ('x, tally) handler" where
  "reconcile_branch S h r t b = (let (created, failed) = t in
     bnd (attempt (EnsureBranchSession S h (rr_org r) (rr_repo r) (bi_name b) [] [])) (\<lambda>res. case res of
         Inl _ \<Rightarrow> ret (created, Suc failed) | Inr _ \<Rightarrow> ret (Suc created, failed)))"

fun reconcile_branches :: "'x service \<Rightarrow> headers \<Rightarrow> repo_row \<Rightarrow> tally \<Rightarrow> branch_info list \<Rightarrow> ('x, tally) handler" where
  "reconcile_branches S h r t [] = ret t"
| "reconcile_branches S h r t (b # bs) = bnd (reconcile_branch S h r t b) (\<lambda>t'. reconcile_branches S h r t' bs)"

definition reconcile_repo :: "'x service \<Rightarrow> headers \<Rightarrow> tally \<Rightarrow> repo_row \<Rightarrow> ('x, tally) handler" where
  "reconcile_repo S h t r =
     bnd (attempt (Branches S h (rr_org r) (rr_repo r))) (\<lambda>res. case res of
         Inl _ \<Rightarrow> ret (fst t, Suc (snd t)) | Inr bs \<Rightarrow> reconcile_branches S h r t bs)"

fun reconcile_repos :: "'x service \<Rightarrow> headers \<Rightarrow> tally \<Rightarrow> repo_row list \<Rightarrow> ('x, tally) handler" where
  "reconcile_repos S h t [] = ret t"
| "reconcile_repos S h t (r # rs) = bnd (reconcile_repo S h t r) (\<lambda>t'. reconcile_repos S h t' rs)"

definition reconcile :: "'x service \<Rightarrow> headers \<Rightarrow> ('x, nat \<times> tally) handler" where
  "reconcile S h = bnd (ListRepos S h) (\<lambda>repos.
     bnd (reconcile_repos S h (0, 0) repos) (\<lambda>t. ret (length repos, t)))"

definition exit_status :: "tally \<Rightarrow> nat" where
  "exit_status t = (if snd t > 0 then 1 else 0)"

text \<open>A migration is a run of the gateway, so what holds of every run holds of it: the store stays well
  formed and its rights change by guarded grants only.\<close>

lemma reconcile_is_run:
  fixes E :: "'x svc_env"
  shows "keeps (gateway_step S E R)\<^sup>*\<^sup>* (reconcile S h)"
proof -
  have pre [simp, intro]: "preord (gateway_step S E R)\<^sup>*\<^sup>*" by (auto simp: preord_def reflp_def transp_def)
  have reader: "keeps (gateway_step S E R)\<^sup>*\<^sup>* m" if "keeps same_db m" for m :: "('x, 'a) handler"
    using that by (auto simp: keeps_def intro: r_into_rtranclp elsewhere)
  have listed: "keeps (gateway_step S E R)\<^sup>*\<^sup>* (ListRepos S h)" "keeps (gateway_step S E R)\<^sup>*\<^sup>* (Branches S h org repo)"
    for org repo by (rule reader, rule readers_keep_store)+
  have ensure: "keeps (gateway_step S E R)\<^sup>*\<^sup>* (EnsureBranchSession S h org repo branch mid loc)" for org repo branch mid loc
    by (auto simp: keeps_def intro!: r_into_rtranclp) (metis ensure_session snd_conv)
  have branches: "keeps (gateway_step S E R)\<^sup>*\<^sup>* (reconcile_branches S h r t bs)" for r t bs
    by (induction bs arbitrary: t)
      (auto simp: reconcile_branch_def intro!: keeps ensure split: prod.split sum.split)
  have repo: "keeps (gateway_step S E R)\<^sup>*\<^sup>* (reconcile_repo S h t r)" for t r
    unfolding reconcile_repo_def by (auto intro!: keeps branches listed(2) split: sum.split)
  have "keeps (gateway_step S E R)\<^sup>*\<^sup>* (reconcile_repos S h t rs)" for t rs
    by (induction rs arbitrary: t) (auto intro!: keeps repo)
  then show ?thesis
    unfolding reconcile_def by (auto intro!: keeps listed(1))
qed

lemma reconcile_keeps_well_formed: "well_formed (db w) \<Longrightarrow> well_formed (db (snd (reconcile S h w)))"
  by (rule gateway.steps_inv [OF keeps_snd [OF reconcile_is_run]])

end
